(* ===== verification/JS_Number.thy ===== *)
theory JS_Number
  imports Complex_Main "HOL-Library.Log_Nat"
begin

text \<open>
  JavaScript's Number type, as far as the services compute with it.

  A finite Number is a rational.  Every arithmetic operator of the language rounds the exact
  result to the nearest double, ties to even; \<open>fl\<close> is that rounding, computed exactly.  The
  exponent range of the model is unbounded: overflow to Infinity and gradual underflow are left
  out, since the quantities of the services (amounts, shares, difficulties, hash rates,
  milliseconds) stay between \<open>2 ^ -200\<close> and \<open>2 ^ 200\<close>.

  The theory also defines the library functions the sources call on Numbers: \<open>Math.round\<close>,
  \<open>Math.floor\<close>, \<open>toFixed\<close> followed by \<open>parseFloat\<close>, and shows that rounding is
  monotone, exact on the doubles, and off by at most one part in \<open>2 ^ 53\<close>.
\<close>

section \<open>Rounding to a double\<close>

definition ilog2 :: "rat \<Rightarrow> int" where
  "ilog2 x =
     (let (a, b) = quotient_of x; e = bitlen a - bitlen b
      in if 2 powi e \<le> x then e else e - 1)"

definition rne :: "rat \<Rightarrow> int" where
  \<comment> \<open>nearest integer, ties to even\<close>
  "rne y =
     (let f = \<lfloor>y\<rfloor>; d = y - of_int f
      in if d < 1 / 2 then f
         else if 1 / 2 < d then f + 1
         else if even f then f else f + 1)"

definition ulp :: "rat \<Rightarrow> rat" where
  \<comment> \<open>the spacing of the doubles in the binade of \<open>x\<close>\<close>
  "ulp x = 2 powi (ilog2 \<bar>x\<bar> - 52)"

definition fl :: "rat \<Rightarrow> rat" where
  "fl x = (if x = 0 then 0 else of_int (rne (x / ulp x)) * ulp x)"

definition is_double :: "rat \<Rightarrow> bool" where
  "is_double x \<longleftrightarrow> fl x = x"

section \<open>Operators and library functions on Numbers\<close>

definition js_add :: "rat \<Rightarrow> rat \<Rightarrow> rat" where "js_add x y = fl (x + y)"
definition js_sub :: "rat \<Rightarrow> rat \<Rightarrow> rat" where "js_sub x y = fl (x - y)"
definition js_mul :: "rat \<Rightarrow> rat \<Rightarrow> rat" where "js_mul x y = fl (x * y)"
definition js_div :: "rat \<Rightarrow> rat \<Rightarrow> rat" where "js_div x y = fl (x / y)"

definition math_round :: "rat \<Rightarrow> int" where
  "math_round x = \<lfloor>x + 1 / 2\<rfloor>"

definition math_floor :: "rat \<Rightarrow> int" where
  "math_floor x = \<lfloor>x\<rfloor>"

definition fixed_digits :: "nat \<Rightarrow> rat \<Rightarrow> int" where
  \<comment> \<open>the integer that \<open>x.toFixed(d)\<close> prints, the decimal point left out\<close>
  "fixed_digits d x =
     (if x < 0 then - \<lfloor>- x * 10 ^ d + 1 / 2\<rfloor> else \<lfloor>x * 10 ^ d + 1 / 2\<rfloor>)"

definition to_fixed :: "nat \<Rightarrow> rat \<Rightarrow> rat" where
  \<comment> \<open>\<open>parseFloat(x.toFixed(d))\<close>\<close>
  "to_fixed d x = fl (of_int (fixed_digits d x) / 10 ^ d)"

section \<open>Laws of rounding\<close>

lemma two_powi_pos [simp]: "(0::rat) < 2 powi e"
  by (simp add: zero_less_power_int)

lemma ulp_pos [simp]: "0 < ulp x"
  by (simp add: ulp_def)

lemma ulp_nonzero [simp]: "ulp x \<noteq> 0"
  using ulp_pos [of x] by linarith

lemma powi_add_rat: "(2::rat) powi (a + b) = 2 powi a * 2 powi b"
  by (simp add: power_int_add)

lemma bitlen_powi_bounds:
  assumes "0 < (n::int)"
  shows "2 powi (bitlen n - 1) \<le> (of_int n :: rat)" and "(of_int n :: rat) < 2 powi bitlen n"
proof -
  from bitlen_bounds [OF assms]
  have b: "2 ^ nat (bitlen n - 1) \<le> n" "n < 2 ^ nat (bitlen n)" by auto
  have pos: "0 < bitlen n"
    using assms bitlen_nonneg [of n] bitlen_eq_zero_iff [of n] by linarith
  have "(2::rat) powi (bitlen n - 1) = of_int (2 ^ nat (bitlen n - 1))"
    using pos by (simp add: power_int_def)
  with b(1) show "2 powi (bitlen n - 1) \<le> (of_int n :: rat)"
    by (simp only: of_int_le_iff)
  have "(2::rat) powi bitlen n = of_int (2 ^ nat (bitlen n))"
    using pos by (simp add: power_int_def)
  with b(2) show "(of_int n :: rat) < 2 powi bitlen n"
    by (simp only: of_int_less_iff)
qed

lemma ilog2_bounds:
  assumes "0 < x"
  shows "2 powi ilog2 x \<le> x" and "x < 2 powi (ilog2 x + 1)"
proof -
  obtain a b where q: "quotient_of x = (a, b)" by fastforce
  have b0: "0 < b" using q by (rule quotient_of_denom_pos)
  have x: "x = of_int a / of_int b" using q by (rule quotient_of_div)
  with assms b0 have a0: "0 < a" by (simp add: zero_less_divide_iff)
  define e where "e = bitlen a - bitlen b"
  have bpos: "(0::rat) < of_int b" using b0 by simp
  have hi: "x < 2 powi (e + 1)"
  proof -
    have "(of_int a :: rat) < 2 powi bitlen a" using bitlen_powi_bounds(2) [OF a0] .
    also have "\<dots> = 2 powi (e + 1) * 2 powi (bitlen b - 1)"
      by (simp add: e_def flip: powi_add_rat)
    also have "\<dots> \<le> 2 powi (e + 1) * of_int b"
      using bitlen_powi_bounds(1) [OF b0] by (intro mult_left_mono) (auto simp: less_imp_le)
    finally show ?thesis using bpos by (simp add: x pos_divide_less_eq)
  qed
  have lo: "2 powi (e - 1) \<le> x"
  proof -
    have "2 powi (e - 1) * of_int b \<le> 2 powi (e - 1) * (2 powi bitlen b :: rat)"
      using bitlen_powi_bounds(2) [OF b0] by (intro mult_left_mono) (auto simp: less_imp_le)
    also have "\<dots> = 2 powi (bitlen a - 1)"
      by (simp add: e_def flip: powi_add_rat)
    also have "\<dots> \<le> of_int a" using bitlen_powi_bounds(1) [OF a0] .
    finally show ?thesis using bpos by (simp add: x pos_le_divide_eq)
  qed
  have eq: "ilog2 x = (if 2 powi e \<le> x then e else e - 1)"
    by (simp add: ilog2_def q e_def)
  show "2 powi ilog2 x \<le> x" using lo by (simp add: eq)
  show "x < 2 powi (ilog2 x + 1)" using hi by (simp add: eq)
qed

lemma two_powi_less_iff [simp]: "(2::rat) powi a < 2 powi b \<longleftrightarrow> a < b"
  by (metis linorder_not_less one_less_numeral_iff order_less_imp_le
      power_int_increasing power_int_strict_increasing semiring_norm(76))

lemma two_powi_le_iff [simp]: "(2::rat) powi a \<le> 2 powi b \<longleftrightarrow> a \<le> b"
  using two_powi_less_iff [of b a] by (simp add: linorder_not_less [symmetric])

lemma ilog2_unique:
  assumes "2 powi e \<le> x" and "x < 2 powi (e + 1)"
  shows "ilog2 x = e"
proof -
  have "0 < x" using assms(1) two_powi_pos [of e] by linarith
  note b = ilog2_bounds [OF this]
  have "(2::rat) powi ilog2 x < 2 powi (e + 1)" using b(1) assms(2) by linarith
  moreover have "(2::rat) powi e < 2 powi (ilog2 x + 1)" using b(2) assms(1) by linarith
  ultimately show ?thesis by simp
qed

lemma rne_error: "\<bar>of_int (rne y) - y\<bar> \<le> 1 / 2"
  using floor_correct [of y] by (auto simp: rne_def Let_def abs_le_iff)

lemma rne_of_int [simp]: "rne (of_int n) = n"
  by (simp add: rne_def)

lemma rne_mono:
  assumes "x \<le> y" shows "rne x \<le> rne y"
proof -
  have f: "\<lfloor>x\<rfloor> \<le> \<lfloor>y\<rfloor>" using assms by (rule floor_mono)
  have up: "rne x \<le> \<lfloor>x\<rfloor> + 1" and down: "\<lfloor>y\<rfloor> \<le> rne y"
    by (simp_all add: rne_def Let_def)
  show ?thesis
  proof (cases "\<lfloor>x\<rfloor> = \<lfloor>y\<rfloor>")
    case True
    with assms show ?thesis by (auto simp: rne_def Let_def)
  next
    case False
    with f up down show ?thesis by linarith
  qed
qed

lemma rne_minus: "rne (- y) = - rne y"
proof (cases "y = of_int \<lfloor>y\<rfloor>")
  case True
  then have "- y = of_int (- \<lfloor>y\<rfloor>)" by simp
  with True show ?thesis by (metis rne_of_int)
next
  case False
  then have "of_int \<lfloor>y\<rfloor> < y" using of_int_floor_le [of y] by linarith
  moreover have "y < of_int \<lfloor>y\<rfloor> + 1" by linarith
  ultimately have "\<lfloor>- y\<rfloor> = - \<lfloor>y\<rfloor> - 1" by (intro floor_unique) auto
  then show ?thesis by (auto simp: rne_def Let_def)
qed

lemma ulp_minus [simp]: "ulp (- x) = ulp x"
  by (simp add: ulp_def)

lemma fl_zero [simp]: "fl 0 = 0"
  by (simp add: fl_def)

lemma fl_minus [simp]: "fl (- x) = - fl x"
  by (simp add: fl_def rne_minus minus_divide_left [symmetric])

lemma fl_error_ulp: "\<bar>fl x - x\<bar> \<le> ulp x / 2"
proof (cases "x = 0")
  case False
  have "fl x - x = (of_int (rne (x / ulp x)) - x / ulp x) * ulp x"
    using False by (simp add: fl_def algebra_simps)
  then have "\<bar>fl x - x\<bar> = \<bar>of_int (rne (x / ulp x)) - x / ulp x\<bar> * ulp x"
    by (simp add: abs_mult less_imp_le)
  also have "\<dots> \<le> 1 / 2 * ulp x"
    using rne_error by (intro mult_right_mono) (auto simp: less_imp_le)
  finally show ?thesis by simp
qed (simp add: less_imp_le)

lemma ulp_le:
  assumes "x \<noteq> 0" shows "ulp x \<le> \<bar>x\<bar> / 2 ^ 52"
proof -
  have "2 powi ilog2 \<bar>x\<bar> \<le> \<bar>x\<bar>" using assms by (intro ilog2_bounds) simp
  moreover have "ulp x = 2 powi ilog2 \<bar>x\<bar> / 2 ^ 52"
    by (simp add: ulp_def power_int_diff)
  ultimately show ?thesis by (simp add: divide_right_mono)
qed

lemma fl_error: "\<bar>fl x - x\<bar> \<le> \<bar>x\<bar> / 2 ^ 53"
proof (cases "x = 0")
  case False
  from ulp_le [OF this] fl_error_ulp [of x] show ?thesis by simp
qed simp

lemma binade_pos:
  assumes "0 < x"
  shows "2 ^ 52 \<le> x / ulp x" and "x / ulp x < 2 ^ 53"
proof -
  have "(2::rat) powi ilog2 x = 2 ^ 52 * ulp x"
    using assms by (simp add: ulp_def power_int_diff)
  moreover have "(2::rat) powi (ilog2 x + 1) = 2 ^ 53 * ulp x"
    using assms by (simp add: ulp_def power_int_diff power_int_add)
  ultimately show "2 ^ 52 \<le> x / ulp x" and "x / ulp x < 2 ^ 53"
    using ilog2_bounds [OF assms] by (simp_all add: pos_le_divide_eq pos_divide_less_eq)
qed

lemma fl_binade:
  assumes "0 < x"
  shows "2 powi ilog2 x \<le> fl x" and "fl x \<le> 2 powi (ilog2 x + 1)"
proof -
  have lo: "(2::int) ^ 52 \<le> rne (x / ulp x)"
    using rne_mono [OF binade_pos(1) [OF assms]] rne_of_int [of "2 ^ 52"] by simp
  have hi: "rne (x / ulp x) \<le> (2::int) ^ 53"
    using rne_mono [OF less_imp_le [OF binade_pos(2) [OF assms]]] rne_of_int [of "2 ^ 53"] by simp
  have e: "(2::rat) powi ilog2 x = of_int (2 ^ 52) * ulp x"
    "(2::rat) powi (ilog2 x + 1) = of_int (2 ^ 53) * ulp x"
    using assms by (simp_all add: ulp_def power_int_diff power_int_add)
  have f: "fl x = of_int (rne (x / ulp x)) * ulp x" using assms by (simp add: fl_def)
  show "2 powi ilog2 x \<le> fl x" unfolding e(1) f
    using lo by (intro mult_right_mono) (simp_all only: of_int_le_iff less_imp_le ulp_pos)
  show "fl x \<le> 2 powi (ilog2 x + 1)" unfolding e(2) f
    using hi by (intro mult_right_mono) (simp_all only: of_int_le_iff less_imp_le ulp_pos)
qed

lemma fl_pos: "0 < x \<Longrightarrow> 0 < fl x"
  using fl_binade(1) [of x] two_powi_pos [of "ilog2 x"] by linarith

lemma fl_nonneg: "0 \<le> x \<Longrightarrow> 0 \<le> fl x"
  using fl_pos [of x] by (cases "x = 0") auto

lemma fl_mono_pos:
  assumes "0 < x" and "x \<le> y" shows "fl x \<le> fl y"
proof (cases "ilog2 x = ilog2 y")
  case True
  then have u: "ulp x = ulp y" using assms by (simp add: ulp_def)
  have "rne (x / ulp x) \<le> rne (y / ulp x)"
    using assms by (intro rne_mono divide_right_mono) (simp_all add: less_imp_le)
  then show ?thesis using assms
    by (simp add: fl_def u [symmetric] mult_right_mono less_imp_le)
next
  case False
  have y: "0 < y" using assms by linarith
  have "(2::rat) powi ilog2 x < 2 powi (ilog2 y + 1)"
    using ilog2_bounds(1) [OF assms(1)] ilog2_bounds(2) [OF y] assms(2) by linarith
  with False have "ilog2 x + 1 \<le> ilog2 y" by simp
  then have "(2::rat) powi (ilog2 x + 1) \<le> 2 powi ilog2 y" by (simp only: two_powi_le_iff)
  with fl_binade(2) [OF assms(1)] fl_binade(1) [OF y] show ?thesis by linarith
qed

lemma fl_mono: "x \<le> y \<Longrightarrow> fl x \<le> fl y"
proof -
  assume le: "x \<le> y"
  consider "0 < x" | "x \<le> 0" "0 \<le> y" | "y < 0" by linarith
  then show "fl x \<le> fl y"
  proof cases
    case 1 then show ?thesis using le by (rule fl_mono_pos)
  next
    case 2
    then have "0 \<le> fl (- x)" "0 \<le> fl y" by (simp_all only: fl_nonneg neg_0_le_iff_le)
    then show ?thesis by simp
  next
    case 3
    then have "fl (- y) \<le> fl (- x)" using le by (intro fl_mono_pos) auto
    then show ?thesis by simp
  qed
qed

text \<open>A dyadic number with at most 53 significant bits is a double.\<close>

lemma fl_dyadic:
  assumes "\<bar>m\<bar> \<le> 2 ^ 53"
  shows "fl (of_int m * 2 powi k) = of_int m * 2 powi k"
proof (cases "m = 0")
  case False
  define x :: rat where "x = of_int m * 2 powi k"
  have x0: "x \<noteq> 0" and ax: "\<bar>x\<bar> = of_int \<bar>m\<bar> * 2 powi k"
    using False by (simp_all add: x_def abs_mult)
  define e where "e = ilog2 \<bar>x\<bar>"
  have "\<exists>n. x / ulp x = of_int n"
  proof (cases "e - 52 \<le> k")
    case True
    have "x / ulp x = of_int m * 2 powi (k - (e - 52))"
      by (simp add: x_def ulp_def e_def power_int_diff)
    also have "(2::rat) powi (k - (e - 52)) = of_int (2 ^ nat (k - (e - 52)))"
      using True by (simp add: power_int_def)
    finally show ?thesis by (metis of_int_mult)
  next
    case False
    have "2 powi e \<le> \<bar>x\<bar>" unfolding e_def using x0 by (intro ilog2_bounds) simp
    also have "\<dots> \<le> 2 ^ 53 * 2 powi k"
      unfolding ax using assms
      by (intro mult_right_mono) (simp_all add: less_imp_le flip: of_int_le_iff)
    also have "\<dots> = (2::rat) powi (53 + k)" by (simp add: power_int_add)
    finally have "e \<le> 53 + k" by (simp only: two_powi_le_iff)
    with False have e: "e = k + 53" by simp
    have "2 powi (k + 53) \<le> \<bar>x\<bar>"
      using ilog2_bounds(1) [of "\<bar>x\<bar>"] x0 by (simp add: e [symmetric] e_def)
    then have "(2::rat) ^ 53 \<le> of_int \<bar>m\<bar>"
      by (simp add: ax power_int_add)
    then have "(of_int (2 ^ 53) :: rat) \<le> of_int \<bar>m\<bar>" by simp
    then have "2 ^ 53 \<le> \<bar>m\<bar>" by (simp only: of_int_le_iff)
    with assms have "m = 2 ^ 53 \<or> m = - (2 ^ 53)" by linarith
    then have "x / ulp x = of_int (2 ^ 52) \<or> x / ulp x = of_int (- (2 ^ 52))"
      using e by (auto simp: x_def ulp_def e_def power_int_diff power_int_add)
    then show ?thesis by blast
  qed
  then obtain n where n: "x / ulp x = of_int n" ..
  then have "fl x = of_int n * ulp x" using x0 by (simp add: fl_def)
  also have "\<dots> = x" using n by (simp add: nonzero_divide_eq_eq)
  finally show ?thesis by (simp add: x_def)
qed simp

lemma fl_of_int [simp]: "\<bar>n\<bar> \<le> 2 ^ 53 \<Longrightarrow> fl (of_int n) = of_int n"
  using fl_dyadic [of n 0] by simp

lemma fl_fl [simp]: "fl (fl x) = fl x"
proof (cases "x = 0")
  case False
  have "\<bar>rne (x / ulp x)\<bar> \<le> 2 ^ 53"
  proof -
    have *: "rne (y / ulp y) \<le> 2 ^ 53 \<and> 0 \<le> rne (y / ulp y)" if "0 < y" for y
      using rne_mono [OF less_imp_le [OF binade_pos(2) [OF that]]] rne_of_int [of "2 ^ 53"]
        rne_mono [OF binade_pos(1) [OF that]] rne_of_int [of "2 ^ 52"] by simp
    from False consider "0 < x" | "0 < - x" by linarith
    then show ?thesis
    proof cases
      case 1 from * [OF this] show ?thesis by simp
    next
      case 2 from * [OF this] show ?thesis
        by (simp add: rne_minus minus_divide_left [symmetric])
    qed
  qed
  from fl_dyadic [OF this, of "ilog2 \<bar>x\<bar> - 52"] False show ?thesis
    by (simp add: fl_def [of x] ulp_def)
qed simp

lemma is_double_fl [simp]: "is_double (fl x)"
  by (simp add: is_double_def)

section \<open>Amounts\<close>

text \<open>Absolute errors for amounts of at most ten million with eight decimal places.\<close>

lemma fixed_digits_error: "\<bar>of_int (fixed_digits d x) - x * 10 ^ d\<bar> \<le> 1 / 2"
  using floor_correct [of "x * 10 ^ d + 1 / 2"] floor_correct [of "- x * 10 ^ d + 1 / 2"]
  unfolding fixed_digits_def abs_le_iff by (cases "x < 0") (simp_all only: if_True if_False of_int_minus, linarith+)

lemma fl_error_amount:
  assumes "\<bar>x\<bar> \<le> 10 ^ 7 + 1"
  shows "\<bar>fl x - x\<bar> \<le> 2 / 10 ^ 9"
proof -
  have "\<bar>fl x - x\<bar> \<le> \<bar>x\<bar> / 2 ^ 53" by (rule fl_error)
  also have "\<dots> \<le> (10 ^ 7 + 1) / 2 ^ 53" using assms by (simp add: divide_right_mono)
  also have "\<dots> \<le> 2 / 10 ^ 9" by simp
  finally show ?thesis .
qed

lemma to_fixed_error:
  assumes "\<bar>x\<bar> \<le> 10 ^ 7"
  shows "\<bar>to_fixed 8 x - x\<bar> \<le> 7 / 10 ^ 9"
proof -
  define y :: rat where "y = of_int (fixed_digits 8 x) / 10 ^ 8"
  have y: "\<bar>y - x\<bar> \<le> 5 / 10 ^ 9"
    using fixed_digits_error [of 8 x] by (simp add: y_def field_simps abs_if split: if_splits)
  with assms have "\<bar>y\<bar> \<le> 10 ^ 7 + 1" by (simp add: abs_if split: if_splits)
  from fl_error_amount [OF this] y have "\<bar>fl y - x\<bar> \<le> 7 / 10 ^ 9" by (simp add: abs_if split: if_splits)
  then show ?thesis by (simp only: to_fixed_def y_def)
qed

lemma to_fixed_fl_error:
  assumes "\<bar>x\<bar> \<le> 9 * 10 ^ 6"
  shows "\<bar>to_fixed 8 (fl x) - x\<bar> \<le> 9 / 10 ^ 9"
proof -
  have e: "\<bar>fl x - x\<bar> \<le> 2 / 10 ^ 9" using assms by (intro fl_error_amount) simp
  with assms have "\<bar>fl x\<bar> \<le> 10 ^ 7" by (simp add: abs_if split: if_splits)
  from to_fixed_error [OF this] e show ?thesis by (simp add: abs_if split: if_splits)
qed

lemma to_fixed_nonneg: "0 \<le> x \<Longrightarrow> 0 \<le> to_fixed d x"
  by (simp add: to_fixed_def fixed_digits_def fl_nonneg)

lemma to_fixed_nonpos: "x \<le> 0 \<Longrightarrow> to_fixed d x \<le> 0"
  using fl_mono [of "of_int (fixed_digits d x) / 10 ^ d" 0] mult_nonpos_nonneg [of x "10 ^ d"]
  by (auto simp: to_fixed_def fixed_digits_def divide_le_0_iff)

lemma fl_le_self: "x \<le> fl y \<Longrightarrow> fl x \<le> fl y"
  using fl_mono [of x "fl y"] by simp

end
