(* ===== verification/Prelude.thy ===== *)
theory Prelude
  imports JS_Number "HOL-Library.AList" "HOL-Library.Word"
begin

text \<open>
  What every component shares: the lemma collections of the development, the string, Map and
  list operations of JavaScript that the sources use, and the monad in which the asynchronous
  handlers are written.

  Strings are lists of code units below 256 (\<^typ>\<open>string\<close>): the protocol fields, addresses, keys
  and hashes of the services are ASCII.  A JavaScript Map is an association list in insertion
  order; \<open>AList.update\<close> overwrites in place or appends, which is what \<open>Map.set\<close> does.
\<close>

named_theorems js_simps \<open>unfolding rules of the JavaScript library functions\<close>
named_theorems io_simps \<open>evaluation rules of the handler monad\<close>
named_theorems codec_simps \<open>length and decoding facts of the byte codecs\<close>
named_theorems inv_intros \<open>operations that keep a component invariant\<close>

section \<open>Strings\<close>

abbreviation code_of :: "char \<Rightarrow> nat" where
  "code_of c \<equiv> of_char c"

definition lower_char :: "char \<Rightarrow> char" where
  \<comment> \<open>lower case of a Latin-1 code unit\<close>
  "lower_char c =
     (let n = code_of c
      in if 65 \<le> n \<and> n \<le> 90 \<or> 192 \<le> n \<and> n \<le> 222 \<and> n \<noteq> 215 then char_of (n + 32) else c)"

definition toLowerCase :: "string \<Rightarrow> string" where
  "toLowerCase s = map lower_char s"

definition is_space :: "char \<Rightarrow> bool" where
  "is_space c \<longleftrightarrow> code_of c \<in> {9, 10, 11, 12, 13, 32, 160}"

definition js_trim :: "string \<Rightarrow> string" where
  "js_trim s = rev (dropWhile is_space (rev (dropWhile is_space s)))"

fun js_split :: "char \<Rightarrow> string \<Rightarrow> string list" where
  \<comment> \<open>\<open>s.split(c)\<close> for a one-character separator; never empty\<close>
  "js_split c [] = [[]]"
| "js_split c (x # xs) =
     (if x = c then [] # js_split c xs
      else (case js_split c xs of [] \<Rightarrow> [[x]] | p # ps \<Rightarrow> (x # p) # ps))"

fun js_join :: "string \<Rightarrow> string list \<Rightarrow> string" where
  "js_join sep [] = []"
| "js_join sep [x] = x"
| "js_join sep (x # xs) = x @ sep @ js_join sep xs"

definition startsWith :: "string \<Rightarrow> string \<Rightarrow> bool" where
  "startsWith s p \<longleftrightarrow> take (length p) s = p"

definition endsWith :: "string \<Rightarrow> string \<Rightarrow> bool" where
  "endsWith s p \<longleftrightarrow> length p \<le> length s \<and> drop (length s - length p) s = p"

fun js_includes :: "string \<Rightarrow> string \<Rightarrow> bool" where
  "js_includes [] p \<longleftrightarrow> p = []"
| "js_includes (x # xs) p \<longleftrightarrow> startsWith (x # xs) p \<or> js_includes xs p"

definition padStart :: "nat \<Rightarrow> char \<Rightarrow> string \<Rightarrow> string" where
  "padStart n c s = replicate (n - length s) c @ s"

subsection \<open>Digits and \<open>parseInt\<close>\<close>

definition digit_val :: "char \<Rightarrow> nat option" where
  "digit_val c =
     (let n = code_of c
      in if 48 \<le> n \<and> n \<le> 57 then Some (n - 48)
         else if 97 \<le> n \<and> n \<le> 122 then Some (n - 87)
         else if 65 \<le> n \<and> n \<le> 90 then Some (n - 55)
         else None)"

definition is_digit_of :: "nat \<Rightarrow> char \<Rightarrow> bool" where
  "is_digit_of r c \<longleftrightarrow> (case digit_val c of None \<Rightarrow> False | Some d \<Rightarrow> d < r)"

definition digits_val :: "nat \<Rightarrow> string \<Rightarrow> nat" where
  "digits_val r ds = foldl (\<lambda>n c. n * r + the (digit_val c)) 0 ds"

definition js_parseInt :: "nat \<Rightarrow> string \<Rightarrow> int option" where
  \<comment> \<open>\<open>parseInt(s, r)\<close>; None is NaN.  The value is exact: the sources only compare results above
     \<open>2 ^ 53\<close> with smaller bounds.\<close>
  "js_parseInt r s =
     (let t = dropWhile is_space s;
          neg = (t \<noteq> [] \<and> hd t = CHR ''-'');
          u = (if t \<noteq> [] \<and> (hd t = CHR ''-'' \<or> hd t = CHR ''+'') then tl t else t);
          v = (if r = 16 \<and> (startsWith u ''0x'' \<or> startsWith u ''0X'') then drop 2 u else u);
          ds = takeWhile (is_digit_of r) v
      in if ds = [] then None
         else Some ((if neg then - 1 else 1) * int (digits_val r ds)))"

definition js_parseFloat :: "string \<Rightarrow> rat option" where
  \<comment> \<open>\<open>parseFloat(s)\<close> for decimal notation without an exponent, the form amounts and counters are
     stored in; None is NaN\<close>
  "js_parseFloat s =
     (let t = dropWhile is_space s;
          neg = (t \<noteq> [] \<and> hd t = CHR ''-'');
          u = (if t \<noteq> [] \<and> (hd t = CHR ''-'' \<or> hd t = CHR ''+'') then tl t else t);
          ds = takeWhile (is_digit_of 10) u;
          rest = dropWhile (is_digit_of 10) u;
          fs = (if startsWith rest ''.'' then takeWhile (is_digit_of 10) (tl rest) else []);
          x = (of_nat (digits_val 10 (ds @ fs)) :: rat) / 10 ^ length fs
      in if ds = [] \<and> fs = [] then None else Some (fl (if neg then - x else x)))"

definition digit_char :: "nat \<Rightarrow> char" where
  "digit_char d = (if d < 10 then char_of (d + 48) else char_of (d + 87))"

fun radix_digits :: "nat \<Rightarrow> nat \<Rightarrow> string" where
  "radix_digits r n =
     (if r < 2 \<or> n < r then [digit_char n] else radix_digits r (n div r) @ [digit_char (n mod r)])"

declare radix_digits.simps [simp del]

definition int_to_string :: "nat \<Rightarrow> int \<Rightarrow> string" where
  \<comment> \<open>\<open>n.toString(r)\<close> for an integer\<close>
  "int_to_string r n =
     (if n < 0 then ''-'' @ radix_digits r (nat (- n)) else radix_digits r (nat n))"

subsection \<open>Decimal digits read back\<close>

lemma digit_val_digit_char: "d < 36 \<Longrightarrow> digit_val (digit_char d) = Some d"
  by (auto simp: digit_val_def digit_char_def Let_def)

lemma digits_val_snoc: "digits_val r (ds @ [c]) = digits_val r ds * r + the (digit_val c)"
  by (simp add: digits_val_def)

lemma radix_digits_read:
  assumes "2 \<le> r" and "r \<le> 36"
  shows "digits_val r (radix_digits r n) = n \<and> list_all (is_digit_of r) (radix_digits r n)"
  using assms
proof (induction r n rule: radix_digits.induct)
  case (1 r n)
  show ?case
  proof (cases "n < r")
    case True
    with 1(2,3) show ?thesis
      by (simp add: radix_digits.simps [of r n] digits_val_def is_digit_of_def digit_val_digit_char)
  next
    case False
    with 1 have ih: "digits_val r (radix_digits r (n div r)) = n div r"
      "list_all (is_digit_of r) (radix_digits r (n div r))" by simp_all
    have "n mod r < r" using 1(2) by simp
    moreover from this 1(3) have "n mod r < 36" by linarith
    ultimately have "is_digit_of r (digit_char (n mod r))" "the (digit_val (digit_char (n mod r))) = n mod r"
      by (simp_all add: is_digit_of_def digit_val_digit_char)
    with False 1(2) ih show ?thesis
      by (simp add: radix_digits.simps [of r n] digits_val_snoc)
  qed
qed

lemma radix_digits_nonempty [simp]: "radix_digits r n \<noteq> []"
  by (subst radix_digits.simps) simp

lemma radix_digits_length: "2 \<le> r \<Longrightarrow> n < r ^ Suc k \<Longrightarrow> length (radix_digits r n) \<le> Suc k"
proof (induction k arbitrary: n)
  case 0
  then show ?case by (subst radix_digits.simps) simp
next
  case (Suc k)
  have "length (radix_digits r (n div r)) \<le> Suc k" if "\<not> n < r"
  proof (rule Suc.IH [OF Suc.prems(1)])
    show "n div r < r ^ Suc k" using Suc.prems by (simp add: less_mult_imp_div_less mult.commute)
  qed
  then show ?case by (subst radix_digits.simps) auto
qed

lemma hd_digit_plain:
  assumes "is_digit_of 10 c" shows "\<not> is_space c" "c \<noteq> CHR ''-''" "c \<noteq> CHR ''+''"
  using assms by (auto simp: is_digit_of_def digit_val_def is_space_def Let_def split: if_splits)

lemma parseInt_digits:
  assumes "ds \<noteq> []" and "list_all (is_digit_of 10) ds"
  shows "js_parseInt 10 ds = Some (int (digits_val 10 ds))"
proof -
  obtain c cs where ds: "ds = c # cs" using assms(1) by (cases ds) auto
  with assms(2) have "is_digit_of 10 c" by simp
  note h = hd_digit_plain [OF this]
  have "takeWhile (is_digit_of 10) ds = ds" using assms(2) by (simp add: list_all_iff)
  with h ds show ?thesis by (simp add: js_parseInt_def)
qed

lemma parseInt_radix_digits: "js_parseInt 10 (radix_digits 10 n) = Some (int n)"
  using radix_digits_read [of 10 n] by (simp add: parseInt_digits)

section \<open>Lists as Redis and arrays use them\<close>

definition list_range :: "'a list \<Rightarrow> nat \<Rightarrow> nat \<Rightarrow> 'a list" where
  \<comment> \<open>the elements at indices \<open>a..b\<close>, both included\<close>
  "list_range xs a b = take (Suc b - a) (drop a xs)"

section \<open>Maps in insertion order\<close>

abbreviation map_get :: "('k \<times> 'v) list \<Rightarrow> 'k \<Rightarrow> 'v option" where
  "map_get m k \<equiv> map_of m k"

abbreviation map_set :: "'k \<Rightarrow> 'v \<Rightarrow> ('k \<times> 'v) list \<Rightarrow> ('k \<times> 'v) list" where
  "map_set k v m \<equiv> AList.update k v m"

abbreviation map_del :: "'k \<Rightarrow> ('k \<times> 'v) list \<Rightarrow> ('k \<times> 'v) list" where
  "map_del k m \<equiv> AList.delete k m"

abbreviation map_keys :: "('k \<times> 'v) list \<Rightarrow> 'k list" where
  "map_keys m \<equiv> map fst m"

lemma map_get_set [simp]: "map_get (map_set k v m) k' = (if k' = k then Some v else map_get m k')"
  by (simp add: update_conv')

lemma map_get_del [simp]: "map_get (map_del k m) k' = (if k' = k then None else map_get m k')"
  by (simp add: delete_conv')

lemma distinct_map_set [simp]: "distinct (map_keys (map_set k v m)) = distinct (map_keys m)"
  by (simp add: update_keys)

lemma distinct_map_del: "distinct (map_keys m) \<Longrightarrow> distinct (map_keys (map_del k m))"
  by (rule distinct_delete)

section \<open>The handler monad\<close>

text \<open>
  A handler runs on a state and either throws an exception, whose message is kept, or returns a
  value; the state changes made before a throw persist, as they do in JavaScript.
\<close>

type_synonym exn = string
type_synonym ('s, 'a) io = "'s \<Rightarrow> (exn + 'a) \<times> 's"

definition io_return :: "'a \<Rightarrow> ('s, 'a) io" where
  "io_return x = (\<lambda>s. (Inr x, s))"

definition io_throw :: "exn \<Rightarrow> ('s, 'a) io" where
  "io_throw e = (\<lambda>s. (Inl e, s))"

definition io_bind :: "('s, 'a) io \<Rightarrow> ('a \<Rightarrow> ('s, 'b) io) \<Rightarrow> ('s, 'b) io" where
  "io_bind m f = (\<lambda>s. case m s of (Inl e, s') \<Rightarrow> (Inl e, s') | (Inr x, s') \<Rightarrow> f x s')"

definition io_catch :: "('s, 'a) io \<Rightarrow> (exn \<Rightarrow> ('s, 'a) io) \<Rightarrow> ('s, 'a) io" where
  "io_catch m h = (\<lambda>s. case m s of (Inl e, s') \<Rightarrow> h e s' | (Inr x, s') \<Rightarrow> (Inr x, s'))"

definition io_get :: "('s \<Rightarrow> 'a) \<Rightarrow> ('s, 'a) io" where
  "io_get f = (\<lambda>s. (Inr (f s), s))"

definition io_modify :: "('s \<Rightarrow> 's) \<Rightarrow> ('s, unit) io" where
  "io_modify f = (\<lambda>s. (Inr (), f s))"

definition io_lift :: "exn + 'a \<Rightarrow> ('s, 'a) io" where
  "io_lift r = (\<lambda>s. (r, s))"

definition io_seq :: "('s, 'a) io \<Rightarrow> ('s, 'b) io \<Rightarrow> ('s, 'b) io" where
  "io_seq m n = io_bind m (\<lambda>_. n)"

definition io_when :: "bool \<Rightarrow> ('s, unit) io \<Rightarrow> ('s, unit) io" where
  "io_when b m = (if b then m else io_return ())"

fun io_each :: "('a \<Rightarrow> ('s, unit) io) \<Rightarrow> 'a list \<Rightarrow> ('s, unit) io" where
  \<comment> \<open>a \<open>for ... of\<close> loop\<close>
  "io_each f [] = io_return ()"
| "io_each f (x # xs) = io_seq (f x) (io_each f xs)"

fun io_map :: "('a \<Rightarrow> ('s, 'b) io) \<Rightarrow> 'a list \<Rightarrow> ('s, 'b list) io" where
  "io_map f [] = io_return []"
| "io_map f (x # xs) = io_bind (f x) (\<lambda>y. io_bind (io_map f xs) (\<lambda>ys. io_return (y # ys)))"

lemma io_return_run [io_simps]: "io_return x s = (Inr x, s)"
  by (simp add: io_return_def)

lemma io_throw_run [io_simps]: "io_throw e s = (Inl e, s)"
  by (simp add: io_throw_def)

lemma io_get_run [io_simps]: "io_get f s = (Inr (f s), s)"
  by (simp add: io_get_def)

lemma io_modify_run [io_simps]: "io_modify f s = (Inr (), f s)"
  by (simp add: io_modify_def)

lemma io_lift_run [io_simps]: "io_lift r s = (r, s)"
  by (simp add: io_lift_def)

lemma io_bind_Inr [io_simps]: "m s = (Inr x, s') \<Longrightarrow> io_bind m f s = f x s'"
  by (simp add: io_bind_def)

lemma io_bind_Inl [io_simps]: "m s = (Inl e, s') \<Longrightarrow> io_bind m f s = (Inl e, s')"
  by (simp add: io_bind_def)

lemma io_seq_run [io_simps]: "io_seq m n s = io_bind m (\<lambda>_. n) s"
  by (simp add: io_seq_def)

lemma io_when_run [io_simps]: "io_when b m s = (if b then m s else (Inr (), s))"
  by (simp add: io_when_def io_return_def)

lemma io_catch_Inr [io_simps]: "m s = (Inr x, s') \<Longrightarrow> io_catch m h s = (Inr x, s')"
  by (simp add: io_catch_def)

lemma io_catch_Inl [io_simps]: "m s = (Inl e, s') \<Longrightarrow> io_catch m h s = h e s'"
  by (simp add: io_catch_def)

lemma io_bind_return: "io_bind (io_return x) f = f x"
  by (simp add: io_bind_def io_return_def fun_eq_iff)

lemma io_bind_return_right: "io_bind m io_return = m"
  by (auto simp: io_bind_def io_return_def fun_eq_iff split: prod.splits sum.splits)

lemma io_bind_assoc: "io_bind (io_bind m f) g = io_bind m (\<lambda>x. io_bind (f x) g)"
  by (auto simp: io_bind_def fun_eq_iff split: prod.splits sum.splits)

text \<open>Synchronous code that may throw.\<close>

fun res_bind :: "exn + 'a \<Rightarrow> ('a \<Rightarrow> exn + 'b) \<Rightarrow> exn + 'b" where
  "res_bind (Inl e) f = Inl e"
| "res_bind (Inr x) f = f x"

lemma res_bind_eq_Inr: "res_bind r f = Inr y \<longleftrightarrow> (\<exists>x. r = Inr x \<and> f x = Inr y)"
  by (cases r) auto

subsection \<open>Handlers that never throw\<close>

definition io_total :: "('s, 'a) io \<Rightarrow> bool" where
  "io_total m \<longleftrightarrow> (\<forall>s. \<exists>x. fst (m s) = Inr x)"

lemma io_totalE:
  assumes "io_total m" obtains x s' where "m s = (Inr x, s')"
  using assms unfolding io_total_def by (metis prod.collapse)

lemma total_return: "io_total (io_return x)"
  by (simp add: io_total_def io_return_def)

lemma total_get: "io_total (io_get f)"
  by (simp add: io_total_def io_get_def)

lemma total_modify: "io_total (io_modify f)"
  by (simp add: io_total_def io_modify_def)

lemma total_bind: "io_total m \<Longrightarrow> (\<And>x. io_total (f x)) \<Longrightarrow> io_total (io_bind m f)"
  unfolding io_total_def io_bind_def by (auto split: prod.splits sum.splits) (metis Inl_Inr_False fst_conv)

lemma total_seq: "io_total m \<Longrightarrow> io_total n \<Longrightarrow> io_total (io_seq m n)"
  by (simp add: io_seq_def total_bind)

lemma total_when: "io_total m \<Longrightarrow> io_total (io_when b m)"
  by (simp add: io_when_def total_return)

lemma total_if: "io_total m \<Longrightarrow> io_total n \<Longrightarrow> io_total (if b then m else n)"
  by simp

lemma total_catch: "(\<And>e. io_total (h e)) \<Longrightarrow> io_total (io_catch m h)"
  unfolding io_total_def io_catch_def by (auto split: prod.splits sum.splits)

lemmas total_rules =
  total_return total_get total_modify total_bind total_seq total_when total_if total_catch

subsection \<open>Frame properties of handlers\<close>

text \<open>
  \<open>io_keeps P m\<close>: whatever \<open>m\<close> does and however it ends, the relation \<open>P\<close> holds between the
  state before and the state after.  The rules let a frame property of a handler be read off
  its text.
\<close>

definition io_keeps :: "('s \<Rightarrow> 's \<Rightarrow> bool) \<Rightarrow> ('s, 'a) io \<Rightarrow> bool" where
  "io_keeps P m \<longleftrightarrow> (\<forall>s. P s (snd (m s)))"

locale frame_rel =
  fixes P :: "'s \<Rightarrow> 's \<Rightarrow> bool"
  assumes rel_refl: "P s s"
    and rel_trans: "P s t \<Longrightarrow> P t u \<Longrightarrow> P s u"
begin

lemma keeps_return: "io_keeps P (io_return x)"
  by (simp add: io_keeps_def io_return_def rel_refl)

lemma keeps_throw: "io_keeps P (io_throw e)"
  by (simp add: io_keeps_def io_throw_def rel_refl)

lemma keeps_lift: "io_keeps P (io_lift r)"
  by (simp add: io_keeps_def io_lift_def rel_refl)

lemma keeps_get: "io_keeps P (io_get f)"
  by (simp add: io_keeps_def io_get_def rel_refl)

lemma keeps_bind: "io_keeps P m \<Longrightarrow> (\<And>x. io_keeps P (f x)) \<Longrightarrow> io_keeps P (io_bind m f)"
  unfolding io_keeps_def io_bind_def
  by (auto split: prod.splits sum.splits) (metis rel_trans snd_conv)+

lemma keeps_catch: "io_keeps P m \<Longrightarrow> (\<And>e. io_keeps P (h e)) \<Longrightarrow> io_keeps P (io_catch m h)"
  unfolding io_keeps_def io_catch_def
  by (auto split: prod.splits sum.splits) (metis rel_trans snd_conv)+

lemma keeps_seq: "io_keeps P m \<Longrightarrow> io_keeps P n \<Longrightarrow> io_keeps P (io_seq m n)"
  by (simp add: io_seq_def keeps_bind)

lemma keeps_when: "io_keeps P m \<Longrightarrow> io_keeps P (io_when b m)"
  by (simp add: io_when_def keeps_return)

lemma keeps_each: "(\<And>x. io_keeps P (f x)) \<Longrightarrow> io_keeps P (io_each f xs)"
  by (induction xs) (simp_all add: keeps_return keeps_seq)

lemma keeps_map: "(\<And>x. io_keeps P (f x)) \<Longrightarrow> io_keeps P (io_map f xs)"
  by (induction xs) (simp_all add: keeps_return keeps_bind)

lemma keeps_if: "io_keeps P m \<Longrightarrow> io_keeps P n \<Longrightarrow> io_keeps P (if b then m else n)"
  by simp

lemmas keeps_rules =
  keeps_return keeps_throw keeps_lift keeps_get keeps_bind keeps_catch keeps_seq keeps_when
  keeps_each keeps_map keeps_if

end

subsection \<open>Invariants of handlers\<close>

text \<open>
  \<open>io_ok I m Q\<close>: run in a state with the invariant \<open>I\<close>, \<open>m\<close> ends in such a state, also when it throws,
  and a value it returns satisfies \<open>Q\<close>.
\<close>

definition io_ok :: "('s \<Rightarrow> bool) \<Rightarrow> ('s, 'a) io \<Rightarrow> ('a \<Rightarrow> bool) \<Rightarrow> bool" where
  "io_ok I m Q \<longleftrightarrow> (\<forall>s. I s \<longrightarrow> I (snd (m s)) \<and> (\<forall>x. fst (m s) = Inr x \<longrightarrow> Q x))"

definition anything :: "'a \<Rightarrow> bool" where
  "anything x = True"

lemma ok_weaken: "io_ok I m Q \<Longrightarrow> (\<And>x. Q x \<Longrightarrow> R x) \<Longrightarrow> io_ok I m R"
  by (auto simp: io_ok_def)

lemma ok_any: "io_ok I m Q \<Longrightarrow> io_ok I m anything"
  by (auto simp: io_ok_def anything_def)

lemma ok_return: "Q x \<Longrightarrow> io_ok I (io_return x) Q"
  by (simp add: io_ok_def io_return_def)

lemma ok_throw: "io_ok I (io_throw e) Q"
  by (simp add: io_ok_def io_throw_def)

lemma ok_lift: "(\<And>x. r = Inr x \<Longrightarrow> Q x) \<Longrightarrow> io_ok I (io_lift r) Q"
  by (simp add: io_ok_def io_lift_def)

lemma ok_get: "(\<And>s. I s \<Longrightarrow> Q (f s)) \<Longrightarrow> io_ok I (io_get f) Q"
  by (simp add: io_ok_def io_get_def)

lemma ok_modify: "(\<And>s. I s \<Longrightarrow> I (f s)) \<Longrightarrow> io_ok I (io_modify f) anything"
  by (simp add: io_ok_def io_modify_def anything_def)

lemma ok_bind: "io_ok I m Q \<Longrightarrow> (\<And>x. Q x \<Longrightarrow> io_ok I (f x) R) \<Longrightarrow> io_ok I (io_bind m f) R"
  unfolding io_ok_def io_bind_def
  by (auto split: prod.splits sum.splits)

lemma ok_bind_any: "io_ok I m anything \<Longrightarrow> (\<And>x. io_ok I (f x) R) \<Longrightarrow> io_ok I (io_bind m f) R"
  by (rule ok_bind)

lemma ok_seq: "io_ok I m anything \<Longrightarrow> io_ok I n R \<Longrightarrow> io_ok I (io_seq m n) R"
  by (simp add: io_seq_def ok_bind)

lemma ok_when: "(b \<Longrightarrow> io_ok I m anything) \<Longrightarrow> io_ok I (io_when b m) anything"
  by (simp add: io_when_def ok_return anything_def)

lemma ok_if: "(b \<Longrightarrow> io_ok I m Q) \<Longrightarrow> (\<not> b \<Longrightarrow> io_ok I n Q) \<Longrightarrow> io_ok I (if b then m else n) Q"
  by simp

lemma ok_catch: "io_ok I m Q \<Longrightarrow> (\<And>e. io_ok I (h e) Q) \<Longrightarrow> io_ok I (io_catch m h) Q"
  unfolding io_ok_def io_catch_def
  by (auto split: prod.splits sum.splits)

lemma ok_each: "(\<And>x. io_ok I (f x) anything) \<Longrightarrow> io_ok I (io_each f xs) anything"
  by (induction xs) (simp_all add: ok_return ok_seq anything_def)

lemma ok_case_option:
  "(v = None \<Longrightarrow> io_ok I m Q) \<Longrightarrow> (\<And>x. v = Some x \<Longrightarrow> io_ok I (f x) Q) \<Longrightarrow>
   io_ok I (case v of None \<Rightarrow> m | Some x \<Rightarrow> f x) Q"
  by (cases v) auto

lemma ok_case_prod: "(\<And>a b. p = (a, b) \<Longrightarrow> io_ok I (f a b) Q) \<Longrightarrow> io_ok I (case p of (a, b) \<Rightarrow> f a b) Q"
  by (cases p) auto

lemma anythingI [simp, intro!]: "anything x"
  by (simp add: anything_def)

lemmas ok_rules =
  ok_seq ok_bind_any ok_when ok_if ok_catch ok_each ok_case_option ok_case_prod ok_return ok_throw ok_lift ok_get

lemma ok_run: "io_ok I m Q \<Longrightarrow> I s \<Longrightarrow> I (snd (m s))"
  by (simp add: io_ok_def)

end
