(* ===== verification/JS_Value.thy ===== *)
theory JS_Value
  imports Prelude
begin

text \<open>
  The values that cross the boundaries of the services: JSON documents received from miners,
  browsers, the node and Redis, and JavaScript's own \<open>undefined\<close> and \<open>NaN\<close>.  Truthiness,
  \<open>String(v)\<close>, property access and \<open>||\<close> follow ECMAScript; reading a property of
  \<open>undefined\<close> or \<open>null\<close> throws a TypeError.  JSON text is identified with the value it denotes.
\<close>

datatype jsv =
    JUndef
  | JNull
  | JBool bool
  | JNum rat
  | JNaN
  | JStr string
  | JArr "jsv list"
  | JObj "(string \<times> jsv) list"

abbreviation JInt :: "int \<Rightarrow> jsv" where
  "JInt n \<equiv> JNum (of_int n)"

fun truthy :: "jsv \<Rightarrow> bool" where
  "truthy JUndef = False"
| "truthy JNull = False"
| "truthy (JBool b) = b"
| "truthy (JNum x) = (x \<noteq> 0)"
| "truthy JNaN = False"
| "truthy (JStr s) = (s \<noteq> [])"
| "truthy (JArr _) = True"
| "truthy (JObj _) = True"

definition js_or :: "jsv \<Rightarrow> jsv \<Rightarrow> jsv" where
  "js_or a b = (if truthy a then a else b)"

section \<open>\<open>Number.toString\<close>\<close>

definition dec_exp :: "rat \<Rightarrow> int" where
  \<comment> \<open>the \<open>n\<close> with \<open>10 ^ (n - 1) \<le> x < 10 ^ n\<close>, for positive \<open>x\<close>\<close>
  "dec_exp x =
     (let (a, b) = quotient_of x;
          d = int (length (radix_digits 10 (nat a))) - int (length (radix_digits 10 (nat b)))
      in if 10 powi d \<le> x then d + 1 else d)"

fun shortest_digits :: "nat \<Rightarrow> nat \<Rightarrow> rat \<Rightarrow> int \<Rightarrow> nat \<times> nat" where
  \<comment> \<open>the fewest significant digits that read back as the same double\<close>
  "shortest_digits 0 k x n = (nat \<lfloor>x / 10 powi (n - int k) + 1 / 2\<rfloor>, k)"
| "shortest_digits (Suc f) k x n =
     (let m = \<lfloor>x / 10 powi (n - int k) + 1 / 2\<rfloor>
      in if fl (of_int m * 10 powi (n - int k)) = x then (nat m, k)
         else shortest_digits f (Suc k) x n)"

definition pos_to_string :: "rat \<Rightarrow> string" where
  "pos_to_string x =
     (let n = dec_exp x; (m, k) = shortest_digits 16 1 x n; ds = radix_digits 10 m
      in if int k \<le> n \<and> n \<le> 21 then ds @ replicate (nat n - k) CHR ''0''
         else if 0 < n \<and> n \<le> 21 then take (nat n) ds @ ''.'' @ drop (nat n) ds
         else if - 6 < n \<and> n \<le> 0 then ''0.'' @ replicate (nat (- n)) CHR ''0'' @ ds
         else (if k = 1 then ds else take 1 ds @ ''.'' @ drop 1 ds) @
              (if 0 < n then ''e+'' else ''e-'') @ radix_digits 10 (nat \<bar>n - 1\<bar>))"

definition num_to_string :: "rat \<Rightarrow> string" where
  "num_to_string x =
     (if x = 0 then ''0'' else if x < 0 then ''-'' @ pos_to_string (- x) else pos_to_string x)"

definition fixed_string :: "nat \<Rightarrow> rat \<Rightarrow> string" where
  \<comment> \<open>\<open>x.toFixed(d)\<close>\<close>
  "fixed_string d x =
     (let p = padStart (Suc d) CHR ''0'' (radix_digits 10 (nat \<bar>fixed_digits d x\<bar>));
          i = length p - d
      in (if x < 0 then ''-'' else []) @ take i p @ (if d = 0 then [] else CHR ''.'' # drop i p))"

fun js_tostring :: "jsv \<Rightarrow> string" where
  \<comment> \<open>\<open>String(v)\<close>\<close>
  "js_tostring JUndef = ''undefined''"
| "js_tostring JNull = ''null''"
| "js_tostring (JBool b) = (if b then ''true'' else ''false'')"
| "js_tostring (JNum x) = num_to_string x"
| "js_tostring JNaN = ''NaN''"
| "js_tostring (JStr s) = s"
| "js_tostring (JArr xs) =
     js_join '','' (map (\<lambda>v. case v of JUndef \<Rightarrow> [] | JNull \<Rightarrow> [] | _ \<Rightarrow> js_tostring v) xs)"
| "js_tostring (JObj _) = ''[object Object]''"

section \<open>Property access\<close>

definition type_error :: exn where
  "type_error = ''TypeError''"

fun js_prop :: "jsv \<Rightarrow> string \<Rightarrow> exn + jsv" where
  \<comment> \<open>\<open>v.name\<close>\<close>
  "js_prop JUndef k = Inl type_error"
| "js_prop JNull k = Inl type_error"
| "js_prop (JObj m) k = Inr (case map_get m k of None \<Rightarrow> JUndef | Some v \<Rightarrow> v)"
| "js_prop _ k = Inr JUndef"

fun js_prop_opt :: "jsv \<Rightarrow> string \<Rightarrow> jsv" where
  \<comment> \<open>\<open>v?.name\<close>, and \<open>v.name\<close> where \<open>v\<close> is known to be an object\<close>
  "js_prop_opt (JObj m) k = (case map_get m k of None \<Rightarrow> JUndef | Some v \<Rightarrow> v)"
| "js_prop_opt _ k = JUndef"

definition list_at :: "jsv list \<Rightarrow> nat \<Rightarrow> jsv" where
  "list_at xs i = (if i < length xs then xs ! i else JUndef)"

fun js_index :: "jsv \<Rightarrow> nat \<Rightarrow> exn + jsv" where
  \<comment> \<open>\<open>v[i]\<close>\<close>
  "js_index JUndef i = Inl type_error"
| "js_index JNull i = Inl type_error"
| "js_index (JArr xs) i = Inr (list_at xs i)"
| "js_index (JStr s) i = Inr (if i < length s then JStr [s ! i] else JUndef)"
| "js_index _ i = Inr JUndef"

fun js_spread :: "jsv \<Rightarrow> exn + jsv list" where
  \<comment> \<open>the elements an array pattern takes from \<open>v\<close>; a value that is not iterable throws\<close>
  "js_spread (JArr xs) = Inr xs"
| "js_spread (JStr s) = Inr (map (\<lambda>c. JStr [c]) s)"
| "js_spread _ = Inl type_error"

fun js_string_opt :: "jsv \<Rightarrow> string option" where
  \<comment> \<open>the string of a value whose \<open>typeof\<close> is \<open>'string'\<close>\<close>
  "js_string_opt (JStr s) = Some s"
| "js_string_opt _ = None"

fun js_num_opt :: "jsv \<Rightarrow> rat option" where
  "js_num_opt (JNum x) = Some x"
| "js_num_opt _ = None"

fun js_array :: "jsv \<Rightarrow> jsv list" where
  \<comment> \<open>\<open>v || []\<close> where \<open>v\<close> is an array or missing\<close>
  "js_array (JArr xs) = xs"
| "js_array _ = []"

fun js_entries :: "jsv \<Rightarrow> (string \<times> jsv) list" where
  \<comment> \<open>what \<open>{ ...v }\<close> copies from an object\<close>
  "js_entries (JObj m) = m"
| "js_entries _ = []"

fun js_less :: "jsv \<Rightarrow> rat \<Rightarrow> bool" where
  \<comment> \<open>\<open>v < q\<close>; undefined and values that are no number compare as NaN\<close>
  "js_less (JNum x) q = (x < q)"
| "js_less JNull q = (0 < q)"
| "js_less (JBool b) q = ((if b then 1 else 0) < q)"
| "js_less _ q = False"

lemma js_or_simps [simp]:
  "truthy a \<Longrightarrow> js_or a b = a" "\<not> truthy a \<Longrightarrow> js_or a b = b"
  by (simp_all add: js_or_def)

lemma js_string_opt_Some [simp]: "js_string_opt v = Some s \<longleftrightarrow> v = JStr s"
  by (cases v) auto

lemma js_num_opt_Some [simp]: "js_num_opt v = Some x \<longleftrightarrow> v = JNum x"
  by (cases v) auto

end
