(* ===== verification/Miner_Names.thy ===== *)
theory Miner_Names
  imports JS_Value
begin

text \<open>
  The text functions of \<open>mining_pool/src/pool.js\<close> that face the network: \<open>sanitizeLog\<close>,
  \<open>getClientIp\<close>, \<open>parseMinerWorker\<close> and the patterns of \<open>resolveTnsToAddress\<close>.  The regular
  expressions are written out as the scans they describe.
\<close>

section \<open>Logging\<close>

definition json_char :: "char \<Rightarrow> string" where
  \<comment> \<open>one code unit inside a JSON string\<close>
  "json_char c =
     (let n = code_of c
      in if n = 34 then [char_of (92::nat), char_of (34::nat)]
         else if n = 92 then [char_of (92::nat), char_of (92::nat)]
         else if n = 8 then [char_of (92::nat), CHR ''b'']
         else if n = 9 then [char_of (92::nat), CHR ''t'']
         else if n = 10 then [char_of (92::nat), CHR ''n'']
         else if n = 12 then [char_of (92::nat), CHR ''f'']
         else if n = 13 then [char_of (92::nat), CHR ''r'']
         else if n < 32 then
           [char_of (92::nat), CHR ''u'', CHR ''0'', CHR ''0'', digit_char (n div 16), digit_char (n mod 16)]
         else [c])"

definition json_quote :: "string \<Rightarrow> string" where
  \<comment> \<open>\<open>JSON.stringify\<close> of a string\<close>
  "json_quote s = [char_of (34::nat)] @ concat (map json_char s) @ [char_of (34::nat)]"

definition sanitizeLog :: "jsv \<Rightarrow> string" where
  "sanitizeLog v =
     (case js_string_opt v of
        None \<Rightarrow> [char_of (34::nat), char_of (34::nat)]
      | Some s \<Rightarrow> json_quote (take 128 s))"

section \<open>Client address\<close>

definition ip_char :: "char \<Rightarrow> bool" where
  "ip_char c \<longleftrightarrow> (case digit_val c of None \<Rightarrow> c = CHR ''.'' \<or> c = CHR '':'' | Some d \<Rightarrow> d < 16)"

definition getClientIp :: "string option \<Rightarrow> string option \<Rightarrow> string" where
  \<comment> \<open>the \<open>x-forwarded-for\<close> header and the socket's remote address\<close>
  "getClientIp forwarded remoteAddress =
     (let fallback = (case remoteAddress of
                        None \<Rightarrow> ''0.0.0.0'' | Some a \<Rightarrow> if a = [] then ''0.0.0.0'' else a)
      in case forwarded of
           None \<Rightarrow> fallback
         | Some f \<Rightarrow>
             if f = [] then fallback
             else let first = js_trim (hd (js_split CHR '','' f))
                  in if first \<noteq> [] \<and> list_all ip_char first then first else fallback)"

section \<open>Worker names\<close>

record parsed_worker =
  pw_wallet :: string
  pw_worker :: string
  pw_isTns :: bool

definition alnum_char :: "char \<Rightarrow> bool" where
  \<comment> \<open>\<open>[a-z0-9]\<close> with the \<open>i\<close> flag\<close>
  "alnum_char c \<longleftrightarrow> digit_val c \<noteq> None"

definition line_terminator :: "char \<Rightarrow> bool" where
  "line_terminator c \<longleftrightarrow> code_of c \<in> {10, 13}"

definition tar_match :: "string \<Rightarrow> (string \<times> string) option" where
  \<comment> \<open>\<open>/^([a-z0-9\-]+\.tar)(?:\.(.+))?$/i\<close>: the two groups, the second empty when absent\<close>
  "tar_match s =
     (let name = takeWhile (\<lambda>c. c \<noteq> CHR ''.'') s;
          rest = drop (length name) s;
          after = drop 4 rest
      in if name = [] \<or> \<not> list_all (\<lambda>c. alnum_char c \<or> c = CHR ''-'') name then None
         else if toLowerCase (take 4 rest) \<noteq> ''.tar'' then None
         else case after of
           [] \<Rightarrow> Some (name @ take 4 rest, [])
         | c # w \<Rightarrow>
             if c = CHR ''.'' \<and> w \<noteq> [] \<and> list_all (\<lambda>x. \<not> line_terminator x) w
             then Some (name @ take 4 rest, w) else None)"

definition parseMinerWorker :: "jsv \<Rightarrow> parsed_worker" where
  "parseMinerWorker workerInput =
     (case js_string_opt workerInput of
        None \<Rightarrow> \<lparr>pw_wallet = [], pw_worker = ''default'', pw_isTns = False\<rparr>
      | Some input \<Rightarrow>
          if input = [] then \<lparr>pw_wallet = [], pw_worker = ''default'', pw_isTns = False\<rparr>
          else let str = js_trim input in
            case tar_match str of
              Some (domain, worker) \<Rightarrow>
                \<lparr>pw_wallet = toLowerCase domain,
                 pw_worker = (if worker = [] then ''default'' else worker), pw_isTns = True\<rparr>
            | None \<Rightarrow>
                (let parts = js_split CHR ''.'' str; rest = js_join ''.'' (tl parts)
                 in \<lparr>pw_wallet = hd parts,
                     pw_worker = (if rest = [] then ''default'' else rest), pw_isTns = False\<rparr>))"

section \<open>Domain and address patterns\<close>

definition lower_alnum :: "char \<Rightarrow> bool" where
  "lower_alnum c \<longleftrightarrow> (let n = code_of c in 48 \<le> n \<and> n \<le> 57 \<or> 97 \<le> n \<and> n \<le> 122)"

definition tns_domain_ok :: "string \<Rightarrow> bool" where
  \<comment> \<open>\<open>/^[a-z0-9][a-z0-9_-]{0,62}\.tar$/\<close>\<close>
  "tns_domain_ok d \<longleftrightarrow>
     endsWith d ''.tar'' \<and>
     (let name = take (length d - 4) d
      in name \<noteq> [] \<and> length name \<le> 63 \<and> lower_alnum (hd name) \<and>
         list_all (\<lambda>c. lower_alnum c \<or> c = CHR ''_'' \<or> c = CHR ''-'') (tl name))"

definition tar_address_ok :: "string \<Rightarrow> bool" where
  \<comment> \<open>\<open>/^tar1[a-z0-9]{38,62}$/i\<close>\<close>
  "tar_address_ok a \<longleftrightarrow>
     toLowerCase (take 4 a) = ''tar1'' \<and> list_all alnum_char (drop 4 a) \<and>
     42 \<le> length a \<and> length a \<le> 66"

section \<open>Facts\<close>

lemma js_split_nonempty [simp]: "js_split c s \<noteq> []"
  by (induction s) (auto split: list.splits)

lemma json_char_printable:
  "d \<in> set (json_char c) \<Longrightarrow> 32 \<le> code_of d"
proof -
  assume d: "d \<in> set (json_char c)"
  have dig: "32 \<le> code_of (digit_char k)" if "k < 16" for k
    using that by (auto simp: digit_char_def)
  have "code_of c mod 256 = code_of c"
    using of_char_of [of "code_of c"] by simp
  then have "code_of c < 256"
    by (metis mod_less_divisor zero_less_numeral)
  then have "code_of c div 16 < 16"
    by (simp add: less_mult_imp_div_less)
  with d dig [of "code_of c div 16"] dig [of "code_of c mod 16"] show ?thesis
    by (auto simp: json_char_def Let_def split: if_splits)
qed

end
