(* ===== verification/Bytes.thy ===== *)
theory Bytes
  imports Prelude
begin

text \<open>
  Node's Buffers: byte lists, hex text, and the fixed-width little-endian integers the block
  serialisation is made of.  \<open>Buffer.from(s, 'hex')\<close> stops at the first pair that is not hex;
  \<open>writeUInt32LE\<close> throws a RangeError outside \<open>0 .. 2 ^ 32 - 1\<close> and writes zeros for NaN.
\<close>

type_synonym byte = "8 word"
type_synonym bytes = "byte list"

section \<open>Hex text\<close>

definition hex_val :: "char \<Rightarrow> nat option" where
  "hex_val c = (case digit_val c of None \<Rightarrow> None | Some d \<Rightarrow> if d < 16 then Some d else None)"

fun hex_decode :: "string \<Rightarrow> bytes" where
  \<comment> \<open>\<open>Buffer.from(s, 'hex')\<close>\<close>
  "hex_decode (a # b # s) =
     (case (hex_val a, hex_val b) of
        (Some x, Some y) \<Rightarrow> of_nat (16 * x + y) # hex_decode s
      | _ \<Rightarrow> [])"
| "hex_decode _ = []"

definition hex_byte :: "byte \<Rightarrow> string" where
  "hex_byte b = [digit_char (unat b div 16), digit_char (unat b mod 16)]"

definition hex_encode :: "bytes \<Rightarrow> string" where
  \<comment> \<open>\<open>buf.toString('hex')\<close>\<close>
  "hex_encode bs = concat (map hex_byte bs)"

definition is_hex_text :: "string \<Rightarrow> bool" where
  "is_hex_text s \<longleftrightarrow> even (length s) \<and> list_all (\<lambda>c. hex_val c \<noteq> None) s"

lemma hex_val_digit_char: "d < 16 \<Longrightarrow> hex_val (digit_char d) = Some d"
  by (auto simp: hex_val_def digit_val_def digit_char_def Let_def)

lemma unat_byte_bound: "unat (b::byte) < 256"
proof -
  have "unat b < 2 ^ LENGTH(8)" by (rule unsigned_less)
  then show ?thesis by simp
qed

lemma byte_nibbles: "of_nat (16 * (unat b div 16) + unat b mod 16) = (b::byte)"
  by simp

lemma hex_decode_byte [simp]: "hex_decode (hex_byte b @ s) = b # hex_decode s"
proof -
  have "unat b div 16 < 16" using unat_byte_bound [of b] by linarith
  then show ?thesis
    by (simp add: hex_byte_def hex_val_digit_char byte_nibbles del: of_nat_add of_nat_mult)
qed

lemma hex_encode_Nil [simp]: "hex_encode [] = []"
  by (simp add: hex_encode_def)

lemma hex_encode_Cons [simp]: "hex_encode (b # bs) = hex_byte b @ hex_encode bs"
  by (simp add: hex_encode_def)

lemma hex_encode_append [simp]: "hex_encode (xs @ ys) = hex_encode xs @ hex_encode ys"
  by (simp add: hex_encode_def)

lemma hex_decode_encode_append [simp]: "hex_decode (hex_encode bs @ s) = bs @ hex_decode s"
  by (induction bs) simp_all

lemma hex_decode_encode [simp]: "hex_decode (hex_encode bs) = bs"
  using hex_decode_encode_append [of bs "[]"] by simp

lemma length_hex_byte [simp]: "length (hex_byte b) = 2"
  by (simp add: hex_byte_def)

lemma length_hex_encode [simp, codec_simps]: "length (hex_encode bs) = 2 * length bs"
  by (induction bs) simp_all

lemma hex_decode_append:
  assumes "is_hex_text s"
  shows "hex_decode (s @ t) = hex_decode s @ hex_decode t"
  using assms
  by (induction s rule: hex_decode.induct) (auto simp: is_hex_text_def split: option.splits)

lemma length_hex_decode: "is_hex_text s \<Longrightarrow> length (hex_decode s) = length s div 2"
  by (induction s rule: hex_decode.induct) (auto simp: is_hex_text_def split: option.splits)

lemma is_hex_text_encode [simp]: "is_hex_text (hex_encode bs)"
proof -
  have "list_all (\<lambda>c. hex_val c \<noteq> None) (hex_byte b)" for b
    using unat_byte_bound [of b] by (simp add: hex_byte_def hex_val_digit_char less_mult_imp_div_less)
  then show ?thesis by (induction bs) (auto simp: is_hex_text_def)
qed

lemma is_hex_text_append: "is_hex_text s \<Longrightarrow> is_hex_text t \<Longrightarrow> is_hex_text (s @ t)"
  by (auto simp: is_hex_text_def)

definition is_hex_of :: "nat \<Rightarrow> string \<Rightarrow> bool" where
  "is_hex_of n s \<longleftrightarrow> length s = 2 * n \<and> is_hex_text s"

lemma is_hex_digits: "list_all (\<lambda>c. hex_val c \<noteq> None) (radix_digits 16 n)"
proof -
  have "list_all (is_digit_of 16) (radix_digits 16 n)" using radix_digits_read [of 16 n] by simp
  moreover have "hex_val c \<noteq> None" if "is_digit_of 16 c" for c
    using that by (auto simp: is_digit_of_def hex_val_def split: option.splits)
  ultimately show ?thesis by (auto simp: list_all_iff)
qed

lemma is_hex_of_encode [simp]: "is_hex_of n (hex_encode bs) \<longleftrightarrow> length bs = n"
  by (simp add: is_hex_of_def)

lemma hex_encode_nonempty: "bs \<noteq> [] \<Longrightarrow> hex_encode bs \<noteq> []"
  by (cases bs) (simp_all add: hex_byte_def)

lemma length_decode_hex_of: "is_hex_of n s \<Longrightarrow> length (hex_decode s) = n"
  by (simp add: is_hex_of_def length_hex_decode)

lemma hex_val_zero: "hex_val (CHR ''0'') = Some 0"
  by (simp add: hex_val_def digit_val_def)

lemma pad8_hex:
  assumes "0 \<le> v" and "v < 2 ^ 32"
  shows "is_hex_of 4 (padStart 8 CHR ''0'' (int_to_string 16 v))"
proof -
  have "length (radix_digits 16 (nat v)) \<le> 8"
    using radix_digits_length [of 16 "nat v" 7] assms by simp
  moreover have "list_all (\<lambda>c. hex_val c \<noteq> None) (replicate n CHR ''0'')" for n
    by (induction n) (simp_all add: hex_val_zero)
  ultimately show ?thesis
    using assms is_hex_digits [of "nat v"]
    by (simp add: is_hex_of_def is_hex_text_def padStart_def int_to_string_def)
qed

section \<open>Integers as bytes\<close>

fun le_bytes :: "nat \<Rightarrow> nat \<Rightarrow> bytes" where
  "le_bytes 0 v = []"
| "le_bytes (Suc k) v = of_nat (v mod 256) # le_bytes k (v div 256)"

fun le_val :: "bytes \<Rightarrow> nat" where
  "le_val [] = 0"
| "le_val (b # bs) = unat b + 256 * le_val bs"

definition be_val :: "bytes \<Rightarrow> nat" where
  "be_val bs = le_val (rev bs)"

lemma length_le_bytes [simp, codec_simps]: "length (le_bytes k v) = k"
  by (induction k arbitrary: v) simp_all

lemma unat_of_nat_byte: "n < 256 \<Longrightarrow> unat (of_nat n :: byte) = n"
  by (simp add: unat_of_nat)

lemma le_val_le_bytes: "v < 256 ^ k \<Longrightarrow> le_val (le_bytes k v) = v"
proof (induction k arbitrary: v)
  case (Suc k)
  then have "v div 256 < 256 ^ k" by (simp add: less_mult_imp_div_less mult.commute)
  with Suc.IH show ?case by (simp add: unat_of_nat)
qed simp

lemma le_val_bound: "le_val bs < 256 ^ length bs"
proof (induction bs)
  case (Cons b bs)
  have "unat b + 256 * le_val bs < 256 + 256 * le_val bs" using unat_byte_bound [of b] by simp
  also have "\<dots> \<le> 256 * 256 ^ length bs" using Cons by simp
  finally show ?case by simp
qed simp

lemma le_bytes_le_val [simp]: "le_bytes (length bs) (le_val bs) = bs"
  by (induction bs) (simp_all add: unat_byte_bound)

lemma le_val_append: "le_val (xs @ ys) = le_val xs + 256 ^ length xs * le_val ys"
  by (induction xs) (simp_all add: algebra_simps)

lemma le_val_zeros [simp]: "le_val (replicate n 0) = 0"
  by (induction n) simp_all

lemma be_val_append: "be_val (xs @ ys) = be_val xs * 256 ^ length ys + be_val ys"
  by (simp add: be_val_def le_val_append)

lemma be_val_Cons: "be_val (b # bs) = unat b * 256 ^ length bs + be_val bs"
  using be_val_append [of "[b]" bs] by (simp add: be_val_def)

lemma be_val_Nil [simp]: "be_val [] = 0"
  by (simp add: be_val_def)

lemma be_val_zeros [simp]: "be_val (replicate n 0) = 0"
  by (simp add: be_val_def)

lemma be_val_bound: "be_val bs < 256 ^ length bs"
  using le_val_bound [of "rev bs"] by (simp add: be_val_def)

section \<open>Writing into a Buffer\<close>

definition range_error :: exn where
  "range_error = ''ERR_OUT_OF_RANGE''"

definition buf_copy :: "bytes \<Rightarrow> nat \<Rightarrow> bytes \<Rightarrow> bytes" where
  \<comment> \<open>\<open>src.copy(buf, off)\<close>: what does not fit is dropped\<close>
  "buf_copy src off buf =
     (let n = min (length src) (length buf - off)
      in take off buf @ take n src @ drop (off + n) buf)"

definition write_uint_le :: "nat \<Rightarrow> int option \<Rightarrow> nat \<Rightarrow> bytes \<Rightarrow> exn + bytes" where
  \<comment> \<open>\<open>buf.writeUInt32LE(v, off)\<close> for \<open>k = 4\<close>, \<open>writeUInt16LE\<close> for \<open>k = 2\<close>; None is NaN\<close>
  "write_uint_le k v off buf =
     (if length buf < off + k then Inl range_error
      else case v of
        None \<Rightarrow> Inr (buf_copy (replicate k 0) off buf)
      | Some n \<Rightarrow>
          if n < 0 \<or> 256 ^ k \<le> n then Inl range_error
          else Inr (buf_copy (le_bytes k (nat n)) off buf))"

lemma length_buf_copy [simp, codec_simps]:
  "off \<le> length buf \<Longrightarrow> length (buf_copy src off buf) = length buf"
  by (simp add: buf_copy_def Let_def)

lemma write_uint_le_length:
  "write_uint_le k v off buf = Inr buf' \<Longrightarrow> length buf' = length buf"
  by (auto simp: write_uint_le_def split: if_splits option.splits)

section \<open>Fixed-width fields\<close>

text \<open>
  A field codec writes values of a type into a fixed number of bytes.  Its clients read fields
  back out of a longer serialisation by offset.
\<close>

locale field_codec =
  fixes width :: nat
    and enc :: "'a \<Rightarrow> bytes"
    and dec :: "bytes \<Rightarrow> 'a"
    and valid :: "'a \<Rightarrow> bool"
  assumes enc_length: "length (enc x) = width"
    and dec_enc: "valid x \<Longrightarrow> dec (enc x) = x"
begin

lemma read_field:
  assumes "valid x" and "length pre = off"
  shows "dec (take width (drop off (pre @ enc x @ post))) = x"
  using assms by (simp add: enc_length dec_enc)

lemma enc_inj: "valid x \<Longrightarrow> valid y \<Longrightarrow> enc x = enc y \<Longrightarrow> x = y"
  by (metis dec_enc)

lemma skip_field: "drop width (enc x @ post) = post"
  by (simp add: enc_length)

end

interpretation u16: field_codec 2 "le_bytes 2" le_val "\<lambda>n. n < 256 ^ 2"
  by unfold_locales (simp_all add: le_val_le_bytes)

interpretation u32: field_codec 4 "le_bytes 4" le_val "\<lambda>n. n < 256 ^ 4"
  by unfold_locales (simp_all add: le_val_le_bytes)

interpretation u64: field_codec 8 "le_bytes 8" le_val "\<lambda>n. n < 256 ^ 8"
  by unfold_locales (simp_all add: le_val_le_bytes)

end
