(* ===== verification/Sha256.thy ===== *)
theory Sha256
  imports Bytes
begin

unbundle bit_operations_syntax

text \<open>
  \<open>crypto.createHash('sha256')\<close>: SHA-256 as FIPS 180-4 defines it, on bytes, and the double hash
  \<open>sha256d\<close> of the proof of work.  The message schedule is a sliding window of sixteen words,
  so the compression needs no separate table; the round constants are computed from the primes,
  as the standard defines them.
\<close>

type_synonym w32 = "32 word"

fun root_search :: "nat \<Rightarrow> nat \<Rightarrow> int \<Rightarrow> int \<Rightarrow> int" where
  \<comment> \<open>the largest \<open>r + i\<close> with \<open>i < 2 ^ b\<close> and \<open>(r + i) ^ k \<le> n\<close>, bit by bit\<close>
  "root_search k 0 n r = r"
| "root_search k (Suc b) n r =
     root_search k b n (if (r + 2 ^ b) ^ k \<le> n then r + 2 ^ b else r)"

definition root_fraction :: "nat \<Rightarrow> nat \<Rightarrow> w32" where
  \<comment> \<open>the first 32 bits of the fractional part of the \<open>k\<close>-th root of \<open>p\<close>\<close>
  "root_fraction k p = word_of_int (root_search k 37 (int p * 2 ^ (32 * k)) 0)"

definition trial_prime :: "nat \<Rightarrow> bool" where
  "trial_prime n \<longleftrightarrow> list_all (\<lambda>d. n mod d \<noteq> 0) [2..<n]"

definition sha_primes :: "nat list" where
  \<comment> \<open>the first 64 primes\<close>
  "sha_primes = filter trial_prime [2..<312]"

definition sha_k :: "w32 list" where
  "sha_k = map (root_fraction 3) sha_primes"

definition sha_h0 :: "w32 list" where
  "sha_h0 = map (root_fraction 2) (map (\<lambda>i. sha_primes ! i) [0..<8])"

definition rotr32 :: "nat \<Rightarrow> w32 \<Rightarrow> w32" where
  "rotr32 n x = drop_bit n x OR push_bit (32 - n) x"

definition sha_ch :: "w32 \<Rightarrow> w32 \<Rightarrow> w32 \<Rightarrow> w32" where
  "sha_ch x y z = (x AND y) XOR (NOT x AND z)"

definition sha_maj :: "w32 \<Rightarrow> w32 \<Rightarrow> w32 \<Rightarrow> w32" where
  "sha_maj x y z = (x AND y) XOR (x AND z) XOR (y AND z)"

definition big_sigma0 :: "w32 \<Rightarrow> w32" where
  "big_sigma0 x = rotr32 2 x XOR rotr32 13 x XOR rotr32 22 x"

definition big_sigma1 :: "w32 \<Rightarrow> w32" where
  "big_sigma1 x = rotr32 6 x XOR rotr32 11 x XOR rotr32 25 x"

definition small_sigma0 :: "w32 \<Rightarrow> w32" where
  "small_sigma0 x = rotr32 7 x XOR rotr32 18 x XOR drop_bit 3 x"

definition small_sigma1 :: "w32 \<Rightarrow> w32" where
  "small_sigma1 x = rotr32 17 x XOR rotr32 19 x XOR drop_bit 10 x"

definition sched_next :: "w32 list \<Rightarrow> w32" where
  "sched_next ws = small_sigma1 (ws ! 14) + ws ! 9 + small_sigma0 (ws ! 1) + ws ! 0"

fun sha_rounds :: "w32 list \<Rightarrow> w32 list \<Rightarrow> w32 list \<Rightarrow> w32 list" where
  "sha_rounds (k # ks) ws [a, b, c, d, e, f, g, h] =
     (let t1 = h + big_sigma1 e + sha_ch e f g + k + hd ws;
          t2 = big_sigma0 a + sha_maj a b c
      in sha_rounds ks (tl ws @ [sched_next ws]) [t1 + t2, a, b, c, d + t1, e, f, g])"
| "sha_rounds _ _ st = st"

definition sha_compress :: "w32 list \<Rightarrow> w32 list \<Rightarrow> w32 list" where
  "sha_compress st block = map2 (+) st (sha_rounds sha_k block st)"

fun be_word :: "bytes \<Rightarrow> w32" where
  "be_word bs = of_nat (be_val bs)"

fun chunks_of :: "nat \<Rightarrow> 'a list \<Rightarrow> 'a list list" where
  "chunks_of n xs = (if n = 0 \<or> xs = [] then [] else take n xs # chunks_of n (drop n xs))"

declare chunks_of.simps [simp del]

definition sha_pad :: "bytes \<Rightarrow> bytes" where
  "sha_pad bs =
     bs @ [0x80] @ replicate ((119 - length bs mod 64) mod 64) 0 @ rev (le_bytes 8 (8 * length bs))"

definition sha_word_bytes :: "w32 \<Rightarrow> bytes" where
  "sha_word_bytes w = rev (le_bytes 4 (unat w))"

definition sha256 :: "bytes \<Rightarrow> bytes" where
  "sha256 bs =
     concat (map sha_word_bytes
       (foldl sha_compress sha_h0 (map (\<lambda>c. map be_word (chunks_of 4 c)) (chunks_of 64 (sha_pad bs)))))"

definition sha256d :: "bytes \<Rightarrow> bytes" where
  "sha256d buffer = sha256 (sha256 buffer)"

section \<open>A digest has 32 bytes\<close>

lemma length_sha_rounds: "length st = 8 \<Longrightarrow> length (sha_rounds ks ws st) = 8"
  by (induction ks ws st rule: sha_rounds.induct) (simp_all add: Let_def)

lemma length_sha_compress: "length st = 8 \<Longrightarrow> length (sha_compress st block) = 8"
  by (simp add: sha_compress_def length_sha_rounds)

lemma length_sha_fold: "length st = 8 \<Longrightarrow> length (foldl sha_compress st blocks) = 8"
  by (induction blocks arbitrary: st) (simp_all add: length_sha_compress)

lemma length_sha256 [simp, codec_simps]: "length (sha256 bs) = 32"
proof -
  have "length (concat (map sha_word_bytes ws)) = 4 * length ws" for ws
    by (induction ws) (simp_all add: sha_word_bytes_def)
  then show ?thesis
    by (simp add: sha256_def length_sha_fold sha_h0_def)
qed

lemma length_sha256d [simp, codec_simps]: "length (sha256d bs) = 32"
  by (simp add: sha256d_def)

end
