(* ===== verification/Block_Codec.thy ===== *)
theory Block_Codec
  imports Sha256
begin

unbundle bit_operations_syntax

text \<open>
  The serialisation helpers of \<open>mining_pool/src/pool.js\<close>: compact targets, the Stratum form of
  the previous hash, CompactSize integers, the 80-byte header and the target comparison.  The
  lemmas say what the bytes mean: the value of a target, what the comparison decides, the value a
  reader of a CompactSize gets, and the six fields of a header on every branch.
\<close>

section \<open>Targets\<close>

definition to_uint32 :: "int option \<Rightarrow> 32 word" where
  \<comment> \<open>ToUint32 (and ToInt32, read with \<open>sint\<close>); NaN becomes 0\<close>
  "to_uint32 v = (case v of None \<Rightarrow> 0 | Some n \<Rightarrow> word_of_int n)"

definition nBitsToTarget :: "string \<Rightarrow> bytes" where
  "nBitsToTarget nBits =
     (let nBitsInt = to_uint32 (js_parseInt 16 nBits);
          exponent = unat (drop_bit 24 nBitsInt AND 0xff);
          mantissa = nBitsInt AND 0x007fffff;
          target = replicate 32 0;
          start = 32 - int exponent
      in if 0 \<le> start \<and> start < 32 then
           let i = nat start;
               t0 = target[i := ucast (drop_bit 16 mantissa AND 0xff)];
               t1 = (if i + 1 < 32 then t0[i + 1 := ucast (drop_bit 8 mantissa AND 0xff)] else t0);
               t2 = (if i + 2 < 32 then t1[i + 2 := ucast (mantissa AND 0xff)] else t1)
           in t2
         else target)"

fun be_compare :: "bytes \<Rightarrow> bytes \<Rightarrow> bool" where
  "be_compare (x # xs) (y # ys) = (if x < y then True else if y < x then False else be_compare xs ys)"
| "be_compare _ _ = True"

definition hashMeetsTarget :: "bytes \<Rightarrow> bytes \<Rightarrow> bool" where
  "hashMeetsTarget hashBuf targetBuf = be_compare (take 32 (rev hashBuf)) (take 32 targetBuf)"

section \<open>Previous hash and CompactSize\<close>

definition byte_at :: "bytes \<Rightarrow> nat \<Rightarrow> byte" where
  \<comment> \<open>a byte stored from \<open>buf[i]\<close>; \<open>undefined\<close> is stored as 0\<close>
  "byte_at buf i = (if i < length buf then buf ! i else 0)"

definition formatPrevHashForStratum :: "string \<Rightarrow> string" where
  "formatPrevHashForStratum hex =
     (let buf = rev (hex_decode hex)
      in hex_encode (concat (map
           (\<lambda>i. [byte_at buf (i + 3), byte_at buf (i + 2), byte_at buf (i + 1), byte_at buf i])
           [0, 4, 8, 12, 16, 20, 24, 28])))"

definition encodeVarInt :: "nat \<Rightarrow> exn + string" where
  "encodeVarInt n =
     (if n < 0xfd then Inr (padStart 2 CHR ''0'' (radix_digits 16 n))
      else res_bind (write_uint_le 2 (Some (int n)) 1 [0xfd, 0, 0]) (\<lambda>buf. Inr (hex_encode buf)))"

section \<open>The block header\<close>

definition buildBlockHeader ::
  "string \<Rightarrow> string \<Rightarrow> string \<Rightarrow> string \<Rightarrow> string \<Rightarrow> string \<Rightarrow> exn + bytes" where
  "buildBlockHeader version prevHash merkleRoot nTime nBits nonce =
     (let buf0 = replicate 80 0 in
      res_bind (write_uint_le 4 (js_parseInt 16 version) 0 buf0) (\<lambda>buf1.
      let buf2 = buf_copy (rev (hex_decode prevHash)) 4 buf1;
          buf3 = buf_copy (hex_decode merkleRoot) 36 buf2 in
      res_bind (write_uint_le 4 (js_parseInt 16 nTime) 68 buf3) (\<lambda>buf4.
      res_bind (write_uint_le 4 (js_parseInt 16 nBits) 72 buf4) (\<lambda>buf5.
      write_uint_le 4 (js_parseInt 16 nonce) 76 buf5))))"

definition rollVersion :: "string \<Rightarrow> string \<Rightarrow> string" where
  \<comment> \<open>\<open>(parseInt(t.version, 16) | parseInt(bits, 16)).toString(16).padStart(8, '0')\<close>: the operator
     works on signed 32-bit integers\<close>
  "rollVersion version bits =
     (let v = to_uint32 (js_parseInt 16 version) OR to_uint32 (js_parseInt 16 bits)
      in padStart 8 CHR ''0'' (int_to_string 16 (sint v)))"

section \<open>What the comparison decides\<close>

lemma be_compare_iff:
  "length xs = length ys \<Longrightarrow> be_compare xs ys \<longleftrightarrow> be_val xs \<le> be_val ys"
proof (induction xs ys rule: be_compare.induct)
  case (1 x xs y ys)
  then have len: "length xs = length ys" by simp
  have bx: "be_val xs < 256 ^ length ys" and by_: "be_val ys < 256 ^ length ys"
    using be_val_bound [of xs] be_val_bound [of ys] len by simp_all
  consider "unat x < unat y" | "unat y < unat x" | "x = y"
    by (metis linorder_neqE_nat word_unat_eq_iff)
  then show ?case
  proof cases
    case 1
    then have "Suc (unat x) * 256 ^ length ys \<le> unat y * 256 ^ length ys"
      by (intro mult_le_mono1) simp
    with bx 1 show ?thesis
      by (simp add: be_val_Cons len word_less_nat_alt)
  next
    case 2
    then have "Suc (unat y) * 256 ^ length ys \<le> unat x * 256 ^ length ys"
      by (intro mult_le_mono1) simp
    with by_ 2 show ?thesis
      by (simp add: be_val_Cons len word_less_nat_alt)
  next
    case 3
    with "1.IH" [of] len show ?thesis by (simp add: be_val_Cons)
  qed
qed auto

lemma hashMeetsTarget_iff:
  assumes "length h = 32" and "length t = 32"
  shows "hashMeetsTarget h t \<longleftrightarrow> le_val h \<le> be_val t"
  using assms be_compare_iff [of "rev h" t]
  by (simp add: hashMeetsTarget_def be_val_def)

section \<open>The value of a compact target\<close>

definition compact_exponent :: "string \<Rightarrow> nat" where
  "compact_exponent nBits = unat (drop_bit 24 (to_uint32 (js_parseInt 16 nBits)))"

definition compact_mantissa :: "string \<Rightarrow> nat" where
  "compact_mantissa nBits = unat (to_uint32 (js_parseInt 16 nBits) AND 0x007fffff)"

lemma unat_and_mask: "unat ((w::32 word) AND mask k) = unat w mod 2 ^ k"
proof -
  have "w AND mask k = take_bit k w" by (simp add: take_bit_eq_mask)
  then have "unat (w AND mask k) = take_bit k (unat w)" by (simp only: unsigned_take_bit_eq)
  then show ?thesis by (simp only: take_bit_eq_mod)
qed

lemma unat_and_ff: "unat ((w::32 word) AND 0xff) = unat w mod 256"
  using unat_and_mask [of w 8] by (simp add: mask_eq_exp_minus_1)

lemma unat_and_7fffff: "unat ((w::32 word) AND 0x7fffff) = unat w mod 2 ^ 23"
  using unat_and_mask [of w 23] by (simp add: mask_eq_exp_minus_1)

lemma unat_ucast_byte: "unat (ucast (w::32 word) :: byte) = unat w mod 256"
  by (simp add: unsigned_ucast_eq take_bit_eq_mod)

lemma unat_drop_bit_div: "unat (drop_bit k (w::32 word)) = unat w div 2 ^ k"
  by (simp only: unat_drop_bit_eq) (simp only: drop_bit_eq_div)

definition mantissa_bytes :: "32 word \<Rightarrow> bytes" where
  "mantissa_bytes m =
     [ucast (drop_bit 16 m AND 0xff), ucast (drop_bit 8 m AND 0xff), ucast (m AND 0xff)]"

lemma be_val_mantissa_bytes: "unat m < 2 ^ 24 \<Longrightarrow> be_val (mantissa_bytes m) = unat m"
proof -
  assume "unat m < 2 ^ 24"
  then have "unat m div 65536 < 256" by (simp add: less_mult_imp_div_less)
  then have "be_val (mantissa_bytes m) =
      unat m div 65536 * 65536 + (unat m div 256 mod 256) * 256 + unat m mod 256"
    by (simp add: mantissa_bytes_def be_val_Cons unat_ucast_byte unat_and_ff unat_drop_bit_div)
  also have "\<dots> = unat m"
  proof -
    have "unat m div 65536 = unat m div 256 div 256" by (simp add: div_mult2_eq [symmetric])
    moreover have "unat m div 256 div 256 * 256 + unat m div 256 mod 256 = unat m div 256"
      by simp
    moreover have "unat m div 256 * 256 + unat m mod 256 = unat m" by simp
    ultimately show ?thesis by linarith
  qed
  finally show ?thesis .
qed

lemma be_val_take: "k \<le> length bs \<Longrightarrow> be_val (take k bs) = be_val bs div 256 ^ (length bs - k)"
proof -
  assume "k \<le> length bs"
  then have len: "length (drop k bs) = length bs - k" by simp
  have "be_val bs = be_val (take k bs @ drop k bs)" by simp
  also have "\<dots> = be_val (take k bs) * 256 ^ (length bs - k) + be_val (drop k bs)"
    by (simp only: be_val_append len)
  finally show ?thesis using be_val_bound [of "drop k bs"] len by simp
qed

lemma target_layout:
  assumes "i < 32"
  shows "(let t0 = (replicate 32 0)[i := a];
              t1 = (if i + 1 < 32 then t0[i + 1 := b] else t0)
          in if i + 2 < 32 then t1[i + 2 := c] else t1)
       = replicate i 0 @ take (32 - i) ([a, b, c] @ replicate 29 (0::byte))"
    (is "?l = ?r")
proof (rule nth_equalityI)
  show "length ?l = length ?r" using assms by (simp add: Let_def)
  fix j assume "j < length ?l"
  then have j: "j < 32" by (simp add: Let_def split: if_splits)
  consider "j < i" | "j = i" | "j = i + 1" | "j = i + 2" | "i + 2 < j" by linarith
  then show "?l ! j = ?r ! j"
    using j assms
    by cases (auto simp: Let_def nth_append nth_Cons' nth_list_update)
qed

lemma nBitsToTarget_eq:
  assumes "1 \<le> compact_exponent s" and "compact_exponent s \<le> 32"
  shows "nBitsToTarget s =
    replicate (32 - compact_exponent s) 0 @
    take (compact_exponent s)
      (mantissa_bytes (to_uint32 (js_parseInt 16 s) AND 0x007fffff) @ replicate 29 0)"
proof -
  let ?n = "to_uint32 (js_parseInt 16 s)" and ?e = "compact_exponent s"
  have "unat (drop_bit 24 ?n) < 256"
    by (simp add: unat_drop_bit_div less_mult_imp_div_less unsigned_less [of ?n, simplified])
  then have e: "unat (drop_bit 24 ?n AND 0xff) = ?e"
    by (simp add: unat_and_ff compact_exponent_def)
  have i: "nat (32 - int ?e) = 32 - ?e" and lt: "32 - ?e < 32" using assms by simp_all
  have c: "0 \<le> 32 - int ?e \<and> 32 - int ?e < 32" using assms by simp
  let ?m = "?n AND 0x007fffff"
  let ?a = "ucast (drop_bit 16 ?m AND 0xff)" and ?b = "ucast (drop_bit 8 ?m AND 0xff)"
    and ?c = "ucast (?m AND 0xff) :: byte"
  have "nBitsToTarget s =
     (let t0 = (replicate 32 0)[32 - ?e := ?a];
          t1 = (if 32 - ?e + 1 < 32 then t0[32 - ?e + 1 := ?b] else t0)
      in if 32 - ?e + 2 < 32 then t1[32 - ?e + 2 := ?c] else t1)"
    unfolding nBitsToTarget_def Let_def e by (simp only: c i if_True simp_thms)
  also have "\<dots> = replicate (32 - ?e) 0 @ take (32 - (32 - ?e)) ([?a, ?b, ?c] @ replicate 29 0)"
    by (rule target_layout [OF lt])
  finally show ?thesis using assms(2) by (simp only: mantissa_bytes_def diff_diff_cancel)
qed

lemma nBitsToTarget_outside:
  assumes "compact_exponent s = 0 \<or> 32 < compact_exponent s"
  shows "nBitsToTarget s = replicate 32 0"
proof -
  let ?n = "to_uint32 (js_parseInt 16 s)"
  have "unat (drop_bit 24 ?n) < 256"
    by (simp add: unat_drop_bit_div less_mult_imp_div_less unsigned_less [of ?n, simplified])
  then have e: "unat (drop_bit 24 ?n AND 0xff) = compact_exponent s"
    by (simp add: unat_and_ff compact_exponent_def)
  show ?thesis unfolding nBitsToTarget_def Let_def e using assms by auto
qed

lemma length_nBitsToTarget [simp, codec_simps]: "length (nBitsToTarget s) = 32"
  by (simp add: nBitsToTarget_def Let_def)

lemma nBitsToTarget_value:
  "be_val (nBitsToTarget s) =
     (if 1 \<le> compact_exponent s \<and> compact_exponent s \<le> 32
      then compact_mantissa s * 256 ^ compact_exponent s div 256 ^ 3 else 0)"
proof (cases "1 \<le> compact_exponent s \<and> compact_exponent s \<le> 32")
  case True
  let ?e = "compact_exponent s" and ?m = "to_uint32 (js_parseInt 16 s) AND 0x007fffff"
  have m: "unat ?m < 2 ^ 24"
    by (simp add: unat_and_7fffff)
  have len: "length (mantissa_bytes ?m @ replicate 29 0) = 32" by (simp add: mantissa_bytes_def)
  have "be_val (nBitsToTarget s) = be_val (take ?e (mantissa_bytes ?m @ replicate 29 0))"
    using True by (simp add: nBitsToTarget_eq be_val_append)
  also have "\<dots> = be_val (mantissa_bytes ?m @ replicate 29 0) div 256 ^ (32 - ?e)"
    using True len by (subst be_val_take) simp_all
  also have "be_val (mantissa_bytes ?m @ replicate 29 0) = compact_mantissa s * 256 ^ 29"
    using m by (simp only: be_val_append be_val_mantissa_bytes length_replicate be_val_zeros
        compact_mantissa_def add_0_right)
  also have "compact_mantissa s * 256 ^ 29 div 256 ^ (32 - ?e) =
      (compact_mantissa s * 256 ^ 29) * 256 ^ ?e div (256 ^ (32 - ?e) * 256 ^ ?e)"
    by (rule div_mult_mult2 [symmetric]) simp
  also have "256 ^ (32 - ?e) * 256 ^ ?e = (256 ^ 3 * 256 ^ 29 :: nat)"
    using True by (simp flip: power_add)
  also have "(compact_mantissa s * 256 ^ 29) * 256 ^ ?e = (compact_mantissa s * 256 ^ ?e) * 256 ^ 29"
    by (simp only: ac_simps)
  also have "\<dots> div (256 ^ 3 * 256 ^ 29) = compact_mantissa s * 256 ^ ?e div 256 ^ 3"
    by (rule div_mult_mult2) simp
  finally show ?thesis using True by simp
next
  case False
  then have "compact_exponent s = 0 \<or> 32 < compact_exponent s" by linarith
  with False show ?thesis by (auto simp: nBitsToTarget_outside)
qed

section \<open>CompactSize integers\<close>

definition varint_bytes :: "nat \<Rightarrow> bytes" where
  "varint_bytes n = (if n < 0xfd then [of_nat n] else 0xfd # le_bytes 2 n)"

definition compact_size :: "bytes \<Rightarrow> (nat \<times> bytes) option" where
  \<comment> \<open>how the network reads a CompactSize: the value and the remaining bytes\<close>
  "compact_size bs =
     (case bs of
        [] \<Rightarrow> None
      | b # r \<Rightarrow>
          if unat b < 0xfd then Some (unat b, r)
          else let k = (if b = 0xfd then 2 else if b = 0xfe then 4 else 8)
               in if length r < k then None else Some (le_val (take k r), drop k r))"

lemma hex_byte_padStart:
  assumes "n < 256"
  shows "padStart 2 CHR ''0'' (radix_digits 16 n) = hex_byte (of_nat n)"
proof -
  have u: "unat (of_nat n :: byte) = n" using assms by (rule unat_of_nat_byte)
  have z: "digit_char 0 = CHR ''0''" by code_simp
  show ?thesis
  proof (cases "n < 16")
    case True
    then show ?thesis
      by (simp add: radix_digits.simps [of 16 n] padStart_def hex_byte_def u z)
  next
    case False
    have "n div 16 < 16" using assms by linarith
    with False show ?thesis
      by (simp add: radix_digits.simps [of 16 n] radix_digits.simps [of 16 "n div 16"]
          padStart_def hex_byte_def u)
  qed
qed

lemma encodeVarInt_ok:
  assumes "n < 65536"
  shows "encodeVarInt n = Inr (hex_encode (varint_bytes n))"
  using assms
  by (simp add: encodeVarInt_def varint_bytes_def hex_byte_padStart write_uint_le_def
      buf_copy_def nat_int)

lemma encodeVarInt_error: "65536 \<le> n \<Longrightarrow> encodeVarInt n = Inl range_error"
  by (simp add: encodeVarInt_def write_uint_le_def)

lemma compact_size_varint [codec_simps]:
  "n < 65536 \<Longrightarrow> compact_size (varint_bytes n @ r) = Some (n, r)"
  using le_val_le_bytes [of n 2]
  by (auto simp: compact_size_def varint_bytes_def unat_of_nat_byte Let_def)

section \<open>Header fields\<close>

definition u32_ok :: "int option \<Rightarrow> bool" where
  "u32_ok v = (case v of None \<Rightarrow> True | Some n \<Rightarrow> 0 \<le> n \<and> n < 2 ^ 32)"

definition u32_field :: "int option \<Rightarrow> bytes" where
  "u32_field v = le_bytes 4 (case v of None \<Rightarrow> 0 | Some n \<Rightarrow> nat n)"

lemma length_u32_field [simp]: "length (u32_field v) = 4"
  by (simp add: u32_field_def)

lemma le_bytes_0: "le_bytes k 0 = replicate k 0"
  by (induction k) simp_all

lemma buf_copy_zeros:
  "length src \<le> n \<Longrightarrow> length a = off \<Longrightarrow>
   buf_copy src off (a @ replicate n 0) = a @ src @ replicate (n - length src) 0"
  by (simp add: buf_copy_def Let_def)

lemma write_u32_zeros:
  assumes "length a = off" and "4 \<le> n"
  shows "write_uint_le 4 v off (a @ replicate n 0) =
    (if u32_ok v then Inr (a @ u32_field v @ replicate (n - 4) 0) else Inl range_error)"
  using assms
  by (cases v)
     (auto simp: write_uint_le_def u32_ok_def u32_field_def le_bytes_0 buf_copy_zeros)

lemma buildBlockHeader_eq:
  assumes "length (hex_decode prevHash) = 32" and "length (hex_decode merkleRoot) = 32"
  shows "buildBlockHeader version prevHash merkleRoot nTime nBits nonce =
    (let v = js_parseInt 16 version; t = js_parseInt 16 nTime;
         b = js_parseInt 16 nBits; n = js_parseInt 16 nonce
     in if u32_ok v \<and> u32_ok t \<and> u32_ok b \<and> u32_ok n
        then Inr (u32_field v @ rev (hex_decode prevHash) @ hex_decode merkleRoot @
                  u32_field t @ u32_field b @ u32_field n)
        else Inl range_error)"
proof -
  have v: "write_uint_le 4 w 0 (replicate 80 0) =
      (if u32_ok w then Inr (u32_field w @ replicate 76 0) else Inl range_error)" for w
    using write_u32_zeros [of "[]" 0 80 w] by simp
  have p: "buf_copy (rev (hex_decode prevHash)) 4 (u32_field w @ replicate 76 0) =
      (u32_field w @ rev (hex_decode prevHash)) @ replicate 44 0" for w
    using assms by (simp add: buf_copy_zeros)
  have m: "buf_copy (hex_decode merkleRoot) 36
        ((u32_field w @ rev (hex_decode prevHash)) @ replicate 44 0) =
      (u32_field w @ rev (hex_decode prevHash) @ hex_decode merkleRoot) @ replicate 12 0" for w
    using assms buf_copy_zeros [of "hex_decode merkleRoot" 44 "u32_field w @ rev (hex_decode prevHash)" 36]
    by simp
  have f: "write_uint_le 4 w off (a @ replicate k 0) =
      (if u32_ok w then Inr ((a @ u32_field w) @ replicate (k - 4) 0) else Inl range_error)"
    if "length a = off" "4 \<le> k" for w a off k
    using write_u32_zeros [OF that, of w] by simp
  show ?thesis
    using assms by (simp add: buildBlockHeader_def Let_def v p m f del: append_assoc)
qed

lemma buildBlockHeader_length:
  "buildBlockHeader version prevHash merkleRoot nTime nBits nonce = Inr h \<Longrightarrow> length h = 80"
  unfolding buildBlockHeader_def Let_def
  by (auto simp: res_bind_eq_Inr dest!: write_uint_le_length)

section \<open>Stratum's previous hash\<close>

definition word_swap :: "bytes \<Rightarrow> bytes" where
  \<comment> \<open>the eight 4-byte words of a hash in reverse order\<close>
  "word_swap bs = concat (map (\<lambda>k. take 4 (drop k bs)) [28, 24, 20, 16, 12, 8, 4, 0])"

lemma drop_split4: "drop k bs = take 4 (drop k bs) @ drop (k + 4) bs"
  by (metis append_take_drop_id drop_drop add.commute)

lemma list_32_cases:
  assumes "length (bs :: 'a list) = 32"
  obtains a b c d e f g h where
    "bs = a @ b @ c @ d @ e @ f @ g @ h"
    "length a = 4" "length b = 4" "length c = 4" "length d = 4"
    "length e = 4" "length f = 4" "length g = 4" "length h = 4"
proof -
  let ?s = "\<lambda>i. take 4 (drop i bs)"
  have "bs = ?s 0 @ drop 4 bs" using drop_split4 [of 0 bs] by simp
  also have "drop 4 bs = ?s 4 @ drop 8 bs" using drop_split4 [of 4 bs] by simp
  also have "drop 8 bs = ?s 8 @ drop 12 bs" using drop_split4 [of 8 bs] by simp
  also have "drop 12 bs = ?s 12 @ drop 16 bs" using drop_split4 [of 12 bs] by simp
  also have "drop 16 bs = ?s 16 @ drop 20 bs" using drop_split4 [of 16 bs] by simp
  also have "drop 20 bs = ?s 20 @ drop 24 bs" using drop_split4 [of 20 bs] by simp
  also have "drop 24 bs = ?s 24 @ drop 28 bs" using drop_split4 [of 24 bs] by simp
  also have "drop 28 bs = ?s 28" using assms by simp
  finally show ?thesis by (rule that) (use assms in simp_all)
qed

lemma take4_nth:
  "k + 4 \<le> length bs \<Longrightarrow> take 4 (drop k bs) = [bs ! k, bs ! (k + 1), bs ! (k + 2), bs ! (k + 3)]"
  by (auto intro!: nth_equalityI simp: less_Suc_eq numeral_eq_Suc)

lemma formatPrevHash_eq:
  assumes "length (hex_decode hex) = 32"
  shows "formatPrevHashForStratum hex = hex_encode (word_swap (hex_decode hex))"
proof -
  let ?bs = "hex_decode hex"
  have g: "[byte_at (rev ?bs) (i + 3), byte_at (rev ?bs) (i + 2), byte_at (rev ?bs) (i + 1),
      byte_at (rev ?bs) i] = take 4 (drop (28 - i) ?bs)" if "i \<le> 28" for i
  proof -
    have "29 - i = Suc (28 - i)" "30 - i = Suc (Suc (28 - i))" using that by linarith+
    then show ?thesis using that assms
      by (subst take4_nth) (auto simp: byte_at_def rev_nth algebra_simps)
  qed
  have "map (\<lambda>i. [byte_at (rev ?bs) (i + 3), byte_at (rev ?bs) (i + 2), byte_at (rev ?bs) (i + 1),
      byte_at (rev ?bs) i]) [0, 4, 8, 12, 16, 20, 24, 28] =
    map (\<lambda>i. take 4 (drop (28 - i) ?bs)) [0, 4, 8, 12, 16, 20, 24, 28]"
    by (rule map_cong) (auto simp only: g list.set insert_iff empty_iff)
  then show ?thesis
    by (simp only: formatPrevHashForStratum_def word_swap_def Let_def) simp
qed

lemma length_word_swap: "length bs = 32 \<Longrightarrow> length (word_swap bs) = 32"
  by (simp add: word_swap_def)

lemma word_swap_involution: "length bs = 32 \<Longrightarrow> word_swap (word_swap bs) = bs"
  by (erule list_32_cases) (simp add: word_swap_def)

lemmas js_parseInt_eval =
  js_parseInt_def digits_val_def is_digit_of_def digit_val_def is_space_def startsWith_def

lemma parse_1d00ffff: "js_parseInt 16 ''1d00ffff'' = Some 0x1d00ffff"
  by (simp add: js_parseInt_eval)

lemma le_bytes_4:
  "le_bytes 4 n = [of_nat (n mod 256), of_nat (n div 256 mod 256),
     of_nat (n div 256 div 256 mod 256), of_nat (n div 256 div 256 div 256 mod 256)]"
proof -
  have four: "4 = Suc (Suc (Suc (Suc 0)))" by simp
  show ?thesis unfolding four le_bytes.simps ..
qed

section \<open>Properties\<close>

text \<open>
  C15. For every compact difficulty text the pool can be given, a 32-byte hash meets the target
  that \<open>nBitsToTarget\<close> builds exactly when the hash, read as the little-endian number of the
  protocol, is at most \<open>mantissa * 256 ^ (exponent - 3)\<close> (rounded down); an exponent of 0 or
  above 32 gives the zero target.
\<close>

theorem hash_meets_compact_target:
  assumes "length h = 32"
  shows "hashMeetsTarget h (nBitsToTarget nBits) \<longleftrightarrow>
    le_val h \<le> (if 1 \<le> compact_exponent nBits \<and> compact_exponent nBits \<le> 32
                then compact_mantissa nBits * 256 ^ compact_exponent nBits div 256 ^ 3 else 0)"
  using assms by (simp only: hashMeetsTarget_iff length_nBitsToTarget nBitsToTarget_value)

theorem hash_meets_compact_target_witness:
  "\<not> hashMeetsTarget (replicate 31 0 @ [1]) (nBitsToTarget ''1d00ffff'') \<and>
   hashMeetsTarget (replicate 32 0) (nBitsToTarget ''1d00ffff'')"
  using hash_meets_compact_target [of "replicate 31 0 @ [1]" "''1d00ffff''"]
    hash_meets_compact_target [of "replicate 32 0" "''1d00ffff''"]
  by (simp add: compact_exponent_def compact_mantissa_def parse_1d00ffff to_uint32_def
      le_val_append le_val_zeros)

text \<open>
  \<open>buildBlockHeader\<close> lays out the 80-byte header on every branch: version, the previous hash
  reversed, the Merkle root as it is, time, bits and nonce, each integer little endian, when all
  four integers parse into 32 bits (an unparsable one counts as 0); otherwise it throws the
  range error of \<open>writeUInt32LE\<close>.
\<close>

lemma header_layout:
  assumes "length (hex_decode prevHash) = 32" and "length (hex_decode merkleRoot) = 32"
  shows "buildBlockHeader version prevHash merkleRoot nTime nBits nonce =
    (if u32_ok (js_parseInt 16 version) \<and> u32_ok (js_parseInt 16 nTime) \<and>
        u32_ok (js_parseInt 16 nBits) \<and> u32_ok (js_parseInt 16 nonce)
     then Inr (u32_field (js_parseInt 16 version) @ rev (hex_decode prevHash) @
               hex_decode merkleRoot @ u32_field (js_parseInt 16 nTime) @
               u32_field (js_parseInt 16 nBits) @ u32_field (js_parseInt 16 nonce))
     else Inl range_error)"
  using buildBlockHeader_eq [OF assms] by (simp only: Let_def)

lemma header_layout_witness:
  "buildBlockHeader ''20000000'' (hex_encode (replicate 32 1)) (hex_encode (replicate 32 2))
     ''65000000'' ''1d00ffff'' ''00000007'' =
   Inr ([0, 0, 0, 32] @ replicate 32 1 @ replicate 32 2 @ [0, 0, 0, 101] @ [255, 255, 0, 29] @
        [7, 0, 0, 0])"
  using header_layout [of "hex_encode (replicate 32 1)" "hex_encode (replicate 32 2)"
      "''20000000''" "''65000000''" "''1d00ffff''" "''00000007''"]
  by (simp add: parse_1d00ffff js_parseInt_eval u32_ok_def u32_field_def le_bytes_4)

text \<open>
  The Stratum form of the previous hash is the hash with its eight 4-byte words in reverse
  order, and reordering the words again, as a miner does, gives the original hash back.
\<close>

lemma stratum_prevhash:
  assumes "length (hex_decode hex) = 32"
  shows "hex_decode (formatPrevHashForStratum hex) = word_swap (hex_decode hex) \<and>
         word_swap (hex_decode (formatPrevHashForStratum hex)) = hex_decode hex"
  using assms by (simp add: formatPrevHash_eq word_swap_involution)

lemma stratum_prevhash_witness:
  "hex_decode (formatPrevHashForStratum (hex_encode (map of_nat [0..<32]))) =
   word_swap (map of_nat [0..<32])"
  using stratum_prevhash [of "hex_encode (map of_nat [0..<32])"] by simp

text \<open>
  A count below 65536 written by \<open>encodeVarInt\<close> is read back by the network's CompactSize
  reader, whatever follows it; the function throws exactly on larger counts.
\<close>

lemma varint_roundtrip:
  "(case encodeVarInt n of
      Inr s \<Rightarrow> n < 65536 \<and> compact_size (hex_decode s @ r) = Some (n, r)
    | Inl e \<Rightarrow> 65536 \<le> n \<and> e = range_error)"
  by (cases "n < 65536") (simp_all add: encodeVarInt_ok encodeVarInt_error compact_size_varint)

end
