(* ===== verification/Coinbase.thy ===== *)
theory Coinbase
  imports Block_Codec
begin

text \<open>
  The coinbase transaction and the Merkle branch of a job (\<open>refreshBlockTemplate\<close> and
  \<open>buildSoloCoinbase\<close> of \<open>mining_pool/src/pool.js\<close>).  The lemmas read the transaction back with a
  parser written from the wire format: the amounts it pays, the scripts it pays to, and the
  height it carries, compared with the encoding the node insists on (\<open>CScript() << nHeight\<close>).
  Folding the branch into the coinbase hash gives the Merkle root of the whole block.
\<close>

section \<open>Coinbase halves\<close>

fun trim_end :: "bytes \<Rightarrow> nat \<Rightarrow> nat" where
  \<comment> \<open>\<open>while (end > 1 && buf[end - 1] === 0) end--\<close>\<close>
  "trim_end buf (Suc (Suc k)) = (if buf ! Suc k = 0 then trim_end buf (Suc k) else Suc (Suc k))"
| "trim_end buf n = n"

definition heightScript :: "nat \<Rightarrow> exn + string" where
  "heightScript height =
     res_bind (write_uint_le 4 (Some (int height)) 0 (replicate 4 0)) (\<lambda>heightBuf.
       let e = trim_end heightBuf 4
       in Inr (hex_encode (of_nat e # take e heightBuf)))"

definition buildCoinbase1 :: "nat \<Rightarrow> exn + string" where
  "buildCoinbase1 height =
     res_bind (heightScript height) (\<lambda>hs.
       Inr (''01000000'' @ ''01'' @ replicate 64 CHR ''0'' @ ''ffffffff'' @
            hex_byte (of_nat (length hs div 2 + 8)) @ hs))"

definition amountHex :: "int \<Rightarrow> exn + string" where
  \<comment> \<open>\<open>writeBigUInt64LE(BigInt(amount), 0)\<close>, in hex\<close>
  "amountHex amount =
     res_bind (write_uint_le 8 (Some amount) 0 (replicate 8 0)) (\<lambda>buf. Inr (hex_encode buf))"

definition txOutput :: "int \<Rightarrow> string \<Rightarrow> exn + string" where
  \<comment> \<open>amount, script length, script; \<open>script\<close> is whole-byte hex text\<close>
  "txOutput amount script =
     res_bind (amountHex amount) (\<lambda>a.
     res_bind (encodeVarInt (length script div 2)) (\<lambda>n.
       Inr (a @ n @ script)))"

definition witnessOutputHex :: "string \<Rightarrow> exn + string" where
  "witnessOutputHex commitment = (if commitment \<noteq> [] then txOutput 0 commitment else Inr [])"

definition poolScriptPubKey :: string where
  "poolScriptPubKey = ''00140de17bfae2199542aefe26f3dc8d0bd475475e31''"

definition buildPoolCoinbase2 :: "int \<Rightarrow> string \<Rightarrow> exn + string" where
  "buildPoolCoinbase2 blockReward commitment =
     res_bind (txOutput blockReward poolScriptPubKey) (\<lambda>rewardOutput.
     res_bind (witnessOutputHex commitment) (\<lambda>witnessOutput.
       Inr (''ffffffff'' @ (if witnessOutput \<noteq> [] then ''02'' else ''01'') @
            rewardOutput @ witnessOutput @ ''00000000'')))"

definition soloFeeAmount :: "rat \<Rightarrow> int \<Rightarrow> int" where
  \<comment> \<open>\<open>Math.floor(blockReward * (soloState.fee / 100))\<close>\<close>
  "soloFeeAmount fee blockReward = math_floor (js_mul (of_int blockReward) (js_div fee 100))"

definition buildSoloCoinbase2 :: "rat \<Rightarrow> int \<Rightarrow> string \<Rightarrow> string \<Rightarrow> string \<Rightarrow> exn + string" where
  "buildSoloCoinbase2 fee blockReward minerScript feeScript commitment =
     (let feeAmount = soloFeeAmount fee blockReward;
          minerAmount = blockReward - feeAmount in
      res_bind (txOutput minerAmount minerScript) (\<lambda>minerOutput.
      res_bind (txOutput feeAmount feeScript) (\<lambda>feeOutput.
      res_bind (witnessOutputHex commitment) (\<lambda>witnessOutput.
        Inr (''ffffffff'' @ (if witnessOutput \<noteq> [] then ''03'' else ''02'') @
             minerOutput @ feeOutput @ witnessOutput @ ''00000000'')))))"

section \<open>Merkle branch\<close>

fun pair_hashes :: "bytes list \<Rightarrow> bytes list" where
  "pair_hashes (a # b # r) = sha256d (a @ b) # pair_hashes r"
| "pair_hashes _ = []"

lemma length_pair_hashes [simp]: "length (pair_hashes hs) = length hs div 2"
  by (induction hs rule: pair_hashes.induct) auto

function merkle_branch :: "bytes list \<Rightarrow> bytes list" where
  \<comment> \<open>the \<open>while (hashes.length > 1)\<close> loop; the \<open>null\<close> that stands for the coinbase is the
     element before \<open>hs\<close>\<close>
  "merkle_branch hs =
     (if hs = [] then []
      else let full = (if even (length hs) then hs @ [last hs] else hs)
           in hd full # merkle_branch (pair_hashes (tl full)))"
  by pat_completeness auto
termination
  by (relation "measure length") (auto simp: neq_Nil_conv)

declare merkle_branch.simps [simp del]

definition fold_branch :: "bytes \<Rightarrow> bytes list \<Rightarrow> bytes" where
  \<comment> \<open>\<open>for (const branch of t.merkleBranch) merkleRoot = sha256d(concat([merkleRoot, branch]))\<close>\<close>
  "fold_branch coinbaseTxid branch = foldl (\<lambda>r b. sha256d (r @ b)) coinbaseTxid branch"

section \<open>The height in the coinbase\<close>

definition height_bytes :: "nat \<Rightarrow> bytes" where
  "height_bytes h = take (trim_end (le_bytes 4 h) 4) (le_bytes 4 h)"

lemma trim_end_le: "trim_end buf n \<le> n"
  by (induction buf n rule: trim_end.induct) auto

lemma trim_end_pos: "0 < n \<Longrightarrow> 0 < trim_end buf n"
  by (induction buf n rule: trim_end.induct) auto

lemma le_val_take_trim:
  "n \<le> length buf \<Longrightarrow> le_val (take (trim_end buf n) buf) = le_val (take n buf)"
proof (induction buf n rule: trim_end.induct)
  case (1 buf k)
  have "take (Suc (Suc k)) buf = take (Suc k) buf @ [buf ! Suc k]"
    using "1.prems" by (simp add: take_Suc_conv_app_nth)
  with 1 show ?case by (simp add: le_val_append)
qed auto

lemma trim_end_last:
  "n \<le> length buf \<Longrightarrow> 1 < trim_end buf n \<Longrightarrow> buf ! (trim_end buf n - 1) \<noteq> 0"
  by (induction buf n rule: trim_end.induct) (auto split: if_splits)

lemma heightScript_ok:
  assumes "h < 2 ^ 32"
  shows "heightScript h = Inr (hex_encode (of_nat (length (height_bytes h)) # height_bytes h))"
proof -
  have w: "write_uint_le 4 (Some (int h)) 0 (replicate 4 0) = Inr (le_bytes 4 h)"
    using write_u32_zeros [of "[]" 0 4 "Some (int h)"] assms
    by (simp add: u32_ok_def u32_field_def)
  have "length (height_bytes h) = trim_end (le_bytes 4 h) 4"
    using trim_end_le [of "le_bytes 4 h" 4] by (simp add: height_bytes_def)
  then show ?thesis by (simp add: heightScript_def w Let_def height_bytes_def)
qed

lemma length_height_bytes: "1 \<le> length (height_bytes h)" "length (height_bytes h) \<le> 4"
  using trim_end_le [of "le_bytes 4 h" 4] trim_end_pos [of 4 "le_bytes 4 h"]
  by (simp_all add: height_bytes_def)

lemma le_val_height_bytes: "h < 2 ^ 32 \<Longrightarrow> le_val (height_bytes h) = h"
  using le_val_take_trim [of 4 "le_bytes 4 h"] le_val_le_bytes [of h 4]
  by (simp add: height_bytes_def)

lemma height_bytes_last:
  assumes "1 < length (height_bytes h)"
  shows "last (height_bytes h) \<noteq> 0"
proof -
  let ?t = "trim_end (le_bytes 4 h) 4"
  have len: "length (height_bytes h) = ?t"
    using trim_end_le [of "le_bytes 4 h" 4] by (simp add: height_bytes_def)
  have "last (height_bytes h) = height_bytes h ! (?t - 1)"
    using assms len by (metis last_conv_nth length_greater_0_conv less_trans zero_less_one)
  also have "\<dots> = le_bytes 4 h ! (?t - 1)" using assms len by (simp add: height_bytes_def)
  finally show ?thesis using trim_end_last [of 4 "le_bytes 4 h"] assms len by simp
qed

text \<open>
  The node's own encoding, \<open>CScript() << nHeight\<close>: small heights are opcodes, the others are the
  minimal signed script number, which gets an extra zero byte when its top bit is set.
\<close>

fun min_le_bytes :: "nat \<Rightarrow> bytes" where
  "min_le_bytes n = (if n = 0 then [] else of_nat (n mod 256) # min_le_bytes (n div 256))"

declare min_le_bytes.simps [simp del]

definition scriptnum_serialize :: "nat \<Rightarrow> bytes" where
  "scriptnum_serialize n =
     (let r = min_le_bytes n
      in if r \<noteq> [] \<and> 0x80 \<le> last r then r @ [0] else r)"

definition script_push_int :: "nat \<Rightarrow> bytes" where
  "script_push_int n =
     (if n = 0 then [0]
      else if n \<le> 16 then [of_nat (n + 0x50)]
      else let d = scriptnum_serialize n in of_nat (length d) # d)"

lemma le_val_min_le_bytes [simp]: "le_val (min_le_bytes n) = n"
proof (induction n rule: min_le_bytes.induct)
  case (1 n)
  then show ?case by (subst min_le_bytes.simps) (simp add: unat_of_nat)
qed

lemma min_le_bytes_last: "n \<noteq> 0 \<Longrightarrow> min_le_bytes n \<noteq> [] \<and> last (min_le_bytes n) \<noteq> 0"
proof (induction n rule: min_le_bytes.induct)
  case (1 n)
  show ?case
  proof (cases "n div 256 = 0")
    case True
    then have "n < 256" by (simp add: div_eq_0_iff)
    then have "(of_nat (n mod 256) :: byte) \<noteq> 0"
      using "1.prems" by (metis mod_less unat_0 unat_of_nat_byte)
    with True "1.prems" show ?thesis
      by (simp add: min_le_bytes.simps [of n] min_le_bytes.simps [of 0])
  next
    case False
    with 1 show ?thesis by (simp add: min_le_bytes.simps [of n])
  qed
qed

lemma le_val_pos: "ys \<noteq> [] \<Longrightarrow> last ys \<noteq> 0 \<Longrightarrow> 0 < le_val ys"
proof -
  assume ne: "ys \<noteq> []" and l: "last ys \<noteq> 0"
  have "le_val (butlast ys @ [last ys]) =
      le_val (butlast ys) + 256 ^ length (butlast ys) * unat (last ys)"
    by (simp add: le_val_append)
  with ne l show ?thesis by (simp add: unat_eq_0 [symmetric])
qed

lemma le_val_minimal_unique:
  "le_val xs = le_val ys \<Longrightarrow> (xs \<noteq> [] \<Longrightarrow> last xs \<noteq> 0) \<Longrightarrow> (ys \<noteq> [] \<Longrightarrow> last ys \<noteq> 0) \<Longrightarrow> xs = ys"
proof (induction xs arbitrary: ys)
  case Nil
  then show ?case using le_val_pos [of ys] by (cases ys) auto
next
  case (Cons x xs)
  show ?case
  proof (cases ys)
    case Nil
    with Cons.prems le_val_pos [of "x # xs"] show ?thesis by (simp del: last.simps)
  next
    case (Cons y zs)
    have e: "unat x + 256 * le_val xs = unat y + 256 * le_val zs"
      using Cons.prems(1) Cons by simp
    have "unat x = (unat x + 256 * le_val xs) mod 256" using unat_byte_bound [of x] by simp
    also have "\<dots> = unat y" using e unat_byte_bound [of y] by simp
    finally have xy: "unat x = unat y" .
    with e have "le_val xs = le_val zs" by simp
    then have "xs = zs"
      using Cons.prems(2,3) Cons by (intro Cons.IH) (auto split: if_splits)
    with xy Cons show ?thesis by (simp add: word_unat_eq_iff)
  qed
qed

lemma height_bytes_minimal:
  assumes "0 < h" and "h < 2 ^ 32"
  shows "height_bytes h = min_le_bytes h"
proof (rule le_val_minimal_unique)
  show "le_val (height_bytes h) = le_val (min_le_bytes h)"
    using assms by (simp add: le_val_height_bytes)
  show "last (min_le_bytes h) \<noteq> 0" using min_le_bytes_last assms by simp
  show "last (height_bytes h) \<noteq> 0"
  proof (cases "1 < length (height_bytes h)")
    case True then show ?thesis by (rule height_bytes_last)
  next
    case False
    with length_height_bytes(1) [of h] obtain b where "height_bytes h = [b]"
      by (metis One_nat_def le_antisym length_0_conv length_Suc_conv not_less)
    with le_val_height_bytes [OF assms(2)] assms(1) show ?thesis by auto
  qed
qed

lemma script_push_int_large:
  "17 \<le> h \<Longrightarrow> script_push_int h =
     of_nat (length (scriptnum_serialize h)) # scriptnum_serialize h"
  by (simp add: script_push_int_def Let_def)

lemma heightScript_agrees_iff:
  assumes "17 \<le> h" and "h < 2 ^ 32"
  shows "heightScript h = Inr (hex_encode (script_push_int h)) \<longleftrightarrow> last (height_bytes h) < 0x80"
proof -
  let ?d = "height_bytes h"
  have min: "min_le_bytes h = ?d" using assms by (intro height_bytes_minimal [symmetric]) simp_all
  have ne: "?d \<noteq> []" using length_height_bytes(1) [of h] by auto
  have inj: "hex_encode xs = hex_encode ys \<longleftrightarrow> xs = ys" for xs ys
    by (metis hex_decode_encode)
  show ?thesis
    using assms ne
    by (auto simp: heightScript_ok inj script_push_int_large scriptnum_serialize_def min Let_def
        not_le)
qed

lemma height_bytes_two:
  assumes "256 \<le> h" and "h < 65536"
  shows "height_bytes h = [of_nat (h mod 256), of_nat (h div 256)]"
proof -
  have "h div 256 < 256" "h div 256 \<noteq> 0" "h < 2 ^ 32" using assms by (simp_all add: div_eq_0_iff)
  then show ?thesis
    using assms
    by (simp add: height_bytes_minimal min_le_bytes.simps [of h] min_le_bytes.simps [of "h div 256"]
        min_le_bytes.simps [of 0])
qed

section \<open>Reading a coinbase transaction back\<close>

fun parse_outputs :: "nat \<Rightarrow> bytes \<Rightarrow> ((nat \<times> bytes) list \<times> bytes) option" where
  \<comment> \<open>\<open>n\<close> transaction outputs (amount, script) off the front\<close>
  "parse_outputs 0 bs = Some ([], bs)"
| "parse_outputs (Suc n) bs =
     (if length bs < 8 then None
      else case compact_size (drop 8 bs) of
        None \<Rightarrow> None
      | Some (len, r) \<Rightarrow>
          if length r < len then None
          else case parse_outputs n (drop len r) of
            None \<Rightarrow> None
          | Some (outs, rest) \<Rightarrow> Some ((le_val (take 8 bs), take len r) # outs, rest))"

definition parse_coinbase_tx :: "bytes \<Rightarrow> (bytes \<times> (nat \<times> bytes) list) option" where
  \<comment> \<open>script of the only input and the outputs of a coinbase transaction without witness data\<close>
  "parse_coinbase_tx bs =
     (if take 41 bs \<noteq> le_bytes 4 1 @ [1] @ replicate 32 0 @ replicate 4 0xff then None
      else case compact_size (drop 41 bs) of
        None \<Rightarrow> None
      | Some (len, r) \<Rightarrow>
          if length r < len + 4 \<or> take 4 (drop len r) \<noteq> replicate 4 0xff then None
          else case compact_size (drop (len + 4) r) of
            None \<Rightarrow> None
          | Some (count, outs) \<Rightarrow>
              (case parse_outputs count outs of
                 None \<Rightarrow> None
               | Some (os, rest) \<Rightarrow>
                   if rest = replicate 4 0 then Some (take len r, os) else None))"

definition output_bytes :: "nat \<Rightarrow> bytes \<Rightarrow> bytes" where
  "output_bytes amount script = le_bytes 8 amount @ varint_bytes (length script) @ script"

lemma parse_output_bytes:
  assumes "amount < 2 ^ 64" and "length script < 65536"
  shows "parse_outputs (Suc n) (output_bytes amount script @ r) =
    map_option (\<lambda>(outs, rest). ((amount, script) # outs, rest)) (parse_outputs n r)"
  using assms le_val_le_bytes [of amount 8]
  by (auto simp: output_bytes_def compact_size_varint split: option.splits)

lemma amountHex_ok: "0 \<le> a \<Longrightarrow> a < 2 ^ 64 \<Longrightarrow> amountHex a = Inr (hex_encode (le_bytes 8 (nat a)))"
  by (simp add: amountHex_def write_uint_le_def buf_copy_def)

lemma amountHex_error: "a < 0 \<or> 2 ^ 64 \<le> a \<Longrightarrow> amountHex a = Inl range_error"
  by (auto simp: amountHex_def write_uint_le_def)

lemma txOutput_ok:
  assumes "0 \<le> a" and "a < 2 ^ 64" and "length script < 65536"
  shows "txOutput a (hex_encode script) = Inr (hex_encode (output_bytes (nat a) script))"
  using assms by (simp add: txOutput_def amountHex_ok encodeVarInt_ok output_bytes_def)

lemma witnessOutputHex_ok:
  assumes "length commitment < 65536"
  shows "witnessOutputHex (hex_encode commitment) =
    Inr (hex_encode (if commitment = [] then [] else output_bytes 0 commitment))"
proof (cases commitment)
  case (Cons b bs)
  then have "hex_encode commitment \<noteq> []" by (simp add: hex_byte_def)
  with Cons assms show ?thesis by (simp add: witnessOutputHex_def txOutput_ok del: hex_encode_Cons)
qed (simp add: witnessOutputHex_def)

lemma hex_literals:
  "''01000000'' = hex_encode (le_bytes 4 1)" "''01'' = hex_encode [1]"
  "''02'' = hex_encode [2]" "''03'' = hex_encode [3]"
  "''ffffffff'' = hex_encode (replicate 4 0xff)" "''00000000'' = hex_encode (replicate 4 0)"
  by code_simp+

lemma hex_zeros: "replicate (2 * n) CHR ''0'' = hex_encode (replicate n 0)"
proof (induction n)
  case (Suc n)
  have "hex_byte 0 = ''00''" by code_simp
  with Suc show ?case by simp
qed simp

definition coinbase_script :: "nat \<Rightarrow> bytes" where
  "coinbase_script h = of_nat (length (height_bytes h)) # height_bytes h"

definition coinbase_prefix :: bytes where
  "coinbase_prefix = le_bytes 4 1 @ [1] @ replicate 32 0 @ replicate 4 0xff"

lemma length_coinbase_prefix [simp]: "length coinbase_prefix = 41"
  by (simp add: coinbase_prefix_def)

lemma buildCoinbase1_ok:
  assumes "h < 2 ^ 32"
  shows "buildCoinbase1 h =
    Inr (hex_encode (coinbase_prefix @ [of_nat (length (coinbase_script h) + 8)] @ coinbase_script h))"
  using assms hex_zeros [of 32]
  by (simp add: buildCoinbase1_def heightScript_ok coinbase_prefix_def coinbase_script_def hex_literals)

lemma parse_coinbase_layout:
  assumes "length sc < 0xfd" and "count < 0xfd"
    and "parse_outputs count (outs @ replicate 4 0) = Some (os, replicate 4 0)"
  shows "parse_coinbase_tx
    (coinbase_prefix @ of_nat (length sc) # sc @ replicate 4 0xff @ of_nat count # outs @ replicate 4 0)
    = Some (sc, os)"
proof -
  have c: "compact_size (of_nat n # r) = Some (n, r)" if "n < 0xfd" for n r
    using compact_size_varint [of n r] that by (simp add: varint_bytes_def)
  show ?thesis
    using assms
    by (simp add: parse_coinbase_tx_def c) (simp add: coinbase_prefix_def)
qed

section \<open>The solo split\<close>

lemma fl_one [simp]: "fl 1 = 1"
  using fl_of_int [of 1] by simp

lemma soloFeeAmount_bounds:
  assumes "0 \<le> fee" and "fee \<le> 100" and "0 \<le> reward" and "reward \<le> 2 ^ 53"
  shows "0 \<le> soloFeeAmount fee reward" and "soloFeeAmount fee reward \<le> reward"
proof -
  have p0: "0 \<le> fl (fee / 100)" using assms(1) by (simp add: fl_nonneg)
  have p1: "fl (fee / 100) \<le> 1" using fl_mono [of "fee / 100" 1] assms(2) by simp
  have r0: "(0::rat) \<le> of_int reward" using assms(3) by simp
  have m: "of_int reward * fl (fee / 100) \<le> of_int reward"
    using mult_left_mono [OF p1 r0] by simp
  have "fl (of_int reward * fl (fee / 100)) \<le> of_int reward"
    using fl_mono [OF m] assms(3,4) by simp
  then show "soloFeeAmount fee reward \<le> reward"
    by (simp add: soloFeeAmount_def math_floor_def js_mul_def js_div_def floor_le_iff)
  show "0 \<le> soloFeeAmount fee reward"
    using p0 r0
    by (simp add: soloFeeAmount_def math_floor_def js_mul_def js_div_def fl_nonneg)
qed

lemma solo_fee_close:
  assumes "0 \<le> reward" and "reward \<le> 2 ^ 53"
  shows "of_int (soloFeeAmount 1 reward) \<le> of_int reward / 100 + (1 :: rat) / 32"
    and "(of_int reward / 100 - 1 - 1 / 32 :: rat) < of_int (soloFeeAmount 1 reward)"
proof -
  let ?r = "of_int reward :: rat" and ?p = "fl (1 / 100)"
  have r: "0 \<le> ?r" "?r \<le> 2 ^ 53"
  proof -
    have "?r \<le> of_int (2 ^ 53)" using assms(2) by (simp only: of_int_le_iff)
    then show "?r \<le> 2 ^ 53" by simp
  qed (use assms(1) in simp)
  have ep: "\<bar>?p - 1 / 100\<bar> \<le> 1 / 100 / 2 ^ 53" using fl_error [of "1 / 100"] by simp
  have "?r * ?p - ?r / 100 = ?r * (?p - 1 / 100)" by (simp add: right_diff_distrib)
  then have "\<bar>?r * ?p - ?r / 100\<bar> = ?r * \<bar>?p - 1 / 100\<bar>"
    using r(1) by (simp only: abs_mult abs_of_nonneg)
  also have "\<dots> \<le> 2 ^ 53 * (1 / 100 / 2 ^ 53)"
    using r ep by (intro mult_mono) simp_all
  finally have e1: "\<bar>?r * ?p - ?r / 100\<bar> \<le> 1 / 100" by simp
  have "0 \<le> ?r * ?p" using r(1) by (intro mult_nonneg_nonneg fl_nonneg) simp_all
  moreover have "?r * ?p \<le> 2 ^ 53 / 50"
  proof -
    have "?r * ?p \<le> ?r / 100 + 1 / 100" using abs_le_D1 [OF e1] by linarith
    also have "\<dots> \<le> 2 ^ 53 / 100 + 1 / 100" using r(2) by (intro add_right_mono divide_right_mono) simp_all
    also have "\<dots> \<le> 2 ^ 53 / 50" by simp
    finally show ?thesis .
  qed
  ultimately have b: "\<bar>?r * ?p\<bar> \<le> 2 ^ 53 / 50" by (simp only: abs_of_nonneg)
  have "\<bar>fl (?r * ?p) - ?r * ?p\<bar> \<le> \<bar>?r * ?p\<bar> / 2 ^ 53" by (rule fl_error)
  also have "\<dots> \<le> (2 ^ 53 / 50) / 2 ^ 53" using b by (rule divide_right_mono) simp
  finally have e2: "\<bar>fl (?r * ?p) - ?r * ?p\<bar> \<le> 1 / 50" by simp
  have "\<bar>fl (?r * ?p) - ?r / 100\<bar> \<le> 3 / 100" using e1 e2 by linarith
  then have c: "fl (?r * ?p) \<le> ?r / 100 + 1 / 32" "?r / 100 - 1 / 32 \<le> fl (?r * ?p)"
    by linarith+
  have f: "soloFeeAmount 1 reward = \<lfloor>fl (?r * ?p)\<rfloor>"
    by (simp add: soloFeeAmount_def math_floor_def js_mul_def js_div_def)
  show "of_int (soloFeeAmount 1 reward) \<le> ?r / 100 + 1 / 32"
    unfolding f using c(1) of_int_floor_le [of "fl (?r * ?p)"] by linarith
  show "?r / 100 - 1 - 1 / 32 < of_int (soloFeeAmount 1 reward)"
    unfolding f using c(2) floor_correct [of "fl (?r * ?p)"] by linarith
qed

definition witness_outs :: "bytes \<Rightarrow> (nat \<times> bytes) list" where
  "witness_outs commitment = (if commitment = [] then [] else [(0, commitment)])"

lemma solo_coinbase2_ok:
  assumes "0 \<le> fee" "fee \<le> 100" "0 \<le> reward" "reward \<le> 2 ^ 53"
    and "length minerScript < 65536" "length feeScript < 65536" "length commitment < 65536"
  shows "buildSoloCoinbase2 fee reward (hex_encode minerScript) (hex_encode feeScript)
      (hex_encode commitment) =
    Inr (hex_encode (replicate 4 0xff @ (if commitment = [] then 2 else 3) #
      output_bytes (nat (reward - soloFeeAmount fee reward)) minerScript @
      output_bytes (nat (soloFeeAmount fee reward)) feeScript @
      (if commitment = [] then [] else output_bytes 0 commitment) @ replicate 4 0))"
proof -
  note b = soloFeeAmount_bounds [OF assms(1-4)]
  have r: "reward - soloFeeAmount fee reward < 2 ^ 64" "soloFeeAmount fee reward < 2 ^ 64"
    "0 \<le> reward - soloFeeAmount fee reward"
    using b assms(4) by simp_all
  have "length (hex_encode (output_bytes 0 commitment)) \<noteq> 0" by (simp add: output_bytes_def)
  then have ne: "hex_encode (output_bytes 0 commitment) \<noteq> []" by (metis length_0_conv)
  show ?thesis
    using assms b r ne
    by (simp add: buildSoloCoinbase2_def Let_def txOutput_ok witnessOutputHex_ok hex_literals)
qed

section \<open>The branch and the root\<close>

definition dup_last :: "bytes list \<Rightarrow> bytes list" where
  "dup_last hs = (if odd (length hs) then hs @ [last hs] else hs)"

function merkle_root :: "bytes list \<Rightarrow> bytes" where
  \<comment> \<open>the root of the Merkle tree over all transaction hashes, coinbase first\<close>
  "merkle_root [] = []"
| "merkle_root [h] = h"
| "merkle_root (a # b # hs) = merkle_root (pair_hashes (dup_last (a # b # hs)))"
  by pat_completeness auto
termination
  by (relation "measure length") (auto simp: dup_last_def intro!: div_less_dividend odd_pos)

declare merkle_root.simps(3) [simp del]

lemma fold_branch_Nil [simp]: "fold_branch cb [] = cb"
  by (simp add: fold_branch_def)

lemma fold_branch_Cons [simp]: "fold_branch cb (b # bs) = fold_branch (sha256d (cb @ b)) bs"
  by (simp add: fold_branch_def)

lemma fold_merkle_branch: "fold_branch cb (merkle_branch hs) = merkle_root (cb # hs)"
proof (induction hs arbitrary: cb rule: merkle_branch.induct)
  case (1 hs)
  show ?case
  proof (cases "hs = []")
    case True
    then show ?thesis by (simp add: merkle_branch.simps)
  next
    case False
    define full where "full = (if even (length hs) then hs @ [last hs] else hs)"
    have ne: "full \<noteq> []" using False by (simp add: full_def)
    then obtain b r where full: "full = b # r" by (cases full) auto
    have dup: "dup_last (cb # hs) = cb # full"
      using False by (simp add: dup_last_def full_def)
    have root: "merkle_root (cb # hs) = merkle_root (pair_hashes (dup_last (cb # hs)))"
      using False by (cases hs) (simp_all add: merkle_root.simps)
    have br: "merkle_branch hs = b # merkle_branch (pair_hashes r)"
      using False full by (simp add: merkle_branch.simps [of hs] full_def [symmetric] Let_def)
    have "fold_branch (sha256d (cb @ b)) (merkle_branch (pair_hashes (tl full))) =
        merkle_root (sha256d (cb @ b) # pair_hashes (tl full))"
      using "1.IH" [OF False refl] by (simp only: full_def)
    then show ?thesis by (simp add: br root dup full)
  qed
qed

lemma length_merkle_branch_hashes:
  "\<forall>h \<in> set hs. length h = 32 \<Longrightarrow> \<forall>b \<in> set (merkle_branch hs). length b = 32"
proof (induction hs rule: merkle_branch.induct)
  case (1 hs)
  show ?case
  proof (cases "hs = []")
    case True
    then show ?thesis by (simp add: merkle_branch.simps)
  next
    case False
    define full where "full = (if even (length hs) then hs @ [last hs] else hs)"
    have set: "set full \<subseteq> set hs" using False by (auto simp: full_def)
    have ne: "full \<noteq> []" using False by (simp add: full_def)
    have p: "\<forall>h \<in> set (pair_hashes xs). length h = 32" for xs
      by (induction xs rule: pair_hashes.induct) auto
    have "\<forall>b \<in> set (merkle_branch (pair_hashes (tl full))). length b = 32"
      using "1.IH" [OF False refl] p unfolding full_def by blast
    moreover have "length (hd full) = 32" using set ne "1.prems" by (meson hd_in_set subsetD)
    ultimately show ?thesis
      using False by (simp add: merkle_branch.simps [of hs] full_def [symmetric] Let_def)
  qed
qed

section \<open>Whole coinbase transactions\<close>

lemma pool_script_length: "length (hex_decode poolScriptPubKey) = 22"
proof -
  have "is_hex_text poolScriptPubKey" by code_simp
  then show ?thesis by (simp add: length_hex_decode) (simp add: poolScriptPubKey_def)
qed

lemma pool_coinbase2_ok:
  assumes "0 \<le> reward" "reward < 2 ^ 64" "length commitment < 65536"
  shows "buildPoolCoinbase2 reward (hex_encode commitment) =
    Inr (hex_encode (replicate 4 0xff @ (if commitment = [] then 1 else 2) #
      output_bytes (nat reward) (hex_decode poolScriptPubKey) @
      (if commitment = [] then [] else output_bytes 0 commitment) @ replicate 4 0))"
proof -
  have p: "poolScriptPubKey = hex_encode (hex_decode poolScriptPubKey)"
    by (simp add: poolScriptPubKey_def) code_simp
  note l = pool_script_length
  have "length (hex_encode (output_bytes 0 commitment)) \<noteq> 0" by (simp add: output_bytes_def)
  then have ne: "hex_encode (output_bytes 0 commitment) \<noteq> []" by (metis length_0_conv)
  have t: "txOutput reward poolScriptPubKey =
      Inr (hex_encode (output_bytes (nat reward) (hex_decode poolScriptPubKey)))"
    by (subst (1) p) (use assms l in \<open>simp add: txOutput_ok\<close>)
  show ?thesis
    using assms ne
    by (simp add: buildPoolCoinbase2_def Let_def t witnessOutputHex_ok hex_literals)
qed

lemma coinbase_script_length: "length (coinbase_script h) \<le> 5"
  using length_height_bytes(2) [of h] by (simp add: coinbase_script_def)

lemma parse_outputs_witness:
  assumes "length commitment < 65536"
  shows "parse_outputs (length (witness_outs commitment))
      ((if commitment = [] then [] else output_bytes 0 commitment) @ r) = Some (witness_outs commitment, r)"
  using assms parse_output_bytes [of 0 commitment 0 r] by (simp add: witness_outs_def)

lemma parse_halves:
  \<comment> \<open>the two halves around an 8-byte extra nonce read back as one transaction\<close>
  assumes "h < 2 ^ 32" and "length en = 8" and "count < 0xfd"
    and "parse_outputs count (outs @ replicate 4 0) = Some (os, replicate 4 0)"
    and "c2 = hex_encode (replicate 4 0xff @ of_nat count # outs @ replicate 4 0)"
  shows "\<exists>c1. buildCoinbase1 h = Inr c1 \<and>
    parse_coinbase_tx (hex_decode (c1 @ hex_encode en @ c2)) = Some (coinbase_script h @ en, os)"
proof -
  have "length (coinbase_script h @ en) < 0xfd"
    using coinbase_script_length [of h] assms(2) by simp
  from parse_coinbase_layout [OF this assms(3,4)] show ?thesis
    using assms(1,2,5) by (simp add: buildCoinbase1_ok)
qed

section \<open>Properties\<close>

lemma merkle_branch_Cons:
  assumes "hs \<noteq> []"
  shows "\<exists>b r. merkle_branch hs = b # merkle_branch (pair_hashes r) \<and> length r div 2 = length hs div 2"
proof -
  let ?full = "if even (length hs) then hs @ [last hs] else hs"
  have "length (tl ?full) div 2 = length hs div 2"
    using assms by (auto elim!: oddE)
  then show ?thesis
    using assms by (subst merkle_branch.simps) (auto simp: Let_def)
qed

text \<open>
  C33. The loop that computes the Merkle branch ends: for \<open>n\<close> transactions it makes
  \<open>\<lfloor>log\<^sub>2 n\<rfloor> + 1\<close> rounds, none for a block without transactions, so the branch a miner folds
  grows with the logarithm of the block.
\<close>

theorem merkle_loop_rounds:
  "length hs < 2 ^ length (merkle_branch hs) \<and>
   (hs = [] \<or> 2 ^ length (merkle_branch hs) \<le> 2 * length hs)"
proof (induction "length hs" arbitrary: hs rule: less_induct)
  case less
  show ?case
  proof (cases "hs = []")
    case True
    then show ?thesis by (simp add: merkle_branch.simps)
  next
    case False
    obtain b r where b: "merkle_branch hs = b # merkle_branch (pair_hashes r)"
      and r: "length r div 2 = length hs div 2" using merkle_branch_Cons [OF False] by blast
    have l: "length (pair_hashes r) = length hs div 2" by (simp add: r)
    with False have "length (pair_hashes r) < length hs" by simp
    from less [OF this] l have ih: "length hs div 2 < 2 ^ length (merkle_branch (pair_hashes r))"
      "pair_hashes r = [] \<or> 2 ^ length (merkle_branch (pair_hashes r)) \<le> 2 * (length hs div 2)" by simp_all
    have "length hs < 2 * 2 ^ length (merkle_branch (pair_hashes r))" using ih(1) by linarith
    moreover have "2 * 2 ^ length (merkle_branch (pair_hashes r)) \<le> 2 * length hs"
    proof (cases "pair_hashes r = []")
      case True
      then show ?thesis using False by (simp add: merkle_branch.simps Suc_leI)
    next
      case nonempty: False
      then show ?thesis using ih(2) by auto
    qed
    ultimately show ?thesis by (simp add: b)
  qed
qed

text \<open>
  C11. Folding the Merkle branch that \<open>refreshBlockTemplate\<close> computes into the hash of any coinbase,
  as \<open>handleSubmit\<close> does, gives the Merkle root of the block whose transactions are that coinbase
  followed by the template's, for every number of transactions.
\<close>

theorem merkle_branch_correct: "fold_branch cb (merkle_branch hs) = merkle_root (cb # hs)"
  by (rule fold_merkle_branch)

text \<open>
  C10. A solo coinbase, made of the two halves the pool sends and the miner's two 4-byte extra
  nonces, is a well-formed transaction: its input script is the height push and the extra
  nonces, and its outputs pay the miner and the fee wallet amounts that are not negative and add
  up to exactly the block reward, plus the witness commitment with amount 0.
\<close>

theorem solo_coinbase_pays_reward:
  assumes "h < 2 ^ 32" and "0 \<le> fee" and "fee \<le> 100" and "0 \<le> reward" and "reward \<le> 2 ^ 53"
    and "length minerScript < 65536" and "length feeScript < 65536" and "length commitment < 65536"
    and "length en = 8"
  shows "\<exists>c1 c2. buildCoinbase1 h = Inr c1 \<and>
    buildSoloCoinbase2 fee reward (hex_encode minerScript) (hex_encode feeScript)
      (hex_encode commitment) = Inr c2 \<and>
    parse_coinbase_tx (hex_decode (c1 @ hex_encode en @ c2)) =
      Some (coinbase_script h @ en,
            (nat (reward - soloFeeAmount fee reward), minerScript) #
            (nat (soloFeeAmount fee reward), feeScript) # witness_outs commitment) \<and>
    0 \<le> soloFeeAmount fee reward \<and> soloFeeAmount fee reward \<le> reward \<and>
    nat (reward - soloFeeAmount fee reward) + nat (soloFeeAmount fee reward) = nat reward"
proof -
  note b = soloFeeAmount_bounds [OF assms(2-5)]
  define m f where "m = nat (reward - soloFeeAmount fee reward)" and "f = nat (soloFeeAmount fee reward)"
  define outs where "outs = output_bytes m minerScript @ output_bytes f feeScript @
    (if commitment = [] then [] else output_bytes 0 commitment)"
  define count where "count = Suc (Suc (length (witness_outs commitment)))"
  have sm: "m < 2 ^ 64" "f < 2 ^ 64" using b assms(4,5) by (simp_all add: m_def f_def)
  have "parse_outputs count (outs @ replicate 4 0) =
      Some ((m, minerScript) # (f, feeScript) # witness_outs commitment, replicate 4 0)"
    using sm assms(6-8) parse_outputs_witness [of commitment "replicate 4 0"]
    by (simp only: outs_def count_def append_assoc parse_output_bytes) simp
  moreover have "count < 0xfd" by (simp add: count_def witness_outs_def)
  ultimately obtain c1 where "buildCoinbase1 h = Inr c1"
    "parse_coinbase_tx (hex_decode (c1 @ hex_encode en @
       hex_encode (replicate 4 0xff @ of_nat count # outs @ replicate 4 0))) =
     Some (coinbase_script h @ en, (m, minerScript) # (f, feeScript) # witness_outs commitment)"
    using parse_halves [OF assms(1,9)] by blast
  moreover have "buildSoloCoinbase2 fee reward (hex_encode minerScript) (hex_encode feeScript)
      (hex_encode commitment) = Inr (hex_encode (replicate 4 0xff @ of_nat count # outs @ replicate 4 0))"
    using solo_coinbase2_ok [OF assms(2-8)]
    by (simp add: outs_def count_def m_def f_def witness_outs_def)
  ultimately show ?thesis using b by (auto simp: m_def f_def)
qed

theorem solo_coinbase_pays_reward_witness:
  "\<exists>c1 c2. buildCoinbase1 100 = Inr c1 \<and>
    buildSoloCoinbase2 1 5000000000 (hex_encode [1]) (hex_encode [2]) (hex_encode []) = Inr c2 \<and>
    parse_coinbase_tx (hex_decode (c1 @ hex_encode (replicate 8 7) @ c2)) =
      Some (coinbase_script 100 @ replicate 8 7,
            [(nat (5000000000 - soloFeeAmount 1 5000000000), [1]),
             (nat (soloFeeAmount 1 5000000000), [2])])"
  using solo_coinbase_pays_reward [of 100 1 5000000000 "[1]" "[2]" "[]" "replicate 8 7"]
  by (auto simp: witness_outs_def)

text \<open>
  With the configured solo fee of 1 percent, the amount the floating-point product and
  \<open>Math.floor\<close> take from the reward is within \<open>1 + 1/32\<close> base units of the exact percentage,
  for every reward a Number holds exactly.
\<close>

lemma solo_fee_one_percent:
  assumes "0 \<le> reward" and "reward \<le> 2 ^ 53"
  shows "of_int (soloFeeAmount 1 reward) \<le> of_int reward / 100 + (1 :: rat) / 32 \<and>
         of_int reward / 100 - 1 - (1 :: rat) / 32 < of_int (soloFeeAmount 1 reward)"
  using solo_fee_close [OF assms] by blast

lemma solo_fee_one_percent_witness:
  "of_int (soloFeeAmount 1 5000000000) \<le> (50000000 :: rat) + 1 / 32 \<and>
   (50000000 :: rat) - 1 - 1 / 32 < of_int (soloFeeAmount 1 5000000000)"
  using solo_fee_one_percent [of 5000000000] by simp

text \<open>
  The pool's own coinbase is a well-formed transaction that pays the whole reward to the
  pool's script, plus the witness commitment with amount 0.
\<close>

lemma pool_coinbase_pays_reward:
  assumes "h < 2 ^ 32" and "0 \<le> reward" and "reward < 2 ^ 64" and "length commitment < 65536"
    and "length en = 8"
  shows "\<exists>c1 c2. buildCoinbase1 h = Inr c1 \<and>
    buildPoolCoinbase2 reward (hex_encode commitment) = Inr c2 \<and>
    parse_coinbase_tx (hex_decode (c1 @ hex_encode en @ c2)) =
      Some (coinbase_script h @ en,
            (nat reward, hex_decode poolScriptPubKey) # witness_outs commitment)"
proof -
  let ?s = "hex_decode poolScriptPubKey"
  define outs where "outs = output_bytes (nat reward) ?s @
    (if commitment = [] then [] else output_bytes 0 commitment)"
  define count where "count = Suc (length (witness_outs commitment))"
  have "nat reward < 2 ^ 64" using assms(2,3) by (simp add: nat_less_iff)
  then have "parse_outputs count (outs @ replicate 4 0) =
      Some ((nat reward, ?s) # witness_outs commitment, replicate 4 0)"
    using assms(4) parse_outputs_witness [of commitment "replicate 4 0"] pool_script_length
    by (simp only: outs_def count_def append_assoc parse_output_bytes) simp
  moreover have "count < 0xfd" by (simp add: count_def witness_outs_def)
  ultimately obtain c1 where "buildCoinbase1 h = Inr c1"
    "parse_coinbase_tx (hex_decode (c1 @ hex_encode en @
       hex_encode (replicate 4 0xff @ of_nat count # outs @ replicate 4 0))) =
     Some (coinbase_script h @ en, (nat reward, ?s) # witness_outs commitment)"
    using parse_halves [OF assms(1,5)] by blast
  moreover have "buildPoolCoinbase2 reward (hex_encode commitment) =
      Inr (hex_encode (replicate 4 0xff @ of_nat count # outs @ replicate 4 0))"
    using pool_coinbase2_ok [OF assms(2-4)] by (simp add: outs_def count_def witness_outs_def)
  ultimately show ?thesis by blast
qed

lemma pool_coinbase_pays_reward_witness:
  "\<exists>c1 c2. buildCoinbase1 100 = Inr c1 \<and>
    buildPoolCoinbase2 5000000000 (hex_encode [7]) = Inr c2 \<and>
    parse_coinbase_tx (hex_decode (c1 @ hex_encode (replicate 8 7) @ c2)) =
      Some (coinbase_script 100 @ replicate 8 7,
            [(5000000000, hex_decode poolScriptPubKey), (0, [7])])"
  using pool_coinbase_pays_reward [of 100 5000000000 "[7]" "replicate 8 7"]
  by (simp add: witness_outs_def)



text \<open>
  At every height from 32768 to 65535 the pool's height push differs from the node's, so
  every block it assembles there has a coinbase the node rejects as \<open>bad-cb-height\<close>.
\<close>

lemma height_push_rejected_range:
  assumes "32768 \<le> h" and "h < 65536"
  shows "heightScript h \<noteq> Inr (hex_encode (script_push_int h))"
proof -
  have "128 \<le> h div 256" "h div 256 < 256" using assms by linarith+
  then have "0x80 \<le> (of_nat (h div 256) :: byte)"
    by (simp add: word_le_nat_alt unat_of_nat_byte)
  then show ?thesis
    using assms heightScript_agrees_iff [of h] by (simp add: height_bytes_two not_less)
qed

lemma height_push_rejected_range_witness:
  "heightScript 50000 \<noteq> Inr (hex_encode (script_push_int 50000))"
  using height_push_rejected_range [of 50000] by simp

end
