(* ===== verification/Pool_State.thy ===== *)
theory Pool_State
  imports Miner_Names Coinbase
begin

text \<open>
  The state of \<open>mining_pool/src/pool.js\<close> and the ways in which a handler touches the world outside
  the process.

  \<open>world\<close> holds the module variables (\<open>poolState\<close>, \<open>soloState\<close>, the socket sets, the TNS cache,
  the statistics cache), the closure variables of every Stratum connection, the running interval
  timers, the lines written to sockets and, in \<open>w_ext\<close>, the state of everything outside the
  process.  Miner entries are objects that several handlers hold on to across awaits, so the
  Maps hold object numbers and the entries live in the store \<open>w_objs\<close>.

  \<open>services\<close> holds what the code calls but does not define: the node's RPC server, the TNS
  server, Redis, the clock and the random generator, and the configuration.  An \<open>await\<close> lets other
  handlers run: \<open>sv_others\<close> is what they do to the world meanwhile.  With \<open>sv_others = id\<close> a
  handler runs to completion.
\<close>

section \<open>Templates and jobs\<close>

record template_tx =
  tt_txid :: string
  tt_hash :: string
  tt_data :: string

record template =
  tp_previousblockhash :: string
  tp_height :: nat
  tp_coinbasevalue :: int
  tp_witness_commitment :: string
  tp_transactions :: "template_tx list"
  tp_version :: "int option"
  tp_bits :: string

record job =
  j_jobId :: string
  j_prevHashBE :: string
  j_stratumPrevHash :: string
  j_coinbase1 :: string
  j_coinbase2 :: string
  j_merkleBranch :: "string list"
  j_txData :: "string list"
  j_version :: string
  j_nBits :: string
  j_nTime :: string
  j_height :: nat
  j_rawTemplate :: template

section \<open>Miner entries and connections\<close>

record miner =
  \<comment> \<open>an entry of \<open>poolState.miners\<close> or \<open>soloState.miners\<close>; None and \<open>JUndef\<close> are properties the
     object literal does not have\<close>
  m_shares :: nat
  m_validShares :: nat
  m_lastSeen :: int
  m_workerId :: string
  m_extraNonce1 :: string
  m_difficulty :: "rat option"
  m_resolvedAddress :: "string option"
  m_shareHistory :: "(int \<times> rat option) list option"
  m_submittedShares :: "string list option"
  m_lastJobId :: jsv
  m_socket :: "nat option"
  m_coinbase1 :: "string option"
  m_coinbase2 :: "string option"
  m_jobId :: jsv

record conn =
  c_workerName :: jsv
  c_buffer :: string
  c_workerId :: string
  c_extraNonce1 :: string
  c_socketDiff :: rat
  c_diffOverridden :: bool
  c_shareTimestamps :: "rat list"
  c_vardiffTimer :: "nat option"

datatype task =
  \<comment> \<open>the immediately invoked async functions of the authorize handlers, waiting to run\<close>
    ResolveName nat jsv
  | BuildSoloWork nat nat jsv

section \<open>The world\<close>

record 'x world =
  w_blockTemplate :: "job option"
  w_poolMiners :: "(jsv \<times> nat) list"
  w_poolBlocksFound :: nat
  w_activeWorkers :: nat
  w_poolWallet :: string
  w_poolFee :: rat
  w_soloMiners :: "(jsv \<times> nat) list"
  w_soloBlocksFound :: nat
  w_soloFee :: rat
  w_objs :: "nat \<Rightarrow> miner"
  w_nextObj :: nat
  w_poolConns :: "(nat \<times> conn) list"
  w_soloConns :: "(nat \<times> conn) list"
  w_activeSockets :: "nat list"
  w_activeSoloSockets :: "nat list"
  w_destroyed :: "nat list"
  w_timers :: "(nat \<times> nat) list"
  w_soloTimers :: "(nat \<times> nat) list"
  w_nextTimer :: nat
  w_tasks :: "task list"
  w_tns :: "(string \<times> string \<times> int) list"
  w_redis :: bool
  w_poolStatsCache :: "jsv option"
  w_poolStatsCacheTime :: int
  w_out :: "(nat \<times> jsv) list"
  w_ext :: 'x

section \<open>Services\<close>

datatype rval =
  \<comment> \<open>Redis replies; a stored JSON text is kept as the value it denotes\<close>
    RNil
  | RText string
  | RJson jsv
  | RInt int
  | RList "rval list"

datatype redis_cmd =
    LPush string rval
  | LTrim string int int
  | LRange string int int
  | LLen string
  | RGet string
  | RSet string rval
  | RSetEx string int rval
  | RDel string
  | RIncr string
  | RIncrByFloat string rat
  | SAdd string string
  | SMembers string
  | RExpire string int
  | RKeys string

record 'x services =
  sv_post :: "string \<Rightarrow> string \<Rightarrow> jsv list \<Rightarrow> 'x \<Rightarrow> (exn + jsv) \<times> 'x"
  sv_tns :: "string \<Rightarrow> 'x \<Rightarrow> (exn + jsv) \<times> 'x"
  sv_redis :: "redis_cmd \<Rightarrow> 'x \<Rightarrow> (exn + rval) \<times> 'x"
  sv_now :: "'x \<Rightarrow> int \<times> 'x"
  sv_today :: "'x \<Rightarrow> string \<times> 'x"
  sv_random :: "nat \<Rightarrow> 'x \<Rightarrow> bytes \<times> 'x"
  sv_parse :: "string \<Rightarrow> exn + jsv"
  sv_others :: "'x world \<Rightarrow> 'x world"
  sv_rpcWallet :: string
  sv_feeWallet :: string

definition on_ext :: "('x \<Rightarrow> (exn + 'a) \<times> 'x) \<Rightarrow> ('x world, 'a) io" where
  "on_ext f = (\<lambda>w. case f (w_ext w) of (r, x) \<Rightarrow> (r, w\<lparr>w_ext := x\<rparr>))"

definition read_ext :: "('x \<Rightarrow> 'a \<times> 'x) \<Rightarrow> ('x world, 'a) io" where
  "read_ext f = (\<lambda>w. case f (w_ext w) of (a, x) \<Rightarrow> (Inr a, w\<lparr>w_ext := x\<rparr>))"

definition await :: "'x services \<Rightarrow> ('x world, 'a) io \<Rightarrow> ('x world, 'a) io" where
  "await sv m = (\<lambda>w. case m w of (r, w') \<Rightarrow> (r, sv_others sv w'))"

definition redis :: "'x services \<Rightarrow> redis_cmd \<Rightarrow> ('x world, rval) io" where
  "redis sv c = await sv (on_ext (sv_redis sv c))"

definition date_now :: "'x services \<Rightarrow> ('x world, int) io" where
  "date_now sv = read_ext (sv_now sv)"

definition random_hex :: "'x services \<Rightarrow> nat \<Rightarrow> ('x world, string) io" where
  "random_hex sv n = io_bind (read_ext (sv_random sv n)) (\<lambda>bs. io_return (hex_encode bs))"

definition sock_write :: "nat \<Rightarrow> jsv \<Rightarrow> ('x world, unit) io" where
  "sock_write sock line = io_modify (\<lambda>w. w\<lparr>w_out := w_out w @ [(sock, line)]\<rparr>)"

section \<open>Node RPC and name resolution\<close>

definition rpc_path :: "'x services \<Rightarrow> string \<Rightarrow> string \<Rightarrow> string" where
  "rpc_path sv rpcMethod walletOverride =
     (let isWalletCommand = rpcMethod \<in> set [''getbalance'', ''sendmany'', ''sendtoaddress'',
            ''validateaddress'', ''getnewaddress''];
          activeWallet = (if walletOverride \<noteq> [] then walletOverride else sv_rpcWallet sv)
      in if isWalletCommand \<and> activeWallet \<noteq> [] then ''/wallet/'' @ activeWallet else ''/'')"

definition error_message :: "jsv \<Rightarrow> exn" where
  \<comment> \<open>the message of \<open>new Error(v)\<close>\<close>
  "error_message v = (if v = JUndef then [] else js_tostring v)"

definition rpcCall ::
  "'x services \<Rightarrow> string \<Rightarrow> jsv list \<Rightarrow> string \<Rightarrow> ('x world, jsv) io" where
  "rpcCall sv rpcMethod params walletOverride =
     io_bind (await sv (on_ext (sv_post sv (rpc_path sv rpcMethod walletOverride) rpcMethod params))) (\<lambda>data.
     io_bind (io_lift (js_prop data ''error'')) (\<lambda>err.
       if truthy err then
         io_bind (io_lift (js_prop err ''message'')) (\<lambda>m. io_throw (error_message m))
       else io_lift (js_prop data ''result'')))"

definition resolved_address :: "jsv \<Rightarrow> string option" where
  \<comment> \<open>the checks on the TNS server's answer\<close>
  "resolved_address d =
     (if truthy d \<and> truthy (js_prop_opt d ''success'') \<and> truthy (js_prop_opt d ''targetAddress'') then
        (case js_string_opt (js_prop_opt d ''targetAddress'') of
           None \<Rightarrow> None
         | Some a \<Rightarrow> if tar_address_ok (js_trim a) then Some (js_trim a) else None)
      else None)"

definition resolve_miss ::
  "'x services \<Rightarrow> string \<Rightarrow> string \<Rightarrow> int \<Rightarrow> ('x world, string) io" where
  \<comment> \<open>the \<open>try\<close> block: ask the TNS server, remember a good answer for five minutes\<close>
  "resolve_miss sv domain walletOrDomain now =
     io_catch
       (io_bind (await sv (on_ext (sv_tns sv domain))) (\<lambda>d.
          case resolved_address d of
            Some clean \<Rightarrow>
              io_seq (io_modify (\<lambda>w. w\<lparr>w_tns := map_set domain (clean, now + 300000) (w_tns w)\<rparr>))
                (io_return clean)
          | None \<Rightarrow> io_return walletOrDomain))
       (\<lambda>_. io_return walletOrDomain)"

definition resolveTnsToAddress ::
  "'x services \<Rightarrow> string \<Rightarrow> ('x world, string) io" where
  "resolveTnsToAddress sv walletOrDomain =
     (let domain = js_trim (toLowerCase walletOrDomain) in
      if walletOrDomain = [] then io_return []
      else if \<not> endsWith domain ''.tar'' then io_return walletOrDomain
      else if \<not> tns_domain_ok domain then io_return walletOrDomain
      else
        io_bind (io_get (\<lambda>w. map_get (w_tns w) domain)) (\<lambda>cached.
        io_bind (date_now sv) (\<lambda>now.
          case cached of
            Some (address, expiresAt) \<Rightarrow>
              if now < expiresAt then io_return address
              else resolve_miss sv domain walletOrDomain now
          | None \<Rightarrow> resolve_miss sv domain walletOrDomain now)))"

section \<open>Miner objects\<close>

definition new_obj :: "miner \<Rightarrow> ('x world, nat) io" where
  "new_obj m = (\<lambda>w. (Inr (w_nextObj w),
     w\<lparr>w_objs := (w_objs w)(w_nextObj w := m), w_nextObj := Suc (w_nextObj w)\<rparr>))"

definition get_obj :: "nat \<Rightarrow> ('x world, miner) io" where
  "get_obj i = io_get (\<lambda>w. w_objs w i)"

definition upd_obj :: "nat \<Rightarrow> (miner \<Rightarrow> miner) \<Rightarrow> ('x world, unit) io" where
  "upd_obj i f = io_modify (\<lambda>w. w\<lparr>w_objs := (w_objs w)(i := f (w_objs w i))\<rparr>)"

section \<open>Evaluation rules\<close>

lemma on_ext_run [io_simps]: "on_ext f w = (fst (f (w_ext w)), w\<lparr>w_ext := snd (f (w_ext w))\<rparr>)"
  by (simp add: on_ext_def split: prod.splits)

lemma read_ext_run [io_simps]:
  "read_ext f w = (Inr (fst (f (w_ext w))), w\<lparr>w_ext := snd (f (w_ext w))\<rparr>)"
  by (simp add: read_ext_def split: prod.splits)

lemma await_run [io_simps]: "m w = (r, w') \<Longrightarrow> await sv m w = (r, sv_others sv w')"
  by (simp add: await_def)

lemma sock_write_run [io_simps]:
  "sock_write sock line w = (Inr (), w\<lparr>w_out := w_out w @ [(sock, line)]\<rparr>)"
  by (simp add: sock_write_def io_simps)

lemma new_obj_run [io_simps]:
  "new_obj m w = (Inr (w_nextObj w),
     w\<lparr>w_objs := (w_objs w)(w_nextObj w := m), w_nextObj := Suc (w_nextObj w)\<rparr>)"
  by (simp add: new_obj_def)

lemma get_obj_run [io_simps]: "get_obj i w = (Inr (w_objs w i), w)"
  by (simp add: get_obj_def io_simps)

lemma upd_obj_run [io_simps]:
  "upd_obj i f w = (Inr (), w\<lparr>w_objs := (w_objs w)(i := f (w_objs w i))\<rparr>)"
  by (simp add: upd_obj_def io_simps)

section \<open>What a service call leaves alone\<close>

text \<open>
  A relation on worlds that ignores the outside world, the TNS cache and the lines written is kept
  by every service call, if the handlers that run meanwhile keep it.
\<close>

definition others_keep :: "('x world \<Rightarrow> 'x world \<Rightarrow> bool) \<Rightarrow> 'x services \<Rightarrow> bool" where
  "others_keep P sv \<longleftrightarrow> (\<forall>w. P w (sv_others sv w))"

locale service_frame = frame_rel P
  for P :: "'x world \<Rightarrow> 'x world \<Rightarrow> bool" +
  assumes ext_frame: "P w (w\<lparr>w_ext := x\<rparr>)"
    and tns_frame: "P w (w\<lparr>w_tns := c\<rparr>)"
    and out_frame: "P w (w\<lparr>w_out := w_out w @ l\<rparr>)"
begin

lemma others_keep_id: "sv_others sv = (\<lambda>w. w) \<Longrightarrow> others_keep P sv"
  by (simp add: others_keep_def rel_refl)

lemma keeps_modify: "(\<And>w. P w (f w)) \<Longrightarrow> io_keeps P (io_modify f)"
  by (simp add: io_keeps_def io_modify_def)

lemma keeps_on_ext: "io_keeps P (on_ext f)"
  by (simp add: io_keeps_def on_ext_run ext_frame)

lemma keeps_read_ext: "io_keeps P (read_ext f)"
  by (simp add: io_keeps_def read_ext_run ext_frame)

lemma keeps_write: "io_keeps P (sock_write sock line)"
  by (simp add: io_keeps_def sock_write_run out_frame)

lemma keeps_await: "others_keep P sv \<Longrightarrow> io_keeps P m \<Longrightarrow> io_keeps P (await sv m)"
  unfolding io_keeps_def await_def others_keep_def
  by (auto split: prod.splits) (metis rel_trans snd_conv)

lemma keeps_redis: "others_keep P sv \<Longrightarrow> io_keeps P (redis sv c)"
  by (simp add: redis_def keeps_await keeps_on_ext)

lemma keeps_now: "io_keeps P (date_now sv)"
  by (simp add: date_now_def keeps_read_ext)

lemma keeps_random: "io_keeps P (random_hex sv n)"
  by (simp add: random_hex_def keeps_bind keeps_read_ext keeps_return)

lemma keeps_rpcCall: "others_keep P sv \<Longrightarrow> io_keeps P (rpcCall sv m ps o')"
  unfolding rpcCall_def
  by (intro keeps_rules keeps_await keeps_on_ext)

lemma keeps_resolve_miss: "others_keep P sv \<Longrightarrow> io_keeps P (resolve_miss sv d wd now)"
  unfolding resolve_miss_def
  by (intro keeps_catch keeps_bind keeps_await keeps_on_ext)
     (auto split: option.splits intro!: keeps_seq keeps_return keeps_modify tns_frame)

lemma keeps_resolve: "others_keep P sv \<Longrightarrow> io_keeps P (resolveTnsToAddress sv wd)"
  unfolding resolveTnsToAddress_def Let_def
  by (intro keeps_if keeps_bind keeps_return keeps_get keeps_now)
     (auto split: option.splits intro!: keeps_if keeps_return keeps_resolve_miss)

lemmas service_rules =
  keeps_rules keeps_on_ext keeps_read_ext keeps_write keeps_redis keeps_now keeps_random
  keeps_rpcCall keeps_resolve

end

section \<open>What a service call keeps true\<close>

locale service_inv =
  fixes I :: "'x world \<Rightarrow> bool"
  assumes ext_inv: "I w \<Longrightarrow> I (w\<lparr>w_ext := x\<rparr>)"
    and tns_inv: "I w \<Longrightarrow> I (w\<lparr>w_tns := c\<rparr>)"
    and out_inv: "I w \<Longrightarrow> I (w\<lparr>w_out := l\<rparr>)"
begin

lemma ok_on_ext: "io_ok I (on_ext f) anything"
  by (simp add: io_ok_def on_ext_run ext_inv)

lemma ok_read_ext: "io_ok I (read_ext f) anything"
  by (simp add: io_ok_def read_ext_run ext_inv)

lemma ok_write: "io_ok I (sock_write sock line) anything"
  by (simp add: io_ok_def sock_write_run out_inv)

lemma ok_await: "others_keep (\<lambda>w w'. I w \<longrightarrow> I w') sv \<Longrightarrow> io_ok I m Q \<Longrightarrow> io_ok I (await sv m) Q"
  unfolding io_ok_def await_def others_keep_def by (auto split: prod.splits)

lemma ok_redis: "others_keep (\<lambda>w w'. I w \<longrightarrow> I w') sv \<Longrightarrow> io_ok I (redis sv c) anything"
  by (simp add: redis_def ok_await ok_on_ext)

lemma ok_now: "io_ok I (date_now sv) anything"
  by (simp add: date_now_def ok_read_ext)

lemma ok_random: "io_ok I (random_hex sv n) anything"
  unfolding random_hex_def by (intro ok_bind_any ok_read_ext ok_return anythingI)

lemma ok_rpcCall: "others_keep (\<lambda>w w'. I w \<longrightarrow> I w') sv \<Longrightarrow> io_ok I (rpcCall sv m ps o') anything"
  unfolding rpcCall_def
  by (intro ok_bind_any ok_if ok_throw ok_lift ok_await ok_on_ext anythingI)

lemma ok_resolve: "others_keep (\<lambda>w w'. I w \<longrightarrow> I w') sv \<Longrightarrow> io_ok I (resolveTnsToAddress sv wd) anything"
  unfolding resolveTnsToAddress_def resolve_miss_def Let_def
  by (intro ok_if ok_return ok_bind_any ok_get ok_now ok_case_option ok_case_prod ok_catch ok_await ok_on_ext
      ok_seq ok_modify tns_inv anythingI)

lemmas service_ok =
  ok_rules ok_on_ext ok_read_ext ok_write ok_redis ok_now ok_random ok_rpcCall ok_resolve

end

section \<open>An in-memory outside world\<close>

text \<open>
  A concrete instance of the services, used to show that the assumptions the properties make about
  them can hold: a Redis that keeps lists, sets and values in an association list and never
  expires them, a clock that advances by one millisecond per reading, and a log of the RPC calls.
  The node's answers are a function of the call.
\<close>

record mem =
  mm_log :: "(string \<times> jsv list) list"
  mm_store :: "(string \<times> rval) list"
  mm_now :: int

definition mem_list :: "(string \<times> rval) list \<Rightarrow> string \<Rightarrow> rval list" where
  "mem_list st k = (case map_get st k of Some (RList vs) \<Rightarrow> vs | _ \<Rightarrow> [])"

definition mem_num :: "(string \<times> rval) list \<Rightarrow> string \<Rightarrow> rat" where
  "mem_num st k = (case map_get st k of Some (RJson (JNum q)) \<Rightarrow> q | _ \<Rightarrow> 0)"

definition mem_range :: "rval list \<Rightarrow> int \<Rightarrow> int \<Rightarrow> rval list" where
  \<comment> \<open>indices \<open>a..b\<close>; a negative end counts from the right\<close>
  "mem_range vs a b =
     (let e = (if b < 0 then int (length vs) + b else b)
      in if e < a then [] else list_range vs (nat a) (nat e))"

fun mem_exec :: "redis_cmd \<Rightarrow> (string \<times> rval) list \<Rightarrow> rval \<times> (string \<times> rval) list" where
  "mem_exec (LPush k v) st =
     (let vs = v # mem_list st k in (RInt (int (length vs)), map_set k (RList vs) st))"
| "mem_exec (LTrim k a b) st = (RText ''OK'', map_set k (RList (mem_range (mem_list st k) a b)) st)"
| "mem_exec (LRange k a b) st = (RList (mem_range (mem_list st k) a b), st)"
| "mem_exec (LLen k) st = (RInt (int (length (mem_list st k))), st)"
| "mem_exec (RGet k) st = ((case map_get st k of Some v \<Rightarrow> v | None \<Rightarrow> RNil), st)"
| "mem_exec (RSet k v) st = (RText ''OK'', map_set k v st)"
| "mem_exec (RSetEx k ttl v) st = (RText ''OK'', map_set k v st)"
| "mem_exec (RDel k) st = (RInt (if map_get st k = None then 0 else 1), map_del k st)"
| "mem_exec (RIncr k) st =
     (RInt (\<lfloor>mem_num st k\<rfloor> + 1), map_set k (RJson (JNum (mem_num st k + 1))) st)"
| "mem_exec (RIncrByFloat k q) st =
     (RJson (JNum (mem_num st k + q)), map_set k (RJson (JNum (mem_num st k + q))) st)"
| "mem_exec (SAdd k e) st =
     (let vs = mem_list st k
      in if RText e \<in> set vs then (RInt 0, st) else (RInt 1, map_set k (RList (vs @ [RText e])) st))"
| "mem_exec (SMembers k) st = (RList (mem_list st k), st)"
| "mem_exec (RExpire k ttl) st = (RInt 1, st)"
| "mem_exec (RKeys p) st =
     (let pre = takeWhile (\<lambda>c. c \<noteq> CHR ''*'') p
      in (RList (map RText (filter (\<lambda>k. startsWith k pre) (map_keys st))), st))"

definition mem_services :: "(string \<Rightarrow> jsv list \<Rightarrow> jsv) \<Rightarrow> mem services" where
  "mem_services answer =
     \<lparr>sv_post = (\<lambda>p m ps x. (Inr (JObj [(''result'', answer m ps)]),
                                  x\<lparr>mm_log := mm_log x @ [(m, ps)]\<rparr>)),
      sv_tns = (\<lambda>d x. (Inr JNull, x)),
      sv_redis = (\<lambda>c x. case mem_exec c (mm_store x) of (v, st) \<Rightarrow> (Inr v, x\<lparr>mm_store := st\<rparr>)),
      sv_now = (\<lambda>x. (mm_now x, x\<lparr>mm_now := mm_now x + 1\<rparr>)),
      sv_today = (\<lambda>x. (''2025-01-01'', x)),
      sv_random = (\<lambda>n x. (replicate n 7, x)),
      sv_parse = (\<lambda>s. Inr (JStr s)),
      sv_others = (\<lambda>w. w),
      sv_rpcWallet = [],
      sv_feeWallet = []\<rparr>"

definition mem_world :: "mem world" where
  "mem_world =
     \<lparr>w_blockTemplate = None, w_poolMiners = [], w_poolBlocksFound = 0, w_activeWorkers = 0,
      w_poolWallet = ''poolwallet'', w_poolFee = 1, w_soloMiners = [], w_soloBlocksFound = 0, w_soloFee = 1,
      w_objs = (\<lambda>_. \<lparr>m_shares = 0, m_validShares = 0, m_lastSeen = 0, m_workerId = [],
        m_extraNonce1 = [], m_difficulty = None, m_resolvedAddress = None, m_shareHistory = None,
        m_submittedShares = None, m_lastJobId = JUndef, m_socket = None, m_coinbase1 = None,
        m_coinbase2 = None, m_jobId = JUndef\<rparr>),
      w_nextObj = 1, w_poolConns = [], w_soloConns = [], w_activeSockets = [],
      w_activeSoloSockets = [], w_destroyed = [], w_timers = [], w_soloTimers = [],
      w_nextTimer = 0, w_tasks = [], w_tns = [], w_redis = True, w_poolStatsCache = None, w_poolStatsCacheTime = 0, w_out = [],
      w_ext = \<lparr>mm_log = [], mm_store = [], mm_now = 1000\<rparr>\<rparr>"

lemma mem_services_others [simp]: "sv_others (mem_services answer) = (\<lambda>w. w)"
  by (simp add: mem_services_def)

end
