(* ===== verification/Vardiff.thy ===== *)
theory Vardiff
  imports Pool_State
begin

text \<open>
  Difficulty and hash rate of a miner (\<open>pool.js\<close>: \<open>VARDIFF\<close>, \<open>parseDiffOverride\<close>,
  \<open>calcActualHashrate\<close>, \<open>minerHashrate\<close> and the body of the retarget timers).  The arithmetic is on
  doubles.  The lemmas bound what the pool may set and say in which direction a retarget moves.
\<close>

section \<open>Configuration\<close>

definition VARDIFF_startDiff :: rat where "VARDIFF_startDiff = 12500"
definition VARDIFF_minDiff :: rat where "VARDIFF_minDiff = 5000"
definition VARDIFF_maxDiff :: rat where "VARDIFF_maxDiff = 30000000"
definition VARDIFF_targetTime :: rat where "VARDIFF_targetTime = 10"
definition VARDIFF_retargetEvery :: rat where "VARDIFF_retargetEvery = 60000"
definition VARDIFF_variance :: rat where "VARDIFF_variance = 1 / 4"

lemmas VARDIFF_defs =
  VARDIFF_startDiff_def VARDIFF_minDiff_def VARDIFF_maxDiff_def VARDIFF_targetTime_def
  VARDIFF_retargetEvery_def VARDIFF_variance_def

definition clampDiff :: "rat \<Rightarrow> rat" where
  "clampDiff d = min VARDIFF_maxDiff (max VARDIFF_minDiff d)"

section \<open>The password field\<close>

definition diff_digits :: "string \<Rightarrow> string option" where
  "diff_digits s = (let ds = takeWhile (is_digit_of 10) s in if ds = [] then None else Some ds)"

definition diff_option_at :: "string \<Rightarrow> string option" where
  \<comment> \<open>\<open>(?:diff|d)=(\d+)\<close> at the start of \<open>s\<close>, ignoring case\<close>
  "diff_option_at s =
     (if startsWith (toLowerCase s) ''diff='' then diff_digits (drop 5 s)
      else if startsWith (toLowerCase s) ''d='' then diff_digits (drop 2 s)
      else None)"

fun diff_option_after_sep :: "string \<Rightarrow> string option" where
  "diff_option_after_sep [] = None"
| "diff_option_after_sep (c # s) =
     (if c = CHR '','' \<or> c = CHR '';'' then
        (case diff_option_at s of Some ds \<Rightarrow> Some ds | None \<Rightarrow> diff_option_after_sep s)
      else diff_option_after_sep s)"

definition diff_match :: "string \<Rightarrow> string option" where
  "diff_match s = (case diff_option_at s of Some ds \<Rightarrow> Some ds | None \<Rightarrow> diff_option_after_sep s)"

definition parseDiffOverride :: "jsv \<Rightarrow> rat option" where
  "parseDiffOverride password =
     (case js_string_opt password of
        None \<Rightarrow> None
      | Some s \<Rightarrow>
          (case diff_match s of
             None \<Rightarrow> None
           | Some ds \<Rightarrow>
               (case js_parseInt 10 ds of
                  None \<Rightarrow> None
                | Some requested \<Rightarrow> Some (clampDiff (of_int requested)))))"

section \<open>Retargeting\<close>

definition actual_time :: "rat \<Rightarrow> rat list \<Rightarrow> rat" where
  "actual_time now shareTimestamps =
     (let window = js_div VARDIFF_retargetEvery 1000;
          recentShares = length (filter (\<lambda>t. js_sub now t \<le> window) shareTimestamps)
      in if 0 < recentShares then js_div window (of_nat recentShares) else js_mul VARDIFF_targetTime 2)"

definition retarget :: "rat \<Rightarrow> rat list \<Rightarrow> rat \<Rightarrow> rat option" where
  \<comment> \<open>the new difficulty the timer sends, if any\<close>
  "retarget now shareTimestamps socketDiff =
     (let actualTime = actual_time now shareTimestamps;
          ratio = js_div actualTime VARDIFF_targetTime
      in if ratio < js_sub 1 VARDIFF_variance \<or> js_add 1 VARDIFF_variance < ratio then
           let newDiff = clampDiff (of_int (math_round (js_mul socketDiff (js_div VARDIFF_targetTime actualTime))))
           in if newDiff \<noteq> socketDiff then Some newDiff else None
         else None)"

section \<open>Hash rates\<close>

definition history_hashes :: "(int \<times> rat option) list \<Rightarrow> rat option" where
  \<comment> \<open>\<open>reduce((sum, s) => sum + s.d * 4294967296, 0)\<close>; None is NaN, from a share without difficulty\<close>
  "history_hashes h =
     foldl (\<lambda>sum (t, d). case (sum, d) of
         (Some a, Some x) \<Rightarrow> Some (js_add a (js_mul x 4294967296)) | _ \<Rightarrow> None) (Some 0) h"

definition calcActualHashrate :: "int \<Rightarrow> (int \<times> rat option) list option \<Rightarrow> rat option" where
  "calcActualHashrate now shareHistory =
     (case shareHistory of
        None \<Rightarrow> Some 0
      | Some h \<Rightarrow>
          if length h < 2 then Some 0
          else let recent = filter (\<lambda>(t, d). now - 300000 \<le> t) h in
            if length recent < 2 then Some 0
            else let dtSec = js_div (of_int (fst (last recent) - fst (hd recent))) 1000 in
              if dtSec < 5 then Some 0
              else map_option (\<lambda>total. js_div total dtSec) (history_hashes (tl recent)))"

definition minerHashrate :: "int \<Rightarrow> miner \<Rightarrow> rat" where
  "minerHashrate now m =
     (let actual = calcActualHashrate now (m_shareHistory m);
          diff = (case m_difficulty m of
                    Some d \<Rightarrow> if d \<noteq> 0 then d else VARDIFF_startDiff | None \<Rightarrow> VARDIFF_startDiff);
          estimated = js_div (js_mul diff 4294967296) VARDIFF_targetTime
      in case actual of
           Some a \<Rightarrow> if 0 < a then a else if 0 < estimated then estimated else 0
         | None \<Rightarrow> if 0 < estimated then estimated else 0)"

section \<open>Bounds\<close>

definition diff_ok :: "rat \<Rightarrow> bool" where
  "diff_ok d \<longleftrightarrow> d \<in> \<int> \<and> VARDIFF_minDiff \<le> d \<and> d \<le> VARDIFF_maxDiff"

lemma diff_ok_start [simp, inv_intros]: "diff_ok VARDIFF_startDiff"
  by (simp add: diff_ok_def VARDIFF_defs)

lemma diff_ok_clamp [inv_intros]: "d \<in> \<int> \<Longrightarrow> diff_ok (clampDiff d)"
  by (auto simp: diff_ok_def clampDiff_def VARDIFF_defs min_def max_def)

lemma parseDiffOverride_ok: "parseDiffOverride p = Some d \<Longrightarrow> diff_ok d"
  by (auto simp: parseDiffOverride_def intro: inv_intros split: option.splits)

lemma retarget_ok: "retarget now ts d = Some d' \<Longrightarrow> diff_ok d'"
  by (auto simp: retarget_def Let_def intro: inv_intros split: if_splits)

lemma diff_ok_fl: "diff_ok d \<Longrightarrow> fl d = d"
proof -
  assume d: "diff_ok d"
  then obtain n where n: "d = of_int n" by (auto simp: diff_ok_def elim: Ints_cases)
  with d have "\<bar>n\<bar> \<le> 30000000" by (simp add: diff_ok_def VARDIFF_defs)
  with n show ?thesis by simp
qed

lemma fl_small: "\<bar>n\<bar> \<le> 2 ^ 53 \<Longrightarrow> x = of_int n \<Longrightarrow> fl x = x"
  by simp

lemma math_round_mono: "x \<le> y \<Longrightarrow> math_round x \<le> math_round y"
  by (simp add: math_round_def floor_mono)

definition recent_count :: "rat \<Rightarrow> rat list \<Rightarrow> nat" where
  \<comment> \<open>shares of the last 60 seconds\<close>
  "recent_count now ts = length (filter (\<lambda>t. js_sub now t \<le> 60) ts)"

lemma window_60: "js_div VARDIFF_retargetEvery 1000 = 60"
  using fl_of_int [of 60] by (simp add: js_div_def VARDIFF_defs)

lemma actual_time_eq:
  "actual_time now ts =
     (if 0 < recent_count now ts then fl (60 / of_nat (recent_count now ts)) else 20)"
  using fl_of_int [of 20]
  by (simp only: actual_time_def recent_count_def window_60 Let_def)
     (simp add: js_div_def js_mul_def VARDIFF_defs)

lemma fl_le: "x \<le> y \<Longrightarrow> fl y = y \<Longrightarrow> fl x \<le> y"
  using fl_mono [of x y] by simp

lemma fl_ge: "y \<le> x \<Longrightarrow> fl y = y \<Longrightarrow> y \<le> fl x"
  using fl_mono [of y x] by simp

lemma fl_exact:
  "fl 7 = 7" "fl 12 = 12" "fl 15 = 15" "fl 20 = 20" "fl (15 / 2) = 15 / 2" "fl (3 / 4) = 3 / 4" "fl (5 / 4) = 5 / 4"
  "fl (11 / 16) = 11 / 16" "fl (23 / 32) = 23 / 32" 
  by code_simp+

lemma slow_time: "recent_count now ts \<le> 4 \<Longrightarrow> 15 \<le> actual_time now ts"
proof -
  assume n: "recent_count now ts \<le> 4"
  have "15 \<le> fl (60 / of_nat (recent_count now ts))" if "0 < recent_count now ts"
  proof (rule fl_ge)
    have "of_nat (recent_count now ts) \<le> (4 :: rat)" using n by simp
    with that show "15 \<le> 60 / (of_nat (recent_count now ts) :: rat)"
      by (simp add: field_simps)
  qed (simp add: fl_exact)
  then show ?thesis by (simp add: actual_time_eq)
qed

lemma fast_time:
  assumes "9 \<le> recent_count now ts"
  shows "0 < actual_time now ts" and "actual_time now ts \<le> 7"
proof -
  have n: "(9 :: rat) \<le> of_nat (recent_count now ts)"
    using assms by (metis of_nat_le_iff of_nat_numeral)
  have "fl (60 / of_nat (recent_count now ts)) \<le> 7"
    by (rule fl_le) (use n in \<open>simp_all add: field_simps fl_exact\<close>)
  then show "actual_time now ts \<le> 7" using assms by (simp add: actual_time_eq)
  show "0 < actual_time now ts" using assms n by (simp add: actual_time_eq fl_pos)
qed

lemma steady_time:
  assumes "5 \<le> recent_count now ts" and "recent_count now ts \<le> 8"
  shows "15 / 2 \<le> actual_time now ts" and "actual_time now ts \<le> 12"
proof -
  have n: "(5 :: rat) \<le> of_nat (recent_count now ts)" "of_nat (recent_count now ts) \<le> (8 :: rat)"
    using assms by (metis of_nat_le_iff of_nat_numeral)+
  have "fl (60 / of_nat (recent_count now ts)) \<le> 12"
    by (rule fl_le) (use n in \<open>simp_all add: field_simps fl_exact\<close>)
  moreover have "15 / 2 \<le> fl (60 / of_nat (recent_count now ts))"
    by (rule fl_ge) (use n in \<open>simp_all add: field_simps fl_exact\<close>)
  ultimately show "15 / 2 \<le> actual_time now ts" "actual_time now ts \<le> 12"
    using assms by (simp_all add: actual_time_eq)
qed

lemma variance_bounds: "js_sub 1 VARDIFF_variance = 3 / 4" "js_add 1 VARDIFF_variance = 5 / 4"
  by (simp_all add: js_sub_def js_add_def VARDIFF_defs fl_exact)

lemma round_below:
  assumes "x \<le> of_int n" and "\<bar>n\<bar> \<le> 2 ^ 53" shows "math_round (fl x) \<le> n"
proof -
  have "fl x \<le> of_int n" by (rule fl_le [OF assms(1) fl_of_int [OF assms(2)]])
  then have "fl x + 1 / 2 < of_int (n + 1)" by simp
  then show ?thesis unfolding math_round_def by (simp add: floor_le_iff)
qed

lemma round_above:
  assumes "of_int n \<le> x" and "\<bar>n\<bar> \<le> 2 ^ 53" shows "n \<le> math_round (fl x)"
proof -
  have "of_int n \<le> fl x" by (rule fl_ge [OF assms(1) fl_of_int [OF assms(2)]])
  then show ?thesis unfolding math_round_def by (simp add: le_floor_iff)
qed

lemma retarget_steady:
  assumes "5 \<le> recent_count now ts" and "recent_count now ts \<le> 8"
  shows "retarget now ts d = None"
proof -
  note t = steady_time [OF assms]
  have "3 / 4 \<le> fl (actual_time now ts / 10)"
    by (rule fl_ge) (use t in \<open>simp_all add: fl_exact\<close>)
  moreover have "fl (actual_time now ts / 10) \<le> 5 / 4"
    by (rule fl_le) (use t in \<open>simp_all add: fl_exact\<close>)
  ultimately show ?thesis
    by (simp add: retarget_def Let_def variance_bounds) (simp add: js_div_def VARDIFF_defs)
qed

lemma diff_okE:
  assumes "diff_ok d" obtains n where "d = of_int n" "5000 \<le> n" "n \<le> 30000000"
  using assms by (auto simp: diff_ok_def VARDIFF_defs elim!: Ints_cases)

lemma retarget_slow:
  assumes "recent_count now ts \<le> 4" and "diff_ok d"
  shows "retarget now ts d = None \<and> d = VARDIFF_minDiff \<or>
    (\<exists>d'. retarget now ts d = Some d' \<and> d' < d)"
proof -
  let ?a = "actual_time now ts"
  obtain n where n: "d = of_int n" "5000 \<le> n" "n \<le> 30000000" using assms(2) by (rule diff_okE)
  have a: "15 \<le> ?a" using assms(1) by (rule slow_time)
  have "23 / 16 \<le> ?a / 10" using a by simp
  moreover have "fl (23 / 16) = 23 / 16" by code_simp
  ultimately have r: "5 / 4 < fl (?a / 10)" using fl_ge [of "23 / 16" "?a / 10"] by linarith
  have "10 / ?a \<le> 11 / 16" using a by (simp add: field_simps)
  then have "fl (10 / ?a) \<le> 11 / 16" by (rule fl_le) (simp add: fl_exact)
  then have "d * fl (10 / ?a) \<le> d * (11 / 16)" using n by (intro mult_left_mono) simp_all
  also have "\<dots> \<le> of_int (n - 1)" using n by simp
  finally have m: "math_round (fl (d * fl (10 / ?a))) \<le> n - 1" using n by (intro round_below) simp_all
  define m where "m = math_round (fl (d * fl (10 / ?a)))"
  have eq: "retarget now ts d = (if clampDiff (of_int m) \<noteq> d then Some (clampDiff (of_int m)) else None)"
    using r by (simp add: retarget_def Let_def variance_bounds m_def)
      (simp add: js_div_def js_mul_def VARDIFF_defs)
  have "(of_int m :: rat) \<le> d - 1" using m n(1) by (simp add: m_def)
  moreover have "5000 \<le> d" using n by simp
  ultimately show ?thesis
    unfolding eq by (auto simp: clampDiff_def VARDIFF_defs min_def max_def)
qed

lemma retarget_fast:
  assumes "9 \<le> recent_count now ts" and "diff_ok d"
  shows "retarget now ts d = None \<and> d = VARDIFF_maxDiff \<or>
    (\<exists>d'. retarget now ts d = Some d' \<and> d < d')"
proof -
  let ?a = "actual_time now ts"
  obtain n where n: "d = of_int n" "5000 \<le> n" "n \<le> 30000000" using assms(2) by (rule diff_okE)
  note a = fast_time [OF assms(1)]
  have "?a / 10 \<le> 23 / 32" using a by simp
  then have r: "fl (?a / 10) < 3 / 4" using fl_le [of "?a / 10" "23 / 32"] fl_exact by simp
  have "5 / 4 \<le> 10 / ?a" using a by (simp add: field_simps)
  then have "5 / 4 \<le> fl (10 / ?a)" by (rule fl_ge) (simp add: fl_exact)
  then have "d * (5 / 4) \<le> d * fl (10 / ?a)" using n by (intro mult_left_mono) simp_all
  moreover have "of_int (n + 1) \<le> d * (5 / 4)" using n by simp
  ultimately have "of_int (n + 1) \<le> d * fl (10 / ?a)" by linarith
  then have m: "n + 1 \<le> math_round (fl (d * fl (10 / ?a)))" using n by (intro round_above) simp_all
  define m where "m = math_round (fl (d * fl (10 / ?a)))"
  have eq: "retarget now ts d = (if clampDiff (of_int m) \<noteq> d then Some (clampDiff (of_int m)) else None)"
    using r by (simp add: retarget_def Let_def variance_bounds m_def)
      (simp add: js_div_def js_mul_def VARDIFF_defs)
  have "d + 1 \<le> (of_int m :: rat)" using m n(1) by (simp add: m_def)
  moreover have "5000 \<le> d" "d \<le> 30000000" using n by simp_all
  ultimately show ?thesis
    unfolding eq by (auto simp: clampDiff_def VARDIFF_defs min_def max_def)
qed

lemma diff_digits_all: "diff_digits (radix_digits 10 n) = Some (radix_digits 10 n)"
proof -
  have "takeWhile (is_digit_of 10) (radix_digits 10 n) = radix_digits 10 n"
    using radix_digits_read [of 10 n] by (simp add: list_all_iff)
  then show ?thesis by (simp only: diff_digits_def Let_def radix_digits_nonempty if_False)
qed

lemma lower_prefix:
  "toLowerCase (CHR ''d'' # s) = CHR ''d'' # toLowerCase s"
  "toLowerCase (CHR ''i'' # s) = CHR ''i'' # toLowerCase s"
  "toLowerCase (CHR ''f'' # s) = CHR ''f'' # toLowerCase s"
  "toLowerCase (CHR ''='' # s) = CHR ''='' # toLowerCase s"
  by (simp_all add: toLowerCase_def lower_char_def)

lemma override_read:
  "parseDiffOverride (JStr (''d='' @ radix_digits 10 n)) = Some (clampDiff (of_nat n))"
  "parseDiffOverride (JStr (''diff='' @ radix_digits 10 n)) = Some (clampDiff (of_nat n))"
  by (simp_all add: parseDiffOverride_def diff_match_def diff_option_at_def startsWith_def lower_prefix
      diff_digits_all parseInt_radix_digits)

section \<open>Properties\<close>

text \<open>
  Whatever a miner puts in the password field, an accepted difficulty override is a whole
  number within the configured bounds; the documented forms \<open>d=n\<close> and \<open>diff=n\<close> give \<open>n\<close>, clamped to the
  bounds.
\<close>

lemma diff_override_clamped:
  "(case parseDiffOverride password of None \<Rightarrow> True | Some d \<Rightarrow> diff_ok d) \<and>
   parseDiffOverride (JStr (''d='' @ radix_digits 10 n)) = Some (clampDiff (of_nat n)) \<and>
   parseDiffOverride (JStr (''diff='' @ radix_digits 10 n)) = Some (clampDiff (of_nat n))"
  using override_read parseDiffOverride_ok by (auto split: option.splits)

text \<open>
  A retarget looks at the shares of the last minute: with 5 to 8 of them nothing changes,
  with fewer the difficulty goes strictly down and with more strictly up, unless it is already
  at the bound, and it stays a whole number within the bounds.
\<close>

lemma retarget_direction:
  assumes "diff_ok d"
  shows "case retarget now ts d of
      None \<Rightarrow> 5 \<le> recent_count now ts \<and> recent_count now ts \<le> 8 \<or>
        recent_count now ts \<le> 4 \<and> d = VARDIFF_minDiff \<or>
        9 \<le> recent_count now ts \<and> d = VARDIFF_maxDiff
    | Some d' \<Rightarrow> diff_ok d' \<and>
        (recent_count now ts \<le> 4 \<and> d' < d \<or> 9 \<le> recent_count now ts \<and> d < d')"
proof -
  consider "recent_count now ts \<le> 4" | "5 \<le> recent_count now ts" "recent_count now ts \<le> 8"
    | "9 \<le> recent_count now ts" by linarith
  then show ?thesis
    by cases (use retarget_slow [OF _ assms, of now ts] retarget_steady [of now ts d]
        retarget_fast [OF _ assms, of now ts] retarget_ok [of now ts d]
        in \<open>auto split: option.splits\<close>)
qed

lemma retarget_direction_witness:
  "case retarget 1000 [1000, 999, 998, 997, 996, 995, 994, 993, 992, 991] 12500 of
     None \<Rightarrow> False | Some d \<Rightarrow> diff_ok d \<and> 12500 < d"
proof -
  have n: "recent_count 1000 [1000, 999, 998, 997, 996, 995, 994, 993, 992, 991] = 10"
    by code_simp
  show ?thesis
    using retarget_direction [of 12500 1000 "[1000, 999, 998, 997, 996, 995, 994, 993, 992, 991]"]
    by (auto simp: n diff_ok_def VARDIFF_defs split: option.splits)
qed

end
