(* ===== verification/Shares.thy ===== *)
theory Shares
  imports Vardiff
begin

text \<open>
  Share verification (\<open>pool.js\<close>: \<open>handleSubmit\<close>, \<open>handleSoloSubmit\<close>, \<open>handleBlockFound\<close>,
  \<open>handleSoloBlockFound\<close>).  Each handler is the composition of the steps of its source, in order:
  find the worker, drop duplicates, check the job, rebuild the header, credit the share, answer,
  record in Redis, submit a block.  Everything up to the answer is synchronous; the Redis and node
  calls after it are awaits.
\<close>

section \<open>Messages\<close>

definition reply_true :: "jsv \<Rightarrow> jsv" where
  "reply_true i = JObj [(''id'', i), (''result'', JBool True), (''error'', JNull)]"

definition reply_error :: "jsv \<Rightarrow> int \<Rightarrow> string \<Rightarrow> jsv" where
  "reply_error i c msg =
     JObj [(''id'', i), (''result'', JNull), (''error'', JArr [JInt c, JStr msg, JNull])]"

definition msg_param :: "jsv \<Rightarrow> nat \<Rightarrow> exn + jsv" where
  "msg_param message i = res_bind (js_prop message ''params'') (\<lambda>p. js_index p i)"

record submission =
  sb_id :: jsv
  sb_worker :: jsv
  sb_jobId :: jsv
  sb_extraNonce2 :: jsv
  sb_nTime :: jsv
  sb_nonce :: jsv
  sb_versionBits :: jsv

definition read_submission :: "jsv \<Rightarrow> exn + submission" where
  \<comment> \<open>\<open>message.params[0]\<close>, the array pattern over \<open>message.params\<close>, and \<open>message.params[5]\<close>, which
     is \<open>undefined\<close> when the array is shorter\<close>
  "read_submission message =
     res_bind (msg_param message 0) (\<lambda>worker.
     res_bind (js_prop message ''params'') (\<lambda>params.
     res_bind (js_spread params) (\<lambda>ps.
       Inr \<lparr>sb_id = js_prop_opt message ''id'', sb_worker = worker, sb_jobId = list_at ps 1,
            sb_extraNonce2 = list_at ps 2, sb_nTime = list_at ps 3, sb_nonce = list_at ps 4,
            sb_versionBits = list_at ps 5\<rparr>)))"

section \<open>Duplicates\<close>

fun js_strict_eq :: "jsv \<Rightarrow> jsv \<Rightarrow> bool" where
  \<comment> \<open>\<open>===\<close>; arrays and objects of different messages are different objects\<close>
  "js_strict_eq (JArr _) b = False"
| "js_strict_eq (JObj _) b = False"
| "js_strict_eq JNaN b = False"
| "js_strict_eq a b = (a = b)"

definition shareKey :: "submission \<Rightarrow> string" where
  "shareKey s =
     toLowerCase (js_tostring (sb_jobId s)) @ '':'' @ toLowerCase (js_tostring (sb_extraNonce2 s)) @ '':'' @
     toLowerCase (js_tostring (sb_nTime s)) @ '':'' @ toLowerCase (js_tostring (sb_nonce s))"

definition seen_shares :: "jsv \<Rightarrow> miner \<Rightarrow> string list" where
  \<comment> \<open>the set of seen shares after the possible reset\<close>
  "seen_shares jobId m =
     (if js_strict_eq (m_lastJobId m) jobId
      then (case m_submittedShares m of None \<Rightarrow> [] | Some seen \<Rightarrow> seen) else [])"

definition mark_share :: "submission \<Rightarrow> miner \<Rightarrow> miner" where
  "mark_share s m =
     (let seen = seen_shares (sb_jobId s) m
      in m\<lparr>m_lastJobId := sb_jobId s,
           m_submittedShares := Some (if shareKey s \<in> set seen then seen else seen @ [shareKey s])\<rparr>)"

definition dedup_share :: "nat \<Rightarrow> submission \<Rightarrow> ('x world, bool) io" where
  \<comment> \<open>True when the share was seen before\<close>
  "dedup_share i s =
     io_bind (get_obj i) (\<lambda>m.
     io_seq (upd_obj i (mark_share s))
       (io_return (shareKey s \<in> set (seen_shares (sb_jobId s) m))))"

section \<open>The header of a share\<close>

definition share_coinbase :: "string \<Rightarrow> string \<Rightarrow> string \<Rightarrow> submission \<Rightarrow> string" where
  "share_coinbase coinbase1 coinbase2 extraNonce1 s =
     coinbase1 @ extraNonce1 @ js_tostring (sb_extraNonce2 s) @ coinbase2"

definition share_header :: "job \<Rightarrow> string \<Rightarrow> submission \<Rightarrow> exn + bytes" where
  "share_header t coinbaseHex s =
     (let coinbaseTxid = sha256d (hex_decode coinbaseHex);
          merkleRoot = fold_branch coinbaseTxid (map hex_decode (j_merkleBranch t));
          finalVersion = (if truthy (sb_versionBits s)
                          then rollVersion (j_version t) (js_tostring (sb_versionBits s)) else j_version t)
      in buildBlockHeader finalVersion (j_prevHashBE t) (hex_encode merkleRoot)
           (js_tostring (sb_nTime s)) (j_nBits t) (js_tostring (sb_nonce s)))"

definition meets_network :: "job \<Rightarrow> bytes \<Rightarrow> bool" where
  "meets_network t header \<longleftrightarrow> hashMeetsTarget (sha256d header) (nBitsToTarget (j_nBits t))"

section \<open>Credit and records\<close>

definition credit_share :: "int \<Rightarrow> int \<Rightarrow> int \<Rightarrow> miner \<Rightarrow> miner" where
  "credit_share seen_at pushed_at cut_at m =
     (let history = (case m_shareHistory m of None \<Rightarrow> [] | Some h \<Rightarrow> h)
      in m\<lparr>m_validShares := Suc (m_validShares m), m_shares := Suc (m_shares m), m_lastSeen := seen_at,
           m_shareHistory := Some (dropWhile (\<lambda>(t, d). t < cut_at - 300000)
             (history @ [(pushed_at, m_difficulty m)]))\<rparr>)"

definition accept_share :: "'x services \<Rightarrow> nat \<Rightarrow> nat \<Rightarrow> submission \<Rightarrow> ('x world, unit) io" where
  "accept_share sv sock i s =
     io_bind (date_now sv) (\<lambda>t1.
     io_bind (date_now sv) (\<lambda>t2.
     io_bind (date_now sv) (\<lambda>t3.
     io_seq (upd_obj i (credit_share t1 t2 t3))
       (sock_write sock (reply_true (sb_id s))))))"

definition record_hashrate :: "'x services \<Rightarrow> nat \<Rightarrow> jsv \<Rightarrow> ('x world, unit) io" where
  \<comment> \<open>the hash rate snapshot and the day of activity, common to both handlers\<close>
  "record_hashrate sv i workerName =
     io_bind (resolveTnsToAddress sv (pw_wallet (parseMinerWorker workerName))) (\<lambda>wallet.
     io_seq (io_when (wallet \<noteq> [])
               (upd_obj i (\<lambda>m. m\<lparr>m_resolvedAddress := Some (toLowerCase wallet)\<rparr>)))
    (io_bind (date_now sv) (\<lambda>now.
     io_bind (get_obj i) (\<lambda>m.
     io_bind (date_now sv) (\<lambda>time.
     let hashSnapshot = math_round (minerHashrate now m);
         histKey = ''miner:hashrate_history:'' @ wallet;
         upKey = ''miner:uptime:'' @ wallet
     in
     io_seq (redis sv (LPush histKey (RJson (JObj [(''time'', JInt time), (''hashrate'', JInt hashSnapshot)]))))
    (io_seq (redis sv (LTrim histKey 0 8639))
    (io_seq (redis sv (RExpire histKey 86400))
    (io_bind (read_ext (sv_today sv)) (\<lambda>today.
     io_seq (redis sv (SAdd upKey today))
    (io_seq (redis sv (RExpire upKey (86400 * 14)))
     (io_return ())))))))))))"

definition record_share :: "'x services \<Rightarrow> nat \<Rightarrow> jsv \<Rightarrow> ('x world, unit) io" where
  "record_share sv i workerName =
     io_bind (date_now sv) (\<lambda>time.
     io_seq (redis sv (LPush ''pool:shares'' (RJson (JObj [(''worker'', workerName), (''time'', JInt time)]))))
    (io_seq (redis sv (LTrim ''pool:shares'' 0 999999))
     (record_hashrate sv i workerName)))"

section \<open>Found blocks\<close>

definition assemble_block :: "bytes \<Rightarrow> string \<Rightarrow> job option \<Rightarrow> exn + string" where
  "assemble_block header coinbaseHex tmpl =
     (case tmpl of
        None \<Rightarrow> Inl type_error
      | Some t \<Rightarrow>
          res_bind (encodeVarInt (1 + length (j_txData t))) (\<lambda>count.
            Inr (hex_encode header @ count @ coinbaseHex @ concat (j_txData t))))"

definition block_record :: "jsv \<Rightarrow> nat \<Rightarrow> int \<Rightarrow> (string \<times> jsv) list \<Rightarrow> rval" where
  "block_record workerName height time extra =
     RJson (JObj ([(''worker'', workerName), (''height'', JInt (int height)), (''time'', JInt time)] @ extra))"

definition tmpl_height :: "job option \<Rightarrow> nat" where
  "tmpl_height tmpl = (case tmpl of None \<Rightarrow> 0 | Some t \<Rightarrow> j_height t)"

definition handleBlockFound ::
  "'x services \<Rightarrow> bytes \<Rightarrow> string \<Rightarrow> jsv \<Rightarrow> ('x world, unit) io" where
  "handleBlockFound sv header coinbaseHex workerName =
     io_seq (io_modify (\<lambda>w. w\<lparr>w_poolBlocksFound := Suc (w_poolBlocksFound w)\<rparr>))
    (io_catch
      (io_bind (io_get w_blockTemplate) (\<lambda>tmpl.
       io_bind (io_lift (assemble_block header coinbaseHex tmpl)) (\<lambda>blockHex.
       io_bind (rpcCall sv ''submitblock'' [JStr blockHex] []) (\<lambda>result.
       io_bind (io_get w_redis) (\<lambda>up.
         if result = JNull then
           io_when up
             (io_bind (date_now sv) (\<lambda>time.
              io_seq (redis sv (LPush ''pool:blocks'' (block_record workerName (tmpl_height tmpl) time [])))
                (io_return ())))
         else
           io_when up
             (io_bind (date_now sv) (\<lambda>time.
              io_seq (redis sv (LPush ''pool:blocks:rejected''
                 (block_record workerName (tmpl_height tmpl) time [(''reason'', result)])))
             (io_seq (redis sv (LTrim ''pool:blocks:rejected'' 0 99))
                (io_return ())))))))))
      (\<lambda>_. io_return ()))"

definition handleSoloBlockFound ::
  "'x services \<Rightarrow> bytes \<Rightarrow> string \<Rightarrow> jsv \<Rightarrow> ('x world, unit) io" where
  "handleSoloBlockFound sv header coinbaseHex workerName =
     io_seq (io_modify (\<lambda>w. w\<lparr>w_soloBlocksFound := Suc (w_soloBlocksFound w)\<rparr>))
    (io_catch
      (io_bind (io_get w_blockTemplate) (\<lambda>tmpl.
       io_bind (io_lift (assemble_block header coinbaseHex tmpl)) (\<lambda>blockHex.
       io_bind (rpcCall sv ''submitblock'' [JStr blockHex] []) (\<lambda>submissionResult.
       io_bind (io_get w_redis) (\<lambda>up.
         if submissionResult = JNull then
           io_when up
             (io_bind (date_now sv) (\<lambda>time.
              io_seq (redis sv (LPush ''solo:blocks'' (block_record workerName (tmpl_height tmpl) time [])))
             (io_seq (redis sv (LTrim ''solo:blocks'' 0 99))
                (io_return ()))))
         else
           io_when up
             (io_bind (date_now sv) (\<lambda>time.
              io_seq (redis sv (LPush ''solo:blocks:rejected''
                 (block_record workerName (tmpl_height tmpl) time [(''reason'', submissionResult)])))
             (io_seq (redis sv (LTrim ''solo:blocks:rejected'' 0 99))
                (io_return ())))))))))
      (\<lambda>_. io_return ()))"

section \<open>The pool's share handler\<close>

definition recreated_miner :: "int \<Rightarrow> string \<Rightarrow> miner" where
  "recreated_miner now extraNonce1 =
     \<lparr>m_shares = 0, m_validShares = 0, m_lastSeen = now, m_workerId = extraNonce1,
      m_extraNonce1 = extraNonce1, m_difficulty = None, m_resolvedAddress = None,
      m_shareHistory = None, m_submittedShares = None, m_lastJobId = JUndef, m_socket = None,
      m_coinbase1 = None, m_coinbase2 = None, m_jobId = JUndef\<rparr>"

definition pool_worker :: "'x services \<Rightarrow> jsv \<Rightarrow> jsv \<Rightarrow> string \<Rightarrow> ('x world, nat) io" where
  "pool_worker sv message workerName extraNonce1 =
     io_bind (io_get (\<lambda>w. map_get (w_poolMiners w) workerName)) (\<lambda>found.
       case found of
         Some i \<Rightarrow> io_return i
       | None \<Rightarrow>
           io_bind (io_lift (msg_param message 0)) (\<lambda>name.
           io_bind (io_get (\<lambda>w. map_get (w_poolMiners w) name)) (\<lambda>found'.
             case found' of
               Some i \<Rightarrow> io_return i
             | None \<Rightarrow>
                 io_bind (date_now sv) (\<lambda>now.
                 io_bind (new_obj (recreated_miner now extraNonce1)) (\<lambda>i.
                 io_seq (io_modify (\<lambda>w. w\<lparr>w_poolMiners := map_set name i (w_poolMiners w)\<rparr>))
                   (io_return i))))))"

definition pool_verify :: "'x services \<Rightarrow> nat \<Rightarrow> nat \<Rightarrow> submission \<Rightarrow> string \<Rightarrow> job \<Rightarrow> ('x world, unit) io" where
  \<comment> \<open>the body of the \<open>try\<close> block\<close>
  "pool_verify sv sock i s extraNonce1 t =
     (let coinbaseHex = share_coinbase (j_coinbase1 t) (j_coinbase2 t) extraNonce1 s in
      io_bind (io_lift (share_header t coinbaseHex s)) (\<lambda>header.
      io_seq (accept_share sv sock i s)
     (io_bind (io_get w_redis) (\<lambda>up.
      io_seq (io_when up (record_share sv i (sb_worker s)))
        (io_when (meets_network t header) (handleBlockFound sv header coinbaseHex (sb_worker s)))))))"

definition pool_check_job :: "'x services \<Rightarrow> nat \<Rightarrow> nat \<Rightarrow> submission \<Rightarrow> string \<Rightarrow> ('x world, unit) io" where
  "pool_check_job sv sock i s extraNonce1 =
     io_bind (io_get w_blockTemplate) (\<lambda>tmpl.
       case tmpl of
         None \<Rightarrow> sock_write sock (reply_error (sb_id s) 21 ''Job not found'')
       | Some t \<Rightarrow>
           if sb_jobId s \<noteq> JStr (j_jobId t)
           then sock_write sock (reply_error (sb_id s) 21 ''Job not found'')
           else io_catch (pool_verify sv sock i s extraNonce1 t)
                  (\<lambda>_. sock_write sock (reply_error (sb_id s) 20 ''Verification error'')))"

definition handleSubmit :: "'x services \<Rightarrow> nat \<Rightarrow> jsv \<Rightarrow> jsv \<Rightarrow> string \<Rightarrow> ('x world, unit) io" where
  "handleSubmit sv sock message workerName extraNonce1 =
     io_bind (pool_worker sv message workerName extraNonce1) (\<lambda>i.
     io_bind (io_lift (read_submission message)) (\<lambda>s.
     io_bind (dedup_share i s) (\<lambda>duplicate.
       if duplicate then sock_write sock (reply_error (sb_id s) 22 ''Duplicate share'')
       else pool_check_job sv sock i s extraNonce1)))"

section \<open>The solo share handler\<close>

definition recreated_solo_miner :: "int \<Rightarrow> string \<Rightarrow> miner" where
  "recreated_solo_miner now extraNonce1 =
     (recreated_miner now extraNonce1)\<lparr>m_difficulty := Some VARDIFF_startDiff\<rparr>"

definition solo_worker :: "'x services \<Rightarrow> jsv \<Rightarrow> jsv \<Rightarrow> string \<Rightarrow> ('x world, nat) io" where
  "solo_worker sv message workerName extraNonce1 =
     io_bind (io_get (\<lambda>w. map_get (w_soloMiners w) workerName)) (\<lambda>found.
       case found of
         Some i \<Rightarrow> io_return i
       | None \<Rightarrow>
           io_bind (io_lift (msg_param message 0)) (\<lambda>name.
           io_bind (io_get (\<lambda>w. map_get (w_soloMiners w) name)) (\<lambda>found'.
             case found' of
               Some i \<Rightarrow> io_return i
             | None \<Rightarrow>
                 io_bind (date_now sv) (\<lambda>now.
                 io_bind (new_obj (recreated_solo_miner now extraNonce1)) (\<lambda>i.
                 io_seq (io_modify (\<lambda>w. w\<lparr>w_soloMiners := map_set name i (w_soloMiners w)\<rparr>))
                   (io_return i))))))"

definition text_of :: "string option \<Rightarrow> string" where
  "text_of v = (case v of None \<Rightarrow> [] | Some s \<Rightarrow> s)"

definition solo_verify :: "'x services \<Rightarrow> nat \<Rightarrow> nat \<Rightarrow> submission \<Rightarrow> string \<Rightarrow> job \<Rightarrow> miner \<Rightarrow> ('x world, unit) io" where
  "solo_verify sv sock i s extraNonce1 t m =
     (let coinbaseHex = share_coinbase (text_of (m_coinbase1 m)) (text_of (m_coinbase2 m)) extraNonce1 s in
      io_bind (io_lift (share_header t coinbaseHex s)) (\<lambda>header.
      io_seq (accept_share sv sock i s)
     (io_seq (io_when (meets_network t header)
               (handleSoloBlockFound sv header coinbaseHex (sb_worker s)))
     (io_bind (io_get w_redis) (\<lambda>up.
        io_when up (record_hashrate sv i (sb_worker s)))))))"

definition solo_check_job :: "'x services \<Rightarrow> nat \<Rightarrow> nat \<Rightarrow> submission \<Rightarrow> string \<Rightarrow> ('x world, unit) io" where
  "solo_check_job sv sock i s extraNonce1 =
     io_bind (io_get w_blockTemplate) (\<lambda>tmpl.
     io_bind (get_obj i) (\<lambda>m.
       case tmpl of
         None \<Rightarrow> sock_write sock (reply_error (sb_id s) 21 ''Job not found'')
       | Some t \<Rightarrow>
           if \<not> js_strict_eq (m_jobId m) (sb_jobId s)
           then sock_write sock (reply_error (sb_id s) 21 ''Job not found'')
           else if text_of (m_coinbase1 m) = [] \<or> text_of (m_coinbase2 m) = []
           then sock_write sock (reply_error (sb_id s) 20 ''Coinbase not ready, please wait'')
           else io_catch (solo_verify sv sock i s extraNonce1 t m)
                  (\<lambda>_. sock_write sock (reply_error (sb_id s) 20 ''Verification error''))))"

definition handleSoloSubmit :: "'x services \<Rightarrow> nat \<Rightarrow> jsv \<Rightarrow> jsv \<Rightarrow> string \<Rightarrow> ('x world, unit) io" where
  "handleSoloSubmit sv sock message workerName extraNonce1 =
     io_bind (solo_worker sv message workerName extraNonce1) (\<lambda>i.
     io_bind (io_lift (read_submission message)) (\<lambda>s.
     io_bind (dedup_share i s) (\<lambda>duplicate.
       if duplicate then sock_write sock (reply_error (sb_id s) 22 ''Duplicate share'')
       else solo_check_job sv sock i s extraNonce1)))"

section \<open>What happens after the answer\<close>

definition forget_address :: "miner \<Rightarrow> miner" where
  "forget_address m = m\<lparr>m_resolvedAddress := None\<rparr>"

definition tail_frame :: "nat \<Rightarrow> 'x world \<Rightarrow> 'x world \<Rightarrow> bool" where
  \<comment> \<open>only the resolved address of entry \<open>i\<close>, the counters of found blocks, the caches and the
     outside may differ, and lines may be added to the output\<close>
  "tail_frame i w w' \<longleftrightarrow>
     w_blockTemplate w' = w_blockTemplate w \<and> w_poolMiners w' = w_poolMiners w \<and>
     w_soloMiners w' = w_soloMiners w \<and> w_activeWorkers w' = w_activeWorkers w \<and>
     w_redis w' = w_redis w \<and> w_nextObj w' = w_nextObj w \<and>
     (\<exists>l. w_out w' = w_out w @ l) \<and>
     (\<forall>j. forget_address (w_objs w' j) = forget_address (w_objs w j)) \<and>
     (\<forall>j. j \<noteq> i \<longrightarrow> w_objs w' j = w_objs w j)"

interpretation tail: service_frame "tail_frame i" for i
  by unfold_locales (auto simp: tail_frame_def)

lemma tail_address:
  "io_keeps (tail_frame i) (upd_obj i (\<lambda>m. m\<lparr>m_resolvedAddress := a\<rparr>))"
  by (simp add: io_keeps_def upd_obj_run tail_frame_def forget_address_def)

lemma tail_record_hashrate:
  "others_keep (tail_frame i) sv \<Longrightarrow> io_keeps (tail_frame i) (record_hashrate sv i name)"
  unfolding record_hashrate_def Let_def get_obj_def
  by (intro tail.service_rules tail_address) assumption+

lemma tail_record_share:
  "others_keep (tail_frame i) sv \<Longrightarrow> io_keeps (tail_frame i) (record_share sv i name)"
  unfolding record_share_def
  by (intro tail.service_rules tail_record_hashrate) assumption+

lemma tail_handleBlockFound:
  "others_keep (tail_frame i) sv \<Longrightarrow> io_keeps (tail_frame i) (handleBlockFound sv h cb name)"
  unfolding handleBlockFound_def
  by (intro tail.service_rules tail.keeps_modify; (assumption | simp add: tail_frame_def)?)

lemma tail_handleSoloBlockFound:
  "others_keep (tail_frame i) sv \<Longrightarrow> io_keeps (tail_frame i) (handleSoloBlockFound sv h cb name)"
  unfolding handleSoloBlockFound_def
  by (intro tail.service_rules tail.keeps_modify; (assumption | simp add: tail_frame_def)?)

section \<open>The contract of the two share handlers\<close>

definition share_frame :: "nat \<Rightarrow> 'x world \<Rightarrow> 'x world \<Rightarrow> bool" where
  \<comment> \<open>what a handler does after the duplicate check, seen from the duplicate check\<close>
  "share_frame i w w' \<longleftrightarrow>
     w_blockTemplate w' = w_blockTemplate w \<and> w_poolMiners w' = w_poolMiners w \<and>
     w_soloMiners w' = w_soloMiners w \<and>
     m_lastJobId (w_objs w' i) = m_lastJobId (w_objs w i) \<and>
     m_submittedShares (w_objs w' i) = m_submittedShares (w_objs w i) \<and>
     (\<forall>j. j \<noteq> i \<longrightarrow> w_objs w' j = w_objs w j)"

interpretation share: service_frame "share_frame i" for i
  by unfold_locales (auto simp: share_frame_def)

lemma forget_address_fields:
  assumes "forget_address m' = forget_address m"
  shows "m_lastJobId m' = m_lastJobId m" "m_submittedShares m' = m_submittedShares m"
    "m_validShares m' = m_validShares m" "m_shares m' = m_shares m"
    "m_difficulty m' = m_difficulty m" "m_shareHistory m' = m_shareHistory m"
  using assms by (cases m; cases m'; simp add: forget_address_def)+

lemma share_of_tail: "tail_frame i w w' \<Longrightarrow> share_frame i w w'"
  by (auto simp: tail_frame_def share_frame_def dest: forget_address_fields)

lemma keeps_share_of_tail: "io_keeps (tail_frame i) m \<Longrightarrow> io_keeps (share_frame i) m"
  by (auto simp: io_keeps_def intro: share_of_tail)

lemma share_credit: "io_keeps (share_frame i) (upd_obj i (credit_share a b c))"
  by (simp add: io_keeps_def upd_obj_run share_frame_def credit_share_def Let_def)

lemma share_accept: "io_keeps (share_frame i) (accept_share sv sock i s)"
  unfolding accept_share_def by (intro share.service_rules share_credit)

lemma share_pool_check_job:
  assumes "others_keep (tail_frame i) sv"
  shows "io_keeps (share_frame i) (pool_check_job sv sock i s en1)"
  unfolding pool_check_job_def pool_verify_def Let_def
  by (rule share.keeps_bind [OF share.keeps_get])
     (auto split: option.splits intro!: share.keeps_rules share.keeps_write share_accept
       tail_record_share [THEN keeps_share_of_tail] tail_handleBlockFound [THEN keeps_share_of_tail] assms)

lemma share_solo_check_job:
  assumes "others_keep (tail_frame i) sv"
  shows "io_keeps (share_frame i) (solo_check_job sv sock i s en1)"
  unfolding solo_check_job_def solo_verify_def Let_def get_obj_def
  by (rule share.keeps_bind [OF share.keeps_get], rule share.keeps_bind [OF share.keeps_get])
     (auto split: option.splits intro!: share.keeps_rules share.keeps_write share_accept
       tail_record_hashrate [THEN keeps_share_of_tail]
       tail_handleSoloBlockFound [THEN keeps_share_of_tail] assms)

lemma dedup_share_run [io_simps]:
  "dedup_share i s w =
     (Inr (shareKey s \<in> set (seen_shares (sb_jobId s) (w_objs w i))),
      w\<lparr>w_objs := (w_objs w)(i := mark_share s (w_objs w i))\<rparr>)"
  by (simp add: dedup_share_def io_simps)

lemma js_strict_eq_JStr [simp]: "js_strict_eq a (JStr j) \<longleftrightarrow> a = JStr j"
  by (cases a) auto

lemma js_strict_eq_imp: "js_strict_eq a b \<Longrightarrow> a = b"
  by (cases a) auto

lemma mark_share_seen:
  assumes "js_strict_eq (m_lastJobId m) (sb_jobId s)" and "m_submittedShares m = Some seen"
    and "shareKey s \<in> set seen"
  shows "mark_share s m = m" and "shareKey s \<in> set (seen_shares (sb_jobId s) m)"
  using assms js_strict_eq_imp [OF assms(1)] by (simp_all add: mark_share_def seen_shares_def)

lemma mark_share_marks:
  "m_lastJobId (mark_share s m) = sb_jobId s"
  "\<exists>seen. m_submittedShares (mark_share s m) = Some seen \<and> shareKey s \<in> set seen"
  by (auto simp: mark_share_def Let_def)

locale share_handler =
  fixes handle :: "'x services \<Rightarrow> nat \<Rightarrow> jsv \<Rightarrow> jsv \<Rightarrow> string \<Rightarrow> ('x world, unit) io"
    and miners :: "'x world \<Rightarrow> (jsv \<times> nat) list"
    and check_job :: "'x services \<Rightarrow> nat \<Rightarrow> nat \<Rightarrow> submission \<Rightarrow> string \<Rightarrow> ('x world, unit) io"
  assumes known_worker: "map_get (miners w) name = Some i \<Longrightarrow>
      handle sv sock msg name en1 w =
        io_bind (io_lift (read_submission msg)) (\<lambda>s.
        io_bind (dedup_share i s) (\<lambda>duplicate.
          if duplicate then sock_write sock (reply_error (sb_id s) 22 ''Duplicate share'')
          else check_job sv sock i s en1)) w"
    and check_job_frame: "others_keep (tail_frame i) sv \<Longrightarrow> io_keeps (share_frame i) (check_job sv sock i s en1)"
    and miners_frame: "share_frame i w w' \<Longrightarrow> miners w' = miners w"
    and miners_objs: "miners (w\<lparr>w_objs := f\<rparr>) = miners w"
begin

lemma submit_run:
  assumes "map_get (miners w) name = Some i" and "read_submission msg = Inr s"
  shows "handle sv sock msg name en1 w =
    (let m = w_objs w i; w' = w\<lparr>w_objs := (w_objs w)(i := mark_share s m)\<rparr>
     in if shareKey s \<in> set (seen_shares (sb_jobId s) m)
        then (Inr (), w'\<lparr>w_out := w_out w @ [(sock, reply_error (sb_id s) 22 ''Duplicate share'')]\<rparr>)
        else check_job sv sock i s en1 w')"
  using assms(2) by (simp add: known_worker [OF assms(1)] io_simps Let_def)

lemma duplicate_rejected:
  assumes "map_get (miners w) name = Some i" and "read_submission msg = Inr s"
    and "js_strict_eq (m_lastJobId (w_objs w i)) (sb_jobId s)"
    and "m_submittedShares (w_objs w i) = Some seen" and "shareKey s \<in> set seen"
  shows "handle sv sock msg name en1 w =
    (Inr (), w\<lparr>w_out := w_out w @ [(sock, reply_error (sb_id s) 22 ''Duplicate share'')]\<rparr>)"
  using mark_share_seen [OF assms(3-5)] by (simp add: submit_run [OF assms(1,2)])

lemma submit_marks:
  assumes "map_get (miners w) name = Some i" and "read_submission msg = Inr s"
    and "others_keep (tail_frame i) sv"
    and w'_def: "w' = snd (handle sv sock msg name en1 w)"
  shows "miners w' = miners w" and "m_lastJobId (w_objs w' i) = sb_jobId s"
    and "\<exists>seen. m_submittedShares (w_objs w' i) = Some seen \<and> shareKey s \<in> set seen"
proof -
  let ?v = "w\<lparr>w_objs := (w_objs w)(i := mark_share s (w_objs w i))\<rparr>"
  have f: "share_frame i ?v w'"
    using check_job_frame [OF assms(3), of sock s en1]
    by (simp add: w'_def submit_run [OF assms(1,2)] Let_def io_keeps_def share_frame_def)
  show "miners w' = miners w" using miners_frame [OF f] by (simp add: miners_objs)
  show "m_lastJobId (w_objs w' i) = sb_jobId s"
    using f by (simp add: share_frame_def mark_share_marks)
  show "\<exists>seen. m_submittedShares (w_objs w' i) = Some seen \<and> shareKey s \<in> set seen"
    using f mark_share_marks(2) [of s "w_objs w i"] by (simp add: share_frame_def)
qed

lemma replay_rejected:
  assumes "map_get (miners w) name = Some i"
    and "read_submission msg = Inr s" and "read_submission msg' = Inr s'"
    and "sb_jobId s = JStr j" and "sb_jobId s' = JStr j" and "shareKey s' = shareKey s"
    and "others_keep (tail_frame i) sv"
    and w'_def: "w' = snd (handle sv sock msg name en1 w)"
  shows "handle sv sock' msg' name en1' w' =
    (Inr (), w'\<lparr>w_out := w_out w' @ [(sock', reply_error (sb_id s') 22 ''Duplicate share'')]\<rparr>)"
proof -
  note m = submit_marks [OF assms(1,2,7) w'_def]
  obtain seen where "m_submittedShares (w_objs w' i) = Some seen" "shareKey s' \<in> set seen"
    using m(3) assms(6) by auto
  moreover have "js_strict_eq (m_lastJobId (w_objs w' i)) (sb_jobId s')"
    using m(2) assms(4,5) by simp
  ultimately show ?thesis
    using duplicate_rejected [of w' name i msg' s' seen sv sock' en1'] m(1) assms(1,3) by simp
qed

end

lemma pool_worker_known:
  "map_get (w_poolMiners w) name = Some i \<Longrightarrow> pool_worker sv msg name en1 w = (Inr i, w)"
  by (simp add: pool_worker_def io_simps)

lemma solo_worker_known:
  "map_get (w_soloMiners w) name = Some i \<Longrightarrow> solo_worker sv msg name en1 w = (Inr i, w)"
  by (simp add: solo_worker_def io_simps)

interpretation pool: share_handler handleSubmit w_poolMiners pool_check_job
  by unfold_locales
     (simp_all add: handleSubmit_def pool_worker_known io_bind_Inr share_pool_check_job, simp_all add: share_frame_def)

interpretation solo: share_handler handleSoloSubmit w_soloMiners solo_check_job
  by unfold_locales
     (simp_all add: handleSoloSubmit_def solo_worker_known io_bind_Inr share_solo_check_job, simp_all add: share_frame_def)

section \<open>Every branch of a submission\<close>

lemma accept_share_run:
  "\<exists>t1 t2 t3 x. accept_share sv sock i s w =
     (Inr (), w\<lparr>w_ext := x, w_objs := (w_objs w)(i := credit_share t1 t2 t3 (w_objs w i)),
       w_out := w_out w @ [(sock, reply_true (sb_id s))]\<rparr>)"
  by (simp add: accept_share_def date_now_def io_simps) blast

definition credited :: "nat \<Rightarrow> nat \<Rightarrow> submission \<Rightarrow> 'x world \<Rightarrow> 'x world \<Rightarrow> bool" where
  \<comment> \<open>one share more for entry \<open>i\<close>, nothing for any other, and the first line written is the
     acceptance\<close>
  "credited sock i s w w' \<longleftrightarrow>
     (\<exists>t1 t2 t3. forget_address (w_objs w' i) =
        forget_address (credit_share t1 t2 t3 (mark_share s (w_objs w i)))) \<and>
     (\<forall>j. j \<noteq> i \<longrightarrow> w_objs w' j = w_objs w j) \<and>
     (\<exists>l. w_out w' = w_out w @ (sock, reply_true (sb_id s)) # l) \<and>
     w_poolMiners w' = w_poolMiners w \<and> w_soloMiners w' = w_soloMiners w \<and>
     w_blockTemplate w' = w_blockTemplate w"

lemma creditedI:
  assumes "accept_share sv sock i s (w\<lparr>w_objs := (w_objs w)(i := mark_share s (w_objs w i))\<rparr>) = (Inr (), v)"
    and "tail_frame i v w'"
  shows "credited sock i s w w'"
proof -
  obtain t1 t2 t3 x where v: "v = w\<lparr>w_ext := x,
      w_objs := (w_objs w)(i := credit_share t1 t2 t3 (mark_share s (w_objs w i))),
      w_out := w_out w @ [(sock, reply_true (sb_id s))]\<rparr>"
    using assms(1) accept_share_run [of sv sock i s "w\<lparr>w_objs := (w_objs w)(i := mark_share s (w_objs w i))\<rparr>"]
    by auto
  then have "forget_address (w_objs w' i) =
      forget_address (credit_share t1 t2 t3 (mark_share s (w_objs w i)))"
    using assms(2) by (simp add: tail_frame_def)
  moreover have "\<exists>l. w_out w' = w_out w @ (sock, reply_true (sb_id s)) # l"
    using assms(2) v by (auto simp: tail_frame_def)
  ultimately show ?thesis
    using assms(2) v by (auto simp only: credited_def) (auto simp: tail_frame_def)
qed

lemma keepsD: "io_keeps P m \<Longrightarrow> m w = (r, w') \<Longrightarrow> P w w'"
  by (metis io_keeps_def snd_conv)

lemma seq_frame:
  assumes "m w = (Inr (), v)" and "io_keeps P n"
  shows "P v (snd (io_seq m n w))"
  using assms by (simp add: io_seq_def io_bind_def io_keeps_def)

definition answered :: "nat \<Rightarrow> nat \<Rightarrow> submission \<Rightarrow> int \<Rightarrow> string \<Rightarrow> 'x world \<Rightarrow> 'x world" where
  \<comment> \<open>the share is marked as seen and refused\<close>
  "answered sock i s c text w =
     w\<lparr>w_objs := (w_objs w)(i := mark_share s (w_objs w i)),
       w_out := w_out w @ [(sock, reply_error (sb_id s) c text)]\<rparr>"

definition pool_coinbase :: "job \<Rightarrow> string \<Rightarrow> submission \<Rightarrow> string" where
  "pool_coinbase t en1 s = share_coinbase (j_coinbase1 t) (j_coinbase2 t) en1 s"

lemma io_catch_ok:
  assumes "\<And>e w. fst (h e w) = Inr ()" shows "fst (io_catch m h w) = Inr ()"
  using assms by (auto simp: io_catch_def split: prod.splits sum.splits)

lemma pool_check_job_ok: "fst (pool_check_job sv sock i s en1 w) = Inr ()"
  by (auto simp: pool_check_job_def io_simps io_bind_Inr sock_write_run split: option.splits
      intro!: io_catch_ok)

lemma pool_check_job_accepts:
  assumes "w_blockTemplate w = Some t" and "sb_jobId s = JStr (j_jobId t)"
    and "share_header t (pool_coinbase t en1 s) s = Inr header"
    and "others_keep (tail_frame i) sv"
  shows "\<exists>v. accept_share sv sock i s w = (Inr (), v) \<and>
    tail_frame i v (snd (pool_check_job sv sock i s en1 w))"
proof -
  let ?cb = "pool_coinbase t en1 s"
  let ?rest = "io_bind (io_get w_redis) (\<lambda>up.
      io_seq (io_when up (record_share sv i (sb_worker s)))
        (io_when (meets_network t header) (handleBlockFound sv header ?cb (sb_worker s))))"
  obtain v where v: "accept_share sv sock i s w = (Inr (), v)"
    using accept_share_run [of sv sock i s w] by auto
  have "io_keeps (tail_frame i) ?rest"
    by (intro tail.keeps_rules tail_record_share tail_handleBlockFound assms(4))
  then have "io_keeps (tail_frame i) (io_catch ?rest
      (\<lambda>_. sock_write sock (reply_error (sb_id s) 20 ''Verification error'')))"
    by (intro tail.keeps_catch tail.keeps_write)
  then have "tail_frame i v (snd (io_catch ?rest
      (\<lambda>_. sock_write sock (reply_error (sb_id s) 20 ''Verification error'')) v))"
    by (simp add: io_keeps_def)
  moreover have "pool_check_job sv sock i s en1 w = io_catch ?rest
      (\<lambda>_. sock_write sock (reply_error (sb_id s) 20 ''Verification error'')) v"
    using assms(1-3) v
    by (simp add: pool_check_job_def pool_verify_def pool_coinbase_def Let_def io_simps io_bind_Inr io_catch_def)
  ultimately show ?thesis using v by auto
qed

lemma pool_submit_branches:
  assumes known: "map_get (w_poolMiners w) name = Some i" and s: "read_submission msg = Inr s"
    and ok: "others_keep (tail_frame i) sv"
  shows "fst (handleSubmit sv sock msg name en1 w) = Inr () \<and>
    (let w' = snd (handleSubmit sv sock msg name en1 w) in
     if shareKey s \<in> set (seen_shares (sb_jobId s) (w_objs w i))
     then w' = answered sock i s 22 ''Duplicate share'' w
     else case w_blockTemplate w of
       None \<Rightarrow> w' = answered sock i s 21 ''Job not found'' w
     | Some t \<Rightarrow>
         if sb_jobId s \<noteq> JStr (j_jobId t) then w' = answered sock i s 21 ''Job not found'' w
         else case share_header t (pool_coinbase t en1 s) s of
           Inl e \<Rightarrow> w' = answered sock i s 20 ''Verification error'' w
         | Inr header \<Rightarrow> credited sock i s w w')"
proof -
  let ?v = "w\<lparr>w_objs := (w_objs w)(i := mark_share s (w_objs w i))\<rparr>"
  note run = pool.submit_run [OF known s, of sv sock en1]
  have err: "pool_check_job sv sock i s en1 ?v = (Inr (), answered sock i s 21 ''Job not found'' w)"
    if "w_blockTemplate w = None \<or> (\<exists>t. w_blockTemplate w = Some t \<and> sb_jobId s \<noteq> JStr (j_jobId t))"
    using that by (auto simp: pool_check_job_def io_simps io_bind_Inr answered_def)
  have bad: "pool_check_job sv sock i s en1 ?v = (Inr (), answered sock i s 20 ''Verification error'' w)"
    if "w_blockTemplate w = Some t" "sb_jobId s = JStr (j_jobId t)"
      "share_header t (pool_coinbase t en1 s) s = Inl e" for t e
    using that by (simp add: pool_check_job_def pool_verify_def pool_coinbase_def Let_def io_simps
        io_bind_Inr io_bind_Inl io_catch_Inl answered_def)
  have good: "credited sock i s w (snd (pool_check_job sv sock i s en1 ?v))"
    if "w_blockTemplate w = Some t" "sb_jobId s = JStr (j_jobId t)"
      "share_header t (pool_coinbase t en1 s) s = Inr header" for t header
    using pool_check_job_accepts [of ?v t s en1 header i sv sock] that ok creditedI by fastforce
  show ?thesis
    using pool_check_job_ok [of sv sock i s en1 ?v] err bad good
    by (auto simp: run Let_def answered_def split: option.splits sum.splits)
qed

definition solo_coinbase :: "miner \<Rightarrow> string \<Rightarrow> submission \<Rightarrow> string" where
  "solo_coinbase m en1 s = share_coinbase (text_of (m_coinbase1 m)) (text_of (m_coinbase2 m)) en1 s"

lemma mark_share_other [simp]:
  "m_jobId (mark_share s m) = m_jobId m" "m_coinbase1 (mark_share s m) = m_coinbase1 m"
  "m_coinbase2 (mark_share s m) = m_coinbase2 m" "m_validShares (mark_share s m) = m_validShares m"
  by (simp_all add: mark_share_def Let_def)

lemma solo_check_job_ok: "fst (solo_check_job sv sock i s en1 w) = Inr ()"
  by (auto simp: solo_check_job_def io_simps io_bind_Inr sock_write_run split: option.splits
      intro!: io_catch_ok)

lemma solo_check_job_accepts:
  assumes "w_blockTemplate w = Some t" and "js_strict_eq (m_jobId (w_objs w i)) (sb_jobId s)"
    and "text_of (m_coinbase1 (w_objs w i)) \<noteq> []" and "text_of (m_coinbase2 (w_objs w i)) \<noteq> []"
    and "share_header t (solo_coinbase (w_objs w i) en1 s) s = Inr header"
    and "others_keep (tail_frame i) sv"
  shows "\<exists>v. accept_share sv sock i s w = (Inr (), v) \<and>
    tail_frame i v (snd (solo_check_job sv sock i s en1 w))"
proof -
  let ?cb = "solo_coinbase (w_objs w i) en1 s"
  let ?rest = "io_seq (io_when (meets_network t header) (handleSoloBlockFound sv header ?cb (sb_worker s)))
     (io_bind (io_get w_redis) (\<lambda>up. io_when up (record_hashrate sv i (sb_worker s))))"
  let ?h = "\<lambda>_. sock_write sock (reply_error (sb_id s) 20 ''Verification error'')"
  obtain v where v: "accept_share sv sock i s w = (Inr (), v)"
    using accept_share_run [of sv sock i s w] by auto
  have "io_keeps (tail_frame i) (io_catch ?rest ?h)"
    by (intro tail.keeps_rules tail.keeps_write tail_record_hashrate tail_handleSoloBlockFound assms(6))
  then have "tail_frame i v (snd (io_catch ?rest ?h v))" by (simp add: io_keeps_def)
  moreover have "solo_check_job sv sock i s en1 w = io_catch ?rest ?h v"
    using assms(1-5) v
    by (simp add: solo_check_job_def solo_verify_def solo_coinbase_def Let_def io_simps io_bind_Inr io_catch_def)
  ultimately show ?thesis using v by auto
qed

lemma solo_submit_branches:
  assumes known: "map_get (w_soloMiners w) name = Some i" and s: "read_submission msg = Inr s"
    and ok: "others_keep (tail_frame i) sv"
  shows "fst (handleSoloSubmit sv sock msg name en1 w) = Inr () \<and>
    (let w' = snd (handleSoloSubmit sv sock msg name en1 w); m = w_objs w i in
     if shareKey s \<in> set (seen_shares (sb_jobId s) m)
     then w' = answered sock i s 22 ''Duplicate share'' w
     else case w_blockTemplate w of
       None \<Rightarrow> w' = answered sock i s 21 ''Job not found'' w
     | Some t \<Rightarrow>
         if \<not> js_strict_eq (m_jobId m) (sb_jobId s) then w' = answered sock i s 21 ''Job not found'' w
         else if text_of (m_coinbase1 m) = [] \<or> text_of (m_coinbase2 m) = []
         then w' = answered sock i s 20 ''Coinbase not ready, please wait'' w
         else case share_header t (solo_coinbase m en1 s) s of
           Inl e \<Rightarrow> w' = answered sock i s 20 ''Verification error'' w
         | Inr header \<Rightarrow> credited sock i s w w')"
proof -
  let ?m = "w_objs w i"
  let ?v = "w\<lparr>w_objs := (w_objs w)(i := mark_share s ?m)\<rparr>"
  let ?run = "solo_check_job sv sock i s en1 ?v"
  note run = solo.submit_run [OF known s, of sv sock en1]
  have cb: "solo_coinbase (mark_share s ?m) en1 s = solo_coinbase ?m en1 s"
    by (simp add: solo_coinbase_def)
  have err: "?run = (Inr (), answered sock i s 21 ''Job not found'' w)"
    if "w_blockTemplate w = None \<or> \<not> js_strict_eq (m_jobId ?m) (sb_jobId s)"
    using that by (cases "w_blockTemplate w")
      (auto simp: solo_check_job_def io_simps io_bind_Inr answered_def)
  have notready: "?run = (Inr (), answered sock i s 20 ''Coinbase not ready, please wait'' w)"
    if "w_blockTemplate w = Some t" "js_strict_eq (m_jobId ?m) (sb_jobId s)"
      "text_of (m_coinbase1 ?m) = [] \<or> text_of (m_coinbase2 ?m) = []" for t
    using that by (auto simp: solo_check_job_def io_simps io_bind_Inr answered_def)
  have bad: "?run = (Inr (), answered sock i s 20 ''Verification error'' w)"
    if "w_blockTemplate w = Some t" "js_strict_eq (m_jobId ?m) (sb_jobId s)"
      "text_of (m_coinbase1 ?m) \<noteq> []" "text_of (m_coinbase2 ?m) \<noteq> []"
      "share_header t (solo_coinbase ?m en1 s) s = Inl e" for t e
    using that cb by (simp add: solo_check_job_def solo_verify_def solo_coinbase_def Let_def io_simps
        io_bind_Inr io_bind_Inl io_catch_Inl answered_def)
  have good: "credited sock i s w (snd ?run)"
    if "w_blockTemplate w = Some t" "js_strict_eq (m_jobId ?m) (sb_jobId s)"
      "text_of (m_coinbase1 ?m) \<noteq> []" "text_of (m_coinbase2 ?m) \<noteq> []"
      "share_header t (solo_coinbase ?m en1 s) s = Inr header" for t header
    using solo_check_job_accepts [of ?v t i s en1 header sv sock] that cb ok creditedI by fastforce
  show ?thesis
    using solo_check_job_ok [of sv sock i s en1 ?v] err notready bad good
    by (auto simp: run Let_def answered_def split: option.splits sum.splits)
qed

section \<open>Which blocks reach the node\<close>

definition rpc_observed :: "'x services \<Rightarrow> ('x \<Rightarrow> (string \<times> jsv list) list) \<Rightarrow> bool" where
  \<comment> \<open>\<open>rlog\<close> reads off the outside state the RPC calls made so far\<close>
  "rpc_observed sv rlog \<longleftrightarrow>
     (\<forall>p m ps x. rlog (snd (sv_post sv p m ps x)) = rlog x @ [(m, ps)]) \<and>
     (\<forall>d x. rlog (snd (sv_tns sv d x)) = rlog x) \<and>
     (\<forall>c x. rlog (snd (sv_redis sv c x)) = rlog x) \<and>
     (\<forall>x. rlog (snd (sv_now sv x)) = rlog x) \<and>
     (\<forall>x. rlog (snd (sv_today sv x)) = rlog x) \<and>
     (\<forall>n x. rlog (snd (sv_random sv n x)) = rlog x) \<and>
     (\<forall>w. rlog (w_ext (sv_others sv w)) = rlog (w_ext w))"

definition same_log :: "('x \<Rightarrow> (string \<times> jsv list) list) \<Rightarrow> 'x world \<Rightarrow> 'x world \<Rightarrow> bool" where
  "same_log rlog w w' \<longleftrightarrow> rlog (w_ext w') = rlog (w_ext w)"

interpretation quiet: frame_rel "same_log rlog" for rlog
  by unfold_locales (simp_all add: same_log_def)

lemma quiet_redis: "rpc_observed sv rlog \<Longrightarrow> io_keeps (same_log rlog) (redis sv c)"
  by (simp add: io_keeps_def same_log_def redis_def await_def on_ext_run rpc_observed_def)

lemma quiet_now: "rpc_observed sv rlog \<Longrightarrow> io_keeps (same_log rlog) (date_now sv)"
  by (simp add: io_keeps_def same_log_def date_now_def read_ext_run rpc_observed_def)

lemma quiet_today: "rpc_observed sv rlog \<Longrightarrow> io_keeps (same_log rlog) (read_ext (sv_today sv))"
  by (simp add: io_keeps_def same_log_def read_ext_run rpc_observed_def)

lemma quiet_modify: "(\<And>w. w_ext (f w) = w_ext w) \<Longrightarrow> io_keeps (same_log rlog) (io_modify f)"
  by (simp add: io_keeps_def same_log_def io_modify_run)

lemma quiet_upd: "io_keeps (same_log rlog) (upd_obj i f)"
  by (simp add: io_keeps_def same_log_def upd_obj_run)

lemma quiet_write: "io_keeps (same_log rlog) (sock_write sock line)"
  by (simp add: io_keeps_def same_log_def sock_write_run)

lemma quiet_tns: "rpc_observed sv rlog \<Longrightarrow> io_keeps (same_log rlog) (await sv (on_ext (sv_tns sv d)))"
  by (simp add: io_keeps_def same_log_def await_def on_ext_run rpc_observed_def)

lemma quiet_resolve: "rpc_observed sv rlog \<Longrightarrow> io_keeps (same_log rlog) (resolveTnsToAddress sv wd)"
  unfolding resolveTnsToAddress_def resolve_miss_def Let_def
  by (auto split: option.splits intro!: quiet.keeps_if quiet.keeps_bind quiet.keeps_return
      quiet.keeps_get quiet.keeps_catch quiet.keeps_seq quiet_now quiet_tns quiet_modify)

lemmas quiet_rules =
  quiet.keeps_rules quiet_redis quiet_now quiet_today quiet_upd quiet_write quiet_resolve

lemma quiet_record_hashrate: "rpc_observed sv rlog \<Longrightarrow> io_keeps (same_log rlog) (record_hashrate sv i name)"
  unfolding record_hashrate_def Let_def get_obj_def by (intro quiet_rules) assumption+

lemma quiet_record_share: "rpc_observed sv rlog \<Longrightarrow> io_keeps (same_log rlog) (record_share sv i name)"
  unfolding record_share_def by (intro quiet_rules quiet_record_hashrate) assumption+

lemma quiet_accept: "rpc_observed sv rlog \<Longrightarrow> io_keeps (same_log rlog) (accept_share sv sock i s)"
  unfolding accept_share_def by (intro quiet_rules) assumption+

lemma rpcCall_log:
  "rpc_observed sv rlog \<Longrightarrow> rlog (w_ext (snd (rpcCall sv m ps o' w))) = rlog (w_ext w) @ [(m, ps)]"
  by (auto simp: rpcCall_def io_bind_def await_def on_ext_def io_lift_def io_throw_def rpc_observed_def
      split: prod.splits sum.splits) (metis snd_conv)+
abbreviation rpc_log :: "('x \<Rightarrow> (string \<times> jsv list) list) \<Rightarrow> ('x world, 'a) io \<Rightarrow> 'x world \<Rightarrow> (string \<times> jsv list) list" where
  "rpc_log rlog m w \<equiv> rlog (w_ext (snd (m w)))"

lemma log_bind: "(\<And>x. io_keeps (same_log rlog) (f x)) \<Longrightarrow> rpc_log rlog (io_bind m f) w = rpc_log rlog m w"
  by (auto simp: io_bind_def io_keeps_def same_log_def split: prod.splits sum.splits)

lemma log_catch: "(\<And>e. io_keeps (same_log rlog) (h e)) \<Longrightarrow> rpc_log rlog (io_catch m h) w = rpc_log rlog m w"
  by (auto simp: io_catch_def io_keeps_def same_log_def split: prod.splits sum.splits)

lemma log_quiet: "io_keeps (same_log rlog) m \<Longrightarrow> rpc_log rlog m w = rlog (w_ext w)"
  by (simp add: io_keeps_def same_log_def)

lemma seq_modify_run: "io_seq (io_modify f) n w = n (f w)"
  by (simp add: io_simps io_bind_Inr)

definition submitted :: "exn + string \<Rightarrow> (string \<times> jsv list) list" where
  "submitted block = (case block of Inl _ \<Rightarrow> [] | Inr b \<Rightarrow> [(''submitblock'', [JStr b])])"

lemma block_found_log:
  assumes "rpc_observed sv rlog" and "\<And>tmpl r. io_keeps (same_log rlog) (k tmpl r)"
  shows "rpc_log rlog (io_catch
      (io_bind (io_get w_blockTemplate) (\<lambda>tmpl.
       io_bind (io_lift (assemble_block header cb tmpl)) (\<lambda>b.
       io_bind (rpcCall sv ''submitblock'' [JStr b] []) (k tmpl))))
      (\<lambda>_. io_return ())) w = rlog (w_ext w) @ submitted (assemble_block header cb (w_blockTemplate w))"
proof (cases "assemble_block header cb (w_blockTemplate w)")
  case (Inl e)
  then show ?thesis by (simp add: log_catch quiet.keeps_return io_simps submitted_def)
next
  case (Inr b)
  have "rpc_log rlog (io_bind (rpcCall sv ''submitblock'' [JStr b] []) (k (w_blockTemplate w))) w =
      rlog (w_ext w) @ [(''submitblock'', [JStr b])]"
    using assms(2) by (simp only: log_bind rpcCall_log [OF assms(1)])
  with Inr show ?thesis by (simp add: log_catch quiet.keeps_return io_simps submitted_def)
qed

lemma handleBlockFound_log:
  assumes "rpc_observed sv rlog"
  shows "rpc_log rlog (handleBlockFound sv header cb name) w =
    rlog (w_ext w) @ submitted (assemble_block header cb (w_blockTemplate w))"
  using assms unfolding handleBlockFound_def seq_modify_run
  by (subst block_found_log) (assumption, intro quiet_rules, assumption+, simp)

lemma handleSoloBlockFound_log:
  assumes "rpc_observed sv rlog"
  shows "rpc_log rlog (handleSoloBlockFound sv header cb name) w =
    rlog (w_ext w) @ submitted (assemble_block header cb (w_blockTemplate w))"
  using assms unfolding handleSoloBlockFound_def seq_modify_run
  by (subst block_found_log) (assumption, intro quiet_rules, assumption+, simp)

lemma solo_check_job_log:
  assumes "rpc_observed sv rlog" and "w_blockTemplate w = Some t"
    and "js_strict_eq (m_jobId (w_objs w i)) (sb_jobId s)"
    and "text_of (m_coinbase1 (w_objs w i)) \<noteq> []" and "text_of (m_coinbase2 (w_objs w i)) \<noteq> []"
    and "share_header t (solo_coinbase (w_objs w i) en1 s) s = Inr header"
  shows "rpc_log rlog (solo_check_job sv sock i s en1) w = rlog (w_ext w) @
    (if meets_network t header
     then submitted (assemble_block header (solo_coinbase (w_objs w i) en1 s) (Some t)) else [])"
proof -
  let ?cb = "solo_coinbase (w_objs w i) en1 s"
  let ?rest = "io_seq (io_when (meets_network t header) (handleSoloBlockFound sv header ?cb (sb_worker s)))
     (io_bind (io_get w_redis) (\<lambda>up. io_when up (record_hashrate sv i (sb_worker s))))"
  let ?h = "\<lambda>_. sock_write sock (reply_error (sb_id s) 20 ''Verification error'')"
  obtain v where acc: "accept_share sv sock i s w = (Inr (), v)"
    using accept_share_run [of sv sock i s w] by blast
  have v: "rlog (w_ext v) = rlog (w_ext w)"
    using keepsD [OF quiet_accept [OF assms(1)] acc] by (simp only: same_log_def)
  have b: "w_blockTemplate v = Some t"
    using keepsD [OF share_accept acc] assms(2) by (simp only: share_frame_def)
  have run: "solo_check_job sv sock i s en1 w = io_catch ?rest ?h v"
    using assms(2-6) acc
    by (simp add: solo_check_job_def solo_verify_def solo_coinbase_def Let_def io_simps io_bind_Inr io_catch_def)
  have "rpc_log rlog (io_catch ?rest ?h) v = rpc_log rlog ?rest v"
    by (rule log_catch, rule quiet_write)
  moreover have "rpc_log rlog ?rest v = rpc_log rlog (io_when (meets_network t header) (handleSoloBlockFound sv header ?cb (sb_worker s))) v"
    unfolding io_seq_def
    by (rule log_bind, rule quiet.keeps_bind, rule quiet.keeps_get, rule quiet.keeps_when,
        rule quiet_record_hashrate, rule assms(1))
  ultimately show ?thesis
    unfolding run using v b handleSoloBlockFound_log [OF assms(1), of header ?cb "sb_worker s" v]
    by (simp add: io_when_run)
qed
lemma pool_check_job_run:
  assumes "w_blockTemplate w = Some t" and "sb_jobId s = JStr (j_jobId t)"
    and "share_header t (pool_coinbase t en1 s) s = Inr header"
    and "accept_share sv sock i s w = (Inr (), v)"
  shows "pool_check_job sv sock i s en1 w =
    io_catch (io_seq (io_when (w_redis v) (record_share sv i (sb_worker s)))
        (io_when (meets_network t header)
          (handleBlockFound sv header (pool_coinbase t en1 s) (sb_worker s))))
      (\<lambda>_. sock_write sock (reply_error (sb_id s) 20 ''Verification error'')) v"
  using assms
  by (simp add: pool_check_job_def pool_verify_def pool_coinbase_def Let_def io_simps io_bind_Inr io_catch_def)

definition redis_works :: "'x services \<Rightarrow> bool" where
  \<comment> \<open>no Redis command is refused\<close>
  "redis_works sv \<longleftrightarrow> (\<forall>c x. \<exists>v. fst (sv_redis sv c x) = Inr v)"

lemma total_redis: "redis_works sv \<Longrightarrow> io_total (redis sv c)"
  by (simp add: io_total_def redis_def await_def on_ext_run redis_works_def)

lemma total_ext: "io_total (read_ext f)" "io_total (date_now sv)" "io_total (upd_obj i g)" "io_total (get_obj i)"
  by (simp_all add: io_total_def date_now_def io_simps)

lemma total_resolve: "io_total (resolveTnsToAddress sv d)"
  unfolding resolveTnsToAddress_def resolve_miss_def Let_def
  by (auto split: option.splits intro!: total_if total_bind total_rules total_ext total_catch)

lemma total_record_hashrate: "redis_works sv \<Longrightarrow> io_total (record_hashrate sv i name)"
  unfolding record_hashrate_def Let_def
  by (intro total_rules total_ext total_resolve total_redis) assumption+

lemma total_record_share: "redis_works sv \<Longrightarrow> io_total (record_share sv i name)"
  unfolding record_share_def
  by (intro total_rules total_ext total_redis total_record_hashrate) assumption+

lemma pool_check_job_log:
  assumes obs: "rpc_observed sv rlog" and t: "w_blockTemplate w = Some t"
    and j: "sb_jobId s = JStr (j_jobId t)"
    and h: "share_header t (pool_coinbase t en1 s) s = Inr header"
    and keep: "others_keep (tail_frame i) sv" and up: "redis_works sv \<or> \<not> w_redis w"
  shows "rpc_log rlog (pool_check_job sv sock i s en1) w = rlog (w_ext w) @
    (if meets_network t header
     then submitted (assemble_block header (pool_coinbase t en1 s) (Some t)) else [])"
proof -
  let ?cb = "pool_coinbase t en1 s"
  let ?rec = "io_when (w_redis w) (record_share sv i (sb_worker s))"
  let ?blk = "io_when (meets_network t header) (handleBlockFound sv header ?cb (sb_worker s))"
  let ?h = "\<lambda>_. sock_write sock (reply_error (sb_id s) 20 ''Verification error'')"
  obtain v where acc: "accept_share sv sock i s w = (Inr (), v)"
    using accept_share_run [of sv sock i s w] by blast
  have lv: "rlog (w_ext v) = rlog (w_ext w)"
    using keepsD [OF quiet_accept [OF obs] acc] by (simp only: same_log_def)
  have tv: "w_blockTemplate v = Some t" "w_redis v = w_redis w"
    using keepsD [OF share_accept acc] t acc accept_share_run [of sv sock i s w]
    by (auto simp: share_frame_def)
  have "io_total ?rec" using up total_record_share by (auto simp: io_when_def intro: total_rules)
  then obtain v' where rec: "?rec v = (Inr (), v')" by (rule io_totalE) simp
  have tv': "w_blockTemplate v' = Some t"
    using keepsD [OF tail.keeps_when [OF tail_record_share [OF keep]] rec] tv
    by (simp only: tail_frame_def)
  have lv': "rlog (w_ext v') = rlog (w_ext w)"
    using keepsD [OF quiet.keeps_when [OF quiet_record_share [OF obs]] rec] lv
    by (simp only: same_log_def)
  have "rpc_log rlog (io_catch (io_seq ?rec ?blk) ?h) v = rpc_log rlog (io_seq ?rec ?blk) v"
    by (rule log_catch, rule quiet_write)
  moreover have "io_seq ?rec ?blk v = ?blk v'" using rec by (simp add: io_seq_def io_bind_Inr)
  ultimately show ?thesis
    unfolding pool_check_job_run [OF t j h acc] tv(2)
    using lv' tv' handleBlockFound_log [OF obs, of header ?cb "sb_worker s" v']
    by (simp add: io_when_run)
qed

lemma pool_check_job_no_redis:
  assumes obs: "rpc_observed sv rlog" and t: "w_blockTemplate w = Some t"
    and j: "sb_jobId s = JStr (j_jobId t)"
    and h: "share_header t (pool_coinbase t en1 s) s = Inr header"
    and up: "w_redis w" and down: "\<forall>v x. \<exists>e. fst (sv_redis sv (LPush ''pool:shares'' v) x) = Inl e"
  shows "rpc_log rlog (pool_check_job sv sock i s en1) w = rlog (w_ext w)"
proof -
  obtain v where acc: "accept_share sv sock i s w = (Inr (), v)"
    using accept_share_run [of sv sock i s w] by blast
  have rv: "w_redis v" using up acc accept_share_run [of sv sock i s w] by auto
  obtain e v' where rec: "record_share sv i (sb_worker s) v = (Inl e, v')"
  proof -
    let ?now = "fst (sv_now sv (w_ext v))" and ?x = "snd (sv_now sv (w_ext v))"
    let ?val = "RJson (JObj [(''worker'', sb_worker s), (''time'', JInt ?now)])"
    obtain e where "fst (sv_redis sv (LPush ''pool:shares'' ?val) ?x) = Inl e" using down by blast
    then have "redis sv (LPush ''pool:shares'' ?val) (v\<lparr>w_ext := ?x\<rparr>) =
        (Inl e, sv_others sv (v\<lparr>w_ext := snd (sv_redis sv (LPush ''pool:shares'' ?val) ?x)\<rparr>))"
      by (simp add: redis_def await_def on_ext_run)
    then show ?thesis
      by (intro that) (simp add: record_share_def date_now_def io_simps io_bind_Inr io_bind_Inl io_seq_def)
  qed
  have "rlog (w_ext v) = rlog (w_ext w)" "rlog (w_ext v') = rlog (w_ext v)"
    using keepsD [OF quiet_accept [OF obs] acc] keepsD [OF quiet_record_share [OF obs] rec]
    by (simp_all only: same_log_def)
  then show ?thesis
    unfolding pool_check_job_run [OF t j h acc]
    using rec rv by (simp add: io_simps io_seq_def io_when_def io_bind_Inl io_catch_Inl)
qed

end
