(* ===== verification/Template.thy ===== *)
theory Template
  imports Shares
begin

text \<open>
  Block templates (\<open>pool.js\<close>: \<open>buildSoloCoinbase\<close>, \<open>sendWork\<close>, \<open>sendSoloWork\<close>,
  \<open>refreshBlockTemplate\<close>).  A template is read with the types that \<open>getblocktemplate\<close> documents;
  a missing field reads as 0 or the empty text, on which the \<open>||\<close> defaults of the source act.  The
  loop over the solo miners runs over the entries present when it starts.
\<close>

section \<open>Reading a template\<close>

definition prop_string :: "jsv \<Rightarrow> string \<Rightarrow> string" where
  "prop_string v k = (case js_prop_opt v k of JStr s \<Rightarrow> s | _ \<Rightarrow> [])"

definition prop_int :: "jsv \<Rightarrow> string \<Rightarrow> int" where
  "prop_int v k = (case js_prop_opt v k of JNum x \<Rightarrow> \<lfloor>x\<rfloor> | _ \<Rightarrow> 0)"

definition read_tx :: "jsv \<Rightarrow> template_tx" where
  "read_tx v = \<lparr>tt_txid = prop_string v ''txid'', tt_hash = prop_string v ''hash'', tt_data = prop_string v ''data''\<rparr>"

definition read_template :: "jsv \<Rightarrow> template" where
  "read_template v =
     \<lparr>tp_previousblockhash = prop_string v ''previousblockhash'',
      tp_height = nat (prop_int v ''height''),
      tp_coinbasevalue = prop_int v ''coinbasevalue'',
      tp_witness_commitment = prop_string v ''default_witness_commitment'',
      tp_transactions = map read_tx (js_array (js_prop_opt v ''transactions'')),
      tp_version = (case js_prop_opt v ''version'' of JNum x \<Rightarrow> Some \<lfloor>x\<rfloor> | _ \<Rightarrow> None),
      tp_bits = prop_string v ''bits''\<rparr>"

definition template_reward :: "template \<Rightarrow> int" where
  "template_reward tp = (if tp_coinbasevalue tp = 0 then 5000000000000 else tp_coinbasevalue tp)"

section \<open>The solo coinbase\<close>

definition buildSoloCoinbase :: "'x services \<Rightarrow> string \<Rightarrow> template \<Rightarrow> ('x world, string \<times> string) io" where
  "buildSoloCoinbase sv minerAddress tp =
     io_bind (rpcCall sv ''validateaddress'' [JStr minerAddress] []) (\<lambda>minerValidation.
     io_bind (io_lift (js_prop minerValidation ''isvalid'')) (\<lambda>isvalid.
     io_bind (io_lift (js_prop minerValidation ''scriptPubKey'')) (\<lambda>minerScript.
       if \<not> truthy isvalid \<or> \<not> truthy minerScript
       then io_throw (''[SOLO] Invalid miner address: '' @ minerAddress)
       else
         io_bind (io_get w_poolWallet) (\<lambda>poolWallet.
         let feeWallet = (if sv_feeWallet sv \<noteq> [] then sv_feeWallet sv else poolWallet) in
         io_bind (rpcCall sv ''validateaddress'' [JStr feeWallet] []) (\<lambda>feeValidation.
         io_bind (io_lift (js_prop feeValidation ''scriptPubKey'')) (\<lambda>feeKey.
         let feeScript = (if truthy feeKey then js_tostring feeKey else ''76a914'' @ feeWallet @ ''88ac'') in
         io_bind (io_get w_soloFee) (\<lambda>fee.
         io_bind (io_lift (buildCoinbase1 (tp_height tp))) (\<lambda>coinbase1.
         io_bind (io_lift (buildSoloCoinbase2 fee (template_reward tp) (js_tostring minerScript) feeScript
                             (tp_witness_commitment tp))) (\<lambda>coinbase2.
           io_return (coinbase1, coinbase2))))))))))"

section \<open>Sending work\<close>

definition notify_line :: "jsv \<Rightarrow> jsv \<Rightarrow> jsv \<Rightarrow> job \<Rightarrow> jsv" where
  "notify_line jobId coinbase1 coinbase2 t =
     JObj [(''id'', JNull), (''method'', JStr ''mining.notify''),
       (''params'', JArr [jobId, JStr (j_stratumPrevHash t), coinbase1, coinbase2,
          JArr (map JStr (j_merkleBranch t)), JStr (j_version t), JStr (j_nBits t), JStr (j_nTime t), JBool True])]"

definition sendWork :: "nat \<Rightarrow> ('x world, unit) io" where
  "sendWork sock =
     io_bind (io_get w_blockTemplate) (\<lambda>tmpl.
       case tmpl of
         None \<Rightarrow> io_return ()
       | Some t \<Rightarrow> sock_write sock
           (notify_line (JStr (j_jobId t)) (JStr (j_coinbase1 t)) (JStr (j_coinbase2 t)) t))"

definition opt_text :: "string option \<Rightarrow> jsv" where
  "opt_text v = (case v of None \<Rightarrow> JNull | Some s \<Rightarrow> JStr s)"

definition sendSoloWork :: "nat \<Rightarrow> nat \<Rightarrow> ('x world, unit) io" where
  "sendSoloWork sock i =
     io_bind (io_get w_blockTemplate) (\<lambda>tmpl.
     io_bind (get_obj i) (\<lambda>m.
       case tmpl of
         None \<Rightarrow> io_return ()
       | Some t \<Rightarrow> sock_write sock
           (notify_line (m_jobId m) (opt_text (m_coinbase1 m)) (opt_text (m_coinbase2 m)) t)))"

section \<open>Making a job\<close>

definition tx_hashes :: "template \<Rightarrow> bytes list" where
  "tx_hashes tp =
     map (\<lambda>x. rev (hex_decode (if tt_txid x \<noteq> [] then tt_txid x else tt_hash x))) (tp_transactions tp)"

definition template_prevhash :: "template \<Rightarrow> string" where
  "template_prevhash tp =
     (if tp_previousblockhash tp \<noteq> [] then tp_previousblockhash tp else replicate 64 CHR ''0'')"

definition template_coinbases :: "template \<Rightarrow> exn + string \<times> string" where
  "template_coinbases tp =
     res_bind (buildCoinbase1 (tp_height tp)) (\<lambda>coinbase1.
     res_bind (buildPoolCoinbase2 (template_reward tp) (tp_witness_commitment tp)) (\<lambda>coinbase2.
       Inr (coinbase1, coinbase2)))"

definition make_job :: "template \<Rightarrow> string \<Rightarrow> string \<times> string \<Rightarrow> int \<Rightarrow> int \<Rightarrow> job" where
  "make_job tp jobId coinbases version now =
     \<lparr>j_jobId = jobId,
      j_prevHashBE = template_prevhash tp,
      j_stratumPrevHash = formatPrevHashForStratum (template_prevhash tp),
      j_coinbase1 = fst coinbases,
      j_coinbase2 = snd coinbases,
      j_merkleBranch = map hex_encode (merkle_branch (tx_hashes tp)),
      j_txData = map tt_data (tp_transactions tp),
      j_version = padStart 8 CHR ''0'' (int_to_string 16 version),
      j_nBits = tp_bits tp,
      j_nTime = padStart 8 CHR ''0'' (int_to_string 16 (math_floor (js_div (of_int now) 1000))),
      j_height = tp_height tp,
      j_rawTemplate = tp\<rparr>"

section \<open>Refreshing\<close>

definition notify_socket :: "nat \<Rightarrow> ('x world, unit) io" where
  "notify_socket client =
     io_bind (io_get (\<lambda>w. client \<in> set (w_destroyed w))) (\<lambda>destroyed.
       io_when (\<not> destroyed) (sendWork client))"

definition notify_pool :: "('x world, unit) io" where
  "notify_pool = io_bind (io_get w_activeSockets) (\<lambda>socks. io_each notify_socket socks)"

definition refresh_solo_miner :: "'x services \<Rightarrow> template \<Rightarrow> jsv \<times> nat \<Rightarrow> ('x world, unit) io" where
  "refresh_solo_miner sv tp = (\<lambda>(workerName, i).
     io_bind (get_obj i) (\<lambda>m.
     io_bind (io_get w_destroyed) (\<lambda>destroyed.
       case m_socket m of
         None \<Rightarrow> io_return ()
       | Some sock \<Rightarrow>
           if sock \<in> set destroyed then io_return ()
           else io_catch
             (io_bind (resolveTnsToAddress sv (pw_wallet (parseMinerWorker workerName))) (\<lambda>minerAddress.
              io_bind (buildSoloCoinbase sv minerAddress tp) (\<lambda>(coinbase1, coinbase2).
              io_bind (random_hex sv 4) (\<lambda>jobId.
              io_seq (upd_obj i (\<lambda>m. m\<lparr>m_coinbase1 := Some coinbase1, m_coinbase2 := Some coinbase2,
                                        m_jobId := JStr jobId\<rparr>))
                (sendSoloWork sock i)))))
             (\<lambda>_. io_return ()))))"

definition refreshBlockTemplate :: "'x services \<Rightarrow> ('x world, unit) io" where
  "refreshBlockTemplate sv =
     io_catch
       (io_bind (rpcCall sv ''getblocktemplate'' [JObj [(''rules'', JArr [JStr ''segwit''])]] []) (\<lambda>v.
          if \<not> truthy v then io_return ()
          else
            let tp = read_template v in
            io_bind (io_lift (template_coinbases tp)) (\<lambda>coinbases.
            io_bind (random_hex sv 4) (\<lambda>jobId.
              case tp_version tp of
                None \<Rightarrow> io_throw type_error
              | Some version \<Rightarrow>
                  io_bind (date_now sv) (\<lambda>now.
                  io_seq (io_modify (\<lambda>w. w\<lparr>w_blockTemplate := Some (make_job tp jobId coinbases version now)\<rparr>))
                 (io_seq notify_pool
                 (io_bind (io_get w_soloMiners) (\<lambda>entries.
                    io_each (refresh_solo_miner sv tp) entries))))))))
       (\<lambda>_. io_return ())"

section \<open>Jobs and headers agree\<close>

lemma map_decode_encode [simp]: "map hex_decode (map hex_encode bs) = bs"
  by (induction bs) simp_all

lemma job_root:
  "fold_branch cb (map hex_decode (j_merkleBranch (make_job tp jid cbs v now))) = merkle_root (cb # tx_hashes tp)"
  by (simp add: make_job_def fold_merkle_branch del: map_map)

lemma length_fold_branch: "length cb = 32 \<Longrightarrow> length (fold_branch cb bs) = 32"
  by (cases bs rule: rev_cases) (simp_all add: fold_branch_def)

lemma header_parts:
  assumes "share_header t cb s = Inr header" and "length (hex_decode (j_prevHashBE t)) = 32"
  shows "length header = 80" and "take 32 (drop 4 header) = rev (hex_decode (j_prevHashBE t))"
    and "take 32 (drop 36 header) = fold_branch (sha256d (hex_decode cb)) (map hex_decode (j_merkleBranch t))"
proof -
  let ?r = "fold_branch (sha256d (hex_decode cb)) (map hex_decode (j_merkleBranch t))"
  have r: "length ?r = 32" by (simp add: length_fold_branch)
  obtain a b where "header = a @ rev (hex_decode (j_prevHashBE t)) @ ?r @ b" "length a = 4" "length b = 12"
    using assms r
    by (auto simp: share_header_def Let_def buildBlockHeader_eq split: if_splits)
  then show "length header = 80" "take 32 (drop 4 header) = rev (hex_decode (j_prevHashBE t))"
    "take 32 (drop 36 header) = ?r"
    using assms(2) r by simp_all
qed

lemma hex_decode_concat:
  "\<forall>s \<in> set ss. is_hex_text s \<Longrightarrow> hex_decode (concat ss) = concat (map hex_decode ss)"
  by (induction ss) (simp_all add: hex_decode_append)

lemma assemble_block_bytes:
  assumes "length (j_txData t) < 65535" and "is_hex_text cb" and "\<forall>d \<in> set (j_txData t). is_hex_text d"
  shows "\<exists>b. assemble_block header cb (Some t) = Inr b \<and>
    hex_decode b = header @ varint_bytes (1 + length (j_txData t)) @ hex_decode cb @
      concat (map hex_decode (j_txData t))"
  using assms
  by (simp add: assemble_block_def encodeVarInt_ok hex_decode_append hex_decode_concat)

section \<open>What a refresh leaves alone\<close>

definition job_frame :: "'x world \<Rightarrow> 'x world \<Rightarrow> bool" where
  "job_frame w w' \<longleftrightarrow> w_blockTemplate w' = w_blockTemplate w \<and> w_poolMiners w' = w_poolMiners w \<and>
     w_soloMiners w' = w_soloMiners w \<and> (\<exists>l. w_out w' = w_out w @ l)"

interpretation jobf: service_frame job_frame
  by unfold_locales (auto simp: job_frame_def)

lemma jobf_upd: "io_keeps job_frame (upd_obj i f)"
  by (simp add: io_keeps_def upd_obj_run job_frame_def)

lemma jobf_buildSoloCoinbase: "others_keep job_frame sv \<Longrightarrow> io_keeps job_frame (buildSoloCoinbase sv a tp)"
  unfolding buildSoloCoinbase_def Let_def by (intro jobf.service_rules) assumption+

lemma jobf_sendSoloWork: "io_keeps job_frame (sendSoloWork sock i)"
  unfolding sendSoloWork_def get_obj_def
  by (intro jobf.keeps_bind jobf.keeps_get) (auto split: option.splits intro: jobf.keeps_return jobf.keeps_write)

lemma jobf_refresh_solo: "others_keep job_frame sv \<Longrightarrow> io_keeps job_frame (refresh_solo_miner sv tp e)"
  unfolding refresh_solo_miner_def get_obj_def
  by (cases e)
     (auto split: option.splits intro!: jobf.keeps_bind jobf.keeps_get jobf.keeps_if jobf.keeps_return
       jobf.keeps_catch jobf.keeps_resolve jobf_buildSoloCoinbase jobf.keeps_random jobf.keeps_seq
       jobf_upd jobf_sendSoloWork)

definition pool_notify :: "job \<Rightarrow> jsv" where
  "pool_notify t = notify_line (JStr (j_jobId t)) (JStr (j_coinbase1 t)) (JStr (j_coinbase2 t)) t"

lemma notify_socket_run:
  "w_blockTemplate w = Some t \<Longrightarrow> notify_socket sock w =
    (Inr (), w\<lparr>w_out := w_out w @ (if sock \<in> set (w_destroyed w) then [] else [(sock, pool_notify t)])\<rparr>)"
  by (simp add: notify_socket_def io_simps io_bind_Inr sendWork_def pool_notify_def)

lemma notify_each:
  "w_blockTemplate w = Some t \<Longrightarrow> io_each notify_socket socks w =
    (Inr (), w\<lparr>w_out := w_out w @
       map (\<lambda>sock. (sock, pool_notify t)) (filter (\<lambda>sock. sock \<notin> set (w_destroyed w)) socks)\<rparr>)"
proof (induction socks arbitrary: w)
  case (Cons sock socks)
  show ?case
    using Cons.IH [of "w\<lparr>w_out := w_out w @ (if sock \<in> set (w_destroyed w) then [] else [(sock, pool_notify t)])\<rparr>"] Cons.prems
    by (simp add: io_seq_def io_bind_def notify_socket_run)
qed (simp add: io_simps)

lemma notify_pool_run:
  assumes "w_blockTemplate w = Some t"
  shows "notify_pool w = (Inr (), w\<lparr>w_out := w_out w @
    map (\<lambda>sock. (sock, pool_notify t)) (filter (\<lambda>sock. sock \<notin> set (w_destroyed w)) (w_activeSockets w))\<rparr>)"
  by (simp add: notify_pool_def io_simps io_bind_Inr notify_each [OF assms])

lemma total_buildless: "io_total (refresh_solo_miner sv tp e)"
  unfolding refresh_solo_miner_def get_obj_def
  by (cases e) (auto split: option.splits intro!: total_rules)

lemma total_each: "(\<And>x. io_total (f x)) \<Longrightarrow> io_total (io_each f xs)"
  by (induction xs) (simp_all add: total_return total_seq)


section \<open>A successful refresh\<close>

definition gbt_params :: "jsv list" where
  "gbt_params = [JObj [(''rules'', JArr [JStr ''segwit''])]]"

lemma refresh_success:
  assumes rpc: "rpcCall sv ''getblocktemplate'' gbt_params [] w = (Inr v, w1)" and v: "truthy v"
    and cbs: "template_coinbases (read_template v) = Inr cbs"
    and version: "tp_version (read_template v) = Some version"
    and keep: "others_keep job_frame sv"
  shows "\<exists>jid now w'. refreshBlockTemplate sv w = (Inr (), w') \<and>
    (let t = make_job (read_template v) jid cbs version now in
     w_blockTemplate w' = Some t \<and> w_poolMiners w' = w_poolMiners w1 \<and>
     (\<exists>l. w_out w' = w_out w1 @ map (\<lambda>sock. (sock, pool_notify t))
        (filter (\<lambda>sock. sock \<notin> set (w_destroyed w1)) (w_activeSockets w1)) @ l))"
proof -
  let ?tp = "read_template v"
  let ?solo = "io_bind (io_get w_soloMiners) (io_each (refresh_solo_miner sv ?tp))"
  obtain jid w2 where r: "random_hex sv 4 w1 = (Inr jid, w2)"
    "w_activeSockets w2 = w_activeSockets w1" "w_destroyed w2 = w_destroyed w1" "w_out w2 = w_out w1"
    "w_poolMiners w2 = w_poolMiners w1"
    by (simp add: random_hex_def io_simps io_bind_Inr)
  obtain now w3 where n: "date_now sv w2 = (Inr now, w3)"
    "w_activeSockets w3 = w_activeSockets w1" "w_destroyed w3 = w_destroyed w1" "w_out w3 = w_out w1"
    "w_poolMiners w3 = w_poolMiners w1"
    using r by (simp add: date_now_def io_simps)
  define t where "t = make_job ?tp jid cbs version now"
  define w4 where "w4 = w3\<lparr>w_blockTemplate := Some t, w_out := w_out w3 @
    map (\<lambda>sock. (sock, pool_notify t)) (filter (\<lambda>sock. sock \<notin> set (w_destroyed w3)) (w_activeSockets w3))\<rparr>"
  have np: "notify_pool (w3\<lparr>w_blockTemplate := Some t\<rparr>) = (Inr (), w4)"
    using notify_pool_run [of "w3\<lparr>w_blockTemplate := Some t\<rparr>" t] by (simp add: w4_def)
  have "io_total ?solo" by (intro total_bind total_get total_each total_buildless)
  then obtain w5 where w5: "?solo w4 = (Inr (), w5)" by (rule io_totalE) simp
  have "io_keeps job_frame ?solo"
    by (intro jobf.keeps_bind jobf.keeps_get jobf.keeps_each jobf_refresh_solo keep)
  from keepsD [OF this w5] have f: "job_frame w4 w5" .
  have "refreshBlockTemplate sv w = (Inr (), w5)"
    using rpc v cbs version r(1) n(1) np w5
    by (simp add: refreshBlockTemplate_def gbt_params_def Let_def io_seq_def io_bind_Inr io_lift_run io_modify_run
        io_catch_Inr t_def)
  moreover have "w_blockTemplate w5 = Some t" "w_poolMiners w5 = w_poolMiners w1"
    "\<exists>l. w_out w5 = w_out w1 @ map (\<lambda>sock. (sock, pool_notify t))
        (filter (\<lambda>sock. sock \<notin> set (w_destroyed w1)) (w_activeSockets w1)) @ l"
    using f n by (auto simp: job_frame_def w4_def)
  ultimately show ?thesis unfolding t_def Let_def by blast
qed

lemma refresh_failure:
  assumes "fst (rpcCall sv ''getblocktemplate'' gbt_params [] w) = Inl e \<or>
    (\<exists>v. fst (rpcCall sv ''getblocktemplate'' gbt_params [] w) = Inr v \<and>
      (\<not> truthy v \<or> (\<exists>e. template_coinbases (read_template v) = Inl e)))"
  shows "refreshBlockTemplate sv w = (Inr (), snd (rpcCall sv ''getblocktemplate'' gbt_params [] w))"
  using assms
  by (cases "rpcCall sv ''getblocktemplate'' gbt_params [] w")
     (auto simp: refreshBlockTemplate_def gbt_params_def Let_def io_bind_Inr io_bind_Inl io_lift_run io_catch_Inl
       io_catch_Inr io_return_run io_bind_def io_catch_def io_lift_def io_return_def)

end
