(* ===== verification/Stratum.thy ===== *)
theory Stratum
  imports Template
begin

text \<open>
  The two Stratum servers of \<open>pool.js\<close> (ports 3333 and 3334): connections, line framing, the four
  methods, the retarget timers and the closing of a socket.  A connection's closure variables are
  a \<open>conn\<close> record; sockets and timers are numbers.  \<open>JSON.parse\<close> is the service \<open>sv_parse\<close>.  The async
  functions that the authorize handlers start and do not await are queued as tasks, when their
  synchronous prefix says that there is something to do, and run by \<open>run_task\<close>.
\<close>

section \<open>Connections\<close>

definition new_conn :: "string \<Rightarrow> string \<Rightarrow> conn" where
  "new_conn workerId extraNonce1 =
     \<lparr>c_workerName = JStr [], c_buffer = [], c_workerId = workerId, c_extraNonce1 = extraNonce1,
      c_socketDiff = VARDIFF_startDiff, c_diffOverridden = False, c_shareTimestamps = [],
      c_vardiffTimer = None\<rparr>"

definition pool_conn :: "'x world \<Rightarrow> nat \<Rightarrow> conn" where
  "pool_conn w sock = (case map_get (w_poolConns w) sock of None \<Rightarrow> new_conn [] [] | Some c \<Rightarrow> c)"

definition solo_conn :: "'x world \<Rightarrow> nat \<Rightarrow> conn" where
  "solo_conn w sock = (case map_get (w_soloConns w) sock of None \<Rightarrow> new_conn [] [] | Some c \<Rightarrow> c)"

definition upd_pool_conn :: "nat \<Rightarrow> (conn \<Rightarrow> conn) \<Rightarrow> ('x world, unit) io" where
  "upd_pool_conn sock f =
     io_modify (\<lambda>w. w\<lparr>w_poolConns := map_set sock (f (pool_conn w sock)) (w_poolConns w)\<rparr>)"

definition upd_solo_conn :: "nat \<Rightarrow> (conn \<Rightarrow> conn) \<Rightarrow> ('x world, unit) io" where
  "upd_solo_conn sock f =
     io_modify (\<lambda>w. w\<lparr>w_soloConns := map_set sock (f (solo_conn w sock)) (w_soloConns w)\<rparr>)"

definition pool_connect :: "'x services \<Rightarrow> nat \<Rightarrow> ('x world, unit) io" where
  "pool_connect sv sock =
     io_seq (io_modify (\<lambda>w. w\<lparr>w_activeSockets := List.insert sock (w_activeSockets w)\<rparr>))
    (io_bind (random_hex sv 8) (\<lambda>workerId.
     io_bind (random_hex sv 4) (\<lambda>extraNonce1.
       io_modify (\<lambda>w. w\<lparr>w_poolConns := map_set sock (new_conn workerId extraNonce1) (w_poolConns w)\<rparr>))))"

definition solo_connect :: "'x services \<Rightarrow> nat \<Rightarrow> ('x world, unit) io" where
  "solo_connect sv sock =
     io_seq (io_modify (\<lambda>w. w\<lparr>w_activeSoloSockets := List.insert sock (w_activeSoloSockets w)\<rparr>))
    (io_bind (random_hex sv 8) (\<lambda>workerId.
     io_bind (random_hex sv 4) (\<lambda>extraNonce1.
       io_modify (\<lambda>w. w\<lparr>w_soloConns := map_set sock (new_conn workerId extraNonce1) (w_soloConns w)\<rparr>))))"

section \<open>Framing\<close>

definition frame_lines :: "string \<Rightarrow> string \<Rightarrow> string list \<times> string" where
  \<comment> \<open>the complete lines and the remainder after a chunk arrives\<close>
  "frame_lines buffer chunk =
     (let b = buffer @ chunk
      in if char_of (10::nat) \<notin> set b then ([], b)
         else let messages = js_split (char_of (10::nat)) b in (butlast messages, last messages))"

section \<open>Difficulty\<close>

definition difficulty_line :: "rat \<Rightarrow> jsv" where
  "difficulty_line diff =
     JObj [(''id'', JNull), (''method'', JStr ''mining.set_difficulty''), (''params'', JArr [JNum diff])]"

definition set_miner_difficulty :: "(jsv \<times> nat) list \<Rightarrow> jsv \<Rightarrow> rat \<Rightarrow> ('x world, unit) io" where
  "set_miner_difficulty miners workerName diff =
     (case map_get miners workerName of
        None \<Rightarrow> io_return ()
      | Some i \<Rightarrow> io_when (truthy workerName) (upd_obj i (\<lambda>m. m\<lparr>m_difficulty := Some diff\<rparr>)))"

definition sendDifficulty :: "nat \<Rightarrow> rat \<Rightarrow> ('x world, unit) io" where
  "sendDifficulty sock diff =
     io_seq (upd_pool_conn sock (\<lambda>c. c\<lparr>c_socketDiff := diff\<rparr>))
    (io_seq (sock_write sock (difficulty_line diff))
    (io_bind (io_get (\<lambda>w. pool_conn w sock)) (\<lambda>c.
     io_bind (io_get w_poolMiners) (\<lambda>miners.
       set_miner_difficulty miners (c_workerName c) diff))))"

definition sendSoloDifficulty :: "nat \<Rightarrow> rat \<Rightarrow> ('x world, unit) io" where
  "sendSoloDifficulty sock diff =
     io_seq (upd_solo_conn sock (\<lambda>c. c\<lparr>c_socketDiff := diff\<rparr>))
    (io_seq (sock_write sock (difficulty_line diff))
    (io_bind (io_get (\<lambda>w. solo_conn w sock)) (\<lambda>c.
     io_bind (io_get w_soloMiners) (\<lambda>miners.
       set_miner_difficulty miners (c_workerName c) diff))))"

definition startVardiff :: "nat \<Rightarrow> ('x world, unit) io" where
  "startVardiff sock =
     io_bind (io_get (\<lambda>w. pool_conn w sock)) (\<lambda>c.
       if c_diffOverridden c then io_return ()
       else io_bind (io_get w_nextTimer) (\<lambda>tid.
         io_seq (io_modify (\<lambda>w. w\<lparr>w_timers := (tid, sock) # w_timers w, w_nextTimer := Suc tid\<rparr>))
           (upd_pool_conn sock (\<lambda>c. c\<lparr>c_vardiffTimer := Some tid\<rparr>))))"

definition startSoloVardiff :: "nat \<Rightarrow> ('x world, unit) io" where
  "startSoloVardiff sock =
     io_bind (io_get (\<lambda>w. solo_conn w sock)) (\<lambda>c.
       if c_diffOverridden c then io_return ()
       else io_bind (io_get w_nextTimer) (\<lambda>tid.
         io_seq (io_modify (\<lambda>w. w\<lparr>w_soloTimers := (tid, sock) # w_soloTimers w, w_nextTimer := Suc tid\<rparr>))
           (upd_solo_conn sock (\<lambda>c. c\<lparr>c_vardiffTimer := Some tid\<rparr>))))"

definition vardiff_tick :: "'x services \<Rightarrow> nat \<Rightarrow> ('x world, unit) io" where
  \<comment> \<open>one run of the interval callback\<close>
  "vardiff_tick sv sock =
     io_bind (io_get (\<lambda>w. pool_conn w sock)) (\<lambda>c.
       if length (c_shareTimestamps c) < 2 then io_return ()
       else io_bind (date_now sv) (\<lambda>ms.
         io_seq (case retarget (js_div (of_int ms) 1000) (c_shareTimestamps c) (c_socketDiff c) of
                   None \<Rightarrow> io_return ()
                 | Some newDiff \<Rightarrow> sendDifficulty sock newDiff)
           (upd_pool_conn sock (\<lambda>c. c\<lparr>c_shareTimestamps := []\<rparr>))))"

definition solo_vardiff_tick :: "'x services \<Rightarrow> nat \<Rightarrow> ('x world, unit) io" where
  "solo_vardiff_tick sv sock =
     io_bind (io_get (\<lambda>w. solo_conn w sock)) (\<lambda>c.
       if length (c_shareTimestamps c) < 2 then io_return ()
       else io_bind (date_now sv) (\<lambda>ms.
         io_seq (case retarget (js_div (of_int ms) 1000) (c_shareTimestamps c) (c_socketDiff c) of
                   None \<Rightarrow> io_return ()
                 | Some newDiff \<Rightarrow> sendSoloDifficulty sock newDiff)
           (upd_solo_conn sock (\<lambda>c. c\<lparr>c_shareTimestamps := []\<rparr>))))"

section \<open>Methods\<close>

definition configure_reply :: "jsv \<Rightarrow> jsv" where
  "configure_reply message =
     (let params = js_prop_opt message ''params'';
          p1 = (if truthy params then (case js_index params 1 of Inr v \<Rightarrow> v | Inl _ \<Rightarrow> JUndef) else JUndef);
          m = js_prop_opt p1 ''version-rolling.mask'';
          mask = (if truthy m then m else JStr ''1fffe000'')
      in JObj [(''id'', js_prop_opt message ''id''),
               (''result'', JObj [(''version-rolling'', JBool True), (''version-rolling.mask'', mask)]),
               (''error'', JNull)])"

definition subscribe_reply :: "jsv \<Rightarrow> string \<Rightarrow> string \<Rightarrow> jsv" where
  "subscribe_reply message subscription extraNonce1 =
     JObj [(''id'', js_prop_opt message ''id''),
           (''result'', JArr [JArr [JArr [JStr ''mining.set_difficulty'', JStr subscription],
                                    JArr [JStr ''mining.notify'', JStr subscription]],
                              JStr extraNonce1, JInt 4]),
           (''error'', JNull)]"

definition password_of :: "jsv \<Rightarrow> jsv" where
  "password_of message = (case msg_param message 1 of Inr v \<Rightarrow> js_or v (JStr []) | Inl _ \<Rightarrow> JStr [])"

definition pool_entry :: "int \<Rightarrow> conn \<Rightarrow> miner" where
  "pool_entry now c =
     \<lparr>m_shares = 0, m_validShares = 0, m_lastSeen = now, m_workerId = c_workerId c,
      m_extraNonce1 = c_extraNonce1 c, m_difficulty = Some (c_socketDiff c),
      m_resolvedAddress = Some [], m_shareHistory = Some [], m_submittedShares = None,
      m_lastJobId = JUndef, m_socket = None, m_coinbase1 = None, m_coinbase2 = None, m_jobId = JUndef\<rparr>"

definition solo_entry :: "int \<Rightarrow> nat \<Rightarrow> string \<Rightarrow> conn \<Rightarrow> miner" where
  "solo_entry now sock jobId c =
     (pool_entry now c)\<lparr>m_shareHistory := None, m_socket := Some sock, m_jobId := JStr jobId\<rparr>"

definition pool_authorize :: "'x services \<Rightarrow> nat \<Rightarrow> jsv \<Rightarrow> ('x world, unit) io" where
  "pool_authorize sv sock message =
     io_bind (io_lift (msg_param message 0)) (\<lambda>workerName.
     io_seq (upd_pool_conn sock (\<lambda>c. c\<lparr>c_workerName := workerName\<rparr>))
    (io_seq (case parseDiffOverride (password_of message) of
               None \<Rightarrow> io_return ()
             | Some overrideDiff \<Rightarrow>
                 io_seq (upd_pool_conn sock (\<lambda>c. c\<lparr>c_diffOverridden := True, c_socketDiff := overrideDiff\<rparr>))
                   (sendDifficulty sock overrideDiff))
    (io_bind (date_now sv) (\<lambda>now.
     io_bind (io_get (\<lambda>w. pool_conn w sock)) (\<lambda>c.
     io_bind (new_obj (pool_entry now c)) (\<lambda>i.
     io_seq (io_modify (\<lambda>w. w\<lparr>w_poolMiners := map_set workerName i (w_poolMiners w)\<rparr>))
    (io_seq (sock_write sock (reply_true (js_prop_opt message ''id'')))
    (io_seq (io_modify (\<lambda>w. w\<lparr>w_activeWorkers := length (w_poolMiners w)\<rparr>))
    (io_seq (startVardiff sock)
      (io_when (endsWith (pw_wallet (parseMinerWorker workerName)) ''.tar'')
        (io_modify (\<lambda>w. w\<lparr>w_tasks := w_tasks w @ [ResolveName i workerName]\<rparr>))))))))))))"

definition solo_authorize :: "'x services \<Rightarrow> nat \<Rightarrow> jsv \<Rightarrow> ('x world, unit) io" where
  "solo_authorize sv sock message =
     io_bind (io_lift (msg_param message 0)) (\<lambda>workerName.
     io_seq (upd_solo_conn sock (\<lambda>c. c\<lparr>c_workerName := workerName\<rparr>))
    (io_seq (case parseDiffOverride (password_of message) of
               None \<Rightarrow> io_return ()
             | Some overrideDiff \<Rightarrow>
                 io_seq (upd_solo_conn sock (\<lambda>c. c\<lparr>c_diffOverridden := True, c_socketDiff := overrideDiff\<rparr>))
                   (sendSoloDifficulty sock overrideDiff))
    (io_bind (date_now sv) (\<lambda>now.
     io_bind (random_hex sv 4) (\<lambda>jobId.
     io_bind (io_get (\<lambda>w. solo_conn w sock)) (\<lambda>c.
     io_bind (new_obj (solo_entry now sock jobId c)) (\<lambda>i.
     io_seq (io_modify (\<lambda>w. w\<lparr>w_soloMiners := map_set workerName i (w_soloMiners w)\<rparr>))
    (io_seq (sock_write sock (reply_true (js_prop_opt message ''id'')))
    (io_seq (startSoloVardiff sock)
    (io_bind (io_get w_blockTemplate) (\<lambda>tmpl.
       io_when (tmpl \<noteq> None)
        (io_modify (\<lambda>w. w\<lparr>w_tasks := w_tasks w @ [BuildSoloWork sock i workerName]\<rparr>)))))))))))))"

definition push_timestamp :: "int \<Rightarrow> conn \<Rightarrow> conn" where
  "push_timestamp ms c =
     (let ts = c_shareTimestamps c @ [js_div (of_int ms) 1000]
      in c\<lparr>c_shareTimestamps := (if 500 < length ts then tl ts else ts)\<rparr>)"

definition pool_message :: "'x services \<Rightarrow> nat \<Rightarrow> jsv \<Rightarrow> ('x world, unit) io" where
  "pool_message sv sock message =
     io_bind (io_lift (js_prop message ''method'')) (\<lambda>mname.
     io_bind (io_get (\<lambda>w. pool_conn w sock)) (\<lambda>c.
       if mname = JStr ''mining.configure'' then sock_write sock (configure_reply message)
       else if mname = JStr ''mining.subscribe'' then
         io_seq (sock_write sock (subscribe_reply message (''tarcoin-'' @ c_workerId c) (c_extraNonce1 c)))
        (io_seq (sendDifficulty sock (c_socketDiff c))
          (sendWork sock))
       else if mname = JStr ''mining.authorize'' then pool_authorize sv sock message
       else if mname = JStr ''mining.submit'' then
         io_bind (date_now sv) (\<lambda>ms.
         io_seq (upd_pool_conn sock (push_timestamp ms))
           (handleSubmit sv sock message (c_workerName c) (c_extraNonce1 c)))
       else io_return ()))"

definition solo_message :: "'x services \<Rightarrow> nat \<Rightarrow> jsv \<Rightarrow> ('x world, unit) io" where
  "solo_message sv sock message =
     io_bind (io_lift (js_prop message ''method'')) (\<lambda>mname.
     io_bind (io_get (\<lambda>w. solo_conn w sock)) (\<lambda>c.
       if mname = JStr ''mining.configure'' then sock_write sock (configure_reply message)
       else if mname = JStr ''mining.subscribe'' then
         io_seq (sock_write sock (subscribe_reply message (''tarcoin-solo-'' @ c_workerId c) (c_extraNonce1 c)))
           (sendSoloDifficulty sock (c_socketDiff c))
       else if mname = JStr ''mining.authorize'' then solo_authorize sv sock message
       else if mname = JStr ''mining.submit'' then
         io_bind (date_now sv) (\<lambda>ms.
         io_seq (upd_solo_conn sock (push_timestamp ms))
           (handleSoloSubmit sv sock message (c_workerName c) (c_extraNonce1 c)))
       else io_return ()))"

section \<open>Socket events\<close>

definition handle_line ::
  "'x services \<Rightarrow> ('x services \<Rightarrow> nat \<Rightarrow> jsv \<Rightarrow> ('x world, unit) io) \<Rightarrow> nat \<Rightarrow> string \<Rightarrow> ('x world, unit) io" where
  \<comment> \<open>one turn of the loop over the lines: blank lines are skipped, errors are logged\<close>
  "handle_line sv on_message sock msg =
     (if js_trim msg = [] then io_return ()
      else io_catch (io_bind (io_lift (sv_parse sv msg)) (on_message sv sock)) (\<lambda>_. io_return ()))"

definition pool_data :: "'x services \<Rightarrow> nat \<Rightarrow> string \<Rightarrow> ('x world, unit) io" where
  "pool_data sv sock chunk =
     io_bind (io_get (\<lambda>w. frame_lines (c_buffer (pool_conn w sock)) chunk)) (\<lambda>(messages, rest).
     io_seq (upd_pool_conn sock (\<lambda>c. c\<lparr>c_buffer := rest\<rparr>))
       (io_each (handle_line sv pool_message sock) messages))"

definition solo_data :: "'x services \<Rightarrow> nat \<Rightarrow> string \<Rightarrow> ('x world, unit) io" where
  "solo_data sv sock chunk =
     io_bind (io_get (\<lambda>w. frame_lines (c_buffer (solo_conn w sock)) chunk)) (\<lambda>(messages, rest).
     io_seq (upd_solo_conn sock (\<lambda>c. c\<lparr>c_buffer := rest\<rparr>))
       (io_each (handle_line sv solo_message sock) messages))"

definition clear_timer :: "nat option \<Rightarrow> (nat \<times> nat) list \<Rightarrow> (nat \<times> nat) list" where
  "clear_timer t timers = (case t of None \<Rightarrow> timers | Some tid \<Rightarrow> filter (\<lambda>e. fst e \<noteq> tid) timers)"

definition pool_close :: "nat \<Rightarrow> ('x world, unit) io" where
  "pool_close sock =
     io_bind (io_get (\<lambda>w. pool_conn w sock)) (\<lambda>c.
     io_seq (io_modify (\<lambda>w. w\<lparr>w_activeSockets := remove1 sock (w_activeSockets w),
                              w_destroyed := sock # w_destroyed w,
                              w_timers := clear_timer (c_vardiffTimer c) (w_timers w)\<rparr>))
       (io_when (truthy (c_workerName c))
         (io_modify (\<lambda>w. let miners = map_del (c_workerName c) (w_poolMiners w)
            in w\<lparr>w_poolMiners := miners, w_activeWorkers := length miners\<rparr>))))"

definition solo_close :: "nat \<Rightarrow> ('x world, unit) io" where
  "solo_close sock =
     io_bind (io_get (\<lambda>w. solo_conn w sock)) (\<lambda>c.
     io_seq (io_modify (\<lambda>w. w\<lparr>w_activeSoloSockets := remove1 sock (w_activeSoloSockets w),
                              w_destroyed := sock # w_destroyed w,
                              w_soloTimers := clear_timer (c_vardiffTimer c) (w_soloTimers w)\<rparr>))
       (io_when (truthy (c_workerName c))
         (io_modify (\<lambda>w. w\<lparr>w_soloMiners := map_del (c_workerName c) (w_soloMiners w)\<rparr>))))"

section \<open>Tasks\<close>

definition resolve_name_task :: "'x services \<Rightarrow> nat \<Rightarrow> jsv \<Rightarrow> ('x world, unit) io" where
  "resolve_name_task sv i workerName =
     io_catch
       (io_bind (resolveTnsToAddress sv (pw_wallet (parseMinerWorker workerName))) (\<lambda>addr.
          io_when (addr \<noteq> []) (upd_obj i (\<lambda>m. m\<lparr>m_resolvedAddress := Some (toLowerCase addr)\<rparr>))))
       (\<lambda>_. io_return ())"

definition solo_work_task :: "'x services \<Rightarrow> nat \<Rightarrow> nat \<Rightarrow> jsv \<Rightarrow> ('x world, unit) io" where
  "solo_work_task sv sock i workerName =
     io_catch
       (io_bind (resolveTnsToAddress sv (pw_wallet (parseMinerWorker workerName))) (\<lambda>minerAddress.
        io_seq (io_when (minerAddress \<noteq> [])
                  (upd_obj i (\<lambda>m. m\<lparr>m_resolvedAddress := Some (toLowerCase minerAddress)\<rparr>)))
       (io_bind (io_get w_blockTemplate) (\<lambda>tmpl.
          case tmpl of
            None \<Rightarrow> io_throw type_error
          | Some t \<Rightarrow>
              io_bind (buildSoloCoinbase sv minerAddress (j_rawTemplate t)) (\<lambda>(coinbase1, coinbase2).
              io_seq (upd_obj i (\<lambda>m. m\<lparr>m_coinbase1 := Some coinbase1, m_coinbase2 := Some coinbase2\<rparr>))
             (io_bind (io_get (\<lambda>w. sock \<in> set (w_destroyed w))) (\<lambda>destroyed.
                io_when (\<not> destroyed) (sendSoloWork sock i))))))))
       (\<lambda>_. io_return ())"

fun run_task :: "'x services \<Rightarrow> task \<Rightarrow> ('x world, unit) io" where
  "run_task sv (ResolveName i workerName) = resolve_name_task sv i workerName"
| "run_task sv (BuildSoloWork sock i workerName) = solo_work_task sv sock i workerName"

end
