(* ===== verification/Share_Properties.thy ===== *)
theory Share_Properties
  imports Shares
begin

text \<open>
  The properties of share handling: what each submission leads to, that a replayed share is
  refused and how the refusal can be avoided, and which blocks reach the node.
\<close>

section \<open>A concrete job and message\<close>

definition demo_template :: template where
  "demo_template =
     \<lparr>tp_previousblockhash = hex_encode (replicate 32 1), tp_height = 100, tp_coinbasevalue = 5000000000000,
      tp_witness_commitment = [], tp_transactions = [], tp_version = Some 0x20000000, tp_bits = ''1d00ffff''\<rparr>"

definition demo_job :: job where
  "demo_job =
     \<lparr>j_jobId = ''job1'', j_prevHashBE = hex_encode (replicate 32 1), j_stratumPrevHash = [],
      j_coinbase1 = ''01'', j_coinbase2 = ''02'', j_merkleBranch = [], j_txData = [''aa'', ''bb''],
      j_version = ''20000000'', j_nBits = ''1d00ffff'', j_nTime = ''65000000'', j_height = 100,
      j_rawTemplate = demo_template\<rparr>"

definition demo_submit :: "string \<Rightarrow> jsv" where
  "demo_submit jobId =
     JObj [(''id'', JInt 4), (''method'', JStr ''mining.submit''),
           (''params'', JArr [JStr ''alice'', JStr jobId, JStr ''00000001'', JStr ''65000000'', JStr ''0000000a''])]"

definition demo_submission :: "string \<Rightarrow> submission" where
  "demo_submission jobId =
     \<lparr>sb_id = JInt 4, sb_worker = JStr ''alice'', sb_jobId = JStr jobId,
      sb_extraNonce2 = JStr ''00000001'', sb_nTime = JStr ''65000000'', sb_nonce = JStr ''0000000a'',
      sb_versionBits = JUndef\<rparr>"

definition demo_world :: "mem world" where
  "demo_world = mem_world\<lparr>w_blockTemplate := Some demo_job,
     w_poolMiners := [(JStr ''alice'', 0)], w_soloMiners := [(JStr ''alice'', 0)],
     w_objs := (w_objs mem_world)(0 := (w_objs mem_world 0)
       \<lparr>m_jobId := JStr ''solo1'', m_coinbase1 := Some ''01'', m_coinbase2 := Some ''02''\<rparr>)\<rparr>"

abbreviation demo_services :: "mem services" where
  "demo_services \<equiv> mem_services (\<lambda>m ps. JNull)"

lemma demo_read: "read_submission (demo_submit j) = Inr (demo_submission j)"
  by (simp add: read_submission_def msg_param_def demo_submit_def demo_submission_def list_at_def)

lemma demo_known:
  "map_get (w_poolMiners demo_world) (JStr ''alice'') = Some 0"
  "map_get (w_soloMiners demo_world) (JStr ''alice'') = Some 0"
  by (simp_all add: demo_world_def)

lemma demo_fresh: "seen_shares j (w_objs demo_world 0) = []"
  by (simp add: seen_shares_def demo_world_def mem_world_def)

lemma demo_observed: "rpc_observed demo_services mm_log"
  by (simp add: rpc_observed_def mem_services_def split: prod.splits)

lemma demo_redis: "redis_works demo_services"
  by (simp add: redis_works_def mem_services_def split: prod.splits)

lemma demo_header: "\<exists>h. share_header demo_job cb (demo_submission j) = Inr h"
proof -
  have "u32_ok (js_parseInt 16 ''20000000'')" "u32_ok (js_parseInt 16 ''65000000'')"
    "u32_ok (js_parseInt 16 ''1d00ffff'')" "u32_ok (js_parseInt 16 ''0000000a'')"
    by (simp_all add: js_parseInt_eval u32_ok_def)
  then show ?thesis
    by (simp add: share_header_def Let_def demo_job_def demo_submission_def buildBlockHeader_eq fold_branch_def)
qed

lemma credited_fields:
  assumes "credited sock i s w w'"
  shows "m_validShares (w_objs w' i) = Suc (m_validShares (w_objs w i))"
    and "m_lastJobId (w_objs w' i) = sb_jobId s"
    and "w_poolMiners w' = w_poolMiners w" and "w_blockTemplate w' = w_blockTemplate w"
proof -
  obtain t1 t2 t3 where "forget_address (w_objs w' i) =
      forget_address (credit_share t1 t2 t3 (mark_share s (w_objs w i)))"
    using assms by (auto simp: credited_def)
  note f = forget_address_fields [OF this]
  show "m_validShares (w_objs w' i) = Suc (m_validShares (w_objs w i))"
    using f(3) by (simp add: credit_share_def Let_def)
  show "m_lastJobId (w_objs w' i) = sb_jobId s"
    using f(1) by (simp add: credit_share_def Let_def mark_share_marks)
  show "w_poolMiners w' = w_poolMiners w" "w_blockTemplate w' = w_blockTemplate w"
    using assms by (simp_all add: credited_def)
qed

section \<open>Outcomes of a submission\<close>

text \<open>
  C1. A submission by a known pool miner has exactly one of five outcomes and the handler never
  throws.  A share seen before under the same job is answered with error 22; a share for another
  job than the current one with error 21; a share whose header cannot be built with error 20; none
  of these changes any share count.  Every other share adds one valid share to this miner and
  nothing to any other, and the first line written is the acceptance.
\<close>

theorem pool_submit_outcomes:
  assumes "map_get (w_poolMiners w) name = Some i" and "read_submission msg = Inr s"
    and "others_keep (tail_frame i) sv"
  shows "fst (handleSubmit sv sock msg name en1 w) = Inr () \<and>
    (let w' = snd (handleSubmit sv sock msg name en1 w) in
     if shareKey s \<in> set (seen_shares (sb_jobId s) (w_objs w i))
     then w' = answered sock i s 22 ''Duplicate share'' w
     else case w_blockTemplate w of
       None \<Rightarrow> w' = answered sock i s 21 ''Job not found'' w
     | Some t \<Rightarrow>
         if sb_jobId s \<noteq> JStr (j_jobId t) then w' = answered sock i s 21 ''Job not found'' w
         else case share_header t (pool_coinbase t en1 s) s of
           Inl e \<Rightarrow> w' = answered sock i s 20 ''Verification error'' w
         | Inr header \<Rightarrow> credited sock i s w w' \<and> m_validShares (w_objs w' i) = Suc (m_validShares (w_objs w i)))"
  using pool_submit_branches [OF assms, of sock en1] credited_fields(1)
  by (auto simp: Let_def split: option.splits sum.splits)

theorem pool_submit_outcomes_witness:
  "credited 5 0 (demo_submission ''job1'') demo_world
     (snd (handleSubmit demo_services 5 (demo_submit ''job1'') (JStr ''alice'') ''abcd0000'' demo_world)) \<and>
   snd (handleSubmit demo_services 5 (demo_submit ''old'') (JStr ''alice'') ''abcd0000'' demo_world) =
     answered 5 0 (demo_submission ''old'') 21 ''Job not found'' demo_world"
proof -
  have k: "others_keep (tail_frame 0) demo_services" by (simp add: tail.others_keep_id)
  have t: "w_blockTemplate demo_world = Some demo_job" "sb_jobId (demo_submission j) = JStr j"
    "j_jobId demo_job = ''job1''" for j
    by (simp_all add: demo_world_def demo_submission_def demo_job_def)
  obtain h where "share_header demo_job (pool_coinbase demo_job ''abcd0000'' (demo_submission ''job1''))
      (demo_submission ''job1'') = Inr h"
    using demo_header by blast
  then show ?thesis
    using pool_submit_outcomes [OF demo_known(1) demo_read [of "''job1''"] k, of 5 "''abcd0000''"]
      pool_submit_outcomes [OF demo_known(1) demo_read [of "''old''"] k, of 5 "''abcd0000''"]
    by (simp add: Let_def demo_fresh t)
qed

text \<open>
  C16. The same for a solo miner, whose job and coinbase are its own: an unknown job is answered
  with error 21, a job whose coinbase is not built yet with error 20.
\<close>

theorem solo_submit_outcomes:
  assumes "map_get (w_soloMiners w) name = Some i" and "read_submission msg = Inr s"
    and "others_keep (tail_frame i) sv"
  shows "fst (handleSoloSubmit sv sock msg name en1 w) = Inr () \<and>
    (let w' = snd (handleSoloSubmit sv sock msg name en1 w); m = w_objs w i in
     if shareKey s \<in> set (seen_shares (sb_jobId s) m)
     then w' = answered sock i s 22 ''Duplicate share'' w
     else case w_blockTemplate w of
       None \<Rightarrow> w' = answered sock i s 21 ''Job not found'' w
     | Some t \<Rightarrow>
         if \<not> js_strict_eq (m_jobId m) (sb_jobId s) then w' = answered sock i s 21 ''Job not found'' w
         else if text_of (m_coinbase1 m) = [] \<or> text_of (m_coinbase2 m) = []
         then w' = answered sock i s 20 ''Coinbase not ready, please wait'' w
         else case share_header t (solo_coinbase m en1 s) s of
           Inl e \<Rightarrow> w' = answered sock i s 20 ''Verification error'' w
         | Inr header \<Rightarrow> credited sock i s w w')"
  using assms by (rule solo_submit_branches)

theorem solo_submit_outcomes_witness:
  "credited 5 0 (demo_submission ''solo1'') demo_world
     (snd (handleSoloSubmit demo_services 5 (demo_submit ''solo1'') (JStr ''alice'') ''abcd0000'' demo_world))"
proof -
  have k: "others_keep (tail_frame 0) demo_services" by (simp add: tail.others_keep_id)
  have t: "w_blockTemplate demo_world = Some demo_job" "sb_jobId (demo_submission ''solo1'') = JStr ''solo1''"
    "m_jobId (w_objs demo_world 0) = JStr ''solo1''" "m_coinbase1 (w_objs demo_world 0) = Some ''01''"
    "m_coinbase2 (w_objs demo_world 0) = Some ''02''"
    by (simp_all add: demo_world_def demo_submission_def)
  obtain h where "share_header demo_job (solo_coinbase (w_objs demo_world 0) ''abcd0000'' (demo_submission ''solo1''))
      (demo_submission ''solo1'') = Inr h"
    using demo_header by blast
  then show ?thesis
    using solo_submit_outcomes [OF demo_known(2) demo_read [of "''solo1''"] k, of 5 "''abcd0000''"]
    by (simp add: Let_def demo_fresh t text_of_def)
qed

section \<open>Replayed shares\<close>



text \<open>
  Once a solo miner has submitted a share, a submission with the same key is refused as well.
\<close>

lemma solo_replay_rejected:
  assumes "map_get (w_soloMiners w) name = Some i"
    and "read_submission msg = Inr s" and "read_submission msg' = Inr s'"
    and "sb_jobId s = JStr j" and "sb_jobId s' = JStr j" and "shareKey s' = shareKey s"
    and "others_keep (tail_frame i) sv"
    and "w' = snd (handleSoloSubmit sv sock msg name en1 w)"
  shows "handleSoloSubmit sv sock' msg' name en1' w' =
    (Inr (), w'\<lparr>w_out := w_out w' @ [(sock', reply_error (sb_id s') 22 ''Duplicate share'')]\<rparr>)"
  using assms by (rule solo.replay_rejected)

lemma solo_replay_rejected_witness:
  "let w = snd (handleSoloSubmit demo_services 5 (demo_submit ''solo1'') (JStr ''alice'') ''abcd0000'' demo_world)
   in handleSoloSubmit demo_services 6 (demo_submit ''solo1'') (JStr ''alice'') ''abcd0000'' w =
      (Inr (), w\<lparr>w_out := w_out w @ [(6, reply_error (JInt 4) 22 ''Duplicate share'')]\<rparr>)"
proof -
  have k: "others_keep (tail_frame 0) demo_services" by (simp add: tail.others_keep_id)
  have j: "sb_jobId (demo_submission ''solo1'') = JStr ''solo1''" "sb_id (demo_submission ''solo1'') = JInt 4"
    by (simp_all add: demo_submission_def)
  show ?thesis
    using solo_replay_rejected [OF demo_known(2) demo_read demo_read j(1) j(1) refl k refl] j(2)
    by (simp add: Let_def)
qed

lemma fresh_seen: "m_lastJobId m = JStr a \<Longrightarrow> a \<noteq> b \<Longrightarrow> seen_shares (JStr b) m = []"
  by (simp add: seen_shares_def)

lemma pool_credit_step:
  assumes "map_get (w_poolMiners w) name = Some i" and "read_submission msg = Inr s"
    and "others_keep (tail_frame i) sv" and "w_blockTemplate w = Some t"
    and "sb_jobId s = JStr (j_jobId t)" and "share_header t (pool_coinbase t en1 s) s = Inr header"
    and "shareKey s \<notin> set (seen_shares (sb_jobId s) (w_objs w i))"
  shows "credited sock i s w (snd (handleSubmit sv sock msg name en1 w))"
  using pool_submit_branches [OF assms(1-3), of sock en1] assms(4-7) by (simp add: Let_def)

text \<open>
  C36. The refusal of replays can be avoided: a miner that submits a share, then anything naming a
  job that does not exist, then the first share again, is credited for it twice, because the set
  of seen shares is emptied before the job is checked.
\<close>

theorem replay_after_unknown_job:
  assumes known: "map_get (w_poolMiners w) name = Some i"
    and s: "read_submission msg = Inr s" and o: "read_submission other = Inr s0"
    and t: "w_blockTemplate w = Some t" and j: "sb_jobId s = JStr (j_jobId t)"
    and j0: "sb_jobId s0 = JStr j0" "j0 \<noteq> j_jobId t"
    and h: "share_header t (pool_coinbase t en1 s) s = Inr header"
    and fresh: "shareKey s \<notin> set (seen_shares (sb_jobId s) (w_objs w i))"
    and keep: "others_keep (tail_frame i) sv"
    and w1: "w1 = snd (handleSubmit sv sock msg name en1 w)"
    and w2: "w2 = snd (handleSubmit sv sock other name en1 w1)"
    and w3: "w3 = snd (handleSubmit sv sock msg name en1 w2)"
  shows "m_validShares (w_objs w3 i) = m_validShares (w_objs w i) + 2"
proof -
  have c1: "credited sock i s w w1"
    unfolding w1 by (rule pool_credit_step [OF known s keep t j h fresh])
  note f1 = credited_fields [OF c1]
  have k1: "map_get (w_poolMiners w1) name = Some i" "w_blockTemplate w1 = Some t"
    using f1(3,4) known t by simp_all
  have "seen_shares (sb_jobId s0) (w_objs w1 i) = []"
    using fresh_seen [of "w_objs w1 i" "j_jobId t" j0] f1(2) j j0 by simp
  then have w2': "w2 = answered sock i s0 21 ''Job not found'' w1"
    using pool_submit_branches [OF k1(1) o keep, of sock en1] k1(2) j0 by (simp add: Let_def w2)
  have k2: "map_get (w_poolMiners w2) name = Some i" "w_blockTemplate w2 = Some t"
    "m_lastJobId (w_objs w2 i) = JStr j0" "m_validShares (w_objs w2 i) = m_validShares (w_objs w1 i)"
    using k1 j0(1) by (simp_all add: w2' answered_def mark_share_marks)
  have "shareKey s \<notin> set (seen_shares (sb_jobId s) (w_objs w2 i))"
    using fresh_seen [OF k2(3) j0(2)] j by simp
  then have "credited sock i s w2 w3"
    unfolding w3 by (rule pool_credit_step [OF k2(1) s keep k2(2) j h])
  from credited_fields(1) [OF this] show ?thesis using k2(4) f1(1) by simp
qed

theorem replay_after_unknown_job_witness:
  "let w1 = snd (handleSubmit demo_services 5 (demo_submit ''job1'') (JStr ''alice'') ''abcd0000'' demo_world);
       w2 = snd (handleSubmit demo_services 5 (demo_submit ''old'') (JStr ''alice'') ''abcd0000'' w1);
       w3 = snd (handleSubmit demo_services 5 (demo_submit ''job1'') (JStr ''alice'') ''abcd0000'' w2)
   in m_validShares (w_objs w3 0) = 2"
proof -
  have k: "others_keep (tail_frame 0) demo_services" by (simp add: tail.others_keep_id)
  have t: "w_blockTemplate demo_world = Some demo_job" by (simp add: demo_world_def)
  have j: "sb_jobId (demo_submission ''job1'') = JStr (j_jobId demo_job)"
    "sb_jobId (demo_submission ''old'') = JStr ''old''" "''old'' \<noteq> j_jobId demo_job"
    by (simp_all add: demo_submission_def demo_job_def)
  obtain h where h: "share_header demo_job (pool_coinbase demo_job ''abcd0000'' (demo_submission ''job1''))
      (demo_submission ''job1'') = Inr h"
    using demo_header by blast
  have n: "shareKey (demo_submission ''job1'') \<notin>
      set (seen_shares (sb_jobId (demo_submission ''job1'')) (w_objs demo_world 0))"
    by (simp add: demo_fresh)
  have z: "m_validShares (w_objs demo_world 0) = 0" by (simp add: demo_world_def mem_world_def)
  show ?thesis
    using replay_after_unknown_job [OF demo_known(1) demo_read demo_read t j h n k refl refl refl, of 5]
    by (simp only: Let_def z)
qed

section \<open>Credit does not depend on the hash\<close>

text \<open>
  Every share for the current job whose fields parse is credited, whatever the hash of its
  header is: the handler never compares the hash with the difficulty it has set for the miner.
\<close>

lemma share_credited_whatever_hash:
  assumes "map_get (w_poolMiners w) name = Some i" and "read_submission msg = Inr s"
    and "others_keep (tail_frame i) sv" and "w_blockTemplate w = Some t"
    and "sb_jobId s = JStr (j_jobId t)" and "sb_versionBits s = JUndef"
    and "shareKey s \<notin> set (seen_shares (sb_jobId s) (w_objs w i))"
    and "length (hex_decode (j_prevHashBE t)) = 32" and "u32_ok (js_parseInt 16 (j_version t))"
    and "u32_ok (js_parseInt 16 (j_nBits t))" and "u32_ok (js_parseInt 16 (js_tostring (sb_nTime s)))"
    and "u32_ok (js_parseInt 16 (js_tostring (sb_nonce s)))"
  shows "credited sock i s w (snd (handleSubmit sv sock msg name en1 w))"
proof -
  let ?r = "fold_branch (sha256d (hex_decode (pool_coinbase t en1 s))) (map hex_decode (j_merkleBranch t))"
  have "length ?r = 32"
    by (cases "map hex_decode (j_merkleBranch t)" rule: rev_cases) (simp_all add: fold_branch_def)
  then have "\<exists>header. share_header t (pool_coinbase t en1 s) s = Inr header"
    using assms(6,8-12) by (simp add: share_header_def Let_def buildBlockHeader_eq)
  then show ?thesis using pool_credit_step [OF assms(1-5) _ assms(7)] by blast
qed

lemma share_credited_whatever_hash_witness:
  "credited 5 0 (demo_submission ''job1'') demo_world
     (snd (handleSubmit demo_services 5 (demo_submit ''job1'') (JStr ''alice'') ''abcd0000'' demo_world))"
  by (rule share_credited_whatever_hash [OF demo_known(1) demo_read, where t = demo_job])
     (simp_all add: tail.others_keep_id demo_world_def mem_world_def demo_submission_def demo_job_def
       seen_shares_def js_parseInt_eval u32_ok_def)

section \<open>Found blocks\<close>

lemma submit_log:
  assumes "map_get (w_poolMiners w) name = Some i" and "read_submission msg = Inr s"
    and "shareKey s \<notin> set (seen_shares (sb_jobId s) (w_objs w i))"
  shows "handleSubmit sv sock msg name en1 w =
    pool_check_job sv sock i s en1 (w\<lparr>w_objs := (w_objs w)(i := mark_share s (w_objs w i))\<rparr>)"
  using pool.submit_run [OF assms(1,2)] assms(3) by (simp add: Let_def)

lemma solo_submit_log:
  assumes "map_get (w_soloMiners w) name = Some i" and "read_submission msg = Inr s"
    and "shareKey s \<notin> set (seen_shares (sb_jobId s) (w_objs w i))"
  shows "handleSoloSubmit sv sock msg name en1 w =
    solo_check_job sv sock i s en1 (w\<lparr>w_objs := (w_objs w)(i := mark_share s (w_objs w i))\<rparr>)"
  using solo.submit_run [OF assms(1,2)] assms(3) by (simp add: Let_def)

lemma meets_network_value:
  "meets_network t header \<longleftrightarrow> le_val (sha256d header) \<le> be_val (nBitsToTarget (j_nBits t))"
  by (simp add: meets_network_def hashMeetsTarget_iff)



text \<open>
  A solo share needs no Redis for that: with any Redis, an accepted solo share is submitted as a
  block exactly when its hash is at most the network target.
\<close>

lemma solo_block_submitted:
  assumes "rpc_observed sv rlog"
    and "map_get (w_soloMiners w) name = Some i" and "read_submission msg = Inr s"
    and "shareKey s \<notin> set (seen_shares (sb_jobId s) (w_objs w i))"
    and "w_blockTemplate w = Some t" and "js_strict_eq (m_jobId (w_objs w i)) (sb_jobId s)"
    and "text_of (m_coinbase1 (w_objs w i)) \<noteq> []" and "text_of (m_coinbase2 (w_objs w i)) \<noteq> []"
    and "share_header t (solo_coinbase (w_objs w i) en1 s) s = Inr header"
  shows "rlog (w_ext (snd (handleSoloSubmit sv sock msg name en1 w))) = rlog (w_ext w) @
    (if le_val (sha256d header) \<le> be_val (nBitsToTarget (j_nBits t))
     then submitted (assemble_block header (solo_coinbase (w_objs w i) en1 s) (Some t)) else [])"
proof -
  let ?v = "w\<lparr>w_objs := (w_objs w)(i := mark_share s (w_objs w i))\<rparr>"
  have c: "solo_coinbase (w_objs ?v i) en1 s = solo_coinbase (w_objs w i) en1 s"
    by (simp add: solo_coinbase_def)
  show ?thesis
    unfolding solo_submit_log [OF assms(2-4)]
    using solo_check_job_log [OF assms(1), of ?v t i s en1 header sock, unfolded c] assms(5-9)
    by (simp add: meets_network_value)
qed

lemma solo_block_submitted_witness:
  "\<exists>header. share_header demo_job (solo_coinbase (w_objs demo_world 0) ''abcd0000'' (demo_submission ''solo1''))
       (demo_submission ''solo1'') = Inr header \<and>
     mm_log (w_ext (snd (handleSoloSubmit demo_services 5 (demo_submit ''solo1'') (JStr ''alice'') ''abcd0000'' demo_world))) =
       (if le_val (sha256d header) \<le> be_val (nBitsToTarget (j_nBits demo_job))
        then submitted (assemble_block header (solo_coinbase (w_objs demo_world 0) ''abcd0000'' (demo_submission ''solo1'')) (Some demo_job))
        else [])"
proof -
  have t: "w_blockTemplate demo_world = Some demo_job" "mm_log (w_ext demo_world) = []"
    by (simp_all add: demo_world_def mem_world_def)
  have m: "js_strict_eq (m_jobId (w_objs demo_world 0)) (sb_jobId (demo_submission ''solo1''))"
    "text_of (m_coinbase1 (w_objs demo_world 0)) \<noteq> []" "text_of (m_coinbase2 (w_objs demo_world 0)) \<noteq> []"
    by (simp_all add: demo_world_def demo_submission_def text_of_def)
  obtain h where h: "share_header demo_job (solo_coinbase (w_objs demo_world 0) ''abcd0000'' (demo_submission ''solo1''))
      (demo_submission ''solo1'') = Inr h"
    using demo_header by blast
  have n: "shareKey (demo_submission ''solo1'') \<notin>
      set (seen_shares (sb_jobId (demo_submission ''solo1'')) (w_objs demo_world 0))"
    by (simp add: demo_fresh)
  show ?thesis
    using solo_block_submitted [OF demo_observed demo_known(2) demo_read n t(1) m h, of 5] h t(2)
    by (auto simp only: append_Nil)
qed

text \<open>
  The pool handler writes the share to Redis before it looks at the network target, inside the
  same \<open>try\<close>: when Redis refuses that write, no block is submitted, whatever the hash.
\<close>

lemma pool_block_lost_without_redis:
  assumes "rpc_observed sv rlog" and "w_redis w"
    and "\<forall>v x. \<exists>e. fst (sv_redis sv (LPush ''pool:shares'' v) x) = Inl e"
    and "map_get (w_poolMiners w) name = Some i" and "read_submission msg = Inr s"
    and "shareKey s \<notin> set (seen_shares (sb_jobId s) (w_objs w i))"
    and "w_blockTemplate w = Some t" and "sb_jobId s = JStr (j_jobId t)"
    and "share_header t (pool_coinbase t en1 s) s = Inr header"
  shows "rlog (w_ext (snd (handleSubmit sv sock msg name en1 w))) = rlog (w_ext w)"
  unfolding submit_log [OF assms(4-6)]
  using pool_check_job_no_redis [OF assms(1) _ assms(8,9) _ assms(3),
      of "w\<lparr>w_objs := (w_objs w)(i := mark_share s (w_objs w i))\<rparr>" sock i] assms(2,7)
  by simp

definition broken_services :: "mem services" where
  "broken_services = demo_services\<lparr>sv_redis := (\<lambda>c x. (Inl ''connection lost'', x))\<rparr>"

lemma pool_block_lost_without_redis_witness:
  "mm_log (w_ext (snd (handleSubmit broken_services 5 (demo_submit ''job1'') (JStr ''alice'') ''abcd0000'' demo_world))) = []"
proof -
  have o: "rpc_observed broken_services mm_log"
    by (simp add: rpc_observed_def broken_services_def mem_services_def)
  have d: "\<forall>v x. \<exists>e. fst (sv_redis broken_services (LPush ''pool:shares'' v) x) = Inl e"
    by (simp add: broken_services_def)
  have t: "w_redis demo_world" "w_blockTemplate demo_world = Some demo_job" "mm_log (w_ext demo_world) = []"
    by (simp_all add: demo_world_def mem_world_def)
  have j: "sb_jobId (demo_submission ''job1'') = JStr (j_jobId demo_job)"
    by (simp add: demo_submission_def demo_job_def)
  obtain h where h: "share_header demo_job (pool_coinbase demo_job ''abcd0000'' (demo_submission ''job1''))
      (demo_submission ''job1'') = Inr h"
    using demo_header by blast
  have n: "shareKey (demo_submission ''job1'') \<notin>
      set (seen_shares (sb_jobId (demo_submission ''job1'')) (w_objs demo_world 0))"
    by (simp add: demo_fresh)
  show ?thesis
    using pool_block_lost_without_redis [OF o t(1) d demo_known(1) demo_read n t(2) j h, of 5] t(3) by simp
qed

section \<open>A job replaced while a block is being recorded\<close>

definition stays_on :: "job \<Rightarrow> 'x world \<Rightarrow> 'x world \<Rightarrow> bool" where
  "stays_on t w w' \<longleftrightarrow> (w_blockTemplate w = Some t \<longrightarrow> w_blockTemplate w' = Some t)"

interpretation switch: service_frame "stays_on t" for t
  by unfold_locales (auto simp: stays_on_def)

lemma switch_record_hashrate:
  "others_keep (stays_on t) sv \<Longrightarrow> io_keeps (stays_on t) (record_hashrate sv i name)"
  unfolding record_hashrate_def Let_def get_obj_def upd_obj_def
  by (intro switch.service_rules switch.keeps_modify; (assumption | simp add: stays_on_def)?)

lemma record_share_switches:
  assumes "sv_others sv = (\<lambda>w. w\<lparr>w_blockTemplate := Some t\<rparr>)" and "record_share sv i name v = (Inr (), v')"
  shows "w_blockTemplate v' = Some t"
proof -
  have k: "others_keep (stays_on t) sv" using assms(1) by (simp add: others_keep_def stays_on_def)
  let ?v1 = "v\<lparr>w_ext := snd (sv_now sv (w_ext v))\<rparr>"
  let ?c = "LPush ''pool:shares'' (RJson (JObj [(''worker'', name), (''time'', JInt (fst (sv_now sv (w_ext v))))]))"
  let ?rest = "io_seq (redis sv (LTrim ''pool:shares'' 0 999999)) (record_hashrate sv i name)"
  obtain r v2 where r: "redis sv ?c ?v1 = (r, v2)" by (cases "redis sv ?c ?v1")
  then have t2: "w_blockTemplate v2 = Some t"
    using assms(1) by (auto simp: redis_def await_def on_ext_run)
  have eq: "record_share sv i name v = io_seq (redis sv ?c) ?rest ?v1"
    by (simp add: record_share_def date_now_def io_simps io_bind_Inr)
  have keep: "io_keeps (stays_on t) ?rest"
    by (rule switch.keeps_seq [OF switch.keeps_redis [OF k] switch_record_hashrate [OF k]])
  show ?thesis
  proof (cases r)
    case (Inl e)
    then show ?thesis using assms(2) r eq by (simp add: io_seq_def io_bind_Inl)
  next
    case (Inr a)
    then have "?rest v2 = (Inr (), v')" using assms(2) r eq by (simp add: io_seq_def io_bind_Inr)
    from keepsD [OF keep this] t2 show ?thesis by (simp only: stays_on_def simp_thms)
  qed
qed

text \<open>
  C37. The job is read again when a block is assembled, after the awaits of the Redis records: when
  a new template arrives meanwhile, the block that is submitted for a hash that meets the target consists of the header and
  coinbase of the old job and the transactions of the new one.
\<close>

theorem pool_block_mixes_jobs:
  assumes obs: "rpc_observed sv rlog" and works: "redis_works sv" and up: "w_redis w"
    and others: "sv_others sv = (\<lambda>w. w\<lparr>w_blockTemplate := Some t'\<rparr>)"
    and known: "map_get (w_poolMiners w) name = Some i" and s: "read_submission msg = Inr s"
    and fresh: "shareKey s \<notin> set (seen_shares (sb_jobId s) (w_objs w i))"
    and t: "w_blockTemplate w = Some t" and j: "sb_jobId s = JStr (j_jobId t)"
    and h: "share_header t (pool_coinbase t en1 s) s = Inr header"
  shows "rlog (w_ext (snd (handleSubmit sv sock msg name en1 w))) = rlog (w_ext w) @
    (if le_val (sha256d header) \<le> be_val (nBitsToTarget (j_nBits t))
     then submitted (assemble_block header (pool_coinbase t en1 s) (Some t')) else [])"
proof -
  let ?w = "w\<lparr>w_objs := (w_objs w)(i := mark_share s (w_objs w i))\<rparr>"
  let ?cb = "pool_coinbase t en1 s"
  let ?rec = "io_when True (record_share sv i (sb_worker s))"
  let ?blk = "io_when (meets_network t header) (handleBlockFound sv header ?cb (sb_worker s))"
  let ?h = "\<lambda>_. sock_write sock (reply_error (sb_id s) 20 ''Verification error'')"
  obtain v where acc: "accept_share sv sock i s ?w = (Inr (), v)"
    using accept_share_run [of sv sock i s ?w] by blast
  have lv: "rlog (w_ext v) = rlog (w_ext w)"
    using keepsD [OF quiet_accept [OF obs] acc] by (simp add: same_log_def)
  have uv: "w_redis v = True" using up acc accept_share_run [of sv sock i s ?w] by auto
  obtain v' where rec: "record_share sv i (sb_worker s) v = (Inr (), v')"
    by (rule io_totalE [OF total_record_share [OF works]]) simp
  have tv: "w_blockTemplate v' = Some t'" by (rule record_share_switches [OF others rec])
  have lv': "rlog (w_ext v') = rlog (w_ext w)"
    using keepsD [OF quiet_record_share [OF obs] rec] lv by (simp only: same_log_def)
  have "rpc_log rlog (io_catch (io_seq ?rec ?blk) ?h) v = rpc_log rlog (io_seq ?rec ?blk) v"
    by (rule log_catch, rule quiet_write)
  moreover have "io_seq ?rec ?blk v = ?blk v'" using rec by (simp add: io_seq_def io_bind_Inr io_when_def)
  moreover have "w_blockTemplate ?w = Some t" using t by simp
  ultimately show ?thesis
    unfolding submit_log [OF known s fresh]
    using lv' tv handleBlockFound_log [OF obs, of header ?cb "sb_worker s" v']
      pool_check_job_run [OF _ j h acc] uv
    by (simp add: io_when_run meets_network_value)
qed
definition switching_services :: "mem services" where
  "switching_services = demo_services\<lparr>sv_others := (\<lambda>w. w\<lparr>w_blockTemplate := Some (demo_job\<lparr>j_txData := [''cc'']\<rparr>)\<rparr>)\<rparr>"

theorem pool_block_mixes_jobs_witness:
  "\<exists>header. share_header demo_job (pool_coinbase demo_job ''abcd0000'' (demo_submission ''job1''))
       (demo_submission ''job1'') = Inr header \<and>
     mm_log (w_ext (snd (handleSubmit switching_services 5 (demo_submit ''job1'') (JStr ''alice'') ''abcd0000'' demo_world))) =
       (if le_val (sha256d header) \<le> be_val (nBitsToTarget (j_nBits demo_job))
        then submitted (assemble_block header (pool_coinbase demo_job ''abcd0000'' (demo_submission ''job1''))
               (Some (demo_job\<lparr>j_txData := [''cc'']\<rparr>)))
        else [])"
proof -
  have o: "rpc_observed switching_services mm_log" "redis_works switching_services"
    "sv_others switching_services = (\<lambda>w. w\<lparr>w_blockTemplate := Some (demo_job\<lparr>j_txData := [''cc'']\<rparr>)\<rparr>)"
    by (simp_all add: rpc_observed_def redis_works_def switching_services_def mem_services_def split: prod.splits)
  have t: "w_redis demo_world" "w_blockTemplate demo_world = Some demo_job" "mm_log (w_ext demo_world) = []"
    by (simp_all add: demo_world_def mem_world_def)
  have j: "sb_jobId (demo_submission ''job1'') = JStr (j_jobId demo_job)"
    by (simp add: demo_submission_def demo_job_def)
  obtain h where h: "share_header demo_job (pool_coinbase demo_job ''abcd0000'' (demo_submission ''job1''))
      (demo_submission ''job1'') = Inr h"
    using demo_header by blast
  have n: "shareKey (demo_submission ''job1'') \<notin>
      set (seen_shares (sb_jobId (demo_submission ''job1'')) (w_objs demo_world 0))"
    by (simp add: demo_fresh)
  show ?thesis
    using pool_block_mixes_jobs [OF o(1,2) t(1) o(3) demo_known(1) demo_read n t(2) j h, of 5] h t(3)
    by (auto simp only: append_Nil)
qed

end
