(* ===== verification/Template_Properties.thy ===== *)
theory Template_Properties
  imports Template Share_Properties
begin

text \<open>
  The properties of template handling: which job a refresh installs and whom it notifies, what a
  failed refresh does, and that the blocks assembled on a job are well formed.
\<close>

text \<open>
  C17. A refresh that gets a usable template installs the job made from it and sends that job to
  every open pool connection before anything else is written; the pool's miners are untouched.
\<close>

theorem refresh_installs_job:
  assumes "rpcCall sv ''getblocktemplate'' gbt_params [] w = (Inr v, w1)" and "truthy v"
    and "template_coinbases (read_template v) = Inr cbs"
    and "tp_version (read_template v) = Some version"
    and "others_keep job_frame sv"
  shows "\<exists>jid now w'. refreshBlockTemplate sv w = (Inr (), w') \<and>
    (let t = make_job (read_template v) jid cbs version now in
     w_blockTemplate w' = Some t \<and> w_poolMiners w' = w_poolMiners w1 \<and>
     (\<exists>l. w_out w' = w_out w1 @ map (\<lambda>sock. (sock, pool_notify t))
        (filter (\<lambda>sock. sock \<notin> set (w_destroyed w1)) (w_activeSockets w1)) @ l))"
  using assms by (rule refresh_success)

definition demo_gbt :: jsv where
  "demo_gbt = JObj [(''version'', JInt 2), (''previousblockhash'', JStr (hex_encode (replicate 32 1))),
     (''height'', JInt 100), (''coinbasevalue'', JInt 5000000000000), (''bits'', JStr ''1d00ffff''),
     (''transactions'', JArr [JObj [(''txid'', JStr (hex_encode (replicate 32 9))), (''data'', JStr ''aabb'')]])]"

abbreviation gbt_services :: "mem services" where
  "gbt_services \<equiv> mem_services (\<lambda>m ps. demo_gbt)"

lemma demo_gbt_read:
  "read_template demo_gbt =
     \<lparr>tp_previousblockhash = hex_encode (replicate 32 1), tp_height = 100, tp_coinbasevalue = 5000000000000,
      tp_witness_commitment = [],
      tp_transactions = [\<lparr>tt_txid = hex_encode (replicate 32 9), tt_hash = [], tt_data = ''aabb''\<rparr>],
      tp_version = Some 2, tp_bits = ''1d00ffff''\<rparr>"
  by (simp add: read_template_def demo_gbt_def prop_string_def prop_int_def read_tx_def)

lemma demo_coinbases: "\<exists>cbs. template_coinbases (read_template demo_gbt) = Inr cbs"
proof -
  obtain c2 where "buildPoolCoinbase2 5000000000000 [] = Inr c2"
    using pool_coinbase2_ok [of 5000000000000 "[]"] by (simp add: hex_encode_def)
  then show ?thesis
    using buildCoinbase1_ok [of 100]
    by (simp add: template_coinbases_def demo_gbt_read template_reward_def)
qed

lemma demo_gbt_call:
  "rpcCall gbt_services ''getblocktemplate'' gbt_params [] w =
     (Inr demo_gbt, w\<lparr>w_ext := (w_ext w)\<lparr>mm_log := mm_log (w_ext w) @ [(''getblocktemplate'', gbt_params)]\<rparr>\<rparr>)"
  by (simp add: rpcCall_def mem_services_def io_simps await_def io_bind_def)

theorem refresh_installs_job_witness:
  "\<exists>jid now cbs w'. refreshBlockTemplate gbt_services (demo_world\<lparr>w_activeSockets := [3, 4], w_destroyed := [4]\<rparr>) = (Inr (), w') \<and>
     w_blockTemplate w' = Some (make_job (read_template demo_gbt) jid cbs 2 now) \<and>
     (\<exists>l. w_out w' = (3, pool_notify (make_job (read_template demo_gbt) jid cbs 2 now)) # l)"
proof -
  let ?w = "demo_world\<lparr>w_activeSockets := [3, 4], w_destroyed := [4]\<rparr>"
  obtain c1 c2 where c: "template_coinbases (read_template demo_gbt) = Inr (c1, c2)"
    using demo_coinbases by (metis prod.exhaust)
  have v: "truthy demo_gbt" "tp_version (read_template demo_gbt) = Some 2" "w_out demo_world = []"
    by (simp add: demo_gbt_def, simp_all add: demo_gbt_read demo_world_def mem_world_def)
  have k: "others_keep job_frame gbt_services" by (simp add: jobf.others_keep_id)
  show ?thesis
    using refresh_installs_job [OF demo_gbt_call [of ?w] v(1) c v(2) k] v(3)
    by (simp add: Let_def) blast
qed

text \<open>
  A refresh whose RPC call fails, or whose template is missing or has amounts or heights that
  do not fit their fields, changes nothing beyond what the call itself did: the current job
  stays, no miner is notified, and the error does not reach the timer that runs the refresh.
\<close>

lemma refresh_failure_keeps_job:
  assumes "fst (rpcCall sv ''getblocktemplate'' gbt_params [] w) = Inl e \<or>
    (\<exists>v. fst (rpcCall sv ''getblocktemplate'' gbt_params [] w) = Inr v \<and>
      (\<not> truthy v \<or> (\<exists>e. template_coinbases (read_template v) = Inl e)))"
  shows "refreshBlockTemplate sv w = (Inr (), snd (rpcCall sv ''getblocktemplate'' gbt_params [] w))"
  using assms by (rule refresh_failure)

lemma refresh_failure_keeps_job_witness:
  "refreshBlockTemplate (mem_services (\<lambda>m ps. JNull)) demo_world =
     (Inr (), demo_world\<lparr>w_ext := (w_ext demo_world)\<lparr>mm_log := [(''getblocktemplate'', gbt_params)]\<rparr>\<rparr>)"
proof -
  have c: "rpcCall (mem_services (\<lambda>m ps. JNull)) ''getblocktemplate'' gbt_params [] demo_world =
      (Inr JNull, demo_world\<lparr>w_ext := (w_ext demo_world)\<lparr>mm_log := [(''getblocktemplate'', gbt_params)]\<rparr>\<rparr>)"
    by (simp add: rpcCall_def mem_services_def io_simps await_def io_bind_def demo_world_def mem_world_def)
  show ?thesis
    using refresh_failure_keeps_job [of "mem_services (\<lambda>m ps. JNull)" demo_world] by (simp add: c)
qed

text \<open>
  C2. A block assembled on a job made from a template is well formed: 80 bytes of header, the
  number of transactions as the network reads it, the coinbase and the template's transactions;
  and the header commits to exactly these: it carries the template's previous hash and the Merkle
  root of the coinbase's hash followed by the template's transaction ids.
\<close>

theorem assembled_block_wellformed:
  assumes t: "t = make_job tp jid cbs version now" and h: "share_header t cb s = Inr header"
    and "length (hex_decode (template_prevhash tp)) = 32" and "length (tp_transactions tp) < 65535"
    and "is_hex_text cb" and "\<forall>x \<in> set (tp_transactions tp). is_hex_text (tt_data x)"
  shows "\<exists>b. assemble_block header cb (Some t) = Inr b \<and>
    take 80 (hex_decode b) = header \<and> length header = 80 \<and>
    compact_size (drop 80 (hex_decode b)) = Some (1 + length (tp_transactions tp),
      hex_decode cb @ concat (map (\<lambda>x. hex_decode (tt_data x)) (tp_transactions tp))) \<and>
    take 32 (drop 4 header) = rev (hex_decode (template_prevhash tp)) \<and>
    take 32 (drop 36 header) = merkle_root (sha256d (hex_decode cb) # tx_hashes tp)"
proof -
  have p: "length (hex_decode (j_prevHashBE t)) = 32" using t assms(3) by (simp add: make_job_def)
  note parts = header_parts [OF h p]
  have d: "j_txData t = map tt_data (tp_transactions tp)" using t by (simp add: make_job_def)
  obtain b where b: "assemble_block header cb (Some t) = Inr b"
    "hex_decode b = header @ varint_bytes (1 + length (tp_transactions tp)) @ hex_decode cb @
      concat (map (\<lambda>x. hex_decode (tt_data x)) (tp_transactions tp))"
    using assemble_block_bytes [of t cb header] d assms(4-6) by (auto simp: comp_def)
  have "take 80 (hex_decode b) = header" using b(2) parts(1) by simp
  moreover have "compact_size (drop 80 (hex_decode b)) = Some (1 + length (tp_transactions tp),
      hex_decode cb @ concat (map (\<lambda>x. hex_decode (tt_data x)) (tp_transactions tp)))"
    using b(2) parts(1) assms(4) compact_size_varint [of "1 + length (tp_transactions tp)"] by simp
  moreover have "take 32 (drop 36 header) = merkle_root (sha256d (hex_decode cb) # tx_hashes tp)"
    using parts(3) by (simp only: t job_root)
  moreover have "take 32 (drop 4 header) = rev (hex_decode (template_prevhash tp))"
    using parts(2) by (simp add: t make_job_def)
  ultimately show ?thesis using b(1) parts(1) by blast
qed

theorem assembled_block_wellformed_witness:
  "\<exists>header b. share_header (make_job (read_template demo_gbt) ''j'' (''01'', ''02'') 2 1700000000000) ''aabb''
        (demo_submission ''j'') = Inr header \<and>
     assemble_block header ''aabb'' (Some (make_job (read_template demo_gbt) ''j'' (''01'', ''02'') 2 1700000000000)) = Inr b \<and>
     compact_size (drop 80 (hex_decode b)) = Some (2, [0xaa, 0xbb, 0xaa, 0xbb])"
proof -
  let ?t = "make_job (read_template demo_gbt) ''j'' (''01'', ''02'') 2 1700000000000"
  have "length (hex_encode (replicate 32 1)) \<noteq> 0" by simp
  then have hex_ne: "hex_encode (replicate 32 1) \<noteq> []" by (metis length_0_conv)
  have hx: "is_hex_text ''aabb''" "hex_decode ''aabb'' = [0xaa, 0xbb]" by code_simp+
  have "radix_digits 16 2 = [digit_char 2]" by (subst radix_digits.simps) simp
  moreover have "digit_char 2 = CHR ''2''" "replicate 7 CHR ''0'' = ''0000000''" by code_simp+
  ultimately have v: "padStart 8 CHR ''0'' (int_to_string 16 2) = ''00000002''"
    by (simp add: int_to_string_def padStart_def)
  have tv: "j_version ?t = ''00000002''" "j_nBits ?t = ''1d00ffff''"
    "j_prevHashBE ?t = hex_encode (replicate 32 1)"
    using v hex_ne by (simp_all add: make_job_def demo_gbt_read template_prevhash_def)
  have "\<exists>h. share_header ?t ''aabb'' (demo_submission ''j'') = Inr h"
    by (simp add: share_header_def Let_def tv demo_submission_def buildBlockHeader_eq length_fold_branch
        js_parseInt_eval u32_ok_def)
  then obtain h where h: "share_header ?t ''aabb'' (demo_submission ''j'') = Inr h" by blast
  have pre: "length (hex_decode (template_prevhash (read_template demo_gbt))) = 32"
    "length (tp_transactions (read_template demo_gbt)) < 65535"
    "\<forall>x \<in> set (tp_transactions (read_template demo_gbt)). is_hex_text (tt_data x)"
    using hx(1) hex_ne by (simp_all add: demo_gbt_read template_prevhash_def)
  obtain b where b: "assemble_block h ''aabb'' (Some ?t) = Inr b"
    "compact_size (drop 80 (hex_decode b)) = Some (1 + length (tp_transactions (read_template demo_gbt)),
      hex_decode ''aabb'' @ concat (map (\<lambda>x. hex_decode (tt_data x)) (tp_transactions (read_template demo_gbt))))"
    using assembled_block_wellformed [OF refl h pre(1,2) hx(1) pre(3)] by auto
  have "compact_size (drop 80 (hex_decode b)) = Some (2, [0xaa, 0xbb, 0xaa, 0xbb])"
    using b(2) by (simp add: hx demo_gbt_read del: hex_decode.simps)
  with h b(1) show ?thesis by blast
qed

section \<open>Types of the work line\<close>

lemma seconds_bound:
  assumes "0 \<le> now" and "now \<le> 1000 * (2 ^ 32 - 1)"
  shows "0 \<le> math_floor (js_div (of_int now) 1000)" "math_floor (js_div (of_int now) 1000) < 2 ^ 32"
proof -
  have "0 \<le> fl (of_int now / 1000)" using assms(1) by (intro fl_nonneg) simp
  then show "0 \<le> math_floor (js_div (of_int now) 1000)" by (simp add: math_floor_def js_div_def)
  have "rat_of_int now \<le> of_int (1000 * (2 ^ 32 - 1))" using assms(2) by (simp only: of_int_le_iff)
  then have "rat_of_int now / 1000 \<le> of_int (2 ^ 32 - 1)" by simp
  then have "fl (of_int now / 1000) \<le> of_int (2 ^ 32 - 1)"
    using fl_mono [of "rat_of_int now / 1000" "of_int (2 ^ 32 - 1)"] fl_of_int [of "2 ^ 32 - 1"] by simp
  then show "math_floor (js_div (of_int now) 1000) < 2 ^ 32"
    by (simp add: math_floor_def js_div_def floor_less_iff)
qed

definition tx_typed :: "template_tx \<Rightarrow> bool" where
  "tx_typed x \<longleftrightarrow> is_hex_of 32 (if tt_txid x \<noteq> [] then tt_txid x else tt_hash x)"

definition template_typed :: "template \<Rightarrow> bool" where
  "template_typed tp \<longleftrightarrow>
     is_hex_of 32 (tp_previousblockhash tp) \<and> is_hex_of 4 (tp_bits tp) \<and>
     list_all tx_typed (tp_transactions tp) \<and>
     tp_height tp < 2 ^ 32 \<and> 0 \<le> tp_coinbasevalue tp \<and> tp_coinbasevalue tp < 2 ^ 64 \<and>
     hex_encode (hex_decode (tp_witness_commitment tp)) = tp_witness_commitment tp \<and>
     length (hex_decode (tp_witness_commitment tp)) < 65536 \<and>
     (case tp_version tp of None \<Rightarrow> False | Some v \<Rightarrow> 0 \<le> v \<and> v < 2 ^ 32)"

fun js_text_where :: "(string \<Rightarrow> bool) \<Rightarrow> jsv \<Rightarrow> bool" where
  "js_text_where p (JStr s) = p s"
| "js_text_where p _ = False"

fun notify_params_typed :: "jsv list \<Rightarrow> bool" where
  "notify_params_typed [jobId, prevHash, coinbase1, coinbase2, JArr branch, version, nBits, nTime, JBool _] =
     (js_text_where (is_hex_of 4) jobId \<and> js_text_where (is_hex_of 32) prevHash \<and>
      js_text_where is_hex_text coinbase1 \<and> js_text_where is_hex_text coinbase2 \<and>
      list_all (js_text_where (is_hex_of 32)) branch \<and> js_text_where (is_hex_of 4) version \<and>
      js_text_where (is_hex_of 4) nBits \<and> js_text_where (is_hex_of 4) nTime)"
| "notify_params_typed _ = False"

definition notify_typed :: "jsv \<Rightarrow> bool" where
  "notify_typed line \<longleftrightarrow>
     js_prop_opt line ''id'' = JNull \<and> js_prop_opt line ''method'' = JStr ''mining.notify'' \<and>
     (case js_prop_opt line ''params'' of JArr ps \<Rightarrow> notify_params_typed ps | _ \<Rightarrow> False)"

lemma typed_coinbases:
  assumes "template_typed tp"
  shows "\<exists>b1 b2. template_coinbases tp = Inr (hex_encode b1, hex_encode b2)"
proof -
  have "0 \<le> template_reward tp" "template_reward tp < 2 ^ 64"
    using assms by (auto simp: template_typed_def template_reward_def)
  then obtain b2 where "buildPoolCoinbase2 (template_reward tp) (tp_witness_commitment tp) = Inr (hex_encode b2)"
    using pool_coinbase2_ok [of "template_reward tp" "hex_decode (tp_witness_commitment tp)"] assms
    unfolding template_typed_def by metis
  moreover obtain b1 where "buildCoinbase1 (tp_height tp) = Inr (hex_encode b1)"
    using buildCoinbase1_ok [of "tp_height tp"] assms unfolding template_typed_def by blast
  ultimately show ?thesis by (simp add: template_coinbases_def) blast
qed

lemma typed_branch:
  assumes "template_typed tp"
  shows "list_all (\<lambda>b. length b = 32) (merkle_branch (tx_hashes tp))"
proof -
  have "list_all tx_typed (tp_transactions tp)" using assms by (simp add: template_typed_def)
  then have "\<forall>h \<in> set (tx_hashes tp). length h = 32"
    unfolding tx_hashes_def tx_typed_def list_all_iff by (auto dest!: bspec length_decode_hex_of)
  from length_merkle_branch_hashes [OF this] show ?thesis by (simp add: list_all_iff)
qed

lemma list_all_js_text: "list_all (js_text_where p) (map JStr ss) = list_all p ss"
  by (simp add: list_all_iff)

text \<open>
  C21. A template whose fields have the types the node documents gives coinbases and a version, and
  the line \<open>sendWork\<close> writes for the job made from it is a \<open>mining.notify\<close> message whose nine
  parameters have their Stratum types: a 4-byte job id, a 32-byte previous hash, two hexadecimal
  coinbase halves, 32-byte branch entries, and 4-byte version, bits and time.
\<close>

theorem notify_well_typed:
  assumes "template_typed tp" and "is_hex_of 4 jid"
    and "0 \<le> now" and "now \<le> 1000 * (2 ^ 32 - 1)"
  shows "\<exists>cbs v line. template_coinbases tp = Inr cbs \<and> tp_version tp = Some v \<and> notify_typed line \<and>
    sendWork sock (w\<lparr>w_blockTemplate := Some (make_job tp jid cbs v now)\<rparr>) =
      (Inr (), w\<lparr>w_blockTemplate := Some (make_job tp jid cbs v now), w_out := w_out w @ [(sock, line)]\<rparr>)"
proof -
  obtain b1 b2 where c: "template_coinbases tp = Inr (hex_encode b1, hex_encode b2)"
    using typed_coinbases [OF assms(1)] by blast
  obtain v where v: "tp_version tp = Some v" "0 \<le> v" "v < 2 ^ 32"
    using assms(1) by (auto simp: template_typed_def split: option.splits)
  have h: "is_hex_of 32 (template_prevhash tp)"
    using assms(1) by (auto simp: template_typed_def template_prevhash_def is_hex_of_def)
  have p: "is_hex_of 32 (formatPrevHashForStratum (template_prevhash tp))"
    by (simp add: formatPrevHash_eq length_decode_hex_of [OF h] length_word_swap)
  have m: "list_all (is_hex_of 32) (map hex_encode (merkle_branch (tx_hashes tp)))"
    using typed_branch [OF assms(1)] by (simp add: list_all_iff)
  let ?t = "make_job tp jid (hex_encode b1, hex_encode b2) v now"
  have "notify_typed (pool_notify ?t)"
    using assms(1,2) p m pad8_hex [OF v(2,3)] pad8_hex [OF seconds_bound [OF assms(3,4)]]
    by (simp add: notify_typed_def pool_notify_def notify_line_def make_job_def template_typed_def
        list_all_js_text del: list.pred_map map_map)
  moreover have "sendWork sock (w\<lparr>w_blockTemplate := Some ?t\<rparr>) =
      (Inr (), w\<lparr>w_blockTemplate := Some ?t, w_out := w_out w @ [(sock, pool_notify ?t)]\<rparr>)"
    by (simp add: sendWork_def io_simps io_bind_Inr pool_notify_def)
  ultimately show ?thesis using c v(1) by blast
qed

lemma demo_template_typed: "template_typed (read_template demo_gbt)"
proof -
  have "is_hex_of 4 ''1d00ffff''" by code_simp
  moreover have "hex_encode (replicate 32 9) \<noteq> []" by (rule hex_encode_nonempty) simp
  ultimately show ?thesis by (simp add: template_typed_def tx_typed_def demo_gbt_read)
qed

theorem notify_well_typed_witness:
  "\<exists>cbs v line. template_coinbases (read_template demo_gbt) = Inr cbs \<and> tp_version (read_template demo_gbt) = Some v \<and>
    notify_typed line \<and>
    sendWork 3 (demo_world\<lparr>w_blockTemplate := Some (make_job (read_template demo_gbt) ''00c0ffee'' cbs v 1700000000000)\<rparr>) =
      (Inr (), demo_world\<lparr>w_blockTemplate := Some (make_job (read_template demo_gbt) ''00c0ffee'' cbs v 1700000000000),
        w_out := w_out demo_world @ [(3, line)]\<rparr>)"
proof -
  have j: "is_hex_of 4 ''00c0ffee''" by code_simp
  show ?thesis by (rule notify_well_typed [OF demo_template_typed j]) simp_all
qed

end
