(* ===== verification/Stratum_Properties.thy ===== *)
theory Stratum_Properties
  imports Stratum Template_Properties
begin

text \<open>
  The properties of the Stratum servers: framing does not depend on how the network cuts the
  stream, an invariant of every reachable state, and what closing a connection does to miners and
  timers.
\<close>

section \<open>Framing\<close>

fun feed_chunks :: "string \<Rightarrow> string list \<Rightarrow> string list \<times> string" where
  \<comment> \<open>the lines delivered while the chunks arrive one after the other, and the last remainder\<close>
  "feed_chunks b [] = ([], b)"
| "feed_chunks b (c # cs) =
     (case frame_lines b c of (ls, r) \<Rightarrow> case feed_chunks r cs of (ls', r') \<Rightarrow> (ls @ ls', r'))"

lemma js_split_no_sep: "c \<notin> set s \<Longrightarrow> js_split c s = [s]"
  by (induction s) auto

lemma js_split_append:
  "js_split c (a @ b) = butlast (js_split c a) @ js_split c (last (js_split c a) @ b)"
proof (induction a)
  case (Cons x a)
  obtain p ps where p: "js_split c a = p # ps" using js_split_nonempty by (metis neq_Nil_conv)
  show ?case
  proof (cases ps)
    case Nil
    with Cons p show ?thesis by simp
  next
    case (Cons q qs)
    with Cons.IH p show ?thesis by simp
  qed
qed simp

lemma last_split_no_sep: "c \<notin> set (last (js_split c s))"
proof (induction s)
  case (Cons x s)
  obtain p ps where "js_split c s = p # ps" using js_split_nonempty by (metis neq_Nil_conv)
  with Cons show ?case by (cases ps) auto
qed simp

lemma frame_lines_eq:
  "frame_lines b s = (butlast (js_split (char_of (10::nat)) (b @ s)), last (js_split (char_of (10::nat)) (b @ s)))"
  by (auto simp: frame_lines_def Let_def js_split_no_sep)

lemma feed_chunks_eq:
  "char_of (10::nat) \<notin> set b \<Longrightarrow> feed_chunks b cs = frame_lines b (concat cs)"
proof (induction cs arbitrary: b)
  case Nil
  then show ?case by (simp add: frame_lines_eq js_split_no_sep)
next
  case (Cons c cs)
  let ?nl = "char_of (10::nat) :: char"
  let ?r = "last (js_split ?nl (b @ c))"
  have ih: "feed_chunks ?r cs = frame_lines ?r (concat cs)"
    by (rule Cons.IH) (rule last_split_no_sep)
  have "js_split ?nl (b @ c @ concat cs) = butlast (js_split ?nl (b @ c)) @ js_split ?nl (?r @ concat cs)"
    using js_split_append [of ?nl "b @ c" "concat cs"] by simp
  then show ?case
    by (simp add: frame_lines_eq ih butlast_append)
qed


section \<open>The invariant\<close>

definition conn_ok :: "conn \<Rightarrow> bool" where
  "conn_ok c \<longleftrightarrow> diff_ok (c_socketDiff c) \<and> length (c_shareTimestamps c) \<le> 500"

definition pool_inv :: "'x world \<Rightarrow> bool" where
  "pool_inv w \<longleftrightarrow>
     (\<forall>s c. map_get (w_poolConns w) s = Some c \<longrightarrow> conn_ok c) \<and>
     (\<forall>s c. map_get (w_soloConns w) s = Some c \<longrightarrow> conn_ok c) \<and>
     (\<forall>i d. m_difficulty (w_objs w i) = Some d \<longrightarrow> diff_ok d) \<and>
     (\<forall>k i. map_get (w_poolMiners w) k = Some i \<longrightarrow> i < w_nextObj w) \<and>
     (\<forall>k i. map_get (w_soloMiners w) k = Some i \<longrightarrow> i < w_nextObj w) \<and>
     distinct (map_keys (w_poolMiners w)) \<and> distinct (map_keys (w_soloMiners w))"

interpretation pinv: service_inv pool_inv
  by unfold_locales (simp_all add: pool_inv_def)

abbreviation others_safe :: "'x services \<Rightarrow> bool" where
  "others_safe sv \<equiv> others_keep (\<lambda>w w'. pool_inv w \<longrightarrow> pool_inv w') sv"

lemma pinv_upd_obj:
  "(\<And>m d. m_difficulty (f m) = Some d \<Longrightarrow> m_difficulty m = Some d \<or> diff_ok d) \<Longrightarrow>
   io_ok pool_inv (upd_obj i f) anything"
  unfolding io_ok_def upd_obj_run pool_inv_def by simp blast

lemma pinv_get_obj: "io_ok pool_inv (get_obj i) anything"
  unfolding get_obj_def by (rule ok_get) simp

lemma pinv_new_pool:
  assumes "\<And>d. m_difficulty m = Some d \<Longrightarrow> diff_ok d" and "\<And>i. io_ok pool_inv (k i) R"
  shows "io_ok pool_inv (io_bind (new_obj m) (\<lambda>i.
    io_seq (io_modify (\<lambda>w. w\<lparr>w_poolMiners := map_set name i (w_poolMiners w)\<rparr>)) (k i))) R"
proof -
  have "pool_inv (w\<lparr>w_objs := (w_objs w)(w_nextObj w := m), w_nextObj := Suc (w_nextObj w),
      w_poolMiners := map_set name (w_nextObj w) (w_poolMiners w)\<rparr>)" if "pool_inv w" for w :: "'a world"
    using that assms(1) by (auto simp: pool_inv_def less_Suc_eq)
  then show ?thesis
    using assms(2) by (simp add: io_ok_def io_bind_Inr new_obj_run io_seq_def io_modify_run) blast
qed

lemma pinv_new_solo:
  assumes "\<And>d. m_difficulty m = Some d \<Longrightarrow> diff_ok d" and "\<And>i. io_ok pool_inv (k i) R"
  shows "io_ok pool_inv (io_bind (new_obj m) (\<lambda>i.
    io_seq (io_modify (\<lambda>w. w\<lparr>w_soloMiners := map_set name i (w_soloMiners w)\<rparr>)) (k i))) R"
proof -
  have "pool_inv (w\<lparr>w_objs := (w_objs w)(w_nextObj w := m), w_nextObj := Suc (w_nextObj w),
      w_soloMiners := map_set name (w_nextObj w) (w_soloMiners w)\<rparr>)" if "pool_inv w" for w :: "'a world"
    using that assms(1) by (auto simp: pool_inv_def less_Suc_eq)
  then show ?thesis
    using assms(2) by (simp add: io_ok_def io_bind_Inr new_obj_run io_seq_def io_modify_run) blast
qed

lemma new_conn_ok [simp]: "conn_ok (new_conn a b)"
  by (simp add: conn_ok_def new_conn_def)

lemma pinv_pool_conn: "io_ok pool_inv (io_get (\<lambda>w. pool_conn w sock)) conn_ok"
  by (rule ok_get) (auto simp: pool_inv_def pool_conn_def split: option.splits)

lemma pinv_solo_conn: "io_ok pool_inv (io_get (\<lambda>w. solo_conn w sock)) conn_ok"
  by (rule ok_get) (auto simp: pool_inv_def solo_conn_def split: option.splits)

lemma pinv_upd_pool_conn: "(\<And>c. conn_ok c \<Longrightarrow> conn_ok (f c)) \<Longrightarrow> io_ok pool_inv (upd_pool_conn sock f) anything"
  unfolding upd_pool_conn_def
  by (rule ok_modify) (auto simp: pool_inv_def pool_conn_def split: option.splits)

lemma pinv_upd_solo_conn: "(\<And>c. conn_ok c \<Longrightarrow> conn_ok (f c)) \<Longrightarrow> io_ok pool_inv (upd_solo_conn sock f) anything"
  unfolding upd_solo_conn_def
  by (rule ok_modify) (auto simp: pool_inv_def solo_conn_def split: option.splits)

lemma pinv_modify:
  "(\<And>w. w_poolConns (f w) = w_poolConns w \<and> w_soloConns (f w) = w_soloConns w \<and> w_objs (f w) = w_objs w \<and>
     w_poolMiners (f w) = w_poolMiners w \<and> w_soloMiners (f w) = w_soloMiners w \<and> w_nextObj (f w) = w_nextObj w) \<Longrightarrow>
   io_ok pool_inv (io_modify f) anything"
  by (rule ok_modify) (simp add: pool_inv_def)

lemmas pinv_rules = pinv.service_ok pinv_get_obj anythingI

subsection \<open>Share handling keeps it\<close>

lemma pinv_record_hashrate: "others_safe sv \<Longrightarrow> io_ok pool_inv (record_hashrate sv i name) anything"
  unfolding record_hashrate_def Let_def
  by (intro pinv_rules pinv_upd_obj; (assumption | simp)?)

lemma pinv_record_share: "others_safe sv \<Longrightarrow> io_ok pool_inv (record_share sv i name) anything"
  unfolding record_share_def
  by (intro pinv_rules pinv_record_hashrate; assumption?)

lemma pinv_handleBlockFound: "others_safe sv \<Longrightarrow> io_ok pool_inv (handleBlockFound sv h cb name) anything"
  unfolding handleBlockFound_def
  by (intro pinv_rules pinv_modify; (assumption | simp)?)

lemma pinv_handleSoloBlockFound: "others_safe sv \<Longrightarrow> io_ok pool_inv (handleSoloBlockFound sv h cb name) anything"
  unfolding handleSoloBlockFound_def
  by (intro pinv_rules pinv_modify; (assumption | simp)?)

lemma pinv_dedup: "io_ok pool_inv (dedup_share i s) anything"
  unfolding dedup_share_def
  by (intro pinv_rules pinv_upd_obj) (simp add: mark_share_def Let_def)

lemma pinv_accept: "io_ok pool_inv (accept_share sv sock i s) anything"
  unfolding accept_share_def
  by (intro pinv_rules pinv_upd_obj) (simp add: credit_share_def Let_def)

lemma pinv_pool_check_job: "others_safe sv \<Longrightarrow> io_ok pool_inv (pool_check_job sv sock i s en1) anything"
  unfolding pool_check_job_def pool_verify_def Let_def
  by (intro pinv_rules pinv_accept pinv_record_share pinv_handleBlockFound; assumption?)

lemma pinv_solo_check_job: "others_safe sv \<Longrightarrow> io_ok pool_inv (solo_check_job sv sock i s en1) anything"
  unfolding solo_check_job_def solo_verify_def Let_def
  by (intro pinv_rules pinv_accept pinv_record_hashrate pinv_handleSoloBlockFound; assumption?)

lemma pinv_pool_worker: "io_ok pool_inv (pool_worker sv msg name en1) anything"
  unfolding pool_worker_def
  by (intro pinv_rules pinv_new_pool) (simp add: recreated_miner_def)

lemma pinv_solo_worker: "io_ok pool_inv (solo_worker sv msg name en1) anything"
  unfolding solo_worker_def
  by (intro pinv_rules pinv_new_solo) (auto simp: recreated_solo_miner_def recreated_miner_def)

lemma pinv_handleSubmit: "others_safe sv \<Longrightarrow> io_ok pool_inv (handleSubmit sv sock msg name en1) anything"
  unfolding handleSubmit_def
  by (intro pinv_rules pinv_pool_worker pinv_dedup pinv_pool_check_job; assumption?)

lemma pinv_handleSoloSubmit: "others_safe sv \<Longrightarrow> io_ok pool_inv (handleSoloSubmit sv sock msg name en1) anything"
  unfolding handleSoloSubmit_def
  by (intro pinv_rules pinv_solo_worker pinv_dedup pinv_solo_check_job; assumption?)

subsection \<open>The Stratum handlers keep it\<close>

lemma pinv_set_miner_difficulty: "diff_ok d \<Longrightarrow> io_ok pool_inv (set_miner_difficulty miners name d) anything"
  unfolding set_miner_difficulty_def
  by (intro pinv_rules pinv_upd_obj) simp

lemma pinv_sendDifficulty: "diff_ok d \<Longrightarrow> io_ok pool_inv (sendDifficulty sock d) anything"
  unfolding sendDifficulty_def
  by (intro pinv_rules pinv_upd_pool_conn pinv_set_miner_difficulty) (simp_all add: conn_ok_def)

lemma pinv_sendSoloDifficulty: "diff_ok d \<Longrightarrow> io_ok pool_inv (sendSoloDifficulty sock d) anything"
  unfolding sendSoloDifficulty_def
  by (intro pinv_rules pinv_upd_solo_conn pinv_set_miner_difficulty) (simp_all add: conn_ok_def)

lemma pinv_startVardiff: "io_ok pool_inv (startVardiff sock) anything"
  unfolding startVardiff_def
  by (intro pinv_rules pinv_modify pinv_upd_pool_conn) (simp_all add: conn_ok_def)

lemma pinv_startSoloVardiff: "io_ok pool_inv (startSoloVardiff sock) anything"
  unfolding startSoloVardiff_def
  by (intro pinv_rules pinv_modify pinv_upd_solo_conn) (simp_all add: conn_ok_def)

lemma pinv_vardiff_tick: "io_ok pool_inv (vardiff_tick sv sock) anything"
  unfolding vardiff_tick_def
  by (intro pinv_rules pinv_sendDifficulty pinv_upd_pool_conn)
     (auto simp: conn_ok_def dest: retarget_ok)

lemma pinv_solo_vardiff_tick: "io_ok pool_inv (solo_vardiff_tick sv sock) anything"
  unfolding solo_vardiff_tick_def
  by (intro pinv_rules pinv_sendSoloDifficulty pinv_upd_solo_conn)
     (auto simp: conn_ok_def dest: retarget_ok)

lemma entry_difficulty [simp]:
  "m_difficulty (pool_entry now c) = Some (c_socketDiff c)"
  "m_difficulty (solo_entry now sock j c) = Some (c_socketDiff c)"
  by (simp_all add: pool_entry_def solo_entry_def)

lemma pinv_pool_authorize: "io_ok pool_inv (pool_authorize sv sock msg) anything"
  unfolding pool_authorize_def
  by (intro ok_bind [OF pinv_pool_conn] pinv_new_pool pinv_rules pinv_upd_pool_conn pinv_sendDifficulty
        pinv_startVardiff pinv_modify)
     (auto simp: conn_ok_def dest: parseDiffOverride_ok)

lemma pinv_solo_authorize: "io_ok pool_inv (solo_authorize sv sock msg) anything"
  unfolding solo_authorize_def
  by (intro ok_bind [OF pinv_solo_conn] pinv_new_solo pinv_rules pinv_upd_solo_conn pinv_sendSoloDifficulty
        pinv_startSoloVardiff pinv_modify)
     (auto simp: conn_ok_def dest: parseDiffOverride_ok)

lemma pinv_sendWork: "io_ok pool_inv (sendWork sock) anything"
  unfolding sendWork_def by (intro pinv_rules)

lemma pinv_sendSoloWork: "io_ok pool_inv (sendSoloWork sock i) anything"
  unfolding sendSoloWork_def by (intro pinv_rules)

lemma push_timestamp_ok: "conn_ok c \<Longrightarrow> conn_ok (push_timestamp ms c)"
  by (simp add: conn_ok_def push_timestamp_def Let_def)

lemma pinv_pool_message: "others_safe sv \<Longrightarrow> io_ok pool_inv (pool_message sv sock msg) anything"
  unfolding pool_message_def
  by (intro ok_bind [OF pinv_pool_conn] pinv_rules pinv_sendDifficulty pinv_sendWork pinv_pool_authorize
        pinv_upd_pool_conn push_timestamp_ok pinv_handleSubmit; (assumption | simp add: conn_ok_def)?)

lemma pinv_solo_message: "others_safe sv \<Longrightarrow> io_ok pool_inv (solo_message sv sock msg) anything"
  unfolding solo_message_def
  by (intro ok_bind [OF pinv_solo_conn] pinv_rules pinv_sendSoloDifficulty pinv_solo_authorize
        pinv_upd_solo_conn push_timestamp_ok pinv_handleSoloSubmit; (assumption | simp add: conn_ok_def)?)

lemma pinv_handle_line:
  "(\<And>m. io_ok pool_inv (h sv sock m) anything) \<Longrightarrow> io_ok pool_inv (handle_line sv h sock line) anything"
  unfolding handle_line_def by (intro pinv_rules)

lemma pinv_pool_data: "others_safe sv \<Longrightarrow> io_ok pool_inv (pool_data sv sock chunk) anything"
  unfolding pool_data_def
  by (intro pinv_rules pinv_handle_line pinv_pool_message pinv_upd_pool_conn; (assumption | simp add: conn_ok_def)?)

lemma pinv_solo_data: "others_safe sv \<Longrightarrow> io_ok pool_inv (solo_data sv sock chunk) anything"
  unfolding solo_data_def
  by (intro pinv_rules pinv_handle_line pinv_solo_message pinv_upd_solo_conn; (assumption | simp add: conn_ok_def)?)

lemma pinv_pool_close: "io_ok pool_inv (pool_close sock) anything"
  unfolding pool_close_def
  by (intro pinv_rules pinv_modify ok_modify)
     (simp_all, auto simp: pool_inv_def Let_def intro: distinct_map_del split: if_splits)

lemma pinv_solo_close: "io_ok pool_inv (solo_close sock) anything"
  unfolding solo_close_def
  by (intro pinv_rules pinv_modify ok_modify)
     (simp_all, auto simp: pool_inv_def Let_def intro: distinct_map_del split: if_splits)

lemma pinv_pool_connect: "io_ok pool_inv (pool_connect sv sock) anything"
  unfolding pool_connect_def
  by (intro pinv_rules pinv_modify ok_modify) (simp_all, auto simp: pool_inv_def split: if_splits)

lemma pinv_solo_connect: "io_ok pool_inv (solo_connect sv sock) anything"
  unfolding solo_connect_def
  by (intro pinv_rules pinv_modify ok_modify) (simp_all, auto simp: pool_inv_def split: if_splits)

lemma pinv_buildSoloCoinbase: "others_safe sv \<Longrightarrow> io_ok pool_inv (buildSoloCoinbase sv a tp) anything"
  unfolding buildSoloCoinbase_def Let_def by (intro pinv_rules; assumption?)

lemma pinv_run_task: "others_safe sv \<Longrightarrow> io_ok pool_inv (run_task sv t) anything"
  by (cases t)
     (simp_all only: run_task.simps resolve_name_task_def solo_work_task_def,
      (intro pinv_rules pinv_upd_obj pinv_buildSoloCoinbase pinv_sendSoloWork; (assumption | simp)?)+)

lemma pinv_refresh_solo: "others_safe sv \<Longrightarrow> io_ok pool_inv (refresh_solo_miner sv tp e) anything"
  unfolding refresh_solo_miner_def
  by (intro pinv_rules pinv_upd_obj pinv_buildSoloCoinbase pinv_sendSoloWork; (assumption | simp)?)

lemma pinv_refresh: "others_safe sv \<Longrightarrow> io_ok pool_inv (refreshBlockTemplate sv) anything"
  unfolding refreshBlockTemplate_def notify_pool_def notify_socket_def Let_def
  by (intro pinv_rules pinv_modify pinv_sendWork pinv_refresh_solo; (assumption | simp)?)

subsection \<open>Reachable states\<close>

inductive pool_event :: "'x services \<Rightarrow> 'x world \<Rightarrow> 'x world \<Rightarrow> bool" for sv where
  pool_connected: "pool_event sv w (snd (pool_connect sv sock w))"
| solo_connected: "pool_event sv w (snd (solo_connect sv sock w))"
| pool_received: "pool_event sv w (snd (pool_data sv sock chunk w))"
| solo_received: "pool_event sv w (snd (solo_data sv sock chunk w))"
| pool_closed: "pool_event sv w (snd (pool_close sock w))"
| solo_closed: "pool_event sv w (snd (solo_close sock w))"
| pool_timer: "(tid, sock) \<in> set (w_timers w) \<Longrightarrow> pool_event sv w (snd (vardiff_tick sv sock w))"
| solo_timer: "(tid, sock) \<in> set (w_soloTimers w) \<Longrightarrow> pool_event sv w (snd (solo_vardiff_tick sv sock w))"
| task: "w_tasks w = t # ts \<Longrightarrow> pool_event sv w (snd (run_task sv t (w\<lparr>w_tasks := ts\<rparr>)))"
| refresh: "pool_event sv w (snd (refreshBlockTemplate sv w))"

inductive_simps pool_event_simps: "pool_event sv w w'"

definition initial_world :: "'x world \<Rightarrow> bool" where
  "initial_world w \<longleftrightarrow> w_poolConns w = [] \<and> w_soloConns w = [] \<and> w_poolMiners w = [] \<and> w_soloMiners w = [] \<and>
     (\<forall>i. m_difficulty (w_objs w i) = None)"

inductive reachable :: "'x services \<Rightarrow> 'x world \<Rightarrow> bool" for sv where
  start: "initial_world w \<Longrightarrow> reachable sv w"
| event: "reachable sv w \<Longrightarrow> pool_event sv w w' \<Longrightarrow> reachable sv w'"

lemma event_keeps_inv:
  assumes "pool_event sv w w'" and "others_safe sv" and "pool_inv w"
  shows "pool_inv w'"
  using assms(1,3)
proof cases
  case (task t ts)
  have "pool_inv (w\<lparr>w_tasks := ts\<rparr>)" using assms(3) by (simp add: pool_inv_def)
  with task show ?thesis using ok_run [OF pinv_run_task [OF assms(2)]] by blast
qed (auto intro: ok_run [OF pinv_pool_connect] ok_run [OF pinv_solo_connect] ok_run [OF pinv_pool_data [OF assms(2)]]
    ok_run [OF pinv_solo_data [OF assms(2)]] ok_run [OF pinv_pool_close] ok_run [OF pinv_solo_close]
    ok_run [OF pinv_vardiff_tick] ok_run [OF pinv_solo_vardiff_tick] ok_run [OF pinv_refresh [OF assms(2)]])

text \<open>
  C7. In every state the pool server can reach, by any sequence of connections, received bytes,
  timer runs, background tasks, template refreshes and disconnections, on both ports, every
  connection and every miner entry has a difficulty that is a whole number within the configured
  bounds, no share window exceeds 500 timestamps, no worker name has two entries, and every entry
  refers to an allocated miner object.
\<close>

theorem reachable_invariant:
  assumes "reachable sv w" and "others_safe sv"
  shows "pool_inv w"
  using assms(1)
proof induction
  case (start w)
  then show ?case by (simp add: initial_world_def pool_inv_def)
next
  case (event w w')
  then show ?case using event_keeps_inv assms(2) by blast
qed

theorem reachable_invariant_witness:
  "pool_inv (snd (pool_data demo_services 3 ''x'' (snd (pool_connect demo_services 3 mem_world))))"
proof (rule reachable_invariant)
  have "initial_world mem_world" by (simp add: initial_world_def mem_world_def)
  then have "reachable demo_services (snd (pool_connect demo_services 3 mem_world))"
    by (rule reachable.event [OF reachable.start pool_connected])
  then show "reachable demo_services
      (snd (pool_data demo_services 3 ''x'' (snd (pool_connect demo_services 3 mem_world))))"
    by (rule reachable.event [OF _ pool_received])
  show "others_safe demo_services" by (simp add: others_keep_def)
qed

section \<open>Timers\<close>

lemma startVardiff_run:
  assumes "map_get (w_poolConns w) sock = Some c" and "\<not> c_diffOverridden c"
  shows "startVardiff sock w = (Inr (), w\<lparr>w_timers := (w_nextTimer w, sock) # w_timers w,
    w_nextTimer := Suc (w_nextTimer w),
    w_poolConns := map_set sock (c\<lparr>c_vardiffTimer := Some (w_nextTimer w)\<rparr>) (w_poolConns w)\<rparr>)"
  using assms by (simp add: startVardiff_def upd_pool_conn_def pool_conn_def io_simps io_bind_Inr)

text \<open>
  A connection that authorizes a second time leaves its first retarget timer behind: after the
  connection is closed that timer still runs, for a socket that no longer exists.
\<close>

lemma second_authorize_leaks_timer:
  assumes "map_get (w_poolConns w) sock = Some c" and "\<not> c_diffOverridden c"
    and "c_vardiffTimer c = Some tid" and "(tid, sock) \<in> set (w_timers w)" and "tid < w_nextTimer w"
    and "msg_param msg 0 = Inr name" and "parseDiffOverride (password_of msg) = None"
    and "w' = snd (pool_close sock (snd (pool_authorize sv sock msg w)))"
  shows "(tid, sock) \<in> set (w_timers w') \<and> sock \<in> set (w_destroyed w')"
proof -
  define w1 where "w1 = snd (pool_authorize sv sock msg w)"
  let ?tar = "endsWith (pw_wallet (parseMinerWorker name)) ''.tar''"
  have "(tid, sock) \<in> set (w_timers w1) \<and>
      (\<exists>c'. map_get (w_poolConns w1) sock = Some c' \<and> c_vardiffTimer c' = Some (w_nextTimer w))"
    using assms(1-7) unfolding w1_def pool_authorize_def upd_pool_conn_def
    by (cases ?tar) (simp_all add: io_simps io_bind_Inr date_now_def startVardiff_run pool_conn_def)
  then show ?thesis
    using assms(5) unfolding assms(8) w1_def [symmetric] pool_close_def
    by (auto simp: io_simps io_bind_Inr clear_timer_def Let_def pool_conn_def)
qed

definition demo_authorize :: jsv where
  "demo_authorize = JObj [(''id'', JInt 2), (''method'', JStr ''mining.authorize''), (''params'', JArr [JStr ''alice'', JStr ''x''])]"

lemma second_authorize_leaks_timer_witness:
  "(0, 3) \<in> set (w_timers (snd (pool_close 3 (snd (pool_authorize demo_services 3 demo_authorize
     (mem_world\<lparr>w_poolConns := [(3, (new_conn [] [])\<lparr>c_vardiffTimer := Some 0\<rparr>)],
                w_timers := [(0, 3)], w_nextTimer := 1\<rparr>))))))"
proof -
  let ?w = "mem_world\<lparr>w_poolConns := [(3, (new_conn [] [])\<lparr>c_vardiffTimer := Some 0\<rparr>)],
                w_timers := [(0, 3)], w_nextTimer := 1\<rparr>"
  have m: "msg_param demo_authorize 0 = Inr (JStr ''alice'')" "password_of demo_authorize = JStr ''x''"
    by (simp_all add: demo_authorize_def msg_param_def password_of_def list_at_def)
  have p: "parseDiffOverride (password_of demo_authorize) = None"
    unfolding m(2) by (simp add: parseDiffOverride_def diff_match_def diff_option_at_def startsWith_def
        toLowerCase_def lower_char_def)
  show ?thesis
    using second_authorize_leaks_timer [of ?w 3 "(new_conn [] [])\<lparr>c_vardiffTimer := Some 0\<rparr>" 0, OF _ _ _ _ _ m(1) p refl]
    by (simp add: new_conn_def)
qed

end
