(* ===== verification/Payouts.thy ===== *)
theory Payouts
  imports Shares
begin

text \<open>
  The payout engine (\<open>pool.js\<close>: \<open>processPayouts\<close>): count the shares of the window per wallet, divide
  the balance, hand the rewards of invalid addresses to the fee wallet, send, and award the miner
  bounty.  The objects used as dictionaries are association lists in insertion order.  Amounts are
  doubles, and \<open>parseFloat(x.toFixed(8))\<close> is \<open>to_fixed 8\<close>.
\<close>

type_synonym amounts = "(string \<times> rat) list"

section \<open>Values read from Redis\<close>

definition json_parse :: "'x services \<Rightarrow> rval \<Rightarrow> exn + jsv" where
  \<comment> \<open>\<open>JSON.parse\<close> of a list element\<close>
  "json_parse sv r = (case r of RJson v \<Rightarrow> Inr v | RText s \<Rightarrow> sv_parse sv s | _ \<Rightarrow> Inl type_error)"

definition reply_list :: "rval \<Rightarrow> rval list" where
  "reply_list r = (case r of RList vs \<Rightarrow> vs | _ \<Rightarrow> [])"

definition reply_number :: "rval \<Rightarrow> rat option" where
  \<comment> \<open>\<open>parseFloat\<close> of a reply; None is NaN\<close>
  "reply_number r =
     (case r of
        RJson (JNum q) \<Rightarrow> Some q
      | RInt n \<Rightarrow> Some (of_int n)
      | RText s \<Rightarrow> js_parseFloat s
      | _ \<Rightarrow> None)"

definition reply_int :: "rval \<Rightarrow> int option" where
  \<comment> \<open>\<open>parseInt\<close> of a reply; None is NaN\<close>
  "reply_int r =
     (case r of
        RJson (JNum q) \<Rightarrow> Some (if q < 0 then - \<lfloor>- q\<rfloor> else \<lfloor>q\<rfloor>)
      | RInt n \<Rightarrow> Some n
      | RText s \<Rightarrow> js_parseInt 10 s
      | _ \<Rightarrow> None)"

definition reply_truthy :: "rval \<Rightarrow> bool" where
  "reply_truthy r = (case r of RNil \<Rightarrow> False | RText s \<Rightarrow> s \<noteq> [] | _ \<Rightarrow> True)"

definition reply_or_zero :: "rval \<Rightarrow> rat option" where
  "reply_or_zero r = (if reply_truthy r then reply_number r else Some 0)"

section \<open>Shares per wallet\<close>

definition add_count :: "string \<Rightarrow> (string \<times> nat) list \<Rightarrow> (string \<times> nat) list" where
  "add_count wallet m = map_set wallet (Suc (case map_get m wallet of None \<Rightarrow> 0 | Some n \<Rightarrow> n)) m"

fun count_shares :: "'x services \<Rightarrow> rval list \<Rightarrow> (string \<times> nat) list \<Rightarrow> ('x world, (string \<times> nat) list) io" where
  "count_shares sv [] workerShares = io_return workerShares"
| "count_shares sv (s # ss) workerShares =
     io_bind (io_lift (json_parse sv s)) (\<lambda>v.
     io_bind (io_lift (js_prop v ''worker'')) (\<lambda>worker.
     io_bind (resolveTnsToAddress sv (pw_wallet (parseMinerWorker worker))) (\<lambda>walletAddress.
       count_shares sv ss (add_count walletAddress workerShares))))"

section \<open>Dividing the balance\<close>

definition worker_reward :: "rat \<Rightarrow> nat \<Rightarrow> nat \<Rightarrow> rat" where
  "worker_reward amountToDistribute totalShares shareCount =
     to_fixed 8 (js_mul amountToDistribute (js_div (of_nat shareCount) (of_nat totalShares)))"

fun assign_rewards :: "rat \<Rightarrow> nat \<Rightarrow> (string \<times> nat) list \<Rightarrow> amounts \<Rightarrow> rat \<Rightarrow> amounts \<times> rat" where
  "assign_rewards amount totalShares [] payouts totalAssigned = (payouts, totalAssigned)"
| "assign_rewards amount totalShares ((worker, shareCount) # ws) payouts totalAssigned =
     (let workerReward = worker_reward amount totalShares shareCount
      in if 1 \<le> workerReward
         then assign_rewards amount totalShares ws (map_set worker workerReward payouts) (js_add totalAssigned workerReward)
         else assign_rewards amount totalShares ws payouts totalAssigned)"

definition add_amount :: "string \<Rightarrow> rat \<Rightarrow> amounts \<Rightarrow> amounts" where
  \<comment> \<open>\<open>payouts[a] = parseFloat(((payouts[a] || 0) + x).toFixed(8))\<close>\<close>
  "add_amount a x payouts =
     map_set a (to_fixed 8 (js_add (case map_get payouts a of None \<Rightarrow> 0 | Some y \<Rightarrow> y) x)) payouts"

definition compute_payouts :: "rat \<Rightarrow> rat \<Rightarrow> string \<Rightarrow> (string \<times> nat) list \<Rightarrow> nat \<Rightarrow> amounts" where
  "compute_payouts balance fee feeWallet workerShares totalShares =
     (let sendableBalance = js_sub balance (fl (1 / 10));
          feePercentage = js_div fee 100;
          amountToDistribute = js_mul sendableBalance (js_sub 1 feePercentage);
          (payouts, totalAssigned) = assign_rewards amountToDistribute totalShares workerShares [] 0;
          finalFee = to_fixed 8 (js_sub sendableBalance totalAssigned)
      in if 0 < finalFee \<and> feeWallet \<noteq> [] then
           (case map_get payouts feeWallet of
              Some x \<Rightarrow> map_set feeWallet (to_fixed 8 (js_add x finalFee)) payouts
            | None \<Rightarrow> map_set feeWallet finalFee payouts)
         else payouts)"

definition reassign :: "string \<Rightarrow> string \<Rightarrow> amounts \<Rightarrow> amounts" where
  \<comment> \<open>the reward of an invalid address goes to the fee wallet\<close>
  "reassign feeWallet address payouts =
     (let invalidReward = (case map_get payouts address of None \<Rightarrow> 0 | Some x \<Rightarrow> x);
          rest = map_del address payouts
      in if feeWallet \<noteq> [] then add_amount feeWallet invalidReward rest else rest)"

fun validate_payouts :: "'x services \<Rightarrow> string \<Rightarrow> string list \<Rightarrow> amounts \<Rightarrow> ('x world, amounts) io" where
  "validate_payouts sv feeWallet [] payouts = io_return payouts"
| "validate_payouts sv feeWallet (address # as) payouts =
     (if address = feeWallet then validate_payouts sv feeWallet as payouts
      else
        io_bind
          (io_catch
            (io_bind (rpcCall sv ''validateaddress'' [JStr address] []) (\<lambda>validation.
             io_bind (io_lift (js_prop validation ''isvalid'')) (\<lambda>isvalid.
               io_return (truthy isvalid))))
            (\<lambda>_. io_return True))
          (\<lambda>keep. validate_payouts sv feeWallet as
             (if keep then payouts else reassign feeWallet address payouts)))"

section \<open>Sending\<close>

definition amounts_json :: "amounts \<Rightarrow> jsv" where
  "amounts_json payouts = JObj (map (\<lambda>(a, x). (a, JNum x)) payouts)"

definition payout_record :: "int \<Rightarrow> amounts \<Rightarrow> jsv \<Rightarrow> rval" where
  "payout_record time payouts txid =
     RJson (JObj [(''time'', JInt time), (''payouts'', amounts_json payouts), (''txid'', txid)])"

fun find_recent_send :: "'x services \<Rightarrow> jsv list \<Rightarrow> ('x world, jsv option) io" where
  "find_recent_send sv [] = io_return None"
| "find_recent_send sv (tx # txs) =
     io_bind (io_lift (js_prop tx ''category'')) (\<lambda>category.
       if category \<noteq> JStr ''send'' then find_recent_send sv txs
       else io_bind (date_now sv) (\<lambda>ms.
         case js_prop_opt tx ''time'' of
           JNum t \<Rightarrow>
             if js_sub (js_div (of_int ms) 1000) t < 120 then io_return (Some tx)
             else find_recent_send sv txs
         | _ \<Rightarrow> find_recent_send sv txs))"

definition send_payouts :: "'x services \<Rightarrow> amounts \<Rightarrow> ('x world, jsv) io" where
  "send_payouts sv payouts =
     io_catch (rpcCall sv ''sendmany'' [JStr [], amounts_json payouts, JInt 101] [])
       (\<lambda>sendErr.
          io_catch
            (io_bind (rpcCall sv ''listtransactions'' [JStr ''*'', JInt 10, JInt 0, JBool True] []) (\<lambda>recent.
             io_bind (find_recent_send sv (js_array recent)) (\<lambda>found.
               case found of
                 Some tx \<Rightarrow> io_return (js_prop_opt tx ''txid'')
               | None \<Rightarrow> io_seq (redis sv (RDel ''pool:payout:pending'')) (io_throw sendErr))))
            (\<lambda>listErr. io_seq (redis sv (RDel ''pool:payout:pending'')) (io_throw sendErr)))"

section \<open>The bounty\<close>

definition solo_block_reward :: rat where
  "solo_block_reward = 49500"

definition add_reward :: "string \<Rightarrow> rat \<Rightarrow> amounts \<Rightarrow> amounts" where
  "add_reward a x m = map_set a (js_add (case map_get m a of None \<Rightarrow> 0 | Some y \<Rightarrow> y) x) m"

fun solo_rewards :: "'x services \<Rightarrow> rval list \<Rightarrow> amounts \<Rightarrow> ('x world, amounts) io" where
  "solo_rewards sv [] m = io_return m"
| "solo_rewards sv (b # bs) m =
     io_bind
       (io_catch
         (io_bind (io_lift (json_parse sv b)) (\<lambda>data.
          io_bind (io_lift (js_prop data ''wallet'')) (\<lambda>wallet0.
          io_bind (io_lift (js_prop data ''worker'')) (\<lambda>worker.
          let rawWallet = (if truthy wallet0 then text_of (js_string_opt wallet0)
                           else pw_wallet (parseMinerWorker worker)) in
          io_bind (resolveTnsToAddress sv rawWallet) (\<lambda>wallet.
            io_return (add_reward wallet solo_block_reward m))))))
         (\<lambda>_. io_return m))
       (solo_rewards sv bs)"

definition combine_rewards :: "amounts \<Rightarrow> amounts \<Rightarrow> amounts" where
  "combine_rewards payouts soloRewards = foldl (\<lambda>m (wallet, reward). add_reward wallet reward m) payouts soloRewards"

definition lifetimeKey :: "string \<Rightarrow> string" where
  "lifetimeKey worker = ''miner:lifetime:'' @ worker"

definition bonusClaimedKey :: "string \<Rightarrow> string" where
  "bonusClaimedKey worker = ''miner:bonus:'' @ worker"

definition award_bonus :: "'x services \<Rightarrow> string \<Rightarrow> ('x world, unit) io" where
  \<comment> \<open>what happens once a miner has mined 20,000\<close>
  "award_bonus sv worker =
     io_bind (redis sv (RGet (bonusClaimedKey worker))) (\<lambda>alreadyClaimed.
       io_when (\<not> reply_truthy alreadyClaimed)
         (io_bind (redis sv (RGet ''miner:bounty_count'')) (\<lambda>count.
            io_when (case (if reply_truthy count then reply_int count else Some 0) of None \<Rightarrow> False | Some n \<Rightarrow> n < 4000)
              (io_bind (rpcCall sv ''sendtoaddress'' [JStr worker, JInt 1000] ''faucet'') (\<lambda>bonusTxid.
               io_seq (redis sv (RIncr ''miner:bounty_count''))
              (io_seq (redis sv (RSet (bonusClaimedKey worker) (RText ''1'')))
                 (io_return ())))))))"

definition bonus_step :: "'x services \<Rightarrow> string \<Rightarrow> amounts \<Rightarrow> amounts \<Rightarrow> string \<Rightarrow> ('x world, unit) io" where
  "bonus_step sv feeWallet payouts soloRewards worker =
     (if worker = feeWallet then io_return ()
      else
        io_bind
          (case map_get payouts worker of
             Some x \<Rightarrow> io_bind (redis sv (RIncrByFloat (lifetimeKey worker) x)) (\<lambda>r. io_return (reply_number r))
           | None \<Rightarrow> io_bind (redis sv (RGet (lifetimeKey worker))) (\<lambda>r. io_return (reply_or_zero r)))
          (\<lambda>lifetimePool.
             let allTimeSolo = (case map_get soloRewards worker of None \<Rightarrow> 0 | Some x \<Rightarrow> x) in
             io_when (case lifetimePool of None \<Rightarrow> False | Some p \<Rightarrow> 20000 \<le> js_add p allTimeSolo)
               (award_bonus sv worker)))"

definition bonus_engine :: "'x services \<Rightarrow> string \<Rightarrow> amounts \<Rightarrow> ('x world, unit) io" where
  "bonus_engine sv feeWallet payouts =
     io_catch
       (io_bind (rpcCall sv ''getbalance'' [JStr ''*'', JInt 1] ''faucet'') (\<lambda>faucetBalance.
          io_when (case js_num_opt faucetBalance of None \<Rightarrow> False | Some b \<Rightarrow> 1000 \<le> b)
            (io_bind (redis sv (LRange ''solo:blocks'' 0 (- 1))) (\<lambda>blocks.
             io_bind (solo_rewards sv (reply_list blocks) []) (\<lambda>soloRewards.
               io_each (bonus_step sv feeWallet payouts soloRewards)
                 (map_keys (combine_rewards payouts soloRewards)))))))
       (\<lambda>_. io_return ())"

section \<open>The hourly run\<close>

definition pay_and_record :: "'x services \<Rightarrow> amounts \<Rightarrow> ('x world, unit) io" where
  "pay_and_record sv payouts =
     io_bind (date_now sv) (\<lambda>time.
     io_seq (redis sv (RSet ''pool:payout:pending'' (payout_record time payouts JNull)))
    (io_bind (send_payouts sv payouts) (\<lambda>txid.
     io_seq (redis sv (LPush ''pool:payout:history'' (payout_record time payouts txid)))
    (io_seq (redis sv (LTrim ''pool:payout:history'' 0 499))
    (io_seq (redis sv (RDel ''pool:payout:pending''))
      (io_return ()))))))"

definition distribute :: "'x services \<Rightarrow> rat \<Rightarrow> ('x world, unit) io" where
  "distribute sv balance =
     io_bind (redis sv (LRange ''pool:shares'' 0 (- 1))) (\<lambda>shares.
       if reply_list shares = [] then io_return ()
       else
         io_bind (count_shares sv (reply_list shares) []) (\<lambda>workerShares.
         io_bind (io_get w_poolWallet) (\<lambda>poolWallet.
         io_bind (io_get w_poolFee) (\<lambda>fee.
         let feeWallet = (if sv_feeWallet sv \<noteq> [] then sv_feeWallet sv else poolWallet);
             payouts = compute_payouts balance fee feeWallet workerShares (length (reply_list shares)) in
         if payouts = [] then io_return ()
         else
           io_bind (validate_payouts sv feeWallet (map_keys payouts) payouts) (\<lambda>final.
           io_seq (pay_and_record sv final)
             (bonus_engine sv feeWallet final))))))"

definition processPayouts :: "'x services \<Rightarrow> ('x world, unit) io" where
  "processPayouts sv =
     io_bind (io_get w_redis) (\<lambda>up.
       io_when up
         (io_catch
           (io_bind
             (io_catch
               (io_bind (rpcCall sv ''getbalance'' [JStr ''*'', JInt 101] []) (\<lambda>b. io_return (js_num_opt b)))
               (\<lambda>_. io_return None))
             (\<lambda>balance.
                case balance of
                  None \<Rightarrow> io_return ()
                | Some b \<Rightarrow> if b < 49000 then io_return () else distribute sv b))
           (\<lambda>_. io_return ())))"

end
