(* ===== verification/Pool_Api.thy ===== *)
theory Pool_Api
  imports Payouts Template
begin

text \<open>
  The HTTP endpoints of the pool (\<open>pool.js\<close>: \<open>/api/tns/resolve\<close>, \<open>/api/stats\<close>, \<open>/api/pool/stats\<close>,
  \<open>/api/solo/stats\<close>, \<open>/api/pool/miner\<close>, \<open>/api/solo/miner\<close>, \<open>/health\<close>) and the start of the
  process.  A handler returns the status and the JSON body it answers with.  The block records the
  pool stores have numeric heights; \<open>sort\<close> by them is a stable sort.
\<close>

type_synonym response = "nat \<times> jsv"

definition respond :: "nat \<Rightarrow> jsv \<Rightarrow> ('s, response) io" where
  "respond status body = io_return (status, body)"

definition error_body :: "string \<Rightarrow> jsv" where
  "error_body msg = JObj [(''error'', JStr msg)]"

definition internal_error :: "('s, response) io" where
  "internal_error = respond 500 (error_body ''Internal server error'')"

definition set_add :: "'a \<Rightarrow> 'a list \<Rightarrow> 'a list" where
  \<comment> \<open>\<open>Set.add\<close>\<close>
  "set_add x xs = (if x \<in> set xs then xs else xs @ [x])"

section \<open>Name resolution\<close>

definition api_tns_resolve :: "'x services \<Rightarrow> string \<Rightarrow> ('x world, response) io" where
  "api_tns_resolve sv param =
     io_catch
       (let rawDomain = toLowerCase (js_trim param) in
        io_bind (resolveTnsToAddress sv rawDomain) (\<lambda>addr.
          if addr \<noteq> [] \<and> addr \<noteq> rawDomain then
            respond 200 (JObj [(''success'', JBool True), (''domain'', JStr rawDomain), (''targetAddress'', JStr addr)])
          else respond 404 (JObj [(''success'', JBool False), (''error'', JStr ''Domain not resolved'')])))
       (\<lambda>e. respond 500 (JObj [(''success'', JBool False), (''error'', JStr e)]))"

section \<open>Live miners\<close>

record live =
  lv_hashrate :: rat
  lv_wallets :: "string list"
  lv_workers :: nat

fun live_scan :: "'x services \<Rightarrow> (jsv \<times> nat) list \<Rightarrow> live \<Rightarrow> ('x world, live) io" where
  \<comment> \<open>the miners seen in the last ten minutes\<close>
  "live_scan sv [] acc = io_return acc"
| "live_scan sv ((name, i) # ms) acc =
     io_bind (get_obj i) (\<lambda>m.
     io_bind (date_now sv) (\<lambda>now.
       if now - m_lastSeen m < 600000 then
         io_bind (date_now sv) (\<lambda>now2.
           live_scan sv ms
             \<lparr>lv_hashrate = js_add (lv_hashrate acc) (minerHashrate now2 m),
              lv_wallets = set_add (pw_wallet (parseMinerWorker name)) (lv_wallets acc),
              lv_workers = Suc (lv_workers acc)\<rparr>)
       else live_scan sv ms acc))"

definition no_live :: live where
  "no_live = \<lparr>lv_hashrate = 0, lv_wallets = [], lv_workers = 0\<rparr>"

section \<open>Block records\<close>

definition block_height :: "jsv \<Rightarrow> rat" where
  "block_height b = (case js_num_opt (js_prop_opt b ''height'') of None \<Rightarrow> 0 | Some h \<Rightarrow> h)"

definition sort_blocks :: "jsv list \<Rightarrow> jsv list" where
  "sort_blocks bs = sort_key (\<lambda>b. - block_height b) bs"

definition parsed :: "'x services \<Rightarrow> rval list \<Rightarrow> jsv list" where
  \<comment> \<open>the elements \<open>JSON.parse\<close> accepts\<close>
  "parsed sv rs = concat (map (\<lambda>r. case json_parse sv r of Inl _ \<Rightarrow> [] | Inr v \<Rightarrow> [v]) rs)"

definition tag_block :: "string \<Rightarrow> jsv \<Rightarrow> jsv \<Rightarrow> jsv" where
  "tag_block k v b = JObj (map_set k v (js_entries b))"

definition combined_blocks :: "'x services \<Rightarrow> ('x world, jsv list) io" where
  "combined_blocks sv =
     io_bind (io_get w_redis) (\<lambda>up.
       if up then
         io_catch
           (io_bind (redis sv (LRange ''pool:blocks'' 0 19)) (\<lambda>pplnsRaw.
            io_bind (redis sv (LRange ''solo:blocks'' 0 19)) (\<lambda>soloRaw.
              io_return (sort_blocks
                (map (tag_block ''type'' (JStr ''PPLNS'')) (parsed sv (reply_list pplnsRaw)) @
                 map (tag_block ''type'' (JStr ''SOLO'')) (parsed sv (reply_list soloRaw)))))))
           (\<lambda>_. io_return [])
       else io_return [])"

definition first_height :: "jsv list \<Rightarrow> jsv" where
  "first_height bs = js_or (case bs of [] \<Rightarrow> JUndef | b # _ \<Rightarrow> js_prop_opt b ''height'') (JNum 0)"

definition current_height :: "job option \<Rightarrow> jsv list \<Rightarrow> jsv" where
  "current_height t bs = js_or (case t of None \<Rightarrow> JUndef | Some j \<Rightarrow> JNum (of_nat (j_height j))) (first_height bs)"

definition seconds_of :: "jsv \<Rightarrow> jsv" where
  \<comment> \<open>\<open>Math.floor(t > 1e11 ? t / 1000 : t)\<close>\<close>
  "seconds_of t =
     (case js_num_opt t of
        None \<Rightarrow> JNaN
      | Some x \<Rightarrow> JInt (math_floor (if 10 ^ 11 < x then js_div x 1000 else x)))"

fun normalize_blocks :: "'x services \<Rightarrow> jsv list \<Rightarrow> ('x world, jsv list) io" where
  "normalize_blocks sv [] = io_return []"
| "normalize_blocks sv (b # bs) =
     io_bind
       (if truthy (js_prop_opt b ''time'') then io_return (seconds_of (js_prop_opt b ''time''))
        else io_bind (date_now sv) (\<lambda>now. io_return (JInt (math_floor (js_div (of_int now) 1000)))))
       (\<lambda>time.
     io_bind (normalize_blocks sv bs) (\<lambda>rest.
       io_return (tag_block ''time'' time b # rest)))"

section \<open>\<open>/api/stats\<close>\<close>

definition network_stats :: "'x services \<Rightarrow> ('x world, jsv \<times> jsv) io" where
  "network_stats sv =
     io_catch
       (io_bind (rpcCall sv ''getmininginfo'' [] []) (\<lambda>miningInfo.
          io_return
            (if truthy miningInfo
             then (js_or (js_prop_opt miningInfo ''networkhashps'') (JNum 0),
                   js_or (js_prop_opt miningInfo ''difficulty'') (JNum 0))
             else (JNum 0, JNum 0))))
       (\<lambda>_. io_return (JNum 0, JNum 0))"

definition live_json :: "live \<Rightarrow> jsv" where
  "live_json l =
     JObj [(''hashrate'', JNum (max 0 (lv_hashrate l))), (''miners'', JInt (int (length (lv_wallets l)))),
           (''workers'', JInt (int (lv_workers l)))]"

definition stats_body :: "live \<Rightarrow> live \<Rightarrow> jsv \<times> jsv \<Rightarrow> jsv \<Rightarrow> jsv \<Rightarrow> jsv \<Rightarrow> jsv list \<Rightarrow> jsv" where
  "stats_body pool solo net height lastBlock lastTime blocks =
     (let hashrate = JNum (js_add (max 0 (lv_hashrate pool)) (max 0 (lv_hashrate solo)));
          miners = JInt (int (length (lv_wallets pool) + length (lv_wallets solo)));
          workers = JInt (int (lv_workers pool + lv_workers solo))
      in JObj [(''pool_name'', JStr ''TARCOIN Official Pool''), (''coin'', JStr ''TARCOIN''),
           (''symbol'', JStr ''TAR''), (''algorithm'', JStr ''SHA256d''), (''fee'', JNum 1),
           (''stratum_port'', JNum 3333), (''stratum_host'', JStr ''stratum.tarcoin.org''),
           (''hashrate'', hashrate), (''pool_hashrate'', hashrate), (''total_hashrate'', hashrate),
           (''miners'', miners), (''total_miners'', miners), (''workers'', workers), (''total_workers'', workers),
           (''height'', height), (''current_block'', height), (''block_height'', height), (''network_height'', height),
           (''last_block'', lastBlock), (''last_block_time'', lastTime),
           (''pplns'', live_json pool), (''solo'', live_json solo),
           (''network_hashrate'', fst net), (''network_difficulty'', snd net),
           (''blocks_found'', JArr blocks)])"

definition api_stats :: "'x services \<Rightarrow> ('x world, response) io" where
  "api_stats sv =
     io_catch
       (io_bind (io_get w_poolMiners) (\<lambda>poolMiners.
        io_bind (live_scan sv poolMiners no_live) (\<lambda>pool.
        io_bind (io_get w_soloMiners) (\<lambda>soloMiners.
        io_bind (live_scan sv soloMiners no_live) (\<lambda>solo.
        io_bind (network_stats sv) (\<lambda>net.
        io_bind (combined_blocks sv) (\<lambda>blocks.
        io_bind (io_get w_blockTemplate) (\<lambda>t.
        let currentHeight = current_height t blocks in
        io_bind (case blocks of
                   b # _ \<Rightarrow> io_return (js_prop_opt b ''time'')
                 | [] \<Rightarrow> io_bind (date_now sv) (\<lambda>now. io_return (JInt now))) (\<lambda>rawLastTime.
        io_bind (normalize_blocks sv (take 10 blocks)) (\<lambda>normalizedBlocks.
          respond 200 (stats_body pool solo net currentHeight
            (case blocks of b # _ \<Rightarrow> js_prop_opt b ''height'' | [] \<Rightarrow> currentHeight)
            (seconds_of rawLastTime) normalizedBlocks)))))))))))
       (\<lambda>_. internal_error)"

section \<open>\<open>/api/pool/stats\<close>\<close>

record worker_stat =
  ws_shares :: nat
  ws_lastSeen :: rat
  ws_difficulty :: "rat option"

type_synonym worker_stats = "(string \<times> worker_stat) list"

definition new_stat :: worker_stat where
  "new_stat = \<lparr>ws_shares = 0, ws_lastSeen = 0, ws_difficulty = Some 0\<rparr>"

definition later :: "rat \<Rightarrow> jsv \<Rightarrow> rat" where
  \<comment> \<open>\<open>if (time > lastSeen) lastSeen = time\<close>\<close>
  "later lastSeen time = (case js_num_opt time of Some t \<Rightarrow> if lastSeen < t then t else lastSeen | None \<Rightarrow> lastSeen)"

definition live_difficulty :: "'x world \<Rightarrow> jsv \<Rightarrow> string \<Rightarrow> rat option" where
  "live_difficulty w worker wallet =
     (case (case map_get (w_poolMiners w) worker of Some i \<Rightarrow> Some i | None \<Rightarrow> map_get (w_poolMiners w) (JStr wallet)) of
        None \<Rightarrow> None
      | Some i \<Rightarrow> (case m_difficulty (w_objs w i) of Some d \<Rightarrow> if d \<noteq> 0 then Some d else None | None \<Rightarrow> None))"

definition count_share :: "'x world \<Rightarrow> jsv \<Rightarrow> worker_stats \<Rightarrow> worker_stats" where
  "count_share w share workers =
     (let worker = js_prop_opt share ''worker'';
          wallet = pw_wallet (parseMinerWorker worker);
          s = (case map_get workers wallet of Some s \<Rightarrow> s | None \<Rightarrow> new_stat)
      in map_set wallet
           (s\<lparr>ws_shares := Suc (ws_shares s),
              ws_lastSeen := later (ws_lastSeen s) (js_prop_opt share ''time''),
              ws_difficulty := (case live_difficulty w worker wallet of
                                  Some d \<Rightarrow> Some d | None \<Rightarrow> ws_difficulty s)\<rparr>) workers)"

definition destructurable :: "jsv \<Rightarrow> bool" where
  \<comment> \<open>an object pattern throws on \<open>null\<close> only, among the values JSON has\<close>
  "destructurable v \<longleftrightarrow> v \<noteq> JNull \<and> v \<noteq> JUndef"

fun pool_live_scan :: "'x services \<Rightarrow> (jsv \<times> nat) list \<Rightarrow> live \<Rightarrow> worker_stats \<Rightarrow> ('x world, live \<times> worker_stats) io" where
  "pool_live_scan sv [] acc workers = io_return (acc, workers)"
| "pool_live_scan sv ((name, i) # ms) acc workers =
     io_bind (get_obj i) (\<lambda>m.
     io_bind (date_now sv) (\<lambda>now.
       if now - m_lastSeen m < 600000 then
         io_bind (date_now sv) (\<lambda>now2.
           let wallet = pw_wallet (parseMinerWorker name) in
           pool_live_scan sv ms
             \<lparr>lv_hashrate = js_add (lv_hashrate acc) (minerHashrate now2 m),
              lv_wallets = set_add wallet (lv_wallets acc),
              lv_workers = Suc (lv_workers acc)\<rparr>
             (case map_get workers wallet of
                Some s \<Rightarrow> map_set wallet (s\<lparr>ws_difficulty := m_difficulty m\<rparr>) workers
              | None \<Rightarrow> workers))
       else pool_live_scan sv ms acc workers))"

definition opt_field :: "string \<Rightarrow> rat option \<Rightarrow> (string \<times> jsv) list" where
  \<comment> \<open>a property that JSON leaves out when it is undefined\<close>
  "opt_field k v = (case v of None \<Rightarrow> [] | Some x \<Rightarrow> [(k, JNum x)])"

definition stat_json :: "worker_stat \<Rightarrow> jsv" where
  "stat_json s =
     JObj ([(''shares'', JInt (int (ws_shares s))), (''lastSeen'', JNum (ws_lastSeen s))] @
           opt_field ''difficulty'' (ws_difficulty s))"

definition stats_json :: "worker_stats \<Rightarrow> jsv" where
  "stats_json workers = JObj (map (\<lambda>(wallet, s). (wallet, stat_json s)) workers)"

definition pool_blocks :: "'x services \<Rightarrow> ('x world, jsv list) io" where
  "pool_blocks sv =
     io_bind (redis sv (LRange ''pool:blocks'' 0 19)) (\<lambda>pplns.
     io_bind (io_catch (redis sv (LRange ''solo:blocks'' 0 19)) (\<lambda>_. io_return (RList []))) (\<lambda>solo.
       io_return (take 20 (sort_blocks
         (filter truthy (parsed sv (reply_list pplns)) @
          map (tag_block ''solo'' (JBool True)) (parsed sv (reply_list solo)))))))"

definition pool_stats_fresh :: "'x services \<Rightarrow> ('x world, response) io" where
  \<comment> \<open>compute the statistics and put them in the cache\<close>
  "pool_stats_fresh sv =
     io_bind (redis sv (LRange ''pool:shares'' 0 999999)) (\<lambda>sharesData.
     io_bind (io_get (\<lambda>w. foldl (\<lambda>ws s. count_share w s ws) []
                             (filter destructurable (parsed sv (reply_list sharesData))))) (\<lambda>counted.
     let totalShares = length (filter destructurable (parsed sv (reply_list sharesData))) in
     io_bind (pool_blocks sv) (\<lambda>blocksFound.
     io_bind (io_get w_blockTemplate) (\<lambda>t.
     let currentHeight = current_height t blocksFound in
     io_bind (io_get w_poolMiners) (\<lambda>miners.
     io_bind (pool_live_scan sv miners no_live counted) (\<lambda>(live, workers).
     let body = JObj
       [(''status'', JStr ''Online''), (''stratum'', JStr ''stratum+tcp://stratum.tarcoin.org:3333''),
        (''algorithm'', JStr ''SHA256d''), (''activeMiners'', JInt (int (length (lv_wallets live)))),
        (''totalShares'', JInt (int totalShares)), (''workers'', stats_json workers),
        (''blocksFound'', JArr blocksFound), (''height'', currentHeight), (''blockHeight'', currentHeight),
        (''currentBlock'', currentHeight), (''poolHashrate'', JNum (lv_hashrate live))] in
     io_bind (date_now sv) (\<lambda>now.
     io_seq (io_modify (\<lambda>w. w\<lparr>w_poolStatsCache := Some body, w_poolStatsCacheTime := now\<rparr>))
       (respond 200 body))))))))"

definition STATS_CACHE_TTL :: int where
  "STATS_CACHE_TTL = 30000"

definition api_pool_stats :: "'x services \<Rightarrow> ('x world, response) io" where
  "api_pool_stats sv =
     io_catch
       (io_bind (io_get w_redis) (\<lambda>up.
          if \<not> up then
            respond 200 (JObj [(''status'', JStr ''offline''), (''workers'', JObj []), (''totalShares'', JNum 0),
              (''blocksFound'', JArr []), (''poolHashrate'', JNum 0)])
          else
            io_bind (io_get w_poolStatsCache) (\<lambda>cache.
              case cache of
                None \<Rightarrow> pool_stats_fresh sv
              | Some body \<Rightarrow>
                  io_bind (date_now sv) (\<lambda>now.
                  io_bind (io_get w_poolStatsCacheTime) (\<lambda>cachedAt.
                    if now - cachedAt < STATS_CACHE_TTL then respond 200 body else pool_stats_fresh sv)))))
       (\<lambda>_. internal_error)"

section \<open>\<open>/api/solo/stats\<close>\<close>

definition solo_stat :: "jsv \<times> miner \<Rightarrow> worker_stats \<Rightarrow> worker_stats" where
  "solo_stat nm workers =
     (let (name, m) = nm;
          wallet = pw_wallet (parseMinerWorker name);
          s = (case map_get workers wallet of Some s \<Rightarrow> s | None \<Rightarrow> new_stat)
      in map_set wallet
           (s\<lparr>ws_shares := ws_shares s + m_validShares m,
              ws_lastSeen := later (ws_lastSeen s) (JInt (m_lastSeen m)),
              ws_difficulty := Some (case m_difficulty m of Some d \<Rightarrow> d | None \<Rightarrow> 0)\<rparr>) workers)"

definition parse_all :: "'x services \<Rightarrow> rval list \<Rightarrow> exn + jsv list" where
  \<comment> \<open>\<open>rs.map(b => JSON.parse(b))\<close>\<close>
  "parse_all sv rs = foldr (\<lambda>r acc. res_bind (json_parse sv r) (\<lambda>v. res_bind acc (\<lambda>vs. Inr (v # vs)))) rs (Inr [])"

definition api_solo_stats :: "'x services \<Rightarrow> ('x world, response) io" where
  "api_solo_stats sv =
     io_catch
       (io_bind (io_get (\<lambda>w. foldl (\<lambda>ws (name, i). solo_stat (name, w_objs w i) ws) [] (w_soloMiners w))) (\<lambda>workers.
        io_bind (io_get w_redis) (\<lambda>up.
        io_bind (if up then io_bind (redis sv (LRange ''solo:blocks'' 0 9)) (\<lambda>r. io_lift (parse_all sv (reply_list r)))
                 else io_return []) (\<lambda>blocksFound.
        io_bind (io_get w_soloMiners) (\<lambda>miners.
        io_bind (live_scan sv miners no_live) (\<lambda>live.
        io_bind (io_get w_soloFee) (\<lambda>fee.
          respond 200 (JObj
            [(''status'', JStr (if miners \<noteq> [] then ''Online'' else ''Waiting'')),
             (''stratum'', JStr ''stratum+tcp://stratum.tarcoin.org:3334''), (''algorithm'', JStr ''SHA256d''),
             (''fee'', JNum fee), (''activeMiners'', JInt (int (length workers))), (''workers'', stats_json workers),
             (''blocksFound'', JArr blocksFound), (''soloHashrate'', JNum (lv_hashrate live))]))))))))
       (\<lambda>_. internal_error)"

section \<open>Statistics of one wallet\<close>

definition cached_match :: "'x world \<Rightarrow> string \<Rightarrow> string \<Rightarrow> string \<Rightarrow> bool" where
  \<comment> \<open>the name is a domain whose cached address is the wallet asked for\<close>
  "cached_match w wallet rawQueryWallet rawW \<longleftrightarrow>
     endsWith rawW ''.tar'' \<and>
     (case map_get (w_tns w) rawW of
        None \<Rightarrow> False
      | Some (address, _) \<Rightarrow>
          address \<noteq> [] \<and> (toLowerCase address = wallet \<or> toLowerCase address = rawQueryWallet))"

definition name_match :: "'x world \<Rightarrow> string \<Rightarrow> string \<Rightarrow> jsv \<Rightarrow> bool" where
  "name_match w wallet rawQueryWallet worker \<longleftrightarrow>
     (let rawW = toLowerCase (pw_wallet (parseMinerWorker worker))
      in rawW = wallet \<or> rawW = rawQueryWallet \<or> cached_match w wallet rawQueryWallet rawW)"

definition miner_match :: "'x world \<Rightarrow> string \<Rightarrow> string \<Rightarrow> jsv \<Rightarrow> miner \<Rightarrow> bool" where
  "miner_match w wallet rawQueryWallet name m \<longleftrightarrow>
     name_match w wallet rawQueryWallet name \<or>
     (case m_resolvedAddress m of
        None \<Rightarrow> False | Some a \<Rightarrow> a \<noteq> [] \<and> (a = wallet \<or> a = rawQueryWallet))"

record wallet_stats =
  wt_hashrate :: rat
  wt_shares :: nat
  wt_difficulty :: "rat option"
  wt_lastSeen :: rat
  wt_workers :: "jsv list"

definition no_wallet_stats :: wallet_stats where
  "no_wallet_stats = \<lparr>wt_hashrate = 0, wt_shares = 0, wt_difficulty = Some 0, wt_lastSeen = 0, wt_workers = []\<rparr>"

definition worker_json :: "jsv \<Rightarrow> rat \<Rightarrow> miner \<Rightarrow> jsv" where
  "worker_json name hashrate m =
     JObj ([(''name'', name), (''hashrate'', JNum hashrate)] @ opt_field ''difficulty'' (m_difficulty m) @
           [(''lastSeen'', JInt (m_lastSeen m)), (''validShares'', JInt (int (m_validShares m)))])"

fun wallet_scan :: "'x services \<Rightarrow> string \<Rightarrow> string \<Rightarrow> (jsv \<times> nat) list \<Rightarrow> wallet_stats \<Rightarrow> ('x world, wallet_stats) io" where
  "wallet_scan sv wallet raw [] acc = io_return acc"
| "wallet_scan sv wallet raw ((name, i) # ms) acc =
     io_bind (get_obj i) (\<lambda>m.
     io_bind (io_get (\<lambda>w. miner_match w wallet raw name m)) (\<lambda>matches.
       if matches then
         io_bind (date_now sv) (\<lambda>now.
           let hashrate = minerHashrate now m in
           wallet_scan sv wallet raw ms
             \<lparr>wt_hashrate = js_add (wt_hashrate acc) hashrate,
              wt_shares = wt_shares acc + m_validShares m,
              wt_difficulty = m_difficulty m,
              wt_lastSeen = later (wt_lastSeen acc) (JInt (m_lastSeen m)),
              wt_workers = wt_workers acc @ [worker_json name hashrate m]\<rparr>)
       else wallet_scan sv wallet raw ms acc))"

definition query_wallet :: "'x services \<Rightarrow> string \<Rightarrow> ('x world, string \<times> string) io" where
  \<comment> \<open>the wallet asked for: the address it resolves to, and as it was written\<close>
  "query_wallet sv param =
     (let raw = toLowerCase (pw_wallet (parseMinerWorker (JStr (js_trim param)))) in
      if endsWith raw ''.tar''
      then io_bind (resolveTnsToAddress sv raw) (\<lambda>a. io_return (toLowerCase a, raw))
      else io_return (raw, raw))"

definition when_redis :: "('x world, 'a list) io \<Rightarrow> ('x world, 'a list) io" where
  "when_redis m = io_bind (io_get w_redis) (\<lambda>up. if up then m else io_return [])"

definition redis_list :: "'x services \<Rightarrow> string \<Rightarrow> int \<Rightarrow> ('x world, rval list) io" where
  "redis_list sv key last_i =
     io_bind (redis sv (LRange key 0 last_i)) (\<lambda>r. io_return (reply_list r))"

definition wallet_blocks :: "'x services \<Rightarrow> string \<Rightarrow> string \<Rightarrow> string \<Rightarrow> ('x world, jsv list) io" where
  "wallet_blocks sv key wallet raw =
     when_redis
       (io_bind (redis_list sv key 49) (\<lambda>rs.
        io_bind (io_lift (parse_all sv rs)) (\<lambda>blocks.
          if list_all destructurable blocks then
            io_get (\<lambda>w. filter (\<lambda>b. name_match w wallet raw (js_or (js_prop_opt b ''worker'') (JStr []))) blocks)
          else io_throw type_error)))"

definition hashrate_history :: "'x services \<Rightarrow> string \<Rightarrow> ('x world, jsv list) io" where
  "hashrate_history sv wallet =
     when_redis
       (io_bind (redis_list sv (''miner:hashrate_history:'' @ wallet) 287) (\<lambda>rs.
          io_lift (parse_all sv (rev rs))))"

definition BLOCK_REWARD :: rat where
  "BLOCK_REWARD = 49500"

definition wallet_shares :: "'x world \<Rightarrow> string \<Rightarrow> string \<Rightarrow> jsv list \<Rightarrow> jsv list" where
  "wallet_shares w wallet raw shares =
     filter (\<lambda>s. name_match w wallet raw (js_prop_opt s ''worker'')) shares"

definition share_percent :: "nat \<Rightarrow> nat \<Rightarrow> rat \<Rightarrow> string" where
  \<comment> \<open>\<open>((walletShares / totalShares) * scale).toFixed(2)\<close>\<close>
  "share_percent walletShares totalShares scale =
     (if 0 < totalShares
      then fixed_string 2 (js_mul (js_div (of_nat walletShares) (of_nat totalShares)) scale)
      else ''0.00'')"

definition api_pool_miner :: "'x services \<Rightarrow> string \<Rightarrow> ('x world, response) io" where
  "api_pool_miner sv param =
     io_catch
       (io_bind (query_wallet sv param) (\<lambda>(wallet, raw).
        io_bind (when_redis (redis_list sv ''pool:shares'' 99999)) (\<lambda>sharesData.
        let shares = filter destructurable (parsed sv sharesData); totalShares = length shares in
        io_bind (io_get (\<lambda>w. wallet_shares w wallet raw shares)) (\<lambda>mine.
        let walletShares = length mine;
            lastSeen = foldl (\<lambda>t s. later t (js_prop_opt s ''time'')) 0 mine in
        io_bind (io_get w_poolMiners) (\<lambda>miners.
        io_bind (wallet_scan sv wallet raw miners no_wallet_stats) (\<lambda>st.
        io_bind (wallet_blocks sv ''pool:blocks'' wallet raw) (\<lambda>blocksFound.
        io_bind (hashrate_history sv wallet) (\<lambda>history.
          respond 200 (JObj ([(''wallet'', JStr param), (''resolvedAddress'', JStr wallet),
            (''found'', JBool (0 < walletShares \<or> wt_workers st \<noteq> [])),
            (''shares'', JInt (int walletShares)), (''totalPoolShares'', JInt (int totalShares)),
            (''sharePercent'', JStr (share_percent walletShares totalShares 100)),
            (''estimatedPayout'', JStr (share_percent walletShares totalShares BLOCK_REWARD)),
            (''hashrate'', JNum (wt_hashrate st))] @ opt_field ''difficulty'' (wt_difficulty st) @
           [(''lastSeen'', JNum lastSeen), (''workers'', JArr (wt_workers st)),
            (''blocksFound'', JArr blocksFound), (''hashrateHistory'', JArr history)]))))))))))
       (\<lambda>_. internal_error)"

definition api_solo_miner :: "'x services \<Rightarrow> string \<Rightarrow> ('x world, response) io" where
  "api_solo_miner sv param =
     io_catch
       (io_bind (query_wallet sv param) (\<lambda>(wallet, raw).
        io_bind (io_get w_soloMiners) (\<lambda>miners.
        io_bind (wallet_scan sv wallet raw miners no_wallet_stats) (\<lambda>st.
        io_bind (wallet_blocks sv ''solo:blocks'' wallet raw) (\<lambda>blocksFound.
        io_bind (hashrate_history sv wallet) (\<lambda>history.
          respond 200 (JObj ([(''wallet'', JStr param), (''resolvedAddress'', JStr wallet),
            (''found'', JBool (0 < wt_shares st \<or> wt_workers st \<noteq> [])),
            (''shares'', JInt (int (wt_shares st))),
            (''hashrate'', JNum (wt_hashrate st))] @ opt_field ''difficulty'' (wt_difficulty st) @
           [(''lastSeen'', JNum (wt_lastSeen st)), (''workers'', JArr (wt_workers st)),
            (''blocksFound'', JArr blocksFound), (''hashrateHistory'', JArr history),
            (''blockReward'', JNum BLOCK_REWARD)]))))))))
       (\<lambda>_. internal_error)"

definition api_health :: "'x services \<Rightarrow> ('x world, response) io" where
  "api_health sv =
     io_bind (date_now sv) (\<lambda>now.
       respond 200 (JObj [(''status'', JStr ''ok''), (''service'', JStr ''tarcoin-mining-pool''), (''timestamp'', JInt now)]))"

section \<open>Start of the process\<close>

definition initRedis :: "'x services \<Rightarrow> ('x \<Rightarrow> (exn + unit) \<times> 'x) \<Rightarrow> ('x world, unit) io" where
  \<comment> \<open>the client is kept whether or not it could connect\<close>
  "initRedis sv connect =
     io_seq (io_modify (\<lambda>w. w\<lparr>w_redis := True\<rparr>))
       (io_catch (await sv (on_ext connect)) (\<lambda>_. io_return ()))"

definition start :: "'x services \<Rightarrow> ('x \<Rightarrow> (exn + unit) \<times> 'x) \<Rightarrow> ('x world, unit) io" where
  "start sv connect = io_seq (initRedis sv connect) (refreshBlockTemplate sv)"

end
