(* ===== verification/Redis_Laws.thy ===== *)
theory Redis_Laws
  imports Shares
begin

text \<open>
  Redis as a store of values: what the payout engine and the faucet rely on when they look up a key
  they have set.  The keys stay readable for as long as their time to live, which is the horizon of
  the properties that use these laws.
\<close>

definition redis_store :: "'x services \<Rightarrow> ('x \<Rightarrow> string \<Rightarrow> rval) \<Rightarrow> bool" where
  \<comment> \<open>Redis is up and keeps the values it is given; \<open>rd\<close> reads them off the outside state\<close>
  "redis_store sv rd \<longleftrightarrow>
     (\<forall>k x. fst (sv_redis sv (RGet k) x) = Inr (rd x k) \<and> rd (snd (sv_redis sv (RGet k) x)) = rd x) \<and>
     (\<forall>k v x. (\<exists>r. fst (sv_redis sv (RSet k v) x) = Inr r) \<and> rd (snd (sv_redis sv (RSet k v) x)) = (rd x)(k := v)) \<and>
     (\<forall>k t v x. (\<exists>r. fst (sv_redis sv (RSetEx k t v) x) = Inr r) \<and> rd (snd (sv_redis sv (RSetEx k t v) x)) = (rd x)(k := v)) \<and>
     (\<forall>k x. (\<exists>r. fst (sv_redis sv (RIncr k) x) = Inr r) \<and> (\<forall>j. j \<noteq> k \<longrightarrow> rd (snd (sv_redis sv (RIncr k) x)) j = rd x j)) \<and>
     (\<forall>p m ps x. rd (snd (sv_post sv p m ps x)) = rd x) \<and>
     (\<forall>d x. rd (snd (sv_tns sv d x)) = rd x) \<and>
     (\<forall>x. rd (snd (sv_now sv x)) = rd x) \<and>
     (\<forall>w. rd (w_ext (sv_others sv w)) = rd (w_ext w))"

lemma redis_getE:
  assumes "redis_store sv rd" and "rpc_observed sv rlog"
  obtains w' where "redis sv (RGet k) w = (Inr (rd (w_ext w) k), w')" "rd (w_ext w') = rd (w_ext w)"
    "rlog (w_ext w') = rlog (w_ext w)"
  using that [of "snd (redis sv (RGet k) w)"] assms
  by (simp add: redis_def await_def on_ext_run redis_store_def rpc_observed_def)

lemma redis_setE:
  assumes "redis_store sv rd" and "rpc_observed sv rlog"
  obtains r w' where "redis sv (RSet k v) w = (Inr r, w')" "rd (w_ext w') = (rd (w_ext w))(k := v)"
    "rlog (w_ext w') = rlog (w_ext w)"
proof -
  obtain r where "fst (sv_redis sv (RSet k v) (w_ext w)) = Inr r" using assms(1) unfolding redis_store_def by metis
  with assms that [of r "snd (redis sv (RSet k v) w)"] show thesis
    by (simp add: redis_def await_def on_ext_run redis_store_def rpc_observed_def)
qed

lemma redis_incrE:
  assumes "redis_store sv rd" and "rpc_observed sv rlog"
  obtains r w' where "redis sv (RIncr k) w = (Inr r, w')" "\<And>j. j \<noteq> k \<Longrightarrow> rd (w_ext w') j = rd (w_ext w) j"
    "rlog (w_ext w') = rlog (w_ext w)"
proof -
  obtain r where "fst (sv_redis sv (RIncr k) (w_ext w)) = Inr r" using assms(1) unfolding redis_store_def by metis
  with assms that [of r "snd (redis sv (RIncr k) w)"] show thesis
    by (simp add: redis_def await_def on_ext_run redis_store_def rpc_observed_def)
qed

lemma rpcCall_store: "redis_store sv rd \<Longrightarrow> rd (w_ext (snd (rpcCall sv m ps o' w))) = rd (w_ext w)"
  by (auto simp: rpcCall_def io_bind_def await_def on_ext_def io_lift_def io_throw_def redis_store_def
      split: prod.splits sum.splits) (metis snd_conv)+

definition mem_read :: "mem \<Rightarrow> string \<Rightarrow> rval" where
  "mem_read x k = (case map_get (mm_store x) k of None \<Rightarrow> RNil | Some v \<Rightarrow> v)"

lemma mem_redis_store: "redis_store (mem_services answer) mem_read"
  unfolding redis_store_def by (simp add: mem_services_def mem_read_def fun_eq_iff)

lemma mem_observed: "rpc_observed (mem_services answer) mm_log"
  by (simp add: rpc_observed_def mem_services_def split: prod.splits)

end
