(* ===== verification/Faucet.thy ===== *)
theory Faucet
  imports Pool_Api Redis_Laws
begin

text \<open>
  The faucet endpoint (\<open>pool.js\<close>: \<open>POST /api/faucet\<close>).  The bot check is a call to an outside
  service, a parameter; so is the request limiter in front of the handler, which only keeps requests
  away from it.
\<close>

section \<open>The handler\<close>

record faucet_request =
  fq_body :: jsv
  fq_forwarded :: "string option"
  fq_remote :: "string option"

record 'x turnstile =
  \<comment> \<open>the configured secret and the verification request: secret, token, client address\<close>
  ts_secret :: string
  ts_verify :: "string \<Rightarrow> string \<Rightarrow> string \<Rightarrow> 'x \<Rightarrow> (exn + jsv) \<times> 'x"

definition faucet_ip :: "faucet_request \<Rightarrow> string" where
  "faucet_ip req = getClientIp (fq_forwarded req) (fq_remote req)"

definition ipKey :: "string \<Rightarrow> string" where
  "ipKey ip = ''faucet:ip:'' @ ip"

definition addressKey :: "string \<Rightarrow> string" where
  "addressKey address = ''faucet:address:'' @ address"

definition FAUCET_TTL :: int where
  "FAUCET_TTL = 315360000"

definition bot_check :: "'x services \<Rightarrow> 'x turnstile \<Rightarrow> jsv \<Rightarrow> string \<Rightarrow> ('x world, bool) io" where
  "bot_check sv ts token ip =
     (if ts_secret ts = [] then io_return True
      else
        io_bind (await sv (on_ext (ts_verify ts (ts_secret ts) (js_tostring token) ip))) (\<lambda>data.
        io_bind (io_lift (js_prop data ''success'')) (\<lambda>success. io_return (truthy success))))"

definition rate_limited :: "'x services \<Rightarrow> string \<Rightarrow> string \<Rightarrow> ('x world, string option) io" where
  \<comment> \<open>the message of the refusal, if there is one\<close>
  "rate_limited sv ip address =
     io_bind (io_get w_redis) (\<lambda>up.
       if \<not> up then io_return None
       else
         io_bind (redis sv (RGet (ipKey ip))) (\<lambda>ipCheck.
           if reply_truthy ipCheck
           then io_return (Some ''You have already claimed TAR today. Please come back in 24 hours!'')
           else
             io_bind (redis sv (RGet (addressKey address))) (\<lambda>addrCheck.
               io_return
                 (if reply_truthy addrCheck then Some ''This address has already claimed TAR today.'' else None))))"

definition record_and_send :: "'x services \<Rightarrow> string \<Rightarrow> string \<Rightarrow> ('x world, response) io" where
  "record_and_send sv ip address =
     io_bind (io_get w_redis) (\<lambda>up.
     io_seq
       (io_when up
         (io_seq (redis sv (RSetEx (ipKey ip) FAUCET_TTL (RText ''1'')))
         (io_seq (redis sv (RSetEx (addressKey address) FAUCET_TTL (RText ''1'')))
           (io_return ()))))
       (io_bind (rpcCall sv ''sendtoaddress'' [JStr address, JInt 100] ''faucet'') (\<lambda>txid.
          respond 200 (JObj [(''success'', JBool True), (''txid'', txid), (''amount'', JNum 100)]))))"

definition pay_claim :: "'x services \<Rightarrow> string \<Rightarrow> string \<Rightarrow> ('x world, response) io" where
  \<comment> \<open>steps 2 to 6\<close>
  "pay_claim sv ip address =
     io_bind (rate_limited sv ip address) (\<lambda>limited.
       case limited of
         Some msg \<Rightarrow> respond 429 (error_body msg)
       | None \<Rightarrow>
           io_bind (rpcCall sv ''validateaddress'' [JStr address] ''faucet'') (\<lambda>validation.
           io_bind (io_lift (js_prop validation ''isvalid'')) (\<lambda>isvalid.
             if \<not> truthy isvalid then respond 400 (error_body ''Address is invalid on the blockchain'')
             else
               io_bind (rpcCall sv ''getbalance'' [JStr ''*'', JInt 1] ''faucet'') (\<lambda>balance.
                 if js_less balance 100 then
                   respond 503 (error_body ''The Faucet reward limit has been reached. Thank you to the 10,000 early adopters who joined the TARCOIN network!'')
                 else record_and_send sv ip address))))"

definition api_faucet :: "'x services \<Rightarrow> 'x turnstile \<Rightarrow> faucet_request \<Rightarrow> ('x world, response) io" where
  "api_faucet sv ts req =
     io_catch
       (io_bind (io_lift (js_prop (fq_body req) ''address'')) (\<lambda>address.
        io_bind (io_lift (js_prop (fq_body req) ''token'')) (\<lambda>token.
        let ip = faucet_ip req in
          if \<not> truthy address then respond 400 (error_body ''Address is required'')
          else if \<not> truthy token then respond 400 (error_body ''Bot verification token is required'')
          else
            io_bind (bot_check sv ts token ip) (\<lambda>human.
              if \<not> human then respond 400 (error_body ''Bot verification failed. Please refresh and try again.'')
              else
                case js_string_opt address of
                  None \<Rightarrow> io_throw type_error
                | Some a \<Rightarrow>
                    if \<not> startsWith a ''tar1'' \<and> \<not> startsWith a ''T''
                    then respond 400 (error_body ''Invalid address format'')
                    else pay_claim sv ip a))))
       (\<lambda>_. respond 500 (error_body ''Internal server error processing faucet claim''))"

end
