(* ===== verification/Payout_Properties.thy ===== *)
theory Payout_Properties
  imports Payouts Redis_Laws
begin

text \<open>
  What a payout run sends: at most one \<open>sendmany\<close>, and never more than the balance the node
  reported, the rounding errors of the double arithmetic included; and what guards the miner bounty.
\<close>

section \<open>Sums of amounts\<close>

definition payout_total :: "amounts \<Rightarrow> rat" where
  "payout_total m = sum_list (map snd m)"

definition amount_at :: "amounts \<Rightarrow> string \<Rightarrow> rat" where
  "amount_at m a = (case map_get m a of None \<Rightarrow> 0 | Some x \<Rightarrow> x)"

definition amounts_ok :: "amounts \<Rightarrow> bool" where
  "amounts_ok m \<longleftrightarrow> distinct (map_keys m) \<and> (\<forall>x \<in> set (map snd m). 0 \<le> x)"

lemma total_map_set: "payout_total (map_set a x m) = payout_total m - amount_at m a + x"
  by (induction m) (auto simp: payout_total_def amount_at_def)

lemma length_map_set: "length (map_set a x m) \<le> Suc (length m)"
  by (induction m) auto

lemma total_map_del: "distinct (map_keys m) \<Longrightarrow> payout_total (map_del a m) = payout_total m - amount_at m a"
proof (induction m)
  case Nil show ?case by (simp add: payout_total_def amount_at_def AList.delete_eq)
next
  case (Cons p m)
  obtain b y where p: "p = (b, y)" by fastforce
  show ?case
  proof (cases "b = a")
    case True
    with Cons.prems p have "a \<notin> set (map_keys m)" by auto
    then have "map_del a m = m" by simp
    with True p show ?thesis by (simp add: payout_total_def amount_at_def AList.delete_eq)
  next
    case False
    with Cons p show ?thesis by (simp add: payout_total_def amount_at_def AList.delete_eq)
  qed
qed

lemma amount_at_bounds:
  assumes "amounts_ok m" shows "0 \<le> amount_at m a" "amount_at m a \<le> payout_total m"
proof -
  have nn: "0 \<le> x" if "x \<in> set (map snd m)" for x using assms that unfolding amounts_ok_def by blast
  have "0 \<le> amount_at m a \<and> amount_at m a \<le> payout_total m"
  proof (cases "map_get m a")
    case None
    then show ?thesis using sum_list_nonneg [of "map snd m", OF nn] by (simp add: amount_at_def payout_total_def)
  next
    case (Some x)
    then have x: "x \<in> set (map snd m)" by (force dest: map_of_SomeD)
    from member_le_sum_list [OF this nn] have "x \<le> sum_list (map snd m)" by simp
    with Some nn x show ?thesis by (simp add: amount_at_def payout_total_def)
  qed
  then show "0 \<le> amount_at m a" "amount_at m a \<le> payout_total m" by auto
qed

lemma amounts_ok_set: "amounts_ok m \<Longrightarrow> 0 \<le> x \<Longrightarrow> amounts_ok (map_set a x m)"
proof -
  have "set (map snd (map_set a x m)) \<subseteq> insert x (set (map snd m))" by (induction m) auto
  then show "amounts_ok m \<Longrightarrow> 0 \<le> x \<Longrightarrow> amounts_ok (map_set a x m)"
    unfolding amounts_ok_def by (metis distinct_map_set insertE subsetD)
qed

lemma amounts_ok_del: "amounts_ok m \<Longrightarrow> amounts_ok (map_del a m)"
  unfolding amounts_ok_def by (auto intro: distinct_map_del) (auto simp: AList.delete_eq)


section \<open>Dividing the balance\<close>

lemma reassign_total:
  assumes "amounts_ok m" and "payout_total m \<le> 5 * 10 ^ 6 + 1"
  shows "amounts_ok (reassign f a m)" and "payout_total (reassign f a m) \<le> payout_total m + 9 / 10 ^ 9"
proof -
  define r where "r = map_del a m"
  define z where "z = amount_at r f + amount_at m a"
  have r: "amounts_ok r" "payout_total r = payout_total m - amount_at m a"
    using assms(1) unfolding r_def by (simp_all add: amounts_ok_del total_map_del amounts_ok_def [of m])
  note b = amount_at_bounds [OF assms(1), of a] amount_at_bounds [OF r(1), of f]
  have z: "0 \<le> z" "\<bar>z\<bar> \<le> 5 * 10 ^ 6 + 1" using b r(2) assms(2) by (simp_all add: z_def)
  then have e: "to_fixed 8 (fl z) \<le> z + 9 / 10 ^ 9" using to_fixed_fl_error [of z] by (simp add: abs_if split: if_splits)
  have eq: "reassign f a m = (if f \<noteq> [] then map_set f (to_fixed 8 (fl z)) r else r)"
    by (simp add: reassign_def add_amount_def js_add_def z_def amount_at_def r_def Let_def)
  show "amounts_ok (reassign f a m)"
    using z(1) by (simp add: eq r(1) amounts_ok_set fl_nonneg to_fixed_nonneg)
  show "payout_total (reassign f a m) \<le> payout_total m + 9 / 10 ^ 9"
  proof (cases "f = []")
    case True
    then have "payout_total (reassign f a m) = payout_total m - amount_at m a"
      using eq r(2) by simp
    with b(1) show ?thesis by simp
  next
    case False
    then have "payout_total (reassign f a m) = payout_total r - amount_at r f + to_fixed 8 (fl z)"
      by (simp only: eq total_map_set if_True not_False_eq_True)
    with e show ?thesis unfolding r(2) z_def by linarith
  qed
qed

lemma assign_rewards_result:
  assumes "distinct (map_keys ws)" and "set (map_keys ws) \<inter> set (map_keys p) = {}" and "amounts_ok p"
    and rs: "rs = filter ((\<le>) 1) (map (\<lambda>(w, c). worker_reward A N c) ws)"
    and res: "assign_rewards A N ws p T = (p', T')"
  shows "payout_total p' = payout_total p + sum_list rs" "T' = foldl js_add T rs"
    "amounts_ok p'" "length p' = length p + length rs"
proof -
  have "payout_total p' = payout_total p + sum_list rs \<and> T' = foldl js_add T rs \<and>
        amounts_ok p' \<and> length p' = length p + length rs"
    using assms
  proof (induction ws arbitrary: p T rs)
    case Nil then show ?case by simp
  next
    case (Cons wc ws)
    obtain w c where wc: "wc = (w, c)" by fastforce
    let ?r = "worker_reward A N c"
    show ?case
    proof (cases "1 \<le> ?r")
      case False
      with Cons wc show ?thesis by (auto simp: Let_def)
    next
      case True
      have new: "w \<notin> set (map_keys p)" using Cons.prems wc by auto
      then have "map_set w ?r p = p @ [(w, ?r)]" by (induction p) auto
      moreover have "amounts_ok (map_set w ?r p)" using True Cons.prems(3) by (simp add: amounts_ok_set)
      ultimately show ?thesis
        using True new Cons.prems wc
          Cons.IH [of "map_set w ?r p" "filter ((\<le>) 1) (map (\<lambda>(w, c). worker_reward A N c) ws)" "js_add T ?r"]
        by (auto simp: Let_def payout_total_def add.assoc)
    qed
  qed
  then show "payout_total p' = payout_total p + sum_list rs" "T' = foldl js_add T rs"
    "amounts_ok p'" "length p' = length p + length rs" by auto
qed

lemma worker_reward_le:
  assumes "0 \<le> A" "A \<le> 5 * 10 ^ 6" "c \<le> N" "0 < N"
  shows "worker_reward A N c \<le> A * (of_nat c / of_nat N) + 1 / 10 ^ 8"
proof -
  define q :: rat where "q = of_nat c / of_nat N"
  have q: "0 \<le> q" "q \<le> 1" using assms(3,4) by (simp_all add: q_def)
  have "\<bar>fl q - q\<bar> \<le> q / 2 ^ 53" using fl_error [of q] q by simp
  then have e1: "fl q \<le> q + 1 / 2 ^ 53" using q by (simp add: abs_if split: if_splits)
  have f: "0 \<le> fl q" "fl q \<le> 1" using q fl_nonneg fl_mono [of q 1] fl_of_int [of 1] by auto
  have "A * fl q \<le> A * q + A / 2 ^ 53" using mult_left_mono [OF e1 assms(1)] by (simp add: distrib_left)
  also have "A / 2 ^ 53 \<le> 1 / 10 ^ 9" using assms(2) by simp
  finally have e2: "A * fl q \<le> A * q + 1 / 10 ^ 9" by simp
  have g: "0 \<le> A * fl q" "A * fl q \<le> 5 * 10 ^ 6"
    using f assms(1,2) mult_mono [of A "5 * 10 ^ 6" "fl q" 1] by simp_all
  then have "to_fixed 8 (fl (A * fl q)) \<le> A * fl q + 9 / 10 ^ 9" using to_fixed_fl_error [of "A * fl q"] by (simp add: abs_if split: if_splits)
  with e2 show ?thesis
    by (simp add: worker_reward_def js_mul_def js_div_def flip: q_def)
qed

lemma rewards_sum_le:
  assumes "0 \<le> A" "A \<le> 5 * 10 ^ 6" "0 < N" "\<And>w c. (w, c) \<in> set ws \<Longrightarrow> c \<le> N"
    and rs: "rs = filter ((\<le>) 1) (map (\<lambda>(w, c). worker_reward A N c) ws)"
  shows "sum_list rs \<le> A * (of_nat (sum_list (map snd ws)) / of_nat N) + of_nat (length rs) / 10 ^ 8"
    and "of_nat (length rs) \<le> sum_list rs"
proof -
  show "sum_list rs \<le> A * (of_nat (sum_list (map snd ws)) / of_nat N) + of_nat (length rs) / 10 ^ 8"
    using assms(4) unfolding rs
  proof (induction ws)
    case Nil then show ?case by simp
  next
    case (Cons wc ws)
    obtain w c where wc: "wc = (w, c)" by fastforce
    have r: "worker_reward A N c \<le> A * (of_nat c / of_nat N) + 1 / 10 ^ 8"
      using Cons.prems [of w c] wc by (intro worker_reward_le assms(1-3)) simp
    have nn: "0 \<le> A * (of_nat c / of_nat N)" using assms(1) by simp
    have "sum_list (filter ((\<le>) 1) (map (\<lambda>(w, c). worker_reward A N c) ws))
        \<le> A * (of_nat (sum_list (map snd ws)) / of_nat N)
          + of_nat (length (filter ((\<le>) 1) (map (\<lambda>(w, c). worker_reward A N c) ws))) / 10 ^ 8"
      using Cons.prems by (intro Cons.IH) auto
    with r nn show ?case
      unfolding wc by (simp add: add_divide_distrib distrib_left)
  qed
  show "of_nat (length rs) \<le> sum_list rs"
  proof -
    have "\<forall>x\<in>set rs. 1 \<le> x" by (auto simp: rs)
    then show ?thesis by (induction rs) auto
  qed
qed

lemma float_sum_ge:
  assumes "\<forall>x\<in>set xs. 0 \<le> x" and "0 \<le> t" and "length xs \<le> 2 ^ 53"
  shows "(t + sum_list xs) * (1 - of_nat (length xs) / 2 ^ 53) \<le> foldl js_add t xs"
  using assms
proof (induction xs arbitrary: t)
  case Nil then show ?case by simp
next
  case (Cons x xs)
  define k :: rat where "k = of_nat (length xs) / 2 ^ 53"
  define S where "S = sum_list xs"
  define z where "z = t + x"
  have S: "0 \<le> S" using Cons.prems(1) by (auto simp: S_def intro: sum_list_nonneg)
  have z: "0 \<le> z" using Cons.prems by (simp add: z_def)
  have "of_nat (length xs) \<le> (of_nat (2 ^ 53) :: rat)" using Cons.prems(3) by (subst of_nat_le_iff) simp
  then have k: "0 \<le> k" "k \<le> 1" by (simp_all add: k_def)
  have f: "z * (1 - 1 / 2 ^ 53) \<le> fl z" "0 \<le> fl z"
    using fl_error [of z] z by (simp_all add: fl_nonneg abs_if right_diff_distrib split: if_splits)
  have "(z + S) * (1 - (k + 1 / 2 ^ 53)) \<le> (z * (1 - 1 / 2 ^ 53) + S) * (1 - k)"
  proof -
    have "(z * (1 - u) + S) * (1 - k) - (z + S) * (1 - (k + u)) = z * k * u + S * u" for u :: rat
      by (simp add: algebra_simps)
    note this [of "1 / 2 ^ 53"]
    moreover have "0 \<le> z * k * (1 / 2 ^ 53) + S * (1 / 2 ^ 53)" using z k S by simp
    ultimately show ?thesis by linarith
  qed
  also have "\<dots> \<le> (fl z + S) * (1 - k)" using f(1) k by (intro mult_right_mono) simp_all
  also have "\<dots> \<le> foldl js_add (fl z) xs"
    using Cons.IH [of "fl z"] Cons.prems f(2) by (simp add: k_def S_def)
  finally have "(z + S) * (1 - (k + 1 / 2 ^ 53)) \<le> foldl js_add (fl z) xs" .
  moreover have "of_nat (length (x # xs)) / 2 ^ 53 = k + 1 / 2 ^ 53" by (simp add: k_def add_divide_distrib)
  ultimately show ?case
    by (simp only: foldl_Cons js_add_def [of t x] sum_list.Cons z_def S_def add.assoc [symmetric])
qed


lemma amount_to_distribute:
  assumes b: "49000 \<le> b" "b \<le> 5 * 10 ^ 6" and fee: "0 \<le> fee" "fee \<le> 100"
    and S: "S = js_sub b (fl (1 / 10))" and A: "A = js_mul S (js_sub 1 (js_div fee 100))"
  shows "0 \<le> S" "S \<le> b - 999 / 10 ^ 4" "0 \<le> A" "A \<le> S"
proof -
  have t: "\<bar>fl (1 / 10) - 1 / 10\<bar> \<le> 2 / 10 ^ 9" by (rule fl_error_amount) simp
  then have "\<bar>b - fl (1 / 10)\<bar> \<le> 10 ^ 7" using b by (simp add: abs_if split: if_splits)
  then have "\<bar>fl (b - fl (1 / 10)) - (b - fl (1 / 10))\<bar> \<le> 2 / 10 ^ 9" by (intro fl_error_amount) simp
  with t b show S0: "0 \<le> S" and "S \<le> b - 999 / 10 ^ 4"
    unfolding S js_sub_def by (simp_all add: abs_if split: if_splits)
  have "0 \<le> fl (fee / 100)" "fl (fee / 100) \<le> 1"
    using fee fl_mono [of "fee / 100" 1] fl_of_int [of 1] by (simp_all add: fl_nonneg)
  then have "0 \<le> fl (1 - fl (fee / 100))" "fl (1 - fl (fee / 100)) \<le> 1"
    using fl_mono [of "1 - fl (fee / 100)" 1] fl_of_int [of 1] by (simp_all add: fl_nonneg)
  with S0 have "0 \<le> S * fl (1 - fl (fee / 100))" "S * fl (1 - fl (fee / 100)) \<le> S"
    by (simp_all add: mult_left_le)
  then show "0 \<le> A" "A \<le> S"
    unfolding A js_mul_def js_sub_def js_div_def
    using fl_le_self [of "S * fl (1 - fl (fee / 100))" "b - fl (1 / 10)"]
    by (simp_all add: fl_nonneg S js_sub_def)
qed

definition counts_ok :: "(string \<times> nat) list \<Rightarrow> nat \<Rightarrow> bool" where
  \<comment> \<open>one entry per wallet, the counts adding up to the number of shares\<close>
  "counts_ok ws n \<longleftrightarrow> distinct (map_keys ws) \<and> sum_list (map snd ws) = n"

lemma rewards_bounds:
  assumes A: "0 \<le> A" "A \<le> 5 * 10 ^ 6" and ws: "counts_ok ws N" "0 < N"
    and rs: "rs = filter ((\<le>) 1) (map (\<lambda>(w, c). worker_reward A N c) ws)"
  shows "sum_list rs \<le> A + 51 / 10 ^ 3" "length rs \<le> 5000000"
    "sum_list rs - 3 / 10 ^ 3 \<le> foldl js_add 0 rs"
proof -
  have le: "c \<le> N" if "(w, c) \<in> set ws" for w c
    using that ws(1) member_le_sum_list [of c "map snd ws"] by (force simp: counts_ok_def)
  note r = rewards_sum_le [OF A ws(2) le rs]
  define R where "R = sum_list rs"
  define n :: rat where "n = of_nat (length rs)"
  have "R \<le> A + n / 10 ^ 8" "n \<le> R"
    using r ws by (simp_all add: counts_ok_def R_def n_def)
  then have R: "R \<le> A + 51 / 10 ^ 3" "n \<le> 5000000 + 51 / 10 ^ 3" using A by simp_all
  then have "n < of_nat 5000001" by simp
  then have n: "length rs < 5000001" unfolding n_def of_nat_less_iff .
  show "sum_list rs \<le> A + 51 / 10 ^ 3" "length rs \<le> 5000000" using R n by (simp_all add: R_def)
  have pos: "\<forall>x\<in>set rs. 0 \<le> x" by (auto simp: rs)
  then have R0: "0 \<le> R" by (auto simp: R_def intro: sum_list_nonneg)
  have "R * n / 2 ^ 53 \<le> 5000001 * 5000001 / 2 ^ 53"
    using R A R0 \<open>n < of_nat 5000001\<close> by (intro divide_right_mono mult_mono) (simp_all add: n_def)
  also have "\<dots> \<le> 3 / 10 ^ 3" by simp
  finally have "R * n / 2 ^ 53 \<le> 3 / 10 ^ 3" .
  moreover have "(0 + R) * (1 - n / 2 ^ 53) \<le> foldl js_add 0 rs"
    unfolding R_def n_def using pos n by (intro float_sum_ge) simp_all
  moreover have "(0 + R) * (1 - n / 2 ^ 53) = R - R * n / 2 ^ 53" by (simp add: right_diff_distrib)
  ultimately show "sum_list rs - 3 / 10 ^ 3 \<le> foldl js_add 0 rs"
    unfolding R_def by linarith
qed

lemma compute_payouts_total:
  assumes b: "49000 \<le> b" "b \<le> 5 * 10 ^ 6" and fee: "0 \<le> fee" "fee \<le> 100"
    and ws: "counts_ok ws N" "0 < N"
  shows "amounts_ok (compute_payouts b fee f ws N)"
    and "payout_total (compute_payouts b fee f ws N) \<le> b - 48 / 10 ^ 3"
    and "length (compute_payouts b fee f ws N) \<le> 5000001"
proof -
  define S where "S = js_sub b (fl (1 / 10))"
  define A where "A = js_mul S (js_sub 1 (js_div fee 100))"
  define rs where "rs = filter ((\<le>) 1) (map (\<lambda>(w, c). worker_reward A N c) ws)"
  define T where "T = foldl js_add 0 rs"
  define z where "z = to_fixed 8 (js_sub S T)"
  note SA = amount_to_distribute [OF b fee S_def A_def]
  with b have "A \<le> 5 * 10 ^ 6" by simp
  note R = rewards_bounds [OF SA(3) this ws rs_def, folded T_def]
  obtain p where p: "assign_rewards A N ws [] 0 = (p, T)" "payout_total p = sum_list rs" "amounts_ok p" "length p = length rs"
  proof -
    obtain p T' where p: "assign_rewards A N ws [] 0 = (p, T')" by fastforce
    from assign_rewards_result [OF _ _ _ rs_def p] ws that p show thesis
      by (simp add: counts_ok_def amounts_ok_def payout_total_def T_def)
  qed
  have eq: "compute_payouts b fee f ws N =
      (if 0 < z \<and> f \<noteq> [] then map_set f (case map_get p f of Some x \<Rightarrow> to_fixed 8 (js_add x z) | None \<Rightarrow> z) p else p)"
    by (simp add: compute_payouts_def Let_def p(1) z_def flip: S_def A_def split: option.split)
  define y where "y = (case map_get p f of Some x \<Rightarrow> to_fixed 8 (js_add x z) | None \<Rightarrow> z)"
  have T0: "- 1 \<le> T"
  proof -
    have "0 \<le> sum_list rs" by (rule sum_list_nonneg) (auto simp: rs_def)
    with R(3) show ?thesis by simp
  qed
  have y: "0 \<le> y \<and> y \<le> amount_at p f + z + 9 / 10 ^ 9 \<and> z \<le> S - T + 9 / 10 ^ 9" if "0 < z"
  proof -
    have "0 < fl (S - T)" using that to_fixed_nonpos [of "js_sub S T" 8] by (force simp: z_def js_sub_def)
    then have "0 < S - T" using fl_mono [of "S - T" 0] by force
    then have z: "z \<le> S - T + 9 / 10 ^ 9" "z \<le> 5 * 10 ^ 6 + 2"
      using to_fixed_fl_error [of "S - T"] SA b T0 by (simp_all add: z_def js_sub_def abs_if split: if_splits)
    have a: "0 \<le> amount_at p f" "amount_at p f + z \<le> 9 * 10 ^ 6"
      using amount_at_bounds [OF p(3), of f] R(1,3) SA b z by (simp_all add: p(2))
    then have "to_fixed 8 (fl (amount_at p f + z)) \<le> amount_at p f + z + 9 / 10 ^ 9"
      using that to_fixed_fl_error [of "amount_at p f + z"] by (simp add: abs_if split: if_splits)
    with z a that show ?thesis
      by (auto simp: y_def amount_at_def js_add_def fl_nonneg to_fixed_nonneg split: option.splits)
  qed
  show "amounts_ok (compute_payouts b fee f ws N)"
    using y p(3) by (auto simp: eq amounts_ok_set simp flip: y_def)
  show "payout_total (compute_payouts b fee f ws N) \<le> b - 48 / 10 ^ 3"
    using y R SA by (auto simp: eq total_map_set p(2) simp flip: y_def)
  show "length (compute_payouts b fee f ws N) \<le> 5000001"
    using R(2) p(4) length_map_set [of f y p] by (simp add: eq flip: y_def)
qed


lemma reassign_all_total:
  assumes "amounts_ok m" and "payout_total m + of_nat (length as) * (9 / 10 ^ 9) \<le> 5 * 10 ^ 6"
  shows "amounts_ok (foldl (\<lambda>m a. reassign f a m) m as) \<and>
    payout_total (foldl (\<lambda>m a. reassign f a m) m as) \<le> payout_total m + of_nat (length as) * (9 / 10 ^ 9)"
  using assms
proof (induction as arbitrary: m)
  case Nil then show ?case by simp
next
  case (Cons a as)
  have "0 \<le> of_nat (length (a # as)) * (9 / 10 ^ 9 :: rat)" by simp
  with Cons.prems(2) have "payout_total m \<le> 5 * 10 ^ 6 + 1" by linarith
  note r = reassign_total [OF Cons.prems(1) this, of f a]
  have "payout_total (reassign f a m) + of_nat (length as) * (9 / 10 ^ 9) \<le> payout_total m + of_nat (length (a # as)) * (9 / 10 ^ 9)"
    using r(2) by (simp add: add_divide_distrib distrib_right)
  with Cons.IH [OF r(1)] Cons.prems(2) show ?case by auto
qed

lemma final_payouts_total:
  assumes "49000 \<le> b" "b \<le> 5 * 10 ^ 6" "0 \<le> fee" "fee \<le> 100" "counts_ok ws N" "0 < N"
    and p: "p = compute_payouts b fee f ws N" and "length as \<le> length p"
  shows "payout_total (foldl (\<lambda>m a. reassign f a m) p as) \<le> b"
proof -
  note c = compute_payouts_total [OF assms(1-6), of f, folded p]
  have "of_nat (length as) \<le> (of_nat 5000001 :: rat)" using c(3) assms(8) by (subst of_nat_le_iff) simp
  then have "of_nat (length as) * (9 / 10 ^ 9) \<le> (48 / 10 ^ 3 :: rat)" by simp
  with c(2) assms(2) reassign_all_total [OF c(1), of as f] show ?thesis by simp
qed

lemma add_count_ok: "counts_ok ws n \<Longrightarrow> counts_ok (add_count w ws) (Suc n)"
proof -
  have "sum_list (map snd (map_set w (Suc (case map_get ws w of None \<Rightarrow> 0 | Some n \<Rightarrow> n)) ws)) = Suc (sum_list (map snd ws))"
    by (induction ws) auto
  then show "counts_ok ws n \<Longrightarrow> counts_ok (add_count w ws) (Suc n)"
    by (simp add: counts_ok_def add_count_def)
qed

lemma count_shares_ok:
  assumes "fst (count_shares sv ss ws w) = Inr ws'" and "counts_ok ws n"
  shows "counts_ok ws' (n + length ss)"
  using assms
proof (induction ss arbitrary: ws n w)
  case Nil then show ?case by (simp add: io_return_def)
next
  case (Cons s ss)
  then show ?case
    by (auto simp: io_bind_def io_lift_def split: prod.splits sum.splits)
      (metis add_Suc add_count_ok fst_conv)
qed

lemma validate_payouts_result:
  assumes "fst (validate_payouts sv f as p w) = Inr p'"
  shows "\<exists>bad. p' = foldl (\<lambda>m a. reassign f a m) p bad \<and> length bad \<le> length as"
  using assms
proof (induction as arbitrary: p w)
  case Nil then show ?case by (auto simp: io_return_def intro: exI [of _ "[]"])
next
  case (Cons a as)
  show ?case
  proof (cases "a = f")
    case True
    with Cons.prems have "fst (validate_payouts sv f as p w) = Inr p'" by simp
    from Cons.IH [OF this] show ?thesis by (auto simp: le_Suc_eq)
  next
    case False
    with Cons.prems obtain keep w' where "fst (validate_payouts sv f as (if keep then p else reassign f a p) w') = Inr p'"
      by (auto simp: io_bind_def [of "io_catch _ _"] split: prod.splits sum.splits)
    from Cons.IH [OF this] obtain bad where
      bad: "p' = foldl (\<lambda>m a. reassign f a m) (if keep then p else reassign f a p) bad" "length bad \<le> length as"
      by blast
    show ?thesis
    proof (cases keep)
      case True
      with bad show ?thesis by (auto intro: le_SucI)
    next
      case False
      with bad have "p' = foldl (\<lambda>m a. reassign f a m) p (a # bad)" "length (a # bad) \<le> length (a # as)" by simp_all
      then show ?thesis by blast
    qed
  qed
qed

section \<open>Calls made since a point in time\<close>

definition io_step :: "('s \<Rightarrow> bool) \<Rightarrow> ('s, 'a) io \<Rightarrow> ('s \<Rightarrow> bool) \<Rightarrow> bool" where
  "io_step I m J \<longleftrightarrow> (\<forall>s. I s \<longrightarrow> J (snd (m s)))"

lemma step_return: "(\<And>s. I s \<Longrightarrow> J s) \<Longrightarrow> io_step I (io_return x) J"
  by (simp add: io_step_def io_return_def)

lemma step_before:
  "io_ok I m Q \<Longrightarrow> (\<And>s. I s \<Longrightarrow> J s) \<Longrightarrow> (\<And>x. Q x \<Longrightarrow> io_step I (f x) J) \<Longrightarrow> io_step I (io_bind m f) J"
  unfolding io_ok_def io_step_def io_bind_def by (auto split: prod.splits sum.splits)

lemma step_after: "io_step I m J \<Longrightarrow> (\<And>x. io_ok J (f x) R) \<Longrightarrow> io_step I (io_bind m f) J"
  unfolding io_ok_def io_step_def io_bind_def by (fastforce split: prod.splits sum.splits)

lemma step_catch: "io_step I m J \<Longrightarrow> (\<And>e. io_ok J (h e) R) \<Longrightarrow> io_step I (io_catch m h) J"
  unfolding io_ok_def io_step_def io_catch_def by (fastforce split: prod.splits sum.splits)

lemma step_if: "(b \<Longrightarrow> io_step I m J) \<Longrightarrow> (\<not> b \<Longrightarrow> io_step I n J) \<Longrightarrow> io_step I (if b then m else n) J"
  by simp

definition called ::
  "('x \<Rightarrow> (string \<times> jsv list) list) \<Rightarrow> string \<Rightarrow> (string \<times> jsv list) list \<Rightarrow> ('x world \<Rightarrow> bool) \<Rightarrow>
   (jsv list list \<Rightarrow> bool) \<Rightarrow> 'x world \<Rightarrow> bool" where
  \<comment> \<open>the arguments of the calls of \<open>meth\<close> since the log was \<open>L\<close> satisfy \<open>J\<close>\<close>
  "called rlog meth L K J w \<longleftrightarrow>
     K w \<and> (\<exists>new. rlog (w_ext w) = L @ new \<and> J (map snd (filter (\<lambda>c. fst c = meth) new)))"

lemma called_quiet:
  "io_keeps (same_log rlog) m \<Longrightarrow> io_ok K m Q \<Longrightarrow> io_ok (called rlog meth L K J) m anything"
  by (auto simp: io_ok_def called_def io_keeps_def same_log_def)

lemma called_step:
  assumes "rpc_observed sv rlog" and "io_ok K (rpcCall sv m ps o') Q"
    and "\<And>cs. J cs \<Longrightarrow> J' (if m = meth then cs @ [ps] else cs)"
  shows "io_step (called rlog meth L K J) (rpcCall sv m ps o') (called rlog meth L K J')"
  unfolding io_step_def
proof (intro allI impI)
  fix w assume w: "called rlog meth L K J w"
  then obtain new where new: "K w" "rlog (w_ext w) = L @ new" "J (map snd (filter (\<lambda>c. fst c = meth) new))"
    by (auto simp: called_def)
  have "K (snd (rpcCall sv m ps o' w))" using assms(2) new(1) by (simp add: io_ok_def)
  moreover have "rlog (w_ext (snd (rpcCall sv m ps o' w))) = L @ (new @ [(m, ps)])"
    by (simp add: rpcCall_log [OF assms(1)] new(2))
  moreover have "J' (map snd (filter (\<lambda>c. fst c = meth) (new @ [(m, ps)])))"
    using assms(3) [OF new(3)] by (simp split: if_splits)
  ultimately show "called rlog meth L K J' (snd (rpcCall sv m ps o' w))"
    unfolding called_def by blast
qed

lemma called_other:
  assumes "rpc_observed sv rlog" and "io_ok K (rpcCall sv m ps o') Q" and "m \<noteq> meth"
  shows "io_ok (called rlog meth L K J) (rpcCall sv m ps o') anything"
  using called_step [OF assms(1,2), of J J meth L] assms(3)
  by (auto simp: io_ok_def io_step_def)


interpretation fee: service_inv "\<lambda>w. w_poolFee w = q" for q
  by unfold_locales simp_all


definition fee_constant :: "'x services \<Rightarrow> bool" where
  \<comment> \<open>what runs at an await leaves the configured fee alone\<close>
  "fee_constant sv \<longleftrightarrow> others_keep (\<lambda>w w'. w_poolFee w' = w_poolFee w) sv"

lemma fee_others: "fee_constant sv \<Longrightarrow> others_keep (\<lambda>w w'. w_poolFee w = q \<longrightarrow> w_poolFee w' = q) sv"
  by (simp add: fee_constant_def others_keep_def)

definition pay_env :: "'x services \<Rightarrow> ('x \<Rightarrow> (string \<times> jsv list) list) \<Rightarrow> bool" where
  "pay_env sv rlog \<longleftrightarrow> rpc_observed sv rlog \<and> fee_constant sv"

abbreviation pay_inv ::
  "('x \<Rightarrow> (string \<times> jsv list) list) \<Rightarrow> (string \<times> jsv list) list \<Rightarrow> rat \<Rightarrow> (jsv list list \<Rightarrow> bool) \<Rightarrow> 'x world \<Rightarrow> bool" where
  "pay_inv rlog L q J \<equiv> called rlog ''sendmany'' L (\<lambda>w. w_poolFee w = q) J"

lemma run_redis: "pay_env sv rlog \<Longrightarrow> io_ok (pay_inv rlog L q J) (redis sv c) anything"
  unfolding pay_env_def by (elim conjE) (rule called_quiet [OF quiet_redis fee.ok_redis [OF fee_others]])

lemma run_now: "pay_env sv rlog \<Longrightarrow> io_ok (pay_inv rlog L q J) (date_now sv) anything"
  unfolding pay_env_def by (elim conjE) (rule called_quiet [OF quiet_now fee.ok_now])

lemma run_resolve: "pay_env sv rlog \<Longrightarrow> io_ok (pay_inv rlog L q J) (resolveTnsToAddress sv a) anything"
  unfolding pay_env_def by (elim conjE) (rule called_quiet [OF quiet_resolve fee.ok_resolve [OF fee_others]])

lemma run_rpc: "pay_env sv rlog \<Longrightarrow> m \<noteq> ''sendmany'' \<Longrightarrow> io_ok (pay_inv rlog L q J) (rpcCall sv m ps o') anything"
  unfolding pay_env_def by (elim conjE) (rule called_other [OF _ fee.ok_rpcCall [OF fee_others]])

lemmas run_rules = ok_rules run_redis run_now run_resolve run_rpc anythingI

lemma run_count: "pay_env sv rlog \<Longrightarrow> io_ok (pay_inv rlog L q J) (count_shares sv ss ws) anything"
  by (induction ss arbitrary: ws) (auto intro!: run_rules)

lemma run_validate: "pay_env sv rlog \<Longrightarrow> io_ok (pay_inv rlog L q J) (validate_payouts sv f as p) anything"
proof (induction as arbitrary: p)
  case Nil show ?case by (auto intro!: run_rules)
next
  case (Cons a as)
  show ?case unfolding validate_payouts.simps by (intro run_rules Cons.IH Cons.prems) simp
qed

lemma run_find: "pay_env sv rlog \<Longrightarrow> io_ok (pay_inv rlog L q J) (find_recent_send sv txs) anything"
  by (induction txs) (auto intro!: run_rules split: jsv.splits)

lemma run_solo_rewards: "pay_env sv rlog \<Longrightarrow> io_ok (pay_inv rlog L q J) (solo_rewards sv bs m) anything"
proof (induction bs arbitrary: m)
  case Nil show ?case by (auto intro!: run_rules)
next
  case (Cons b bs)
  show ?case unfolding solo_rewards.simps Let_def by (intro run_rules Cons.IH Cons.prems)
qed

lemma run_bonus_step: "pay_env sv rlog \<Longrightarrow> io_ok (pay_inv rlog L q J) (bonus_step sv f p s w) anything"
  unfolding bonus_step_def award_bonus_def Let_def by (intro run_rules) simp_all

lemma run_bonus: "pay_env sv rlog \<Longrightarrow> io_ok (pay_inv rlog L q J) (bonus_engine sv f p) anything"
  unfolding bonus_engine_def by (intro run_rules run_solo_rewards run_bonus_step) simp_all

definition no_send :: "jsv list list \<Rightarrow> bool" where
  "no_send cs \<longleftrightarrow> cs = []"

definition one_send_within :: "rat \<Rightarrow> jsv list list \<Rightarrow> bool" where
  \<comment> \<open>at most one call, paying out at most \<open>b\<close>\<close>
  "one_send_within b cs \<longleftrightarrow>
     cs = [] \<or> (\<exists>p. cs = [[JStr [], amounts_json p, JInt 101]] \<and> payout_total p \<le> b)"

lemma no_send_weaken: "called rlog m L K no_send w \<Longrightarrow> called rlog m L K (one_send_within b) w"
  by (auto simp: called_def no_send_def one_send_within_def)

lemma count_shares_good:
  "pay_env sv rlog \<Longrightarrow> io_ok (pay_inv rlog L q J) (count_shares sv ss []) (\<lambda>ws. counts_ok ws (length ss))"
  using run_count [of sv rlog L q J ss "[]"] count_shares_ok [of sv ss "[]"]
  by (fastforce simp: io_ok_def counts_ok_def)

lemma validate_good:
  "pay_env sv rlog \<Longrightarrow> io_ok (pay_inv rlog L q J) (validate_payouts sv f as p)
    (\<lambda>p'. \<exists>bad. p' = foldl (\<lambda>m a. reassign f a m) p bad \<and> length bad \<le> length as)"
  using run_validate [of sv rlog L q J f as p] validate_payouts_result [of sv f as p]
  by (auto simp: io_ok_def)

lemma send_step:
  assumes env: "pay_env sv rlog" and "payout_total p \<le> b"
  shows "io_step (pay_inv rlog L q no_send) (send_payouts sv p) (pay_inv rlog L q (one_send_within b))"
  unfolding send_payouts_def
proof (rule step_catch)
  show "io_step (pay_inv rlog L q no_send) (rpcCall sv ''sendmany'' [JStr [], amounts_json p, JInt 101] [])
    (pay_inv rlog L q (one_send_within b))"
    using env assms(2) unfolding pay_env_def
    by (intro called_step [OF _ fee.ok_rpcCall [OF fee_others]]) (auto simp: no_send_def one_send_within_def)
  show "io_ok (pay_inv rlog L q (one_send_within b))
     (io_catch
       (io_bind (rpcCall sv ''listtransactions'' [JStr ''*'', JInt 10, JInt 0, JBool True] []) (\<lambda>recent.
        io_bind (find_recent_send sv (js_array recent)) (\<lambda>found.
          case found of Some tx \<Rightarrow> io_return (js_prop_opt tx ''txid'')
          | None \<Rightarrow> io_seq (redis sv (RDel ''pool:payout:pending'')) (io_throw e))))
       (\<lambda>listErr. io_seq (redis sv (RDel ''pool:payout:pending'')) (io_throw e))) anything" for e
    by (intro run_rules run_find env) simp
qed

lemma pay_step:
  assumes env: "pay_env sv rlog" and "payout_total p \<le> b"
  shows "io_step (pay_inv rlog L q no_send) (pay_and_record sv p) (pay_inv rlog L q (one_send_within b))"
  unfolding pay_and_record_def io_seq_def
  by (intro step_before [OF run_now [OF env]] step_before [OF run_redis [OF env]] no_send_weaken
      step_after [OF send_step [OF assms]] run_rules env) assumption+

lemma distribute_step:
  assumes env: "pay_env sv rlog" and "49000 \<le> b" "b \<le> 5 * 10 ^ 6" "0 \<le> q" "q \<le> 100"
  shows "io_step (pay_inv rlog L q no_send) (distribute sv b) (pay_inv rlog L q (one_send_within b))"
proof -
  have fee: "io_ok (pay_inv rlog L q no_send) (io_get w_poolFee) (\<lambda>x. x = q)"
    by (rule ok_get) (simp add: called_def)
  have wallet: "io_ok (pay_inv rlog L q no_send) (io_get w_poolWallet) anything" by (rule ok_get) simp
  have tail: "io_step (pay_inv rlog L q no_send)
      (io_bind (validate_payouts sv f (map_keys p) p) (\<lambda>final. io_bind (pay_and_record sv final) (\<lambda>_. bonus_engine sv f final)))
      (pay_inv rlog L q (one_send_within b))"
    if "counts_ok ws N" "0 < N" "p = compute_payouts b q f ws N" for f p ws N
  proof (rule step_before [OF validate_good [OF env] no_send_weaken])
    fix p' assume "\<exists>bad. p' = foldl (\<lambda>m a. reassign f a m) p bad \<and> length bad \<le> length (map_keys p)"
    then have "payout_total p' \<le> b" using final_payouts_total [OF assms(2-5) that] by auto
    then show "io_step (pay_inv rlog L q no_send) (io_bind (pay_and_record sv p') (\<lambda>_. bonus_engine sv f p'))
      (pay_inv rlog L q (one_send_within b))"
      by (rule step_after [OF pay_step [OF env] run_bonus [OF env]])
  qed assumption
  show ?thesis
    unfolding distribute_def Let_def io_seq_def
    apply (rule step_before [OF run_redis [OF env] no_send_weaken], assumption)
    apply (rule step_if, rule step_return, erule no_send_weaken)
    apply (rule step_before [OF count_shares_good [OF env] no_send_weaken], assumption)
    apply (rule step_before [OF wallet no_send_weaken], assumption)
    apply (rule step_before [OF fee no_send_weaken], assumption)
    apply (rule step_if, rule step_return, erule no_send_weaken)
    apply (rule tail, assumption)
    apply simp_all
    done
qed

lemma process_step:
  assumes env: "pay_env sv rlog" and fee: "0 \<le> w_poolFee w" "w_poolFee w \<le> 100"
    and bal: "fst (rpcCall sv ''getbalance'' [JStr ''*'', JInt 101] [] w) = Inr (JNum b)" "b \<le> 5 * 10 ^ 6"
  shows "pay_inv rlog (rlog (w_ext w)) (w_poolFee w) (one_send_within b) (snd (processPayouts sv w))"
proof -
  define getbal where "getbal = rpcCall sv ''getbalance'' [JStr ''*'', JInt 101] []"
  let ?q = "w_poolFee w" and ?L = "rlog (w_ext w)"
  have start: "pay_inv rlog ?L ?q no_send w" by (simp add: called_def no_send_def)
  obtain w1 where w1: "getbal w = (Inr (JNum b), w1)"
    using bal(1) [folded getbal_def] by (cases "getbal w") auto
  have i1: "pay_inv rlog ?L ?q no_send w1"
  proof -
    have "io_ok (pay_inv rlog ?L ?q no_send) getbal anything"
      unfolding getbal_def by (rule run_rpc [OF env]) simp
    with start have "pay_inv rlog ?L ?q no_send (snd (getbal w))" unfolding io_ok_def by blast
    with w1 show ?thesis by simp
  qed
  have d: "pay_inv rlog ?L ?q (one_send_within b) (snd (distribute sv b w1))" if "49000 \<le> b"
    using distribute_step [OF env that bal(2) fee, of ?L] i1 by (simp add: io_step_def)
  have "io_catch (io_bind getbal (\<lambda>b. io_return (js_num_opt b)))
      (\<lambda>_. io_return None) w = (Inr (Some b), w1)"
    by (simp add: io_catch_def io_bind_def w1 io_return_run)
  then have "snd (processPayouts sv w) = (if w_redis w then if b < 49000 then w1 else snd (distribute sv b w1) else w)"
    unfolding processPayouts_def getbal_def [symmetric]
    by (simp add: io_bind_Inr [OF io_get_run] io_when_run io_bind_Inr io_catch_def io_return_run
        split: prod.split sum.split)
  with d i1 start show ?thesis by (auto simp: no_send_weaken)
qed

text \<open>
  C5. A payout run sends at most one \<open>sendmany\<close>, and the amounts in it add up to no more than the
  spendable balance the node reported at the start of the run: every rounding of the double
  arithmetic, the eight decimal places, the fee and the rewards taken over from invalid addresses
  stay within the 0.1 TAR reserve.  This holds for any number of shares and miners, whatever the
  node, Redis and the name service answer and wherever they fail, for balances up to five million
  and a fee between 0 and 100 percent.
\<close>
theorem payout_within_balance:
  assumes "rpc_observed sv rlog" and "fee_constant sv" and "0 \<le> w_poolFee w" and "w_poolFee w \<le> 100"
    and "fst (rpcCall sv ''getbalance'' [JStr ''*'', JInt 101] [] w) = Inr (JNum b)" and "b \<le> 5 * 10 ^ 6"
  shows "\<exists>new. rlog (w_ext (snd (processPayouts sv w))) = rlog (w_ext w) @ new \<and>
     one_send_within b (map snd (filter (\<lambda>c. fst c = ''sendmany'') new))"
  using process_step [of sv rlog w b] assms by (auto simp: pay_env_def called_def)


definition pay_services :: "mem services" where
  "pay_services = mem_services (\<lambda>m ps.
     if m = ''getbalance'' then JNum 50000 else JObj [(''isvalid'', JBool True)])"

definition pay_world :: "mem world" where
  "pay_world = mem_world\<lparr>w_ext := \<lparr>mm_log = [],
     mm_store = [(''pool:shares'', RList [RJson (JObj [(''worker'', JStr ''alice.rig1'')])])],
     mm_now = 1000\<rparr>\<rparr>"

theorem payout_within_balance_witness:
  "rpc_observed pay_services mm_log \<and> fee_constant pay_services \<and>
   (\<exists>new. mm_log (w_ext (snd (processPayouts pay_services pay_world))) = mm_log (w_ext pay_world) @ new \<and>
     one_send_within 50000 (map snd (filter (\<lambda>c. fst c = ''sendmany'') new)))"
proof -
  have o: "rpc_observed pay_services mm_log"
    by (simp add: rpc_observed_def pay_services_def mem_services_def split: prod.splits)
  have f: "fee_constant pay_services"
    by (simp add: fee_constant_def others_keep_def pay_services_def)
  have b: "fst (rpcCall pay_services ''getbalance'' [JStr ''*'', JInt 101] [] pay_world) = Inr (JNum 50000)"
    by (simp add: rpcCall_def io_bind_def await_def on_ext_run io_lift_def pay_services_def mem_services_def)
  show ?thesis
    using o f payout_within_balance [OF o f _ _ b] by (simp add: pay_world_def mem_world_def)
qed

section \<open>The bounty\<close>

definition bounty_due :: "(string \<Rightarrow> rval) \<Rightarrow> string \<Rightarrow> bool" where
  "bounty_due st worker \<longleftrightarrow>
     \<not> reply_truthy (st (bonusClaimedKey worker)) \<and>
     (case (if reply_truthy (st ''miner:bounty_count'') then reply_int (st ''miner:bounty_count'') else Some 0) of
        None \<Rightarrow> False | Some n \<Rightarrow> n < 4000)"

lemma award_bonus_result:
  assumes "redis_store sv rd" and "rpc_observed sv rlog" and res: "award_bonus sv a w = (r, w')"
  shows "rlog (w_ext w') = rlog (w_ext w) @
      (if bounty_due (rd (w_ext w)) a then [(''sendtoaddress'', [JStr a, JInt 1000])] else [])"
    and "r = Inr u \<Longrightarrow> \<not> bounty_due (rd (w_ext w')) a"
proof -
  obtain w1 where w1: "redis sv (RGet (bonusClaimedKey a)) w = (Inr (rd (w_ext w) (bonusClaimedKey a)), w1)"
    "rd (w_ext w1) = rd (w_ext w)" "rlog (w_ext w1) = rlog (w_ext w)" by (rule redis_getE [OF assms(1,2)])
  obtain w2 where w2: "redis sv (RGet ''miner:bounty_count'') w1 = (Inr (rd (w_ext w1) ''miner:bounty_count''), w2)"
    "rd (w_ext w2) = rd (w_ext w1)" "rlog (w_ext w2) = rlog (w_ext w1)" by (rule redis_getE [OF assms(1,2)])
  let ?due = "bounty_due (rd (w_ext w)) a"
  define send where "send = rpcCall sv ''sendtoaddress'' [JStr a, JInt 1000] ''faucet''"
  have run: "award_bonus sv a w =
      (if reply_truthy (rd (w_ext w) (bonusClaimedKey a)) then (Inr (), w1)
       else if ?due then
         io_bind send (\<lambda>_. io_seq (redis sv (RIncr ''miner:bounty_count''))
           (io_seq (redis sv (RSet (bonusClaimedKey a) (RText ''1''))) (io_return ()))) w2
       else (Inr (), w2))"
    unfolding award_bonus_def send_def [symmetric]
    by (simp add: io_bind_Inr [of "redis sv (RGet _)"] w1 w2 io_when_run bounty_due_def)
  have log: "rlog (w_ext (snd (send w2))) = rlog (w_ext w) @ [(''sendtoaddress'', [JStr a, JInt 1000])]"
    unfolding send_def by (simp only: rpcCall_log [OF assms(2)] w2 w1)
  have st: "rd (w_ext (snd (send w2))) = rd (w_ext w)"
    by (simp add: send_def rpcCall_store [OF assms(1)] w1 w2)
  have paid: "rlog (w_ext w') = rlog (w_ext w) @ [(''sendtoaddress'', [JStr a, JInt 1000])] \<and>
      (r = Inr u \<longrightarrow> \<not> bounty_due (rd (w_ext w')) a)" if due: ?due
  proof (cases "send w2")
    case (Pair r3 w3)
    show ?thesis
    proof (cases r3)
      case (Inl e)
      with res run due Pair log show ?thesis by (auto simp: bounty_due_def io_bind_def)
    next
      case (Inr t)
      obtain r4 w4 where w4: "redis sv (RIncr ''miner:bounty_count'') w3 = (Inr r4, w4)"
        "rlog (w_ext w4) = rlog (w_ext w3)" by (rule redis_incrE [OF assms(1,2)])
      obtain r5 w5 where w5: "redis sv (RSet (bonusClaimedKey a) (RText ''1'')) w4 = (Inr r5, w5)"
        "rd (w_ext w5) = (rd (w_ext w4))(bonusClaimedKey a := RText ''1'')"
        "rlog (w_ext w5) = rlog (w_ext w4)" by (rule redis_setE [OF assms(1,2)])
      have "w' = w5" using res run due Pair Inr
        by (auto simp: bounty_due_def io_seq_def io_bind_def w4 w5 io_return_def)
      moreover have "\<not> bounty_due (rd (w_ext w5)) a" by (simp add: bounty_due_def w5(2) reply_truthy_def)
      ultimately show ?thesis using log Pair w4(2) w5(3) by simp
    qed
  qed
  have unpaid: "rlog (w_ext w') = rlog (w_ext w) \<and> \<not> bounty_due (rd (w_ext w')) a" if "\<not> ?due"
  proof -
    have "w' = w1 \<or> w' = w2" using res run that by (auto split: if_splits)
    then show ?thesis using w1 w2 that by auto
  qed
  show "rlog (w_ext w') = rlog (w_ext w) @
      (if ?due then [(''sendtoaddress'', [JStr a, JInt 1000])] else [])"
    using paid unpaid by auto
  show "r = Inr u \<Longrightarrow> \<not> bounty_due (rd (w_ext w')) a" using paid unpaid by auto
qed



end
