(* ===== verification/Answers.thy ===== *)
theory Answers
  imports Pool_Api
begin

text \<open>
  HTTP handlers that always answer: \<open>answers S h\<close> says that no exception leaves the handler \<open>h\<close>,
  whatever the state and the services, and that its status is one of \<open>S\<close>.  The rules read both
  parts off the text of a handler.
\<close>

lemma ok_true: "io_ok (\<lambda>_. True) m anything"
  by (simp add: io_ok_def)

definition answers :: "nat set \<Rightarrow> ('s, response) io \<Rightarrow> bool" where
  "answers statuses m \<longleftrightarrow> (\<forall>w. \<exists>status body. fst (m w) = Inr (status, body) \<and> status \<in> statuses)"

definition status_in :: "nat set \<Rightarrow> response \<Rightarrow> bool" where
  "status_in S r \<longleftrightarrow> fst r \<in> S"

lemma answersI: "io_total m \<Longrightarrow> io_ok (\<lambda>_. True) m (status_in S) \<Longrightarrow> answers S m"
  unfolding answers_def io_total_def io_ok_def status_in_def
  by (metis prod.collapse)

lemma ok_respond: "status \<in> S \<Longrightarrow> io_ok I (respond status body) (status_in S)"
  by (simp add: respond_def ok_return status_in_def)

lemma total_respond: "io_total (respond status body)"
  by (simp add: respond_def total_return)

lemma ok_bind_true: "(\<And>x. io_ok (\<lambda>_. True) (f x) R) \<Longrightarrow> io_ok (\<lambda>_. True) (io_bind m f) R"
  by (rule ok_bind [OF ok_true])

lemma ok_seq_true: "io_ok (\<lambda>_. True) n R \<Longrightarrow> io_ok (\<lambda>_. True) (io_seq m n) R"
  by (simp add: io_seq_def ok_bind_true)

lemmas answer_rules = ok_catch ok_bind_true ok_seq_true ok_if ok_case_option ok_case_prod ok_respond ok_throw

end
