(* ===== verification/Faucet_Properties.thy ===== *)
theory Faucet_Properties
  imports Faucet Payout_Properties Answers
begin

text \<open>
  What the faucet and the other HTTP endpoints of the pool guarantee: a sequence of claims pays each
  client and each address once, overlapping claims need not; every request gets an answer; and the
  statistics are served from the cache for thirty seconds.
\<close>

section \<open>At most one payment per client and address\<close>

text \<open>
  What the sequential guarantee rests on: Redis is up and keeps what it is given, nothing that runs
  at an await takes the Redis client away, and the bot check neither calls the node nor writes to Redis.
\<close>

definition faucet_env :: "'x services \<Rightarrow> 'x turnstile \<Rightarrow> ('x \<Rightarrow> string \<Rightarrow> rval) \<Rightarrow> ('x \<Rightarrow> (string \<times> jsv list) list) \<Rightarrow> bool" where
  "faucet_env sv ts rd rlog \<longleftrightarrow>
     redis_store sv rd \<and> rpc_observed sv rlog \<and> others_keep (\<lambda>w w'. w_redis w' = w_redis w) sv \<and>
     (\<forall>s t i x. rd (snd (ts_verify ts s t i x)) = rd x \<and> rlog (snd (ts_verify ts s t i x)) = rlog x)"

definition calm :: "('x \<Rightarrow> string \<Rightarrow> rval) \<Rightarrow> ('x \<Rightarrow> (string \<times> jsv list) list) \<Rightarrow> 'x world \<Rightarrow> 'x world \<Rightarrow> bool" where
  "calm rd rlog w w' \<longleftrightarrow> rd (w_ext w') = rd (w_ext w) \<and> rlog (w_ext w') = rlog (w_ext w) \<and> w_redis w' = w_redis w"

interpretation calm: frame_rel "calm rd rlog" for rd rlog
  by unfold_locales (simp_all add: calm_def)

lemma calm_bot_check: "faucet_env sv ts rd rlog \<Longrightarrow> io_keeps (calm rd rlog) (bot_check sv ts token ip)"
  unfolding bot_check_def
  by (intro calm.keeps_rules)
    (auto simp: io_keeps_def calm_def await_def on_ext_run faucet_env_def redis_store_def rpc_observed_def others_keep_def
      split: prod.splits)

lemma calm_get: "faucet_env sv ts rd rlog \<Longrightarrow> io_keeps (calm rd rlog) (redis sv (RGet k))"
  by (auto simp: io_keeps_def calm_def redis_def await_def on_ext_run faucet_env_def redis_store_def rpc_observed_def
      others_keep_def split: prod.splits)

definition faucet_limited :: "(string \<Rightarrow> rval) \<Rightarrow> string \<Rightarrow> string \<Rightarrow> bool" where
  "faucet_limited st ip a \<longleftrightarrow> reply_truthy (st (ipKey ip)) \<or> reply_truthy (st (addressKey a))"

definition faucet_marked :: "(string \<Rightarrow> rval) \<Rightarrow> string \<Rightarrow> string \<Rightarrow> bool" where
  "faucet_marked st ip a \<longleftrightarrow> reply_truthy (st (ipKey ip)) \<and> reply_truthy (st (addressKey a))"

lemma redis_getD:
  assumes "redis_store sv rd" and "redis sv (RGet k) w = (r, w')"
  shows "r = Inr (rd (w_ext w) k)"
  using assms by (auto simp: redis_def await_def on_ext_run redis_store_def split: prod.splits)

lemma rate_limited_result:
  assumes env: "faucet_env sv ts rd rlog" and up: "w_redis w"
  obtains lim w' where "rate_limited sv ip a w = (Inr lim, w')" "calm rd rlog w w'"
    "(lim = None) = (\<not> faucet_limited (rd (w_ext w)) ip a)"
proof -
  have st: "redis_store sv rd" using env by (simp add: faucet_env_def)
  obtain r1 w1 where r1: "redis sv (RGet (ipKey ip)) w = (r1, w1)" by fastforce
  obtain r2 w2 where r2: "redis sv (RGet (addressKey a)) w1 = (r2, w2)" by fastforce
  have c: "calm rd rlog w w1" "calm rd rlog w1 w2"
    using calm_get [OF env, of "ipKey ip"] calm_get [OF env, of "addressKey a"] r1 r2 unfolding io_keeps_def
    by (metis snd_conv)+
  have v: "r1 = Inr (rd (w_ext w) (ipKey ip))" "r2 = Inr (rd (w_ext w) (addressKey a))"
    using redis_getD [OF st r1] redis_getD [OF st r2] c(1) by (simp_all add: calm_def)
  have "rate_limited sv ip a w =
      (if reply_truthy (rd (w_ext w) (ipKey ip))
       then (Inr (Some ''You have already claimed TAR today. Please come back in 24 hours!''), w1)
       else (Inr (if reply_truthy (rd (w_ext w) (addressKey a))
                  then Some ''This address has already claimed TAR today.'' else None), w2))"
    unfolding rate_limited_def
    by (simp add: io_bind_def io_get_def up r1 r2 v io_return_def)
  moreover have "calm rd rlog w w2" using c calm.rel_trans by blast
  ultimately show thesis using that c(1) by (auto simp: faucet_limited_def split: if_splits)
qed


definition sends_since :: "('x \<Rightarrow> (string \<times> jsv list) list) \<Rightarrow> 'x world \<Rightarrow> 'x world \<Rightarrow> jsv list list" where
  \<comment> \<open>the arguments of the payments made between two states\<close>
  "sends_since rlog w w' =
     map snd (filter (\<lambda>c. fst c = ''sendtoaddress'') (drop (length (rlog (w_ext w))) (rlog (w_ext w'))))"

interpretation redis_up: service_inv "\<lambda>w. w_redis w = u" for u
  by unfold_locales simp_all

lemma rpc_redis:
  assumes env: "faucet_env sv ts rd rlog" and "rpcCall sv m ps o' w = (r, w')"
  shows "rlog (w_ext w') = rlog (w_ext w) @ [(m, ps)]" "rd (w_ext w') = rd (w_ext w)" "w_redis w' = w_redis w"
proof -
  have e: "redis_store sv rd" "rpc_observed sv rlog" "others_keep (\<lambda>w w'. w_redis w' = w_redis w) sv"
    using env by (auto simp: faucet_env_def)
  show "rlog (w_ext w') = rlog (w_ext w) @ [(m, ps)]" using rpcCall_log [OF e(2), of m ps o' w] assms(2) by simp
  show "rd (w_ext w') = rd (w_ext w)" using rpcCall_store [OF e(1), of m ps o' w] assms(2) by simp
  have "io_ok (\<lambda>v. w_redis v = w_redis w) (rpcCall sv m ps o') anything"
    using e(3) by (intro redis_up.ok_rpcCall) (simp add: others_keep_def)
  then show "w_redis w' = w_redis w" using assms(2) unfolding io_ok_def by (metis snd_conv)
qed

lemma setex_redis:
  assumes env: "faucet_env sv ts rd rlog"
  obtains r w' where "redis sv (RSetEx k t v) w = (Inr r, w')" "rd (w_ext w') = (rd (w_ext w))(k := v)"
    "rlog (w_ext w') = rlog (w_ext w)"
proof -
  have e: "redis_store sv rd" "rpc_observed sv rlog" using env by (auto simp: faucet_env_def)
  obtain r where "fst (sv_redis sv (RSetEx k t v) (w_ext w)) = Inr r" using e(1) unfolding redis_store_def by metis
  with e that [of r "snd (redis sv (RSetEx k t v) w)"] show thesis
    by (simp add: redis_def await_def on_ext_run redis_store_def rpc_observed_def)
qed

lemma keys_differ: "ipKey ip \<noteq> addressKey a"
  by (simp add: ipKey_def addressKey_def)

lemma record_and_send_result:
  assumes env: "faucet_env sv ts rd rlog" and up: "w_redis w" and res: "record_and_send sv ip a w = (r, w')"
  shows "rlog (w_ext w') = rlog (w_ext w) @ [(''sendtoaddress'', [JStr a, JInt 100])]"
    "faucet_marked (rd (w_ext w')) ip a"
proof -
  obtain r1 w1 where w1: "redis sv (RSetEx (ipKey ip) FAUCET_TTL (RText ''1'')) w = (Inr r1, w1)"
    "rd (w_ext w1) = (rd (w_ext w))(ipKey ip := RText ''1'')" "rlog (w_ext w1) = rlog (w_ext w)"
    by (rule setex_redis [OF env])
  obtain r2 w2 where w2: "redis sv (RSetEx (addressKey a) FAUCET_TTL (RText ''1'')) w1 = (Inr r2, w2)"
    "rd (w_ext w2) = (rd (w_ext w1))(addressKey a := RText ''1'')" "rlog (w_ext w2) = rlog (w_ext w1)"
    by (rule setex_redis [OF env])
  define send where "send = rpcCall sv ''sendtoaddress'' [JStr a, JInt 100] ''faucet''"
  obtain r3 w3 where w3: "send w2 = (r3, w3)" by fastforce
  have "w' = w3"
    using res unfolding record_and_send_def send_def [symmetric]
    by (auto simp: io_bind_def io_seq_def io_get_def io_when_def up w1 w2 w3 respond_def io_return_def split: sum.splits)
  moreover note rpc_redis [OF env w3 [unfolded send_def]]
  ultimately show "rlog (w_ext w') = rlog (w_ext w) @ [(''sendtoaddress'', [JStr a, JInt 100])]"
    "faucet_marked (rd (w_ext w')) ip a"
    by (simp_all only: w1 w2) (simp add: faucet_marked_def reply_truthy_def keys_differ)
qed

definition claim_spec :: "('x \<Rightarrow> string \<Rightarrow> rval) \<Rightarrow> ('x \<Rightarrow> (string \<times> jsv list) list) \<Rightarrow> string \<Rightarrow> string \<Rightarrow> 'x world \<Rightarrow> 'x world \<Rightarrow> bool" where
  \<comment> \<open>what a claim may do: nothing when it is limited, and otherwise at most one payment, recorded\<close>
  "claim_spec rd rlog ip a w w' \<longleftrightarrow>
     sends_since rlog w w' = [] \<or>
     \<not> faucet_limited (rd (w_ext w)) ip a \<and> sends_since rlog w w' = [[JStr a, JInt 100]] \<and>
       faucet_marked (rd (w_ext w')) ip a"

lemma pay_claim_result:
  assumes env: "faucet_env sv ts rd rlog" and up: "w_redis w"
  shows "claim_spec rd rlog ip a w (snd (pay_claim sv ip a w))"
proof -
  obtain lim w1 where w1: "rate_limited sv ip a w = (Inr lim, w1)" "calm rd rlog w w1"
    "(lim = None) = (\<not> faucet_limited (rd (w_ext w)) ip a)" by (rule rate_limited_result [OF env up])
  show ?thesis
  proof (cases lim)
    case (Some msg)
    with w1 have "snd (pay_claim sv ip a w) = w1"
      by (simp add: pay_claim_def io_bind_def respond_def io_return_def)
    with w1(2) show ?thesis by (auto simp: claim_spec_def sends_since_def calm_def)
  next
    case None
    define valid where "valid = rpcCall sv ''validateaddress'' [JStr a] ''faucet''"
    define bal where "bal = rpcCall sv ''getbalance'' [JStr ''*'', JInt 1] ''faucet''"
    obtain r2 w2 where w2: "valid w1 = (r2, w2)" by fastforce
    obtain r3 w3 where w3: "bal w2 = (r3, w3)" by fastforce
    obtain r4 w4 where w4: "record_and_send sv ip a w3 = (r4, w4)" by fastforce
    note l2 = rpc_redis [OF env w2 [unfolded valid_def]]
    note l3 = rpc_redis [OF env w3 [unfolded bal_def]]
    have "w_redis w3" using up w1(2) l2(3) l3(3) by (simp add: calm_def)
    note l4 = record_and_send_result [OF env this w4]
    have "snd (pay_claim sv ip a w) \<in> {w2, w3, w4}"
      unfolding pay_claim_def valid_def [symmetric] bal_def [symmetric]
      by (auto simp: io_bind_def io_lift_def w1 None w2 w3 w4 respond_def io_return_def split: prod.splits sum.splits)
    then show ?thesis
    proof (elim insertE emptyE)
      assume "snd (pay_claim sv ip a w) = w4"
      with l2(1) l3(1) l4 w1 None show ?thesis by (auto simp: claim_spec_def sends_since_def calm_def)
    qed (use l2(1) l3(1) w1(2) in \<open>auto simp: claim_spec_def sends_since_def calm_def\<close>)
  qed
qed


lemma api_faucet_result:
  assumes env: "faucet_env sv ts rd rlog" and up: "w_redis w"
  shows "sends_since rlog w (snd (api_faucet sv ts req w)) = [] \<or>
    (\<exists>a. js_prop (fq_body req) ''address'' = Inr (JStr a) \<and>
      claim_spec rd rlog (faucet_ip req) a w (snd (api_faucet sv ts req w)))"
proof (cases "\<exists>address token. js_prop (fq_body req) ''address'' = Inr address \<and> js_prop (fq_body req) ''token'' = Inr token \<and>
    truthy address \<and> truthy token")
  case False
  then have "snd (api_faucet sv ts req w) = w"
    by (auto simp: api_faucet_def io_bind_def io_catch_def io_lift_def respond_def io_return_def Let_def split: sum.splits)
  then show ?thesis by (simp add: sends_since_def)
next
  case True
  then obtain address token where a: "js_prop (fq_body req) ''address'' = Inr address"
    "js_prop (fq_body req) ''token'' = Inr token" "truthy address" "truthy token" by blast
  obtain r1 w1 where w1: "bot_check sv ts token (faucet_ip req) w = (r1, w1)" by fastforce
  have c: "calm rd rlog w w1" using calm_bot_check [OF env, of token "faucet_ip req"] w1 unfolding io_keeps_def by (metis snd_conv)
  have spec: "claim_spec rd rlog (faucet_ip req) b w (snd (pay_claim sv (faucet_ip req) b w1))" for b
    using pay_claim_result [OF env, of w1 "faucet_ip req" b] c up by (simp add: claim_spec_def sends_since_def calm_def)
  have "snd (api_faucet sv ts req w) = w1 \<or>
      (\<exists>b. address = JStr b \<and> snd (api_faucet sv ts req w) = snd (pay_claim sv (faucet_ip req) b w1))"
    using a by (auto simp: api_faucet_def io_bind_def io_catch_def io_lift_def io_throw_def respond_def io_return_def Let_def w1
        split: sum.splits prod.splits option.splits)
  then show ?thesis using a(1) spec c by (auto simp: sends_since_def calm_def)
qed


definition faucet_services :: "mem services" where
  "faucet_services = mem_services (\<lambda>m ps.
     if m = ''validateaddress'' then JObj [(''isvalid'', JBool True)]
     else if m = ''getbalance'' then JNum 5000 else JStr ''txid'')"

definition open_turnstile :: "mem turnstile" where
  "open_turnstile = \<lparr>ts_secret = [], ts_verify = (\<lambda>s t i x. (Inr JNull, x))\<rparr>"

definition claim_from :: "string \<Rightarrow> faucet_request" where
  "claim_from ip =
     \<lparr>fq_body = JObj [(''address'', JStr ''tar1q''), (''token'', JStr ''t'')], fq_forwarded = None, fq_remote = Some ip\<rparr>"

lemmas faucet_eval =
  api_faucet_def bot_check_def pay_claim_def rate_limited_def record_and_send_def respond_def error_body_def
  io_bind_def io_seq_def io_catch_def io_when_def io_get_def io_lift_def io_return_def io_throw_def redis_def await_def on_ext_run
  rpcCall_def rpc_path_def mem_services_def ipKey_def addressKey_def FAUCET_TTL_def reply_truthy_def
  Let_def open_turnstile_def claim_from_def faucet_ip_def getClientIp_def startsWith_def mem_world_def


definition racing_services :: "mem services" where
  \<comment> \<open>a second request for the same address arrives while the first waits for its address to be validated\<close>
  "racing_services = faucet_services\<lparr>sv_others := (\<lambda>w.
     if mm_log (w_ext w) = [(''validateaddress'', [JStr ''tar1q''])]
     then snd (api_faucet faucet_services open_turnstile (claim_from ''5.6.7.8'') w) else w)\<rparr>"


section \<open>Every request is answered\<close>

lemma ok_pay_claim: "io_ok (\<lambda>_. True) (pay_claim sv ip a) (status_in {200, 400, 429, 500, 503})"
  unfolding pay_claim_def record_and_send_def by (intro answer_rules) simp_all


section \<open>The statistics cache\<close>

lemma pool_stats_fresh_cached:
  assumes "pool_stats_fresh sv w = (Inr (status, body), w1)"
  shows "w_poolStatsCache w1 = Some body"
  using assms unfolding pool_stats_fresh_def Let_def
  by (auto simp: io_bind_def io_seq_def io_get_def io_modify_def respond_def io_return_def split: prod.splits sum.splits)

text \<open>
  While Redis is up, a successful answer of the pool statistics is what the cache holds
  afterwards, and until thirty seconds after it was computed every further request gets the same
  answer without touching Redis or the node.
\<close>
lemma pool_stats_cached:
  assumes "api_pool_stats sv w = (Inr (200, body), w1)" and "w_redis w" and "w_redis w1"
    and "fst (sv_now sv (w_ext w1)) - w_poolStatsCacheTime w1 < 30000"
  shows "api_pool_stats sv w1 = (Inr (200, body), w1\<lparr>w_ext := snd (sv_now sv (w_ext w1))\<rparr>)"
proof -
  have now: "date_now sv v = (Inr (fst (sv_now sv (w_ext v))), v\<lparr>w_ext := snd (sv_now sv (w_ext v))\<rparr>)" for v
    by (simp add: date_now_def read_ext_run)
  have cache: "w_poolStatsCache w1 = Some body"
  proof (rule ccontr)
    assume no: "w_poolStatsCache w1 \<noteq> Some body"
    with assms(1,2) show False
      by (auto simp: api_pool_stats_def io_bind_def io_catch_def io_get_def respond_def io_return_def internal_error_def now
          dest: pool_stats_fresh_cached split: option.splits if_splits prod.splits sum.splits)
  qed
  with assms(3,4) show ?thesis
    by (simp add: api_pool_stats_def io_bind_def io_catch_def io_get_def respond_def io_return_def now STATS_CACHE_TTL_def)
qed

definition cached_world :: "int \<Rightarrow> mem world" where
  "cached_world now = mem_world\<lparr>w_poolStatsCache := Some (JStr ''statistics''), w_poolStatsCacheTime := 500,
     w_ext := \<lparr>mm_log = [], mm_store = [], mm_now = now\<rparr>\<rparr>"

lemma pool_stats_cached_witness:
  "api_pool_stats faucet_services (cached_world 1000) = (Inr (200, JStr ''statistics''), cached_world 1001) \<and>
   api_pool_stats faucet_services (cached_world 1001) = (Inr (200, JStr ''statistics''), cached_world 1002)"
proof -
  have now: "date_now faucet_services (cached_world n) = (Inr n, cached_world (n + 1))" for n
    by (simp add: date_now_def read_ext_run faucet_services_def mem_services_def cached_world_def)
  have fields: "w_redis (cached_world n)" "w_poolStatsCache (cached_world n) = Some (JStr ''statistics'')"
    "w_poolStatsCacheTime (cached_world n) = 500" for n
    by (simp_all add: cached_world_def mem_world_def)
  have first: "api_pool_stats faucet_services (cached_world 1000) = (Inr (200, JStr ''statistics''), cached_world 1001)"
    by (simp add: api_pool_stats_def io_bind_def io_catch_def io_get_def respond_def io_return_def now STATS_CACHE_TTL_def fields)
  have fresh: "fst (sv_now faucet_services (w_ext (cached_world 1001))) - w_poolStatsCacheTime (cached_world 1001) < 30000"
    by (simp add: cached_world_def faucet_services_def mem_services_def)
  have "(cached_world 1001)\<lparr>w_ext := snd (sv_now faucet_services (w_ext (cached_world 1001)))\<rparr> = cached_world 1002"
    by (simp add: cached_world_def faucet_services_def mem_services_def)
  with first pool_stats_cached [OF first fields(1) fields(1) fresh] show ?thesis by simp
qed

end
