(* ===== verification/Explorer.thy ===== *)
theory Explorer
  imports Pool_Api
begin

text \<open>
  The block explorer (\<open>explorer/src\<close>): its cache (\<open>CacheManager\<close>), its connection to the node
  (\<open>RpcClient\<close>), the subscriptions (\<open>WebSocketManager\<close>), the polling loop (\<open>server.ts\<close>) and the
  block, transaction, mempool, supply and search controllers.  Redis, the node, the name service
  and the clock are parameters (\<open>ex_services\<close>); whatever other requests do while a handler waits
  is \<open>es_others\<close>.  A response is its status and its JSON body.
\<close>

section \<open>State and services\<close>

record 'x explorer =
  ew_client :: bool                              \<comment> \<open>the cache has a Redis client\<close>
  ew_nodeDown :: bool
  ew_lastNodeDownLog :: int
  ew_warned :: "int list"                        \<comment> \<open>when the outage was logged, oldest first\<close>
  ew_activeScans :: "string list"
  ew_lastKnownHeight :: rat
  ew_sockets :: "nat list"
  ew_rooms :: "(string \<times> nat) list"
  ew_blockSubscribers :: "nat list"
  ew_txSubscribers :: "nat list"
  ew_emitted :: "(nat \<times> string \<times> jsv) list"    \<comment> \<open>socket, event, payload\<close>
  ew_ext :: 'x

type_synonym failure = "string option \<times> string"   \<comment> \<open>\<open>error.code\<close> and \<open>error.message\<close>\<close>

record 'x ex_services =
  es_post :: "string \<Rightarrow> jsv list \<Rightarrow> 'x \<Rightarrow> (failure + jsv) \<times> 'x"
  es_get :: "string \<Rightarrow> 'x \<Rightarrow> (exn + jsv option) \<times> 'x"
  es_set :: "string \<Rightarrow> jsv \<Rightarrow> int \<Rightarrow> 'x \<Rightarrow> (exn + unit) \<times> 'x"
  es_del :: "string \<Rightarrow> 'x \<Rightarrow> (exn + unit) \<times> 'x"
  es_flush :: "'x \<Rightarrow> (exn + unit) \<times> 'x"
  es_tns :: "string \<Rightarrow> 'x \<Rightarrow> (exn + jsv) \<times> 'x"
  es_joined :: "string \<Rightarrow> 'x \<Rightarrow> (exn + jsv) \<times> 'x"  \<comment> \<open>how a scan another request started ends\<close>
  es_now :: "'x \<Rightarrow> int \<times> 'x"
  es_others :: "'x explorer \<Rightarrow> 'x explorer"

definition ex_ask :: "'x ex_services \<Rightarrow> ('x \<Rightarrow> 'a \<times> 'x) \<Rightarrow> ('x explorer, 'a) io" where
  \<comment> \<open>await an outside service\<close>
  "ex_ask sv f = (\<lambda>w. case f (ew_ext w) of (a, x) \<Rightarrow> (Inr a, es_others sv (w\<lparr>ew_ext := x\<rparr>)))"

definition ex_now :: "'x ex_services \<Rightarrow> ('x explorer, int) io" where
  "ex_now sv = (\<lambda>w. case es_now sv (ew_ext w) of (a, x) \<Rightarrow> (Inr a, w\<lparr>ew_ext := x\<rparr>))"

definition ex_call :: "'x ex_services \<Rightarrow> ('x \<Rightarrow> (exn + 'a) \<times> 'x) \<Rightarrow> ('x explorer, 'a) io" where
  \<comment> \<open>await an outside service that may reject\<close>
  "ex_call sv f = io_bind (ex_ask sv f) io_lift"

section \<open>JSON output\<close>

fun to_json :: "jsv \<Rightarrow> jsv" where
  \<comment> \<open>the value that \<open>JSON.stringify\<close> writes: undefined properties are dropped, NaN is null\<close>
  "to_json JUndef = JNull"
| "to_json JNaN = JNull"
| "to_json (JArr xs) = JArr (map to_json xs)"
| "to_json (JObj m) = JObj (map (\<lambda>(k, v). (k, to_json v)) (filter (\<lambda>(k, v). v \<noteq> JUndef) m))"
| "to_json v = v"

definition res_json :: "jsv \<Rightarrow> ('s, response) io" where
  "res_json body = respond 200 (to_json body)"

section \<open>\<open>CacheManager\<close>\<close>

definition cache_get :: "'x ex_services \<Rightarrow> string \<Rightarrow> ('x explorer, jsv) io" where
  "cache_get sv key =
     io_bind (io_get ew_client) (\<lambda>client.
       if \<not> client then io_return JNull
       else
         io_catch
           (io_bind (ex_call sv (es_get sv key)) (\<lambda>data.
              io_return (case data of None \<Rightarrow> JNull | Some v \<Rightarrow> v)))
           (\<lambda>_. io_return JNull))"

definition cache_set :: "'x ex_services \<Rightarrow> string \<Rightarrow> jsv \<Rightarrow> int \<Rightarrow> ('x explorer, unit) io" where
  "cache_set sv key val ttl =
     io_bind (io_get ew_client) (\<lambda>client.
       if \<not> client \<or> val = JUndef then io_return ()
       else io_catch (ex_call sv (es_set sv key (to_json val) ttl)) (\<lambda>_. io_return ()))"

definition cache_del :: "'x ex_services \<Rightarrow> string \<Rightarrow> ('x explorer, unit) io" where
  "cache_del sv key =
     io_bind (io_get ew_client) (\<lambda>client.
       if \<not> client then io_return ()
       else io_catch (ex_call sv (es_del sv key)) (\<lambda>_. io_return ()))"

definition cache_flush :: "'x ex_services \<Rightarrow> ('x explorer, unit) io" where
  "cache_flush sv =
     io_bind (io_get ew_client) (\<lambda>client.
       if \<not> client then io_return ()
       else io_catch (ex_call sv (es_flush sv)) (\<lambda>_. io_return ()))"

definition blockKey :: "string \<Rightarrow> string" where "blockKey hash = ''block:'' @ hash"
definition blockHeightKey :: "jsv \<Rightarrow> string" where "blockHeightKey height = ''block:height:'' @ js_tostring height"
definition recentBlocksKey :: string where "recentBlocksKey = ''blocks:recent''"
definition txKey :: "string \<Rightarrow> string" where "txKey txid = ''tx:'' @ txid"
definition addrKey :: "string \<Rightarrow> string" where "addrKey address = ''addr:'' @ address"
definition addressTxsKey :: "string \<Rightarrow> string" where "addressTxsKey address = ''addr:'' @ address @ '':txs''"
definition addressUtxoKey :: "string \<Rightarrow> string" where "addressUtxoKey address = ''addr:'' @ address @ '':utxo''"
definition mempoolKey :: string where "mempoolKey = ''mempool:all''"
definition mempoolStatsKey :: string where "mempoolStatsKey = ''mempool:stats''"
definition supplyKey :: string where "supplyKey = ''supply''"
definition networkStatsKey :: string where "networkStatsKey = ''network:stats''"
definition richListKey :: string where "richListKey = ''richlist''"

definition cached_or :: "'x ex_services \<Rightarrow> string \<Rightarrow> ('x explorer, response) io \<Rightarrow> ('x explorer, response) io" where
  \<comment> \<open>\<open>const cached = await this.cache.get(key); if (cached) return res.json(cached);\<close>\<close>
  "cached_or sv key m =
     io_bind (cache_get sv key) (\<lambda>cached. if truthy cached then res_json cached else m)"

definition store_and_answer :: "'x ex_services \<Rightarrow> string \<Rightarrow> int \<Rightarrow> jsv \<Rightarrow> ('x explorer, response) io" where
  \<comment> \<open>\<open>await this.cache.set(key, v, ttl); res.json(v);\<close>\<close>
  "store_and_answer sv key ttl v = io_seq (cache_set sv key v ttl) (res_json v)"

section \<open>\<open>RpcClient\<close>\<close>

definition rpc_outcome :: "jsv \<Rightarrow> failure + jsv" where
  \<comment> \<open>what the body of the \<open>try\<close> does with \<open>response.data\<close>\<close>
  "rpc_outcome data =
     (case js_prop data ''error'' of
        Inl e \<Rightarrow> Inl (None, e)
      | Inr err \<Rightarrow>
          if truthy err then Inl (None, error_message (js_prop_opt err ''message''))
          else (case js_prop data ''result'' of Inl e \<Rightarrow> Inl (None, e) | Inr v \<Rightarrow> Inr v))"

definition isConnectionError :: "failure \<Rightarrow> bool" where
  "isConnectionError e \<longleftrightarrow>
     fst e \<in> {Some ''ECONNREFUSED'', Some ''ECONNRESET'', Some ''ETIMEDOUT'', Some ''ENOTFOUND''} \<or>
     js_includes (snd e) ''ECONNREFUSED''"

definition rpc_failed :: "'x ex_services \<Rightarrow> failure \<Rightarrow> ('x explorer, jsv) io" where
  "rpc_failed sv e =
     (if isConnectionError e then
        io_bind (ex_now sv) (\<lambda>now.
        io_seq (io_modify (\<lambda>w.
            if \<not> ew_nodeDown w \<or> 60000 < now - ew_lastNodeDownLog w
            then w\<lparr>ew_nodeDown := True, ew_lastNodeDownLog := now, ew_warned := ew_warned w @ [now]\<rparr>
            else w))
          (io_throw ''Node unreachable''))
      else io_throw (''RPC error: '' @ snd e))"

definition call :: "'x ex_services \<Rightarrow> string \<Rightarrow> jsv list \<Rightarrow> ('x explorer, jsv) io" where
  "call sv rpcMethod params =
     io_bind (ex_ask sv (es_post sv rpcMethod params)) (\<lambda>response.
       case response of
         Inl e \<Rightarrow> rpc_failed sv e
       | Inr data \<Rightarrow>
           io_seq (io_modify (\<lambda>w. if ew_nodeDown w then w\<lparr>ew_nodeDown := False\<rparr> else w))
             (case rpc_outcome data of Inl e \<Rightarrow> rpc_failed sv e | Inr v \<Rightarrow> io_return v))"

definition GENESIS_HASH :: string where
  "GENESIS_HASH = ''0000e37ee7aa8a88d1254ee3fe7c497c8fdaff36b29747eb64d8da68fbd9939e''"

definition genesis_block :: "string \<Rightarrow> jsv" where
  "genesis_block hash =
     JObj [(''hash'', JStr hash), (''height'', JNum 0), (''time'', JNum 1782181262), (''confirmations'', JNum 999),
       (''tx'', JArr []), (''size'', JNum 233), (''weight'', JNum 932), (''difficulty'', JNum (fl (1526 / 10 ^ 8))),
       (''bits'', JStr ''1f00ffff''), (''nonce'', JNum 65067), (''previousblockhash'', JNull),
       (''merkleroot'', JStr ''eaf980618b3cde94360d83c4937c3bcebcba7cc1db9f3276eb8b180da3a2e921'')]"

definition getBlockCount :: "'x ex_services \<Rightarrow> ('x explorer, jsv) io" where
  "getBlockCount sv = call sv ''getblockcount'' []"

definition getBlockHash :: "'x ex_services \<Rightarrow> jsv \<Rightarrow> ('x explorer, jsv) io" where
  "getBlockHash sv height = call sv ''getblockhash'' [height]"

definition getBlock :: "'x ex_services \<Rightarrow> jsv \<Rightarrow> rat \<Rightarrow> ('x explorer, jsv) io" where
  "getBlock sv hash verbosity =
     (if hash = JStr GENESIS_HASH then io_return (genesis_block GENESIS_HASH)
      else call sv ''getblock'' [hash, JNum verbosity])"

definition getBlockHeader :: "'x ex_services \<Rightarrow> string \<Rightarrow> ('x explorer, jsv) io" where
  "getBlockHeader sv hash = call sv ''getblockheader'' [JStr hash]"

definition getRawTransaction :: "'x ex_services \<Rightarrow> jsv \<Rightarrow> bool \<Rightarrow> ('x explorer, jsv) io" where
  "getRawTransaction sv txid verbose = call sv ''getrawtransaction'' [txid, JNum (if verbose then 1 else 0)]"

definition getTxOut :: "'x ex_services \<Rightarrow> string \<Rightarrow> int \<Rightarrow> bool \<Rightarrow> ('x explorer, jsv) io" where
  "getTxOut sv txid n includemempool = call sv ''gettxout'' [JStr txid, JInt n, JBool includemempool]"

definition validateAddress :: "'x ex_services \<Rightarrow> jsv \<Rightarrow> ('x explorer, jsv) io" where
  "validateAddress sv address = call sv ''validateaddress'' [address]"

definition getAddressInfo :: "'x ex_services \<Rightarrow> string \<Rightarrow> ('x explorer, jsv) io" where
  "getAddressInfo sv address = call sv ''getaddressinfo'' [JStr address]"

definition getRawMempool :: "'x ex_services \<Rightarrow> bool \<Rightarrow> ('x explorer, jsv) io" where
  "getRawMempool sv verbose = call sv ''getrawmempool'' [JBool verbose]"

definition getMempoolInfo :: "'x ex_services \<Rightarrow> ('x explorer, jsv) io" where
  "getMempoolInfo sv = call sv ''getmempoolinfo'' []"

definition getNetworkInfo :: "'x ex_services \<Rightarrow> ('x explorer, jsv) io" where
  "getNetworkInfo sv = call sv ''getnetworkinfo'' []"

definition getBlockchainInfo :: "'x ex_services \<Rightarrow> ('x explorer, jsv) io" where
  "getBlockchainInfo sv = call sv ''getblockchaininfo'' []"

definition getDifficulty :: "'x ex_services \<Rightarrow> ('x explorer, jsv) io" where
  "getDifficulty sv = call sv ''getdifficulty'' []"

definition getNetworkHashrate :: "'x ex_services \<Rightarrow> ('x explorer, jsv) io" where
  "getNetworkHashrate sv = call sv ''getnetworkhashps'' []"

definition getTxOutSetInfo :: "'x ex_services \<Rightarrow> ('x explorer, jsv) io" where
  "getTxOutSetInfo sv = call sv ''gettxoutsetinfo'' []"

section \<open>\<open>WebSocketManager\<close>\<close>

definition ws_connect :: "nat \<Rightarrow> 'x explorer \<Rightarrow> 'x explorer" where
  "ws_connect s w = w\<lparr>ew_sockets := set_add s (ew_sockets w)\<rparr>"

definition ws_subscribe_blocks :: "nat \<Rightarrow> 'x explorer \<Rightarrow> 'x explorer" where
  "ws_subscribe_blocks s w =
     w\<lparr>ew_blockSubscribers := set_add s (ew_blockSubscribers w), ew_rooms := set_add (''blocks'', s) (ew_rooms w)\<rparr>"

definition ws_subscribe_transactions :: "nat \<Rightarrow> 'x explorer \<Rightarrow> 'x explorer" where
  "ws_subscribe_transactions s w =
     w\<lparr>ew_txSubscribers := set_add s (ew_txSubscribers w), ew_rooms := set_add (''transactions'', s) (ew_rooms w)\<rparr>"

definition ws_subscribe_mempool :: "nat \<Rightarrow> 'x explorer \<Rightarrow> 'x explorer" where
  "ws_subscribe_mempool s w = w\<lparr>ew_rooms := set_add (''mempool'', s) (ew_rooms w)\<rparr>"

definition ws_disconnect :: "nat \<Rightarrow> 'x explorer \<Rightarrow> 'x explorer" where
  \<comment> \<open>the library takes the socket out of its rooms, the handler out of the two sets\<close>
  "ws_disconnect s w =
     w\<lparr>ew_sockets := removeAll s (ew_sockets w),
       ew_rooms := filter (\<lambda>(r, t). t \<noteq> s) (ew_rooms w),
       ew_blockSubscribers := removeAll s (ew_blockSubscribers w),
       ew_txSubscribers := removeAll s (ew_txSubscribers w)\<rparr>"

definition emit_room :: "string \<Rightarrow> string \<Rightarrow> jsv \<Rightarrow> 'x explorer \<Rightarrow> 'x explorer" where
  "emit_room room event payload w =
     w\<lparr>ew_emitted := ew_emitted w @ map (\<lambda>(r, s). (s, event, payload)) (filter (\<lambda>(r, s). r = room) (ew_rooms w))\<rparr>"

definition broadcastBlock :: "jsv \<Rightarrow> 'x explorer \<Rightarrow> 'x explorer" where
  "broadcastBlock block = emit_room ''blocks'' ''new-block'' block"

definition broadcastTransaction :: "jsv \<Rightarrow> 'x explorer \<Rightarrow> 'x explorer" where
  "broadcastTransaction tx = emit_room ''transactions'' ''new-transaction'' tx"

definition broadcastMempoolUpdate :: "string \<Rightarrow> string \<Rightarrow> 'x explorer \<Rightarrow> 'x explorer" where
  "broadcastMempoolUpdate txid action =
     emit_room ''mempool'' ''mempool-update'' (JObj [(''txid'', JStr txid), (''action'', JStr action)])"

definition broadcastNetworkStats :: "jsv \<Rightarrow> 'x explorer \<Rightarrow> 'x explorer" where
  "broadcastNetworkStats stats w =
     w\<lparr>ew_emitted := ew_emitted w @ map (\<lambda>s. (s, ''network-stats'', stats)) (ew_sockets w)\<rparr>"

section \<open>The polling loop\<close>

definition poll_block :: "'x ex_services \<Rightarrow> ('x explorer, unit) io" where
  \<comment> \<open>one tick of \<open>startBlockPolling\<close>\<close>
  "poll_block sv =
     io_catch
       (io_bind (getBlockCount sv) (\<lambda>height.
        io_bind (io_get ew_lastKnownHeight) (\<lambda>known.
          case js_num_opt height of
            None \<Rightarrow> io_return ()
          | Some h \<Rightarrow>
              if known < h then
                io_seq (io_modify (\<lambda>w. w\<lparr>ew_lastKnownHeight := h\<rparr>))
               (io_bind (getBlockHash sv height) (\<lambda>hash.
                io_bind (getBlock sv hash 1) (\<lambda>block.
                io_seq (cache_del sv recentBlocksKey)
               (io_seq (io_modify (broadcastBlock block))
               (io_bind (getMempoolInfo sv) (\<lambda>mempool.
                io_bind (io_lift (js_prop mempool ''size'')) (\<lambda>size.
                  io_modify (broadcastNetworkStats
                    (JObj [(''blockHeight'', height), (''mempoolSize'', size)])))))))))
              else io_return ())))
       (\<lambda>_. io_return ())"

definition ex_health :: "'x ex_services \<Rightarrow> ('x explorer, response) io" where
  "ex_health sv =
     io_bind (io_catch (io_bind (getBlockCount sv) (\<lambda>_. io_return ''connected'')) (\<lambda>_. io_return ''disconnected'')) (\<lambda>node.
     io_bind (ex_now sv) (\<lambda>now.
       res_json (JObj [(''status'', JStr ''ok''), (''service'', JStr ''tarcoin-explorer''), (''node'', JStr node),
         (''timestamp'', JInt now)])))"

definition ex_genesis :: "('x explorer, response) io" where
  "ex_genesis =
     res_json (JObj [(''hash'', JStr GENESIS_HASH),
       (''merkleRoot'', JStr ''eaf980618b3cde94360d83c4937c3bcebcba7cc1db9f3276eb8b180da3a2e921''),
       (''timestamp'', JNum 1782181262), (''nBits'', JStr ''1f00ffff''), (''nonce'', JNum 65067), (''height'', JNum 0),
       (''reward'', JNum 50000), (''version'', JNum 1), (''size'', JNum 233), (''weight'', JNum 932)])"

section \<open>\<open>BlockController\<close>\<close>

definition query_int :: "string option \<Rightarrow> int \<Rightarrow> int" where
  \<comment> \<open>\<open>parseInt(q) || d\<close>\<close>
  "query_int q d = (case q of None \<Rightarrow> d | Some s \<Rightarrow> (case js_parseInt 10 s of None \<Rightarrow> d | Some n \<Rightarrow> if n = 0 then d else n))"

definition getByHash :: "'x ex_services \<Rightarrow> string \<Rightarrow> ('x explorer, response) io" where
  "getByHash sv hash =
     io_catch
       (cached_or sv (blockKey hash)
         (io_bind (getBlock sv (JStr hash) 2) (store_and_answer sv (blockKey hash) 30)))
       (\<lambda>_. respond 404 (error_body ''Block not found''))"

definition parsed_height :: "string \<Rightarrow> jsv" where
  "parsed_height s = (case js_parseInt 10 s of None \<Rightarrow> JNaN | Some n \<Rightarrow> JNum (fl (of_int n)))"

definition getByHeight :: "'x ex_services \<Rightarrow> string \<Rightarrow> ('x explorer, response) io" where
  "getByHeight sv param =
     (let height = parsed_height param in
      io_catch
        (cached_or sv (blockHeightKey height)
          (io_bind (getBlockHash sv height) (\<lambda>hash.
           io_bind (getBlock sv hash 2) (store_and_answer sv (blockHeightKey height) 30))))
        (\<lambda>_. respond 404 (error_body ''Block not found'')))"

fun recent_blocks :: "'x ex_services \<Rightarrow> rat \<Rightarrow> nat \<Rightarrow> nat \<Rightarrow> ('x explorer, jsv list) io" where
  \<comment> \<open>the iterations \<open>i, i + 1, ...\<close>, the last argument many\<close>
  "recent_blocks sv currentHeight i 0 = io_return []"
| "recent_blocks sv currentHeight i (Suc n) =
     io_bind (getBlockHash sv (JNum (js_sub currentHeight (of_nat i)))) (\<lambda>hash.
     io_bind (getBlock sv hash 1) (\<lambda>block.
     io_bind (recent_blocks sv currentHeight (Suc i) n) (\<lambda>rest.
       io_return (if truthy block then block # rest else rest))))"

definition getRecent :: "'x ex_services \<Rightarrow> string option \<Rightarrow> ('x explorer, response) io" where
  "getRecent sv q =
     (let count = query_int q 10 in
      io_catch
        (cached_or sv recentBlocksKey
          (io_bind (getBlockCount sv) (\<lambda>currentHeight.
           io_bind (recent_blocks sv (case js_num_opt currentHeight of None \<Rightarrow> 0 | Some h \<Rightarrow> h) 0 (nat (min count 100))) (\<lambda>blocks.
             store_and_answer sv recentBlocksKey 15 (JArr blocks)))))
        (\<lambda>_. respond 500 (error_body ''Failed to fetch blocks'')))"

section \<open>\<open>TransactionController\<close>\<close>

definition is_hex_char :: "char \<Rightarrow> bool" where
  "is_hex_char c \<longleftrightarrow> is_digit_of 16 c"

definition is_txid :: "string \<Rightarrow> bool" where
  \<comment> \<open>\<open>/^[a-fA-F0-9]{64}$/\<close>\<close>
  "is_txid s \<longleftrightarrow> length s = 64 \<and> list_all is_hex_char s"

definition num_or0 :: "jsv \<Rightarrow> rat" where
  "num_or0 v = (case js_num_opt v of None \<Rightarrow> 0 | Some x \<Rightarrow> x)"

fun sum_field :: "string \<Rightarrow> rat \<Rightarrow> jsv list \<Rightarrow> exn + rat" where
  \<comment> \<open>\<open>xs.reduce((s, o) => s + (o.field || 0), acc)\<close>\<close>
  "sum_field k acc [] = Inr acc"
| "sum_field k acc (v # vs) = res_bind (js_prop v k) (\<lambda>x. sum_field k (js_add acc (num_or0 x)) vs)"

definition enrich_tx :: "jsv \<Rightarrow> exn + jsv" where
  "enrich_tx tx =
     res_bind (js_prop tx ''vout'') (\<lambda>vout.
     res_bind (sum_field ''value'' 0 (js_array vout)) (\<lambda>totalOut.
       Inr (JObj (map_set ''confirmations'' (js_or (js_prop_opt tx ''confirmations'') (JNum 0))
                   (map_set ''totalOut'' (JNum totalOut) (js_entries tx))))))"

definition getByTxid :: "'x ex_services \<Rightarrow> string \<Rightarrow> ('x explorer, response) io" where
  "getByTxid sv txid =
     io_catch
       (if \<not> is_txid txid then respond 400 (error_body ''Invalid txid format'')
        else
          cached_or sv (txKey txid)
            (io_bind (getRawTransaction sv (JStr txid) True) (\<lambda>tx.
             io_bind (io_lift (enrich_tx tx)) (\<lambda>enriched.
               store_and_answer sv (txKey txid)
                 (if 0 < num_or0 (js_prop_opt enriched ''confirmations'') then 300 else 10) enriched))))
       (\<lambda>_. respond 404 (error_body ''Transaction not found''))"

definition ex_broadcast :: "'x ex_services \<Rightarrow> jsv \<Rightarrow> ('x explorer, response) io" where
  "ex_broadcast sv body =
     io_catch
       (io_bind (io_lift (js_prop body ''rawtx'')) (\<lambda>rawtx.
          case js_string_opt rawtx of
            None \<Rightarrow> respond 400 (error_body ''Missing rawtx string'')
          | Some s \<Rightarrow>
              if s = [] then respond 400 (error_body ''Missing rawtx string'')
              else
                io_bind (call sv ''sendrawtransaction'' [rawtx]) (\<lambda>txid.
                  res_json (JObj [(''success'', JBool True), (''txid'', txid)]))))
       (\<lambda>e. respond 500 (JObj [(''error'', JStr ''Broadcast failed''), (''details'', JStr e)]))"

end
