(* ===== verification/Explorer_Controllers.thy ===== *)
theory Explorer_Controllers
  imports Explorer
begin

text \<open>
  The address, mempool, supply and search controllers of the explorer (\<open>explorer/src/controllers\<close>).
  Requests that \<open>Promise.all\<close> runs side by side are made one after the other, in the order in which
  they are issued.
\<close>

section \<open>\<open>MempoolController\<close>\<close>

definition js_slice :: "'a list \<Rightarrow> int \<Rightarrow> int \<Rightarrow> 'a list" where
  \<comment> \<open>\<open>xs.slice(a, b)\<close>; a negative index counts from the end\<close>
  "js_slice xs a b =
     (let n = int (length xs);
          i = nat (if a < 0 then max 0 (n + a) else min a n);
          j = nat (if b < 0 then max 0 (n + b) else min b n)
      in drop i (take j xs))"

definition js_and_prop :: "jsv \<Rightarrow> string \<Rightarrow> string \<Rightarrow> jsv" where
  \<comment> \<open>\<open>v.k?.l\<close>\<close>
  "js_and_prop v k l = js_prop_opt (js_prop_opt v k) l"

definition mempool_fee_rate :: "jsv \<Rightarrow> rat" where
  "mempool_fee_rate info =
     (let base = js_and_prop info ''fees'' ''base''
      in if truthy base then
           js_mul (js_div (num_or0 base)
             (num_or0 (js_or (js_prop_opt info ''vsize'') (js_or (js_prop_opt info ''size'') (JNum 1))))) 1000
         else 0)"

definition mempool_entry :: "string \<times> jsv \<Rightarrow> exn + jsv" where
  "mempool_entry e =
     (let (txid, info) = e in
      res_bind (js_prop info ''size'') (\<lambda>size.
        Inr (JObj [(''txid'', JStr txid),
          (''size'', js_or size (js_or (js_prop_opt info ''vsize'') (JNum 0))),
          (''fee'', js_or (js_and_prop info ''fees'' ''base'') (js_or (js_prop_opt info ''fee'') (JNum 0))),
          (''feeRate'', JNum (mempool_fee_rate info)),
          (''time'', js_prop_opt info ''time''),
          (''depends'', js_or (js_prop_opt info ''depends'') (JArr []))])))"

definition res_map :: "('a \<Rightarrow> exn + 'b) \<Rightarrow> 'a list \<Rightarrow> exn + 'b list" where
  "res_map f xs = foldr (\<lambda>x acc. res_bind (f x) (\<lambda>y. res_bind acc (\<lambda>ys. Inr (y # ys)))) xs (Inr [])"

definition mempool_page :: "int \<Rightarrow> jsv \<Rightarrow> exn + jsv" where
  "mempool_page limit rawMempool =
     (if rawMempool = JNull \<or> rawMempool = JUndef then Inl type_error
      else
        res_bind (res_map mempool_entry (js_entries rawMempool)) (\<lambda>entries.
          let txs = js_slice (sort_key (\<lambda>t. - num_or0 (js_prop_opt t ''feeRate'')) entries) 0 limit
          in Inr (JObj [(''count'', JInt (int (length txs))), (''transactions'', JArr txs)])))"

definition mempool_getAll :: "'x ex_services \<Rightarrow> string option \<Rightarrow> ('x explorer, response) io" where
  "mempool_getAll sv q =
     (let limit = min (query_int q 50) 500 in
      io_catch
        (cached_or sv mempoolKey
          (io_bind (getRawMempool sv True) (\<lambda>rawMempool.
           io_bind (io_lift (mempool_page limit rawMempool)) (store_and_answer sv mempoolKey 10))))
        (\<lambda>_. respond 500 (error_body ''Failed to fetch mempool'')))"

definition mempool_stats :: "jsv \<Rightarrow> exn + jsv" where
  "mempool_stats info =
     res_bind (js_prop info ''size'') (\<lambda>size.
       Inr (JObj [(''size'', size), (''bytes'', js_prop_opt info ''bytes''), (''usage'', js_prop_opt info ''usage''),
         (''maxMempool'', js_prop_opt info ''maxmempool''), (''mempoolMinFee'', js_prop_opt info ''mempoolminfee''),
         (''minRelayTxFee'', js_prop_opt info ''minrelaytxfee''),
         (''unbroadcastCount'', js_or (js_prop_opt info ''unbroadcastcount'') (JNum 0))]))"

definition mempool_getStats :: "'x ex_services \<Rightarrow> ('x explorer, response) io" where
  "mempool_getStats sv =
     io_catch
       (cached_or sv mempoolStatsKey
         (io_bind (getMempoolInfo sv) (\<lambda>info.
          io_bind (io_lift (mempool_stats info)) (store_and_answer sv mempoolStatsKey 10))))
       (\<lambda>_. respond 500 (error_body ''Failed to fetch mempool stats''))"

section \<open>\<open>SupplyController\<close>\<close>

definition floor_amount :: "jsv \<Rightarrow> jsv" where
  \<comment> \<open>\<open>txoutset && txoutset.total_amount != null ? Math.floor(txoutset.total_amount) : null\<close>\<close>
  "floor_amount txoutset =
     (let t = js_prop_opt txoutset ''total_amount''
      in if \<not> truthy txoutset \<or> t = JNull \<or> t = JUndef then JNull
         else (case js_num_opt t of None \<Rightarrow> JNaN | Some x \<Rightarrow> JInt (math_floor x)))"

definition circulating_or_null :: "'x ex_services \<Rightarrow> ('x explorer, jsv) io" where
  "circulating_or_null sv =
     io_catch (io_bind (getTxOutSetInfo sv) (\<lambda>t. io_return (floor_amount t))) (\<lambda>_. io_return JNull)"

definition getSupply :: "'x ex_services \<Rightarrow> ('x explorer, response) io" where
  "getSupply sv =
     io_catch
       (cached_or sv supplyKey
         (io_bind (getBlockchainInfo sv) (\<lambda>info.
          io_bind (circulating_or_null sv) (\<lambda>circulating.
          io_bind (io_lift (js_prop info ''blocks'')) (\<lambda>blocks.
          io_bind (ex_now sv) (\<lambda>now.
            store_and_answer sv supplyKey 60
              (JObj [(''totalSupply'', JNum 50000000000), (''ecosystemTreasuryAllocation'', JNum 10000000000),
                (''publicMiningSupply'', JNum 40000000000), (''circulating'', circulating),
                (''blockHeight'', blocks), (''lastUpdated'', JInt now)])))))))
       (\<lambda>_. respond 500 (error_body ''Failed to fetch supply''))"

definition getCirculating :: "'x ex_services \<Rightarrow> ('x explorer, response) io" where
  "getCirculating sv =
     io_catch
       (io_bind (getTxOutSetInfo sv) (\<lambda>txoutset.
          res_json (JObj [(''circulating'', floor_amount txoutset), (''units'', JStr ''TAR'')])))
       (\<lambda>_. respond 500 (error_body ''Failed to fetch circulating supply''))"

definition settle :: "('s, 'a) io \<Rightarrow> ('s, exn + 'a) io" where
  \<comment> \<open>how a request of \<open>Promise.all\<close> ended\<close>
  "settle m = io_catch (io_bind m (\<lambda>x. io_return (Inr x))) (\<lambda>e. io_return (Inl e))"

definition getNetworkStats :: "'x ex_services \<Rightarrow> ('x explorer, response) io" where
  "getNetworkStats sv =
     io_catch
       (cached_or sv networkStatsKey
         (io_bind (settle (getBlockchainInfo sv)) (\<lambda>r1.
          io_bind (settle (getDifficulty sv)) (\<lambda>r2.
          io_bind (io_catch (getNetworkHashrate sv) (\<lambda>_. io_return (JNum 0))) (\<lambda>hashrate.
          io_bind (settle (getMempoolInfo sv)) (\<lambda>r4.
          io_bind (settle (getNetworkInfo sv)) (\<lambda>r5.
          io_bind (io_lift r1) (\<lambda>info.
          io_bind (io_lift r2) (\<lambda>difficulty.
          io_bind (io_lift r4) (\<lambda>mempool.
          io_bind (io_lift r5) (\<lambda>network.
          io_bind (circulating_or_null sv) (\<lambda>circulating.
          io_bind (io_lift (js_prop info ''blocks'')) (\<lambda>blocks.
          io_bind (io_lift (js_prop mempool ''size'')) (\<lambda>size.
          io_bind (io_lift (js_prop network ''connections'')) (\<lambda>connections.
          io_bind (ex_now sv) (\<lambda>now.
            store_and_answer sv networkStatsKey 30
              (JObj [(''blockHeight'', blocks), (''difficulty'', difficulty), (''hashrate'', hashrate),
                (''totalSupply'', JNum 50000000000), (''circulating'', circulating),
                (''mempool'', JObj [(''size'', size), (''bytes'', js_prop_opt mempool ''bytes''),
                                  (''usage'', js_prop_opt mempool ''usage'')]),
                (''connections'', connections), (''version'', js_prop_opt network ''version''),
                (''lastUpdated'', JInt now)])))))))))))))))))
       (\<lambda>_. respond 500 (error_body ''Failed to fetch network stats''))"

definition getRichList :: "'x ex_services \<Rightarrow> ('x explorer, response) io" where
  "getRichList sv =
     io_catch
       (cached_or sv richListKey (store_and_answer sv richListKey 300 (JArr [])))
       (\<lambda>_. respond 500 (error_body ''Failed to fetch rich list''))"

section \<open>\<open>SearchController\<close>\<close>

definition all_digits :: "string \<Rightarrow> bool" where
  \<comment> \<open>\<open>/^\d+$/\<close>\<close>
  "all_digits s \<longleftrightarrow> s \<noteq> [] \<and> list_all (is_digit_of 10) s"

definition tns_found :: "jsv \<Rightarrow> jsv option" where
  \<comment> \<open>\<open>data && data.success && data.targetAddress\<close>\<close>
  "tns_found data =
     (let t = js_prop_opt data ''targetAddress''
      in if truthy data \<and> truthy (js_prop_opt data ''success'') \<and> truthy t then Some t else None)"

definition quoted :: "string \<Rightarrow> string" where
  "quoted s = [CHR 0x27] @ s @ [CHR 0x27]"

definition search_domain :: "'x ex_services \<Rightarrow> string \<Rightarrow> ('x explorer, response) io" where
  "search_domain sv query =
     (let domain = js_trim (toLowerCase query) in
      io_catch
        (io_bind (ex_call sv (es_tns sv domain)) (\<lambda>data.
           case tns_found data of
             Some resolvedAddr \<Rightarrow>
               res_json (JObj [(''type'', JStr ''address''),
                 (''data'', JObj [(''address'', resolvedAddr), (''domain'', JStr domain), (''isValid'', JBool True)]),
                 (''redirect'', JStr (''/address/'' @ js_tostring resolvedAddr))])
           | None \<Rightarrow> respond 404 (error_body (''TNS domain '' @ quoted domain @ '' not found or unassigned''))))
        (\<lambda>_. respond 404 (error_body (''TNS domain '' @ quoted domain @ '' could not be resolved''))))"

definition search_height :: "'x ex_services \<Rightarrow> string \<Rightarrow> ('x explorer, response) io" where
  "search_height sv query =
     (let height = parsed_height query in
      io_catch
        (io_bind (getBlockHash sv height) (\<lambda>hash.
           res_json (JObj [(''type'', JStr ''block''), (''data'', JObj [(''height'', height), (''hash'', hash)]),
             (''redirect'', JStr (''/block/'' @ js_tostring hash))])))
        (\<lambda>_. respond 404 (error_body (''No block at height '' @ js_tostring height))))"

definition search_hash :: "'x ex_services \<Rightarrow> string \<Rightarrow> ('x explorer, response) io" where
  "search_hash sv query =
     io_catch
       (io_bind (getBlock sv (JStr query) 1) (\<lambda>block.
          res_json (JObj [(''type'', JStr ''block''), (''data'', block), (''redirect'', JStr (''/block/'' @ query))])))
       (\<lambda>_. io_catch
         (io_bind (getRawTransaction sv (JStr query) True) (\<lambda>tx.
            res_json (JObj [(''type'', JStr ''transaction''), (''data'', tx), (''redirect'', JStr (''/tx/'' @ query))])))
         (\<lambda>_. respond 404 (error_body ''Hash not found as block or transaction'')))"

definition search_address :: "'x ex_services \<Rightarrow> string \<Rightarrow> ('x explorer, response) io" where
  "search_address sv query =
     io_catch
       (io_bind (validateAddress sv (JStr query)) (\<lambda>info.
        io_bind (io_lift (js_prop info ''isvalid'')) (\<lambda>isvalid.
          res_json (JObj [(''type'', JStr ''address''),
            (''data'', JObj [(''address'', JStr query), (''isValid'', isvalid)]),
            (''redirect'', JStr (''/address/'' @ query))]))))
       (\<lambda>_. respond 404 (error_body ''Invalid address''))"

definition search :: "'x ex_services \<Rightarrow> string option \<Rightarrow> ('x explorer, response) io" where
  "search sv q =
     (let query = js_trim (case q of None \<Rightarrow> [] | Some s \<Rightarrow> s) in
      io_catch
        (if query = [] then
           (if endsWith (toLowerCase query) ''.tar'' then search_domain sv query
            else respond 400 (error_body ''Query parameter q is required''))
         else if all_digits query then search_height sv query
         else if is_txid query then search_hash sv query
         else if startsWith query ''tar1'' \<or> startsWith query ''T'' \<and> 26 \<le> length query then search_address sv query
         else respond 400 (error_body ''Unrecognized query format. Enter a block height, block hash, txid, or address.''))
        (\<lambda>_. respond 500 (error_body ''Search failed'')))"

section \<open>\<open>AddressController\<close>\<close>

definition scanKey :: "string \<Rightarrow> string" where
  "scanKey address = ''scan_raw_deduped_'' @ address"

definition utxo_key :: "jsv \<Rightarrow> string" where
  "utxo_key u = js_tostring (js_prop_opt u ''txid'') @ '':'' @ js_tostring (js_prop_opt u ''vout'')"

fun dedup_utxos :: "string list \<Rightarrow> jsv list \<Rightarrow> jsv list" where
  \<comment> \<open>the \<open>filter\<close> with the set of keys seen so far\<close>
  "dedup_utxos seen [] = []"
| "dedup_utxos seen (u # us) =
     (if utxo_key u \<in> set seen then dedup_utxos seen us
      else u # dedup_utxos (utxo_key u # seen) us)"

definition scan_descriptors :: "'x ex_services \<Rightarrow> string \<Rightarrow> ('x explorer, jsv list) io" where
  "scan_descriptors sv address =
     io_catch
       (io_bind (call sv ''getaddressinfo'' [JStr address]) (\<lambda>addrInfo.
          let script = js_prop_opt addrInfo ''scriptPubKey'' in
          io_return ([JStr (''addr('' @ address @ '')'')] @
            (if truthy script then [JStr (''raw('' @ js_tostring script @ '')'')] else []))))
       (\<lambda>_. io_return [JStr (''addr('' @ address @ '')'')])"

definition end_scan :: "string \<Rightarrow> 'x explorer \<Rightarrow> 'x explorer" where
  "end_scan address w = w\<lparr>ew_activeScans := removeAll address (ew_activeScans w)\<rparr>"

definition run_scan :: "'x ex_services \<Rightarrow> string \<Rightarrow> ('x explorer, jsv) io" where
  \<comment> \<open>the body of the promise, without its \<open>finally\<close>\<close>
  "run_scan sv address =
     io_bind (scan_descriptors sv address) (\<lambda>descriptors.
     io_bind (call sv ''scantxoutset'' [JStr ''start'', JArr descriptors]) (\<lambda>scanResult.
       if truthy scanResult \<and> truthy (js_prop_opt scanResult ''success'') then
         let us = js_array (js_prop_opt scanResult ''unspents'') in
         if list_all destructurable us then
           let result = JObj (map_set ''unspents'' (JArr (dedup_utxos [] us)) (js_entries scanResult)) in
           io_seq (cache_set sv (scanKey address) result 60) (io_return result)
         else io_throw type_error
       else io_throw ''scantxoutset returned false''))"

definition io_finally :: "('s, 'a) io \<Rightarrow> ('s \<Rightarrow> 's) \<Rightarrow> ('s, 'a) io" where
  "io_finally m f = (\<lambda>s. case m s of (r, s') \<Rightarrow> (r, f s'))"

definition getScanResult :: "'x ex_services \<Rightarrow> string \<Rightarrow> ('x explorer, jsv) io" where
  "getScanResult sv address =
     io_bind (cache_get sv (scanKey address)) (\<lambda>cached.
       if truthy cached then io_return cached
       else
         io_bind (io_get (\<lambda>w. address \<in> set (ew_activeScans w))) (\<lambda>running.
           if running then ex_call sv (es_joined sv address)
           else
             io_seq (io_modify (\<lambda>w. w\<lparr>ew_activeScans := set_add address (ew_activeScans w)\<rparr>))
               (io_finally (run_scan sv address) (end_scan address))))"

definition num_add :: "rat option \<Rightarrow> rat option \<Rightarrow> rat option" where
  \<comment> \<open>addition of Numbers; None is NaN\<close>
  "num_add a b = (case a of None \<Rightarrow> None | Some x \<Rightarrow> (case b of None \<Rightarrow> None | Some y \<Rightarrow> Some (js_add x y)))"

definition num_json :: "rat option \<Rightarrow> jsv" where
  "num_json a = (case a of None \<Rightarrow> JNaN | Some x \<Rightarrow> JNum x)"

record totals =
  tt_balance :: "rat option"
  tt_received :: "rat option"
  tt_count :: nat

definition add_wallet_tx :: "totals \<Rightarrow> jsv \<Rightarrow> totals" where
  "add_wallet_tx t tx =
     (let amount = js_num_opt (js_prop_opt tx ''amount'');
          fee = js_prop_opt tx ''fee'';
          b = num_add (tt_balance t) amount
      in t\<lparr>tt_received := (case amount of Some x \<Rightarrow> if 0 < x then num_add (tt_received t) amount else tt_received t
                                      | None \<Rightarrow> tt_received t),
           tt_balance := (if truthy fee \<and> (case amount of Some x \<Rightarrow> x < 0 | None \<Rightarrow> False)
                          then num_add b (js_num_opt fee) else b)\<rparr>)"

definition scan_totals :: "jsv \<Rightarrow> exn + totals" where
  "scan_totals scanResult =
     res_bind (js_prop scanResult ''unspents'') (\<lambda>u.
     res_bind (sum_field ''amount'' 0 (js_array u)) (\<lambda>balance.
       Inr \<lparr>tt_balance = Some balance, tt_received = Some balance, tt_count = length (js_array u)\<rparr>))"

definition wallet_totals :: "'x ex_services \<Rightarrow> jsv \<Rightarrow> ('x explorer, totals) io" where
  \<comment> \<open>the fallback: the node's own wallet transactions for the address\<close>
  "wallet_totals sv address =
     (let zero = \<lparr>tt_balance = Some 0, tt_received = Some 0, tt_count = 0\<rparr> in
      io_catch
        (io_bind (call sv ''listtransactions'' [JStr ''*'', JNum 1000, JNum 0, JBool True]) (\<lambda>txs.
           if list_all destructurable (js_array txs) then
             let mine = filter (\<lambda>tx. js_prop_opt tx ''address'' = address) (js_array txs)
             in io_return (foldl add_wallet_tx (zero\<lparr>tt_count := length mine\<rparr>) mine)
           else io_throw type_error))
        (\<lambda>_. io_return zero))"

definition address_result :: "jsv \<Rightarrow> jsv \<Rightarrow> jsv \<Rightarrow> totals \<Rightarrow> jsv" where
  "address_result address domainName info t =
     JObj [(''address'', address), (''domain'', domainName), (''balance'', num_json (tt_balance t)),
       (''totalReceived'', num_json (tt_received t)), (''totalSent'', JNum 0), (''unconfirmedBalance'', JNum 0),
       (''txCount'', JInt (int (tt_count t))),
       (''scriptType'', JStr (if truthy (js_prop_opt info ''isscript'') then ''script'' else ''pubkey'')),
       (''isWatchOnly'', js_or (js_prop_opt info ''iswatchonly'') (JBool False)),
       (''isMine'', js_or (js_prop_opt info ''ismine'') (JBool False))]"

definition address_info :: "'x ex_services \<Rightarrow> jsv \<Rightarrow> jsv \<Rightarrow> ('x explorer, response) io" where
  \<comment> \<open>\<open>getByAddress\<close> once the address is known\<close>
  "address_info sv address domainName =
     (let a = js_tostring address in
      cached_or sv (addrKey a)
        (io_bind (validateAddress sv address) (\<lambda>info.
         io_bind (io_lift (js_prop info ''isvalid'')) (\<lambda>isvalid.
           if \<not> truthy isvalid
           then respond 404 (JObj [(''error'', JStr ''Address not found''), (''message'', JStr ''Invalid address'')])
           else
             io_bind
               (io_catch
                 (io_bind (getScanResult sv a) (\<lambda>scanResult. io_lift (scan_totals scanResult)))
                 (\<lambda>_. wallet_totals sv address))
               (\<lambda>t. store_and_answer sv (addrKey a) 60 (address_result address domainName info t))))))"

definition is_domain :: "string \<Rightarrow> bool" where
  "is_domain address \<longleftrightarrow> endsWith (toLowerCase address) ''.tar''"

definition getByAddress :: "'x ex_services \<Rightarrow> string \<Rightarrow> ('x explorer, response) io" where
  "getByAddress sv param =
     io_catch
       (if is_domain param then
          (let domainName = js_trim (toLowerCase param) in
           io_bind (settle (ex_call sv (es_tns sv domainName))) (\<lambda>tns.
             case tns of
               Inl _ \<Rightarrow> respond 404 (JObj [(''error'', JStr ''Resolution failed''),
                         (''message'', JStr (''Could not resolve domain '' @ quoted domainName))])
             | Inr data \<Rightarrow>
                 (case tns_found data of
                    Some address \<Rightarrow> address_info sv address (JStr domainName)
                  | None \<Rightarrow> respond 404 (JObj [(''error'', JStr ''Domain not resolved''),
                              (''message'', JStr (''TNS domain '' @ quoted domainName @ '' not found''))]))))
        else address_info sv (JStr param) JNull)
       (\<lambda>_. respond 404 (error_body ''Address not found''))"

definition resolve_or_keep :: "'x ex_services \<Rightarrow> string \<Rightarrow> ('x explorer, jsv) io" where
  "resolve_or_keep sv param =
     (if is_domain param then
        io_catch
          (io_bind (ex_call sv (es_tns sv (js_trim (toLowerCase param)))) (\<lambda>data.
             io_return (case tns_found data of Some address \<Rightarrow> address | None \<Rightarrow> JStr param)))
          (\<lambda>_. io_return (JStr param))
      else io_return (JStr param))"

definition utxo_entry :: "jsv \<Rightarrow> (string \<times> jsv) list" where
  "utxo_entry utxo =
     [(''txid'', js_prop_opt utxo ''txid''), (''amount'', js_prop_opt utxo ''amount''),
      (''height'', js_prop_opt utxo ''height''), (''confirmations'', js_prop_opt utxo ''confirmations''),
      (''coinbase'', js_or (js_prop_opt utxo ''coinbase'') (JBool False)),
      (''blockhash'', js_prop_opt utxo ''blockhash'')]"

definition utxo_detail :: "'x ex_services \<Rightarrow> jsv \<Rightarrow> ('x explorer, jsv) io" where
  "utxo_detail sv utxo =
     io_catch
       (io_bind (getRawTransaction sv (js_prop_opt utxo ''txid'') True) (\<lambda>tx.
          io_return (JObj (utxo_entry utxo @
            [(''time'', js_or (js_prop_opt tx ''time'') (js_or (js_prop_opt tx ''blocktime'') JNull))]))))
       (\<lambda>_. io_return (JObj (utxo_entry utxo)))"

definition out_address :: "jsv \<Rightarrow> exn + jsv" where
  \<comment> \<open>\<open>vout.scriptPubKey?.address || (vout.scriptPubKey?.addresses ? vout.scriptPubKey.addresses[0] : null)\<close>\<close>
  "out_address vout =
     res_bind (js_prop vout ''scriptPubKey'') (\<lambda>script.
       let a = js_prop_opt script ''address''; as = js_prop_opt script ''addresses'' in
       if truthy a then Inr a
       else if truthy as then js_index as 0 else Inr JNull)"

fun match_outputs :: "jsv \<Rightarrow> jsv list \<Rightarrow> jsv option \<Rightarrow> exn + jsv option" where
  \<comment> \<open>the value of the last output that pays the address\<close>
  "match_outputs address [] found = Inr found"
| "match_outputs address (v # vs) found =
     res_bind (out_address v) (\<lambda>a.
       match_outputs address vs (if a = address then Some (js_prop_opt v ''value'') else found))"

definition pending_entry :: "'x ex_services \<Rightarrow> jsv \<Rightarrow> jsv \<Rightarrow> ('x explorer, jsv list) io" where
  \<comment> \<open>the entry for one unconfirmed transaction, if it pays the address\<close>
  "pending_entry sv address txid =
     io_catch
       (io_bind (getRawTransaction sv txid True) (\<lambda>tx.
        io_bind (io_lift (js_prop tx ''vout'')) (\<lambda>vout.
        io_bind (io_lift (if truthy vout then res_bind (js_spread vout) (\<lambda>vs. match_outputs address vs None) else Inr None)) (\<lambda>found.
          case found of
            None \<Rightarrow> io_return []
          | Some amount \<Rightarrow>
              io_bind (if truthy (js_prop_opt tx ''time'') then io_return (js_prop_opt tx ''time'')
                       else io_bind (ex_now sv) (\<lambda>now. io_return (JInt (math_floor (js_div (of_int now) 1000))))) (\<lambda>time.
                io_return [JObj [(''txid'', js_prop_opt tx ''txid''), (''amount'', amount), (''height'', JNum (- 1)),
                  (''confirmations'', JNum 0), (''coinbase'', JBool False), (''blockhash'', JStr []), (''time'', time)]])))))
       (\<lambda>_. io_return [])"

fun scan_mempool :: "'x ex_services \<Rightarrow> jsv \<Rightarrow> jsv list \<Rightarrow> jsv list \<Rightarrow> ('x explorer, jsv list) io" where
  "scan_mempool sv address [] result = io_return result"
| "scan_mempool sv address (txid # txids) result =
     io_bind (pending_entry sv address txid) (\<lambda>e. scan_mempool sv address txids (e @ result))"

definition with_pending :: "'x ex_services \<Rightarrow> jsv \<Rightarrow> jsv list \<Rightarrow> ('x explorer, jsv list) io" where
  "with_pending sv address result =
     io_bind (settle (getRawMempool sv False)) (\<lambda>r.
       case r of
         Inr (JArr txids) \<Rightarrow> scan_mempool sv address (take 250 txids) result
       | _ \<Rightarrow> io_return result)"

definition confirmed_txs :: "'x ex_services \<Rightarrow> jsv \<Rightarrow> int \<Rightarrow> int \<Rightarrow> ('x explorer, jsv list) io" where
  "confirmed_txs sv scanResult skip count =
     (if truthy scanResult \<and> truthy (js_prop_opt scanResult ''success'') \<and> truthy (js_prop_opt scanResult ''unspents'')
      then io_map (utxo_detail sv) (js_slice (js_array (js_prop_opt scanResult ''unspents'')) skip (skip + count))
      else io_return [])"

definition getTransactions :: "'x ex_services \<Rightarrow> string \<Rightarrow> string option \<Rightarrow> string option \<Rightarrow> ('x explorer, response) io" where
  "getTransactions sv param qcount qskip =
     io_catch
       (io_bind (resolve_or_keep sv param) (\<lambda>address.
        let count = query_int qcount 999999; skip = query_int qskip 0; a = js_tostring address in
        cached_or sv (addressTxsKey a)
          (io_bind
            (io_catch
              (io_bind (getScanResult sv a) (\<lambda>scanResult.
               io_bind (confirmed_txs sv scanResult skip count) (with_pending sv address)))
              (\<lambda>_. io_catch
                (io_bind (call sv ''listtransactions'' [JStr ''*'', JInt count, JInt skip, JBool True]) (\<lambda>txs.
                   if list_all destructurable (js_array txs)
                   then io_return (filter (\<lambda>tx. js_prop_opt tx ''address'' = address) (js_array txs))
                   else io_throw type_error))
                (\<lambda>_. io_return [])))
            (\<lambda>result. store_and_answer sv (addressTxsKey a) 60 (JArr result)))))
       (\<lambda>_. respond 500 (error_body ''Failed to fetch transactions''))"

definition getUtxo :: "'x ex_services \<Rightarrow> string \<Rightarrow> ('x explorer, response) io" where
  "getUtxo sv param =
     io_catch
       (io_bind (resolve_or_keep sv param) (\<lambda>address.
        let a = js_tostring address in
        cached_or sv (addressUtxoKey a)
          (io_bind
            (io_catch
              (io_bind (getScanResult sv a) (\<lambda>scanResult.
                 io_return (if truthy scanResult \<and> truthy (js_prop_opt scanResult ''success'')
                            then js_or (js_prop_opt scanResult ''unspents'') (JArr []) else JArr [])))
              (\<lambda>_. io_catch
                (call sv ''listunspent'' [JNum 0, JNum 9999999, JArr [address]])
                (\<lambda>_. io_return (JArr []))))
            (store_and_answer sv (addressUtxoKey a) 60))))
       (\<lambda>_. respond 500 (error_body ''Failed to fetch UTXOs''))"

end
