(* ===== verification/Explorer_Properties.thy ===== *)
theory Explorer_Properties
  imports Explorer_Controllers "HOL-Library.Sublist"
begin

text \<open>
  What the explorer guarantees: its cache does not change answers, an outage of the node is reported
  and logged at most once a minute, subscribers hear of a new block once, an address is scanned by
  one request at a time and every output counts once; and where it falls short.
\<close>

section \<open>The cache is transparent\<close>

lemma to_json_idem [simp]: "to_json (to_json v) = to_json v"
proof (induction v rule: to_json.induct)
  case (3 xs)
  then show ?case by simp
next
  case (4 m)
  have nz: "to_json v \<noteq> JUndef" for v by (cases v) auto
  have "filter (\<lambda>(k, v). v \<noteq> JUndef) (map (\<lambda>(k, v). (k, to_json v)) xs) = map (\<lambda>(k, v). (k, to_json v)) xs" for xs :: "(string \<times> jsv) list"
    by (induction xs) (auto simp: nz)
  moreover have "to_json (to_json (snd p)) = to_json (snd p)" if "p \<in> set (filter (\<lambda>(k, v). v \<noteq> JUndef) m)" for p
    using 4 that by (cases p) auto
  ultimately show ?case by (auto simp: case_prod_beta)
qed simp_all

lemma truthy_to_json [simp]: "truthy (to_json v) = truthy v"
  by (cases v) auto

text \<open>
  Redis as the cache uses it: a value that was set is read back until it expires or is deleted,
  neither the node nor another request touches the keys of this request.
\<close>

definition ex_store :: "'x ex_services \<Rightarrow> ('x \<Rightarrow> string \<Rightarrow> jsv option) \<Rightarrow> bool" where
  "ex_store sv rd \<longleftrightarrow>
     (\<forall>k x. fst (es_get sv k x) = Inr (rd x k) \<and> rd (snd (es_get sv k x)) = rd x) \<and>
     (\<forall>k v t x. fst (es_set sv k v t x) = Inr () \<and> rd (snd (es_set sv k v t x)) = (rd x)(k := Some v)) \<and>
     (\<forall>m ps x. rd (snd (es_post sv m ps x)) = rd x) \<and> (\<forall>x. rd (snd (es_now sv x)) = rd x) \<and>
     (\<forall>w. rd (ew_ext (es_others sv w)) = rd (ew_ext w) \<and> ew_client (es_others sv w) = ew_client w)"

definition same_posts :: "('x \<Rightarrow> (string \<times> jsv list) list) \<Rightarrow> 'x explorer \<Rightarrow> 'x explorer \<Rightarrow> bool" where
  "same_posts plog w w' \<longleftrightarrow> plog (ew_ext w') = plog (ew_ext w)"

definition posts_observed :: "'x ex_services \<Rightarrow> ('x \<Rightarrow> (string \<times> jsv list) list) \<Rightarrow> bool" where
  \<comment> \<open>\<open>plog\<close> reads the calls to the node off the outside state\<close>
  "posts_observed sv plog \<longleftrightarrow>
     (\<forall>m ps x. plog (snd (es_post sv m ps x)) = plog x @ [(m, ps)]) \<and>
     (\<forall>k x. plog (snd (es_get sv k x)) = plog x) \<and> (\<forall>k v t x. plog (snd (es_set sv k v t x)) = plog x) \<and>
     (\<forall>k x. plog (snd (es_del sv k x)) = plog x) \<and> (\<forall>x. plog (snd (es_now sv x)) = plog x) \<and>
     (\<forall>w. plog (ew_ext (es_others sv w)) = plog (ew_ext w))"

lemma cache_get_stored:
  assumes "ex_store sv rd" and "ew_client w"
  obtains w' where "cache_get sv k w = (Inr (case rd (ew_ext w) k of None \<Rightarrow> JNull | Some v \<Rightarrow> v), w')"
    "rd (ew_ext w') = rd (ew_ext w)" "ew_client w'"
    "\<And>plog. posts_observed sv plog \<Longrightarrow> plog (ew_ext w') = plog (ew_ext w)"
proof -
  obtain x where x: "es_get sv k (ew_ext w) = (Inr (rd (ew_ext w) k), x)" "rd x = rd (ew_ext w)"
    using assms(1) unfolding ex_store_def by (metis prod.collapse)
  have pl: "plog x = plog (ew_ext w)" if "posts_observed sv plog" for plog
    using that x(1) unfolding posts_observed_def by (metis snd_conv)
  have "cache_get sv k w = (Inr (case rd (ew_ext w) k of None \<Rightarrow> JNull | Some v \<Rightarrow> v), es_others sv (w\<lparr>ew_ext := x\<rparr>))"
    by (simp add: cache_get_def io_bind_def io_get_def assms(2) io_catch_def ex_call_def ex_ask_def x io_lift_def io_return_def)
  then show thesis
    by (rule that) (use assms x pl in \<open>auto simp: ex_store_def posts_observed_def\<close>)
qed

lemma cache_set_stored:
  assumes "ex_store sv rd" and "ew_client w" and "v \<noteq> JUndef"
  obtains w' where "cache_set sv k v t w = (Inr (), w')"
    "rd (ew_ext w') = (rd (ew_ext w))(k := Some (to_json v))" "ew_client w'"
proof -
  obtain x where x: "es_set sv k (to_json v) t (ew_ext w) = (Inr (), x)" "rd x = (rd (ew_ext w))(k := Some (to_json v))"
    using assms(1) unfolding ex_store_def by (metis prod.collapse)
  have "cache_set sv k v t w = (Inr (), es_others sv (w\<lparr>ew_ext := x\<rparr>))"
    by (simp add: cache_set_def io_bind_def io_get_def assms(2,3) io_catch_def ex_call_def ex_ask_def x io_lift_def io_return_def)
  then show thesis
    by (rule that) (use assms x in \<open>auto simp: ex_store_def\<close>)
qed

locale cached_endpoint =
  fixes handler :: "'x ex_services \<Rightarrow> ('x explorer, response) io"
    and key :: string
    and compute :: "'x ex_services \<Rightarrow> ('x explorer, jsv) io"
    and ttl :: "jsv \<Rightarrow> int"
    and failed :: response
  assumes handler_eq: "handler sv =
      io_catch (cached_or sv key (io_bind (compute sv) (\<lambda>v. store_and_answer sv key (ttl v) v)))
        (\<lambda>_. respond (fst failed) (snd failed))"
    and failed_status: "fst failed \<noteq> 200"
    and compute_client: "ex_store sv rd \<Longrightarrow> ew_client w \<Longrightarrow> ew_client (snd (compute sv w))"
begin

lemma hit:
  assumes st: "ex_store sv rd" and up: "ew_client w" and v: "rd (ew_ext w) key = Some v" "truthy v"
  shows "fst (handler sv w) = Inr (200, to_json v)"
    and "posts_observed sv plog \<Longrightarrow> plog (ew_ext (snd (handler sv w))) = plog (ew_ext w)"
proof -
  obtain w' where w': "cache_get sv key w = (Inr v, w')"
    "\<And>plog. posts_observed sv plog \<Longrightarrow> plog (ew_ext w') = plog (ew_ext w)"
    using cache_get_stored [OF st up, of key] v(1) by (metis option.simps(5))
  have "handler sv w = (Inr (200, to_json v), w')"
    by (simp add: handler_eq cached_or_def io_catch_def io_bind_def w'(1) v(2) res_json_def respond_def io_return_def)
  then show "fst (handler sv w) = Inr (200, to_json v)"
    and "posts_observed sv plog \<Longrightarrow> plog (ew_ext (snd (handler sv w))) = plog (ew_ext w)" using w'(2) by simp_all
qed

lemma fill:
  assumes st: "ex_store sv rd" and up: "ew_client w" and res: "handler sv w = (Inr (200, body), w1)" and "truthy body"
  shows "ew_client w1 \<and> (\<exists>v. rd (ew_ext w1) key = Some v \<and> to_json v = body)"
proof -
  obtain w' where w': "cache_get sv key w = (Inr (case rd (ew_ext w) key of None \<Rightarrow> JNull | Some v \<Rightarrow> v), w')"
    "rd (ew_ext w') = rd (ew_ext w)" "ew_client w'" by (rule cache_get_stored [OF st up])
  show ?thesis
  proof (cases "truthy (case rd (ew_ext w) key of None \<Rightarrow> JNull | Some v \<Rightarrow> v)")
    case True
    then obtain v where "rd (ew_ext w) key = Some v" by (cases "rd (ew_ext w) key") auto
    with res w' True show ?thesis
      by (auto simp: handler_eq cached_or_def io_catch_def io_bind_def res_json_def respond_def io_return_def)
  next
    case False
    obtain r w2 where c: "compute sv w' = (r, w2)" by fastforce
    with res w' False failed_status obtain v where v: "r = Inr v"
      by (cases r) (auto simp: handler_eq cached_or_def io_catch_def io_bind_def respond_def io_return_def)
    have up2: "ew_client w2" using compute_client [OF st w'(3)] c by simp
    obtain r3 w3 where w3: "cache_set sv key v (ttl v) w2 = (r3, w3)" by fastforce
    have "r3 = Inr ()" using w3
      by (auto simp: cache_set_def io_bind_def io_get_def io_catch_def io_return_def split: prod.splits sum.splits if_splits)
    then have body: "body = to_json v" "w1 = w3"
      using res w' False c v w3
      by (auto simp: handler_eq cached_or_def store_and_answer_def io_seq_def io_catch_def io_bind_def res_json_def respond_def io_return_def)
    with assms(4) have nz: "v \<noteq> JUndef" by auto
    obtain w4 where "cache_set sv key v (ttl v) w2 = (Inr (), w4)"
      "rd (ew_ext w4) = (rd (ew_ext w2))(key := Some (to_json v))" "ew_client w4"
      by (rule cache_set_stored [OF st up2 nz])
    with w3 body show ?thesis by simp
  qed
qed

lemma transparent:
  assumes "ex_store sv rd" and "posts_observed sv plog" and "ew_client w" and "handler sv w = (Inr (200, body), w1)" and "truthy body"
  shows "fst (handler sv w1) = Inr (200, body) \<and> plog (ew_ext (snd (handler sv w1))) = plog (ew_ext w1)"
proof -
  obtain v where v: "ew_client w1" "rd (ew_ext w1) key = Some v" "to_json v = body"
    using fill [OF assms(1,3-5)] by blast
  then have "truthy v" using assms(5) truthy_to_json [of v] by simp
  with hit [OF assms(1) v(1,2)] v(3) assms(2) show ?thesis by simp
qed

end


subsection \<open>Which endpoints it covers\<close>

definition client_frame :: "'x explorer \<Rightarrow> 'x explorer \<Rightarrow> bool" where
  "client_frame w w' \<longleftrightarrow> ew_client w' = ew_client w"

interpretation cf: frame_rel client_frame
  by unfold_locales (simp_all add: client_frame_def)

definition others_keep_client :: "'x ex_services \<Rightarrow> bool" where
  "others_keep_client sv \<longleftrightarrow> (\<forall>w. ew_client (es_others sv w) = ew_client w)"

lemma store_client: "ex_store sv rd \<Longrightarrow> others_keep_client sv"
  by (simp add: ex_store_def others_keep_client_def)

lemma cf_ask: "others_keep_client sv \<Longrightarrow> io_keeps client_frame (ex_ask sv f)"
  by (auto simp: io_keeps_def client_frame_def ex_ask_def others_keep_client_def split: prod.splits)

lemma cf_now: "io_keeps client_frame (ex_now sv)"
  by (auto simp: io_keeps_def client_frame_def ex_now_def split: prod.splits)

lemma cf_modify: "(\<And>w. ew_client (f w) = ew_client w) \<Longrightarrow> io_keeps client_frame (io_modify f)"
  by (simp add: io_keeps_def client_frame_def io_modify_def)

lemma cf_failed: "io_keeps client_frame (rpc_failed sv e)"
  unfolding rpc_failed_def by (intro cf.keeps_rules cf_now cf_modify) simp

lemma cf_call: "others_keep_client sv \<Longrightarrow> io_keeps client_frame (call sv m ps)"
  unfolding call_def
  by (intro cf.keeps_bind cf_ask)
    (auto split: sum.splits if_splits intro!: cf.keeps_seq cf.keeps_return cf_modify cf_failed)

lemmas cf_rules = cf.keeps_rules cf_now cf_call cf_ask

lemma cf_getBlock: "others_keep_client sv \<Longrightarrow> io_keeps client_frame (getBlock sv h n)"
  unfolding getBlock_def by (intro cf_rules)

lemma cf_recent: "others_keep_client sv \<Longrightarrow> io_keeps client_frame (recent_blocks sv h i n)"
proof (induction n arbitrary: i)
  case 0 show ?case by (simp add: cf.keeps_return)
next
  case (Suc n)
  then show ?case unfolding recent_blocks.simps getBlockHash_def by (intro cf_rules cf_getBlock)
qed

lemma cf_client: "io_keeps client_frame m \<Longrightarrow> ew_client w \<Longrightarrow> ew_client (snd (m w))"
  by (simp add: io_keeps_def client_frame_def)

interpretation byHash: cached_endpoint "\<lambda>sv. getByHash sv h" "blockKey h" "\<lambda>sv. getBlock sv (JStr h) 2" "\<lambda>_. 30"
    "(404, error_body ''Block not found'')" for h
  by unfold_locales (auto simp: getByHash_def intro!: cf_client cf_getBlock dest: store_client)

interpretation byHeight: cached_endpoint "\<lambda>sv. getByHeight sv p" "blockHeightKey (parsed_height p)"
    "\<lambda>sv. io_bind (getBlockHash sv (parsed_height p)) (\<lambda>hash. getBlock sv hash 2)" "\<lambda>_. 30"
    "(404, error_body ''Block not found'')" for p
  by unfold_locales
    (auto simp: getByHeight_def Let_def io_bind_assoc getBlockHash_def intro!: cf_client cf.keeps_bind cf_call cf_getBlock dest: store_client)

interpretation recent: cached_endpoint "\<lambda>sv. getRecent sv q" recentBlocksKey
    "\<lambda>sv. io_bind (getBlockCount sv) (\<lambda>h. io_bind (recent_blocks sv (case js_num_opt h of None \<Rightarrow> 0 | Some x \<Rightarrow> x) 0
        (nat (min (query_int q 10) 100))) (\<lambda>bs. io_return (JArr bs)))" "\<lambda>_. 15"
    "(500, error_body ''Failed to fetch blocks'')" for q
  by unfold_locales
    (auto simp: getRecent_def Let_def io_bind_assoc io_bind_return getBlockCount_def
      intro!: cf_client cf.keeps_bind cf.keeps_return cf_call cf_recent dest: store_client)

interpretation mempool: cached_endpoint "\<lambda>sv. mempool_getAll sv q" mempoolKey
    "\<lambda>sv. io_bind (getRawMempool sv True) (\<lambda>m. io_lift (mempool_page (min (query_int q 50) 500) m))" "\<lambda>_. 10"
    "(500, error_body ''Failed to fetch mempool'')" for q
  by unfold_locales
    (auto simp: mempool_getAll_def Let_def io_bind_assoc getRawMempool_def
      intro!: cf_client cf.keeps_bind cf.keeps_lift cf_call dest: store_client)

interpretation mempoolStats: cached_endpoint mempool_getStats mempoolStatsKey
    "\<lambda>sv. io_bind (getMempoolInfo sv) (\<lambda>m. io_lift (mempool_stats m))" "\<lambda>_. 10"
    "(500, error_body ''Failed to fetch mempool stats'')"
  by unfold_locales
    (auto simp: mempool_getStats_def io_bind_assoc getMempoolInfo_def
      intro!: cf_client cf.keeps_bind cf.keeps_lift cf_call dest: store_client)

lemma cf_circulating: "others_keep_client sv \<Longrightarrow> io_keeps client_frame (circulating_or_null sv)"
  unfolding circulating_or_null_def getTxOutSetInfo_def by (intro cf_rules)

definition supply_value :: "'x ex_services \<Rightarrow> ('x explorer, jsv) io" where
  "supply_value sv =
     io_bind (getBlockchainInfo sv) (\<lambda>info.
     io_bind (circulating_or_null sv) (\<lambda>circulating.
     io_bind (io_lift (js_prop info ''blocks'')) (\<lambda>blocks.
     io_bind (ex_now sv) (\<lambda>now.
       io_return (JObj [(''totalSupply'', JNum 50000000000), (''ecosystemTreasuryAllocation'', JNum 10000000000),
         (''publicMiningSupply'', JNum 40000000000), (''circulating'', circulating),
         (''blockHeight'', blocks), (''lastUpdated'', JInt now)])))))"

lemma cf_supply: "others_keep_client sv \<Longrightarrow> io_keeps client_frame (supply_value sv)"
  unfolding supply_value_def getBlockchainInfo_def by (intro cf_rules cf_circulating)

interpretation supplyInfo: cached_endpoint getSupply supplyKey supply_value "\<lambda>_. 60"
    "(500, error_body ''Failed to fetch supply'')"
  by unfold_locales
    (auto simp: getSupply_def supply_value_def io_bind_assoc io_bind_return intro!: cf_client cf_supply [unfolded supply_value_def] dest: store_client)

text \<open>
  C12. The cache is transparent: when a block, height, recent-blocks, mempool or supply request has been
  answered with a body, the same request made next gets the same body, and no call goes to the node,
  whatever the node answered and however the other requests interleave, as long as Redis keeps the
  value.
\<close>
theorem explorer_cache_transparent:
  assumes "ex_store sv rd" and "posts_observed sv plog" and "ew_client w"
    and "handler \<in> {getByHash sv h, getByHeight sv p, getRecent sv q, mempool_getAll sv q, mempool_getStats sv, getSupply sv}"
    and "handler w = (Inr (200, body), w1)" and "truthy body"
  shows "fst (handler w1) = Inr (200, body) \<and> plog (ew_ext (snd (handler w1))) = plog (ew_ext w1)"
  using assms(4,5) byHash.transparent [OF assms(1-3) _ assms(6)] byHeight.transparent [OF assms(1-3) _ assms(6)]
    recent.transparent [OF assms(1-3) _ assms(6)] mempool.transparent [OF assms(1-3) _ assms(6)]
    mempoolStats.transparent [OF assms(1-3) _ assms(6)] supplyInfo.transparent [OF assms(1-3) _ assms(6)]
  by (elim insertE emptyE) simp_all

record exmem =
  xm_log :: "(string \<times> jsv list) list"
  xm_store :: "(string \<times> jsv) list"
  xm_now :: int

definition ex_mem :: "(string \<Rightarrow> jsv list \<Rightarrow> failure + jsv) \<Rightarrow> exmem ex_services" where
  \<comment> \<open>a node whose answers are a function of the call, and a Redis that forgets nothing\<close>
  "ex_mem answer =
     \<lparr>es_post = (\<lambda>m ps x. ((case answer m ps of Inl e \<Rightarrow> Inl e | Inr v \<Rightarrow> Inr (JObj [(''result'', v)])),
        x\<lparr>xm_log := xm_log x @ [(m, ps)]\<rparr>)),
      es_get = (\<lambda>k x. (Inr (map_get (xm_store x) k), x)),
      es_set = (\<lambda>k v t x. (Inr (), x\<lparr>xm_store := map_set k v (xm_store x)\<rparr>)),
      es_del = (\<lambda>k x. (Inr (), x\<lparr>xm_store := map_del k (xm_store x)\<rparr>)),
      es_flush = (\<lambda>x. (Inr (), x\<lparr>xm_store := []\<rparr>)),
      es_tns = (\<lambda>d x. (Inr JNull, x)), es_joined = (\<lambda>a x. (Inl ''cancelled'', x)),
      es_now = (\<lambda>x. (xm_now x, x\<lparr>xm_now := xm_now x + 1\<rparr>)), es_others = (\<lambda>w. w)\<rparr>"

definition ex_world :: "exmem explorer" where
  "ex_world =
     \<lparr>ew_client = True, ew_nodeDown = False, ew_lastNodeDownLog = 0, ew_warned = [], ew_activeScans = [],
      ew_lastKnownHeight = - 1, ew_sockets = [1], ew_rooms = [(''blocks'', 1)], ew_blockSubscribers = [1],
      ew_txSubscribers = [], ew_emitted = [], ew_ext = \<lparr>xm_log = [], xm_store = [], xm_now = 100000\<rparr>\<rparr>"

definition xm_read :: "exmem \<Rightarrow> string \<Rightarrow> jsv option" where
  "xm_read x k = map_get (xm_store x) k"

lemma ex_mem_store: "ex_store (ex_mem answer) xm_read"
  by (simp add: ex_store_def ex_mem_def xm_read_def fun_eq_iff)

lemma ex_mem_posts: "posts_observed (ex_mem answer) xm_log"
  by (simp add: posts_observed_def ex_mem_def)

definition node_demo :: "string \<Rightarrow> jsv list \<Rightarrow> failure + jsv" where
  "node_demo m ps =
     (if m = ''getblockcount'' then Inr (JNum 7)
      else if m = ''getblockhash'' then Inr (JStr ''00ab'')
      else if m = ''getblock'' then Inr (JObj [(''height'', JNum 7)])
      else Inl (Some ''ECONNREFUSED'', ''connect ECONNREFUSED''))"

lemmas ex_eval =
  io_bind_def io_seq_def io_catch_def io_get_def io_modify_def io_lift_def io_return_def io_throw_def ex_ask_def ex_call_def
  ex_now_def call_def rpc_outcome_def rpc_failed_def isConnectionError_def getBlockCount_def getBlockHash_def getBlock_def
  cached_or_def store_and_answer_def cache_get_def cache_set_def res_json_def respond_def ex_mem_def ex_world_def node_demo_def

theorem explorer_cache_transparent_witness:
  "let w1 = snd (getByHash (ex_mem node_demo) ''00ab'' ex_world)
   in ex_store (ex_mem node_demo) xm_read \<and> posts_observed (ex_mem node_demo) xm_log \<and>
      fst (getByHash (ex_mem node_demo) ''00ab'' w1) = Inr (200, JObj [(''height'', JNum 7)]) \<and>
      xm_log (ew_ext (snd (getByHash (ex_mem node_demo) ''00ab'' w1))) = xm_log (ew_ext w1)"
proof -
  define w1 where "w1 = snd (getByHash (ex_mem node_demo) ''00ab'' ex_world)"
  have "fst (getByHash (ex_mem node_demo) ''00ab'' ex_world) = Inr (200, JObj [(''height'', JNum 7)])"
    by (simp add: getByHash_def blockKey_def GENESIS_HASH_def ex_eval)
  then have r: "getByHash (ex_mem node_demo) ''00ab'' ex_world = (Inr (200, JObj [(''height'', JNum 7)]), w1)"
    unfolding w1_def by (metis prod.collapse)
  have up: "ew_client ex_world" by (simp add: ex_world_def)
  have "getByHash (ex_mem node_demo) ''00ab'' \<in> {getByHash (ex_mem node_demo) ''00ab'', getByHeight (ex_mem node_demo) ''1'',
      getRecent (ex_mem node_demo) None, mempool_getAll (ex_mem node_demo) None, mempool_getStats (ex_mem node_demo),
      getSupply (ex_mem node_demo)}" by simp
  from explorer_cache_transparent [OF ex_mem_store ex_mem_posts up this r]
  show ?thesis unfolding Let_def w1_def [symmetric] by (simp add: ex_mem_store ex_mem_posts)
qed

section \<open>One cache entry for every count\<close>

text \<open>
  The recent blocks are cached under one key whatever the count: after a request with count -1,
  which fetches nothing, every other request for the recent blocks is answered with the empty list
  until the entry expires.
\<close>
lemma recent_blocks_poisoned:
  assumes "ex_store sv rd" and "ew_client w" and "rd (ew_ext w) recentBlocksKey = None"
    and "\<And>v. \<exists>h v'. getBlockCount sv v = (Inr h, v')"
  shows "fst (getRecent sv q (snd (getRecent sv (Some ''-1'') w))) = Inr (200, JArr [])"
proof -
  obtain w1 where w1: "cache_get sv recentBlocksKey w = (Inr JNull, w1)"
    using cache_get_stored [OF assms(1,2), of recentBlocksKey] assms(3) by (metis option.simps(4))
  obtain h w2 where w2: "getBlockCount sv w1 = (Inr h, w2)" using assms(4) by blast
  have c: "query_int (Some ''-1'') 10 = - 1" by code_simp
  obtain r3 w3 where w3: "cache_set sv recentBlocksKey (JArr []) 15 w2 = (r3, w3)" by fastforce
  have "r3 = Inr ()" using w3
    by (auto simp: cache_set_def io_bind_def io_get_def io_catch_def io_return_def split: prod.splits sum.splits if_splits)
  with w3 have first: "getRecent sv (Some ''-1'') w = (Inr (200, JArr []), w3)"
    by (simp add: getRecent_def c cached_or_def store_and_answer_def io_catch_def io_seq_def io_bind_def w1 w2 res_json_def
        respond_def io_return_def)
  obtain v where v: "ew_client w3" "rd (ew_ext w3) recentBlocksKey = Some v" "to_json v = JArr []"
    using recent.fill [OF assms(1,2) first] by auto
  then have "truthy v" using truthy_to_json [of v] by simp
  from recent.hit(1) [OF assms(1) v(1,2) this, of q] v(3) first show ?thesis by simp
qed

lemma recent_blocks_poisoned_witness:
  "ex_store (ex_mem node_demo) xm_read \<and>
   fst (getRecent (ex_mem node_demo) None (snd (getRecent (ex_mem node_demo) (Some ''-1'') ex_world))) = Inr (200, JArr [])"
proof -
  have up: "ew_client ex_world" "xm_read (ew_ext ex_world) recentBlocksKey = None" by (simp_all add: ex_world_def xm_read_def)
  have "\<exists>h v'. getBlockCount (ex_mem node_demo) v = (Inr h, v')" for v
    by (simp add: getBlockCount_def call_def io_bind_def io_seq_def io_modify_def ex_ask_def ex_mem_def node_demo_def rpc_outcome_def io_return_def)
  from recent_blocks_poisoned [OF ex_mem_store up this, of None] show ?thesis by (simp add: ex_mem_store)
qed

section \<open>Announcing blocks\<close>

text \<open>
  A tick that finds a new height but cannot fetch the block hash still remembers the height: it
  announces nothing, and no later tick announces that block, however well the node works by then.
\<close>
lemma poll_loses_block:
  assumes "getBlockCount sv w = (Inr (JNum h), w1)" and "ew_lastKnownHeight w1 < h"
    and "getBlockHash sv (JNum h) (w1\<lparr>ew_lastKnownHeight := h\<rparr>) = (Inl e, w2)" and "ew_lastKnownHeight w2 = h"
    and "getBlockCount sv' w2 = (Inr (JNum h), w3)" and "ew_lastKnownHeight w3 = h"
  shows "snd (poll_block sv w) = w2 \<and> snd (poll_block sv' w2) = w3"
  using assms
  by (simp add: poll_block_def io_catch_def io_bind_def io_seq_def io_get_def io_modify_def io_return_def)


definition node_flaky :: "string \<Rightarrow> jsv list \<Rightarrow> failure + jsv" where
  "node_flaky m ps = (if m = ''getblockcount'' then Inr (JNum 7) else Inl (None, ''timeout''))"

lemma poll_loses_block_witness:
  "let w2 = snd (poll_block (ex_mem node_flaky) ex_world)
   in ew_lastKnownHeight w2 = 7 \<and> ew_emitted w2 = [] \<and> ew_emitted (snd (poll_block (ex_mem node_demo) w2)) = []"
proof -
  define w2 where "w2 = snd (getBlockHash (ex_mem node_flaky) (JNum 7)
    (snd (getBlockCount (ex_mem node_flaky) ex_world)\<lparr>ew_lastKnownHeight := 7\<rparr>))"
  define w3 where "w3 = snd (getBlockCount (ex_mem node_demo) w2)"
  have c1: "getBlockCount (ex_mem node_flaky) ex_world = (Inr (JNum 7), snd (getBlockCount (ex_mem node_flaky) ex_world))"
    by (simp add: ex_eval node_flaky_def startsWith_def)
  have c2: "getBlockHash (ex_mem node_flaky) (JNum 7) (snd (getBlockCount (ex_mem node_flaky) ex_world)\<lparr>ew_lastKnownHeight := 7\<rparr>)
      = (Inl ''RPC error: timeout'', w2)"
    unfolding w2_def by (simp add: ex_eval node_flaky_def startsWith_def)
  have c3: "getBlockCount (ex_mem node_demo) w2 = (Inr (JNum 7), w3)"
    unfolding w3_def w2_def by (simp add: ex_eval node_flaky_def startsWith_def)
  have f: "ew_lastKnownHeight (snd (getBlockCount (ex_mem node_flaky) ex_world)) < 7"
    "ew_lastKnownHeight w2 = 7" "ew_lastKnownHeight w3 = 7" "ew_emitted w2 = []" "ew_emitted w3 = []"
    unfolding w3_def w2_def by (simp_all add: ex_eval node_flaky_def startsWith_def)
  from poll_loses_block [OF c1 f(1) c2 f(2) c3 f(3)] f show ?thesis by (simp add: Let_def)
qed

section \<open>Outages\<close>

fun spaced :: "int \<Rightarrow> int list \<Rightarrow> bool" where
  "spaced t [] = True"
| "spaced t (x # xs) = (60000 < x - t \<and> spaced x xs)"

definition node_down :: "'x ex_services \<Rightarrow> bool" where
  "node_down sv \<longleftrightarrow>
     (\<forall>m ps x. \<exists>e. fst (es_post sv m ps x) = Inl e \<and> isConnectionError e) \<and>
     (\<forall>w. ew_nodeDown (es_others sv w) = ew_nodeDown w \<and> ew_warned (es_others sv w) = ew_warned w \<and>
          ew_lastNodeDownLog (es_others sv w) = ew_lastNodeDownLog w)"

definition try_calls :: "'x ex_services \<Rightarrow> (string \<times> jsv list) list \<Rightarrow> ('x explorer, unit) io" where
  \<comment> \<open>a sequence of calls whose callers survive the exceptions\<close>
  "try_calls sv cs = io_each (\<lambda>(m, ps). io_catch (io_bind (call sv m ps) (\<lambda>_. io_return ())) (\<lambda>_. io_return ())) cs"

lemma call_down:
  assumes "node_down sv" and "call sv m ps w = (r, w')"
  shows "r = Inl ''Node unreachable'' \<and> (\<exists>now.
    (if \<not> ew_nodeDown w \<or> 60000 < now - ew_lastNodeDownLog w
     then ew_nodeDown w' \<and> ew_lastNodeDownLog w' = now \<and> ew_warned w' = ew_warned w @ [now]
     else ew_nodeDown w' = ew_nodeDown w \<and> ew_lastNodeDownLog w' = ew_lastNodeDownLog w \<and> ew_warned w' = ew_warned w))"
proof -
  obtain e x where e: "es_post sv m ps (ew_ext w) = (Inl e, x)" "isConnectionError e"
    using assms(1) unfolding node_down_def by (metis prod.collapse)
  define w1 where "w1 = es_others sv (w\<lparr>ew_ext := x\<rparr>)"
  have w1: "ew_nodeDown w1 = ew_nodeDown w" "ew_warned w1 = ew_warned w" "ew_lastNodeDownLog w1 = ew_lastNodeDownLog w"
    using assms(1) by (simp_all add: w1_def node_down_def)
  obtain now y where now: "es_now sv (ew_ext w1) = (now, y)" by fastforce
  have "call sv m ps w = (Inl ''Node unreachable'',
      if \<not> ew_nodeDown w \<or> 60000 < now - ew_lastNodeDownLog w
      then w1\<lparr>ew_ext := y, ew_nodeDown := True, ew_lastNodeDownLog := now, ew_warned := ew_warned w @ [now]\<rparr>
      else w1\<lparr>ew_ext := y\<rparr>)"
    by (simp add: call_def rpc_failed_def e(2) io_bind_def io_seq_def ex_ask_def e(1) ex_now_def now io_modify_def io_throw_def w1
        flip: w1_def)
  with assms(2) w1 show ?thesis by (auto intro: exI [of _ now])
qed

text \<open>
  While the node is unreachable every call fails with that message, and of any sequence of calls
  the log gets a line only more than sixty seconds after the previous one.
\<close>
lemma outage_logged_once_a_minute:
  assumes "node_down sv" and "ew_nodeDown w"
  shows "\<exists>ts. ew_warned (snd (try_calls sv cs w)) = ew_warned w @ ts \<and> spaced (ew_lastNodeDownLog w) ts"
  using assms(2)
proof (induction cs arbitrary: w)
  case Nil then show ?case by (simp add: try_calls_def io_return_def)
next
  case (Cons c cs)
  obtain m ps where c: "c = (m, ps)" by fastforce
  obtain r w1 where w1: "call sv m ps w = (r, w1)" by fastforce
  note d = call_down [OF assms(1) w1]
  have run: "snd (try_calls sv (c # cs) w) = snd (try_calls sv cs w1)"
    using d by (simp add: try_calls_def c io_seq_def io_bind_def io_catch_def w1 io_return_def)
  from d Cons.prems obtain now where
    "60000 < now - ew_lastNodeDownLog w \<and> ew_nodeDown w1 \<and> ew_lastNodeDownLog w1 = now \<and> ew_warned w1 = ew_warned w @ [now] \<or>
     ew_nodeDown w1 \<and> ew_lastNodeDownLog w1 = ew_lastNodeDownLog w \<and> ew_warned w1 = ew_warned w"
    by (auto split: if_splits)
  with Cons.IH [of w1] show ?case
    unfolding run by (elim disjE conjE) (fastforce intro: exI [of _ "now # _"])+
qed


definition node_gone :: "string \<Rightarrow> jsv list \<Rightarrow> failure + jsv" where
  "node_gone m ps = Inl (Some ''ECONNREFUSED'', ''connect ECONNREFUSED'')"

lemma outage_logged_once_a_minute_witness:
  "node_down (ex_mem node_gone) \<and>
   (\<exists>ts. ew_warned (snd (try_calls (ex_mem node_gone) [(''getblockcount'', []), (''getdifficulty'', [])] (ex_world\<lparr>ew_nodeDown := True\<rparr>)))
      = [] @ ts \<and> spaced 0 ts)"
proof -
  have d: "node_down (ex_mem node_gone)" by (simp add: node_down_def ex_mem_def node_gone_def isConnectionError_def)
  have "ew_nodeDown (ex_world\<lparr>ew_nodeDown := True\<rparr>)" by simp
  from outage_logged_once_a_minute [OF d this] d show ?thesis by (simp add: ex_world_def)
qed

section \<open>Scanning an address\<close>

lemma dedup_keys: "set (map utxo_key (dedup_utxos seen us)) = set (map utxo_key us) - set seen"
  by (induction seen us rule: dedup_utxos.induct) auto

lemma dedup_distinct: "distinct (map utxo_key (dedup_utxos seen us))"
proof (induction seen us rule: dedup_utxos.induct)
  case (2 seen u us)
  then show ?case using dedup_keys [of "utxo_key u # seen" us] by auto
qed simp

lemma dedup_subseq: "subseq (dedup_utxos seen us) us"
  by (induction seen us rule: dedup_utxos.induct) auto

text \<open>
  The outputs an address scan returns are the node's, in the node's order, each transaction output
  once: no key occurs twice and none is lost.
\<close>
lemma scan_outputs_once:
  "subseq (dedup_utxos [] us) us \<and> distinct (map utxo_key (dedup_utxos [] us)) \<and>
   set (map utxo_key (dedup_utxos [] us)) = set (map utxo_key us)"
  using dedup_subseq [of "[]" us] dedup_distinct [of "[]" us] dedup_keys [of "[]" us] by simp

definition scans_of :: "(string \<times> jsv list) list \<Rightarrow> nat" where
  "scans_of cs = length (filter (\<lambda>c. fst c = ''scantxoutset'') cs)"

definition scan_env :: "'x ex_services \<Rightarrow> ('x \<Rightarrow> (string \<times> jsv list) list) \<Rightarrow> bool" where
  \<comment> \<open>the calls are logged, and what runs at an await starts no scan of its own\<close>
  "scan_env sv plog \<longleftrightarrow> posts_observed sv plog \<and> (\<forall>a x. plog (snd (es_joined sv a x)) = plog x) \<and>
     (\<forall>w. ew_activeScans (es_others sv w) = ew_activeScans w)"

definition scan_adds :: "('x \<Rightarrow> (string \<times> jsv list) list) \<Rightarrow> nat \<Rightarrow> ('x explorer, 'a) io \<Rightarrow> bool" where
  \<comment> \<open>leaves the register alone and starts at most \<open>n\<close> scans\<close>
  "scan_adds plog n m \<longleftrightarrow> (\<forall>w. ew_activeScans (snd (m w)) = ew_activeScans w \<and>
     scans_of (plog (ew_ext (snd (m w)))) \<le> scans_of (plog (ew_ext w)) + n)"

lemma adds_bind: "scan_adds plog n m \<Longrightarrow> (\<And>x. scan_adds plog k (f x)) \<Longrightarrow> scan_adds plog (n + k) (io_bind m f)"
  unfolding scan_adds_def io_bind_def
  by (auto split: prod.splits sum.splits) (metis add.assoc add_le_mono1 le_trans snd_conv trans_le_add1)+

lemma adds_catch: "scan_adds plog n m \<Longrightarrow> (\<And>x. scan_adds plog k (f x)) \<Longrightarrow> scan_adds plog (n + k) (io_catch m f)"
  unfolding scan_adds_def io_catch_def
  by (auto split: prod.splits sum.splits) (metis add.assoc add_le_mono1 le_trans snd_conv trans_le_add1)+

lemma adds_pure:
  "scan_adds plog 0 (io_return x)" "scan_adds plog 0 (io_throw e)" "scan_adds plog 0 (io_lift r)" "scan_adds plog 0 (io_get g)"
  by (simp_all add: scan_adds_def io_return_def io_throw_def io_lift_def io_get_def)

lemma adds_bind0: "scan_adds plog 0 m \<Longrightarrow> (\<And>x. scan_adds plog 0 (f x)) \<Longrightarrow> scan_adds plog 0 (io_bind m f)"
  using adds_bind [of plog 0 m 0 f] by simp

lemma adds_catch0: "scan_adds plog 0 m \<Longrightarrow> (\<And>x. scan_adds plog 0 (f x)) \<Longrightarrow> scan_adds plog 0 (io_catch m f)"
  using adds_catch [of plog 0 m 0 f] by simp

lemma adds_if: "scan_adds plog n a \<Longrightarrow> scan_adds plog n b \<Longrightarrow> scan_adds plog n (if c then a else b)"
  by simp

lemma adds_ask:
  assumes "scan_env sv plog" and "\<And>x. plog (snd (f x)) = plog x"
  shows "scan_adds plog 0 (ex_ask sv f)"
proof -
  have "plog y = plog x" if "f x = (r, y)" for x r y using assms(2) [of x] that by simp
  then show ?thesis using assms(1)
    by (auto simp: scan_adds_def ex_ask_def scan_env_def posts_observed_def split: prod.splits)
qed

lemma adds_post:
  assumes "scan_env sv plog"
  shows "scan_adds plog (if m = ''scantxoutset'' then 1 else 0) (ex_ask sv (es_post sv m ps))"
proof -
  have "plog (snd (es_post sv m ps x)) = plog x @ [(m, ps)]" for x using assms by (simp add: scan_env_def posts_observed_def)
  then have "plog y = plog x @ [(m, ps)]" if "es_post sv m ps x = (r, y)" for x r y using that by (metis snd_conv)
  then show ?thesis using assms
    by (auto simp: scan_adds_def ex_ask_def scan_env_def posts_observed_def scans_of_def split: prod.splits)
qed

lemma adds_failed: "scan_env sv plog \<Longrightarrow> scan_adds plog 0 (rpc_failed sv e)"
  unfolding scan_adds_def rpc_failed_def scan_env_def posts_observed_def
  by (auto simp: io_bind_def io_seq_def ex_now_def io_modify_def io_throw_def split: prod.splits) (metis order_refl snd_conv)+

lemma adds_call: "scan_env sv plog \<Longrightarrow> scan_adds plog (if m = ''scantxoutset'' then 1 else 0) (call sv m ps)"
proof -
  assume e: "scan_env sv plog"
  have up: "scan_adds plog 0 (io_modify (\<lambda>w. if ew_nodeDown w then w\<lparr>ew_nodeDown := False\<rparr> else w))"
    by (simp add: scan_adds_def io_modify_def)
  have "scan_adds plog ((if m = ''scantxoutset'' then 1 else 0) + 0) (call sv m ps)"
    unfolding call_def io_seq_def
    by (rule adds_bind [OF adds_post [OF e]])
      (auto split: sum.splits intro!: adds_bind0 up adds_failed [OF e] adds_pure)
  then show ?thesis by simp
qed

lemma adds_call0: "scan_env sv plog \<Longrightarrow> m \<noteq> ''scantxoutset'' \<Longrightarrow> scan_adds plog 0 (call sv m ps)"
  using adds_call [of sv plog m ps] by simp

lemma adds_cache:
  assumes "scan_env sv plog"
  shows "scan_adds plog 0 (cache_get sv k)" "scan_adds plog 0 (cache_set sv k v t)"
proof -
  have g: "plog (snd (es_get sv k x)) = plog x" "plog (snd (es_set sv k u t x)) = plog x" for x u
    using assms by (simp_all add: scan_env_def posts_observed_def)
  show "scan_adds plog 0 (cache_get sv k)"
    unfolding cache_get_def ex_call_def
    by (intro adds_bind0 adds_catch0 adds_if adds_pure adds_ask [OF assms] g)
  show "scan_adds plog 0 (cache_set sv k v t)"
    unfolding cache_set_def ex_call_def
    by (intro adds_bind0 adds_catch0 adds_if adds_pure adds_ask [OF assms] g)
qed

lemma adds_run_scan: "scan_env sv plog \<Longrightarrow> scan_adds plog 1 (run_scan sv a)"
proof -
  assume e: "scan_env sv plog"
  have d: "scan_adds plog 0 (scan_descriptors sv a)"
    unfolding scan_descriptors_def Let_def by (intro adds_catch0 adds_bind0 adds_pure adds_call0 [OF e]) simp
  have "scan_adds plog (0 + (1 + 0)) (run_scan sv a)"
    unfolding run_scan_def Let_def io_seq_def
    using adds_call [OF e, of "''scantxoutset''"]
    by (intro adds_bind [OF d] adds_bind adds_if adds_bind0 adds_pure adds_cache [OF e]) simp
  then show ?thesis by simp
qed

text \<open>
  One scan per address at a time: a request that finds a scan of its address registered starts
  none, any other starts at most one, and when it ends, by a result or an exception, the register is
  as it was.
\<close>
lemma scan_single_flight:
  assumes "scan_env sv plog"
  shows "ew_activeScans (snd (getScanResult sv a w)) = ew_activeScans w \<and>
    scans_of (plog (ew_ext (snd (getScanResult sv a w))))
      \<le> scans_of (plog (ew_ext w)) + (if a \<in> set (ew_activeScans w) then 0 else 1)"
proof -
  obtain r w1 where w1: "cache_get sv (scanKey a) w = (r, w1)" by fastforce
  have c: "ew_activeScans w1 = ew_activeScans w" "scans_of (plog (ew_ext w1)) \<le> scans_of (plog (ew_ext w))"
    using adds_cache(1) [OF assms, of "scanKey a"] w1 unfolding scan_adds_def by (metis add_0_right snd_conv)+
  have j: "scan_adds plog 0 (ex_call sv (es_joined sv a))"
    unfolding ex_call_def by (intro adds_bind0 adds_pure adds_ask [OF assms]) (use assms in \<open>simp add: scan_env_def\<close>)
  show ?thesis
  proof (cases r)
    case (Inl e)
    with w1 c show ?thesis by (simp add: getScanResult_def io_bind_def)
  next
    case (Inr v)
    show ?thesis
    proof (cases "truthy v \<or> a \<in> set (ew_activeScans w)")
      case True
      then show ?thesis using w1 Inr c j [unfolded scan_adds_def, rule_format, of w1]
        by (auto simp: getScanResult_def io_bind_def io_return_def io_get_def)
    next
      case False
      define w2 where "w2 = w1\<lparr>ew_activeScans := set_add a (ew_activeScans w1)\<rparr>"
      obtain r3 w3 where w3: "run_scan sv a w2 = (r3, w3)" by fastforce
      have "snd (getScanResult sv a w) = end_scan a w3"
        using w1 Inr False c w3 by (simp add: getScanResult_def io_bind_def io_seq_def io_get_def io_modify_def io_finally_def w2_def)
      moreover have "ew_activeScans w3 = ew_activeScans w @ [a]" "scans_of (plog (ew_ext w3)) \<le> scans_of (plog (ew_ext w)) + 1"
        using adds_run_scan [OF assms, of a, unfolded scan_adds_def, rule_format, of w2] w3 c False
        by (simp_all add: w2_def set_add_def)
      ultimately show ?thesis using False by (simp add: end_scan_def)
    qed
  qed
qed

lemma scan_single_flight_witness:
  "scan_env (ex_mem node_demo) xm_log \<and>
   ew_activeScans (snd (getScanResult (ex_mem node_demo) ''tar1q'' ex_world)) = [] \<and>
   scans_of (xm_log (ew_ext (snd (getScanResult (ex_mem node_demo) ''tar1q'' ex_world)))) \<le> 1"
proof -
  have e: "scan_env (ex_mem node_demo) xm_log"
    unfolding scan_env_def using ex_mem_posts [of node_demo] by (simp add: ex_mem_def)
  from scan_single_flight [OF e, of "''tar1q''" ex_world] e show ?thesis
    by (simp add: ex_world_def scans_of_def)
qed

end
