(* ===== verification/Rest_Api.thy ===== *)
theory Rest_Api
  imports Explorer_Controllers
begin

text \<open>
  The public REST API (\<open>api/src\<close>): the RPC helper with its retries (\<open>lib/rpc.ts\<close>) and the
  blockchain, mining, transaction and wallet routes.  The server keeps no state of its own, so a
  handler runs directly on the outside state.
\<close>

section \<open>The RPC helper\<close>

type_synonym rejection = "bool \<times> string"   \<comment> \<open>whether the error carries a response, and its message\<close>

record 'x api_services =
  as_post :: "string \<Rightarrow> jsv list \<Rightarrow> 'x \<Rightarrow> (rejection + jsv) \<times> 'x"
  as_sleep :: "int \<Rightarrow> 'x \<Rightarrow> 'x"
  as_now :: "'x \<Rightarrow> int \<times> 'x"

definition credentials_ok :: "string option \<Rightarrow> string option \<Rightarrow> bool" where
  \<comment> \<open>the check at import time\<close>
  "credentials_ok user pass \<longleftrightarrow> user \<noteq> None \<and> user \<noteq> Some [] \<and> pass \<noteq> None \<and> pass \<noteq> Some []"

definition maxRetries :: nat where "maxRetries = 3"

definition backoffMs :: "int list" where "backoffMs = [100, 400, 1600]"

definition post_outcome :: "rejection + jsv \<Rightarrow> rejection + jsv" where
  \<comment> \<open>the body of the \<open>try\<close>: an error member of the answer is thrown as an error without a response\<close>
  "post_outcome r =
     (case r of
        Inl e \<Rightarrow> Inl e
      | Inr data \<Rightarrow>
          (case js_prop data ''error'' of
             Inl e \<Rightarrow> Inl (False, e)
           | Inr err \<Rightarrow>
               if truthy err then Inl (False, error_message (js_prop_opt err ''message''))
               else (case js_prop data ''result'' of Inl e \<Rightarrow> Inl (False, e) | Inr v \<Rightarrow> Inr v)))"

definition retryable :: "rejection \<Rightarrow> bool" where
  "retryable e \<longleftrightarrow> \<not> fst e \<and> \<not> js_includes (snd e) ''RPC''"

fun rpc_attempts :: "'x api_services \<Rightarrow> string \<Rightarrow> jsv list \<Rightarrow> nat \<Rightarrow> ('x, jsv) io" where
  \<comment> \<open>the loop with that many attempts left\<close>
  "rpc_attempts sv rpcMethod params 0 = io_return JUndef"
| "rpc_attempts sv rpcMethod params (Suc n) =
     (\<lambda>x. case as_post sv rpcMethod params x of (r, y) \<Rightarrow>
        (case post_outcome r of
           Inr v \<Rightarrow> (Inr v, y)
         | Inl e \<Rightarrow>
             if \<not> retryable e then (Inl (snd e), y)
             else if 0 < n then rpc_attempts sv rpcMethod params n (as_sleep sv (backoffMs ! (maxRetries - Suc n)) y)
             else (Inl (snd e), y)))"

definition api_rpc :: "'x api_services \<Rightarrow> string \<Rightarrow> jsv list \<Rightarrow> ('x, jsv) io" where
  "api_rpc sv rpcMethod params = rpc_attempts sv rpcMethod params maxRetries"

definition api_clock :: "'x api_services \<Rightarrow> ('x, int) io" where
  "api_clock sv = (\<lambda>x. case as_now sv x of (t, y) \<Rightarrow> (Inr t, y))"

definition unavailable :: "('x, response) io" where
  "unavailable = respond 500 (error_body ''Service temporarily unavailable'')"

definition api_node_health :: "'x api_services \<Rightarrow> ('x, response) io" where
  "api_node_health sv =
     io_bind (io_catch (io_bind (api_rpc sv ''getblockchaininfo'' []) (\<lambda>_. io_return ''connected'')) (\<lambda>_. io_return ''disconnected'')) (\<lambda>node.
     io_bind (api_clock sv) (\<lambda>now.
       res_json (JObj [(''status'', JStr ''ok''), (''node'', JStr node), (''timestamp'', JInt now), (''version'', JStr ''1.0.0'')])))"

definition api_not_found :: "string \<Rightarrow> ('x, response) io" where
  "api_not_found path = respond 404 (JObj [(''error'', JStr ''Not found''), (''path'', JStr path)])"

section \<open>Blockchain routes\<close>

definition blockchain_info :: "'x api_services \<Rightarrow> ('x, response) io" where
  "blockchain_info sv = io_catch (io_bind (api_rpc sv ''getblockchaininfo'' []) res_json) (\<lambda>_. unavailable)"

definition blockchain_block :: "'x api_services \<Rightarrow> string \<Rightarrow> ('x, response) io" where
  "blockchain_block sv hash =
     io_catch (io_bind (api_rpc sv ''getblock'' [JStr hash, JNum 2]) res_json)
       (\<lambda>_. respond 404 (error_body ''Block not found''))"

definition blockchain_height :: "'x api_services \<Rightarrow> string \<Rightarrow> ('x, response) io" where
  "blockchain_height sv height =
     io_catch
       (io_bind (api_rpc sv ''getblockhash'' [parsed_height height]) (\<lambda>hash.
        io_bind (api_rpc sv ''getblock'' [hash, JNum 2]) res_json))
       (\<lambda>_. respond 404 (error_body ''Block not found''))"

definition floor_or_null :: "jsv \<Rightarrow> jsv" where
  \<comment> \<open>\<open>t != null ? Math.floor(t) : null\<close>\<close>
  "floor_or_null t =
     (if t = JNull \<or> t = JUndef then JNull
      else (case js_num_opt t of None \<Rightarrow> JNaN | Some x \<Rightarrow> JInt (math_floor x)))"

definition blockchain_supply :: "'x api_services \<Rightarrow> ('x, response) io" where
  "blockchain_supply sv =
     io_catch
       (io_bind (api_rpc sv ''getblockchaininfo'' []) (\<lambda>info.
        io_bind (api_rpc sv ''gettxoutsetinfo'' []) (\<lambda>txoutset.
        io_bind (io_lift (js_prop txoutset ''total_amount'')) (\<lambda>total_amount.
        io_bind (io_lift (js_prop info ''blocks'')) (\<lambda>blocks.
          res_json (JObj [(''totalSupply'', JNum 50000000000), (''ecosystemTreasuryAllocation'', JNum 10000000000),
            (''publicMiningSupply'', JNum 40000000000), (''circulating'', floor_or_null total_amount),
            (''blockHeight'', blocks)]))))))
       (\<lambda>_. unavailable)"

definition blockchain_difficulty :: "'x api_services \<Rightarrow> ('x, response) io" where
  "blockchain_difficulty sv =
     io_catch
       (io_bind (api_rpc sv ''getdifficulty'' []) (\<lambda>d. res_json (JObj [(''difficulty'', d)])))
       (\<lambda>_. unavailable)"

section \<open>Mining routes\<close>

definition BLOCK_REWARD_TAR_UNITS :: rat where "BLOCK_REWARD_TAR_UNITS = 5000000000000"

definition HALVING_INTERVAL :: int where "HALVING_INTERVAL = 400000"

definition getCurrentBlockReward :: "int \<Rightarrow> rat" where
  \<comment> \<open>\<open>Math.pow(2, halvings)\<close> is exact below 64 halvings\<close>
  "getCurrentBlockReward blockHeight =
     (let halvings = math_floor (js_div (of_int blockHeight) (of_int HALVING_INTERVAL))
      in if 64 \<le> halvings then 0
         else js_div (js_div BLOCK_REWARD_TAR_UNITS (2 powi halvings)) (10 ^ 8))"

definition next_halving :: "int \<Rightarrow> int" where
  "next_halving blocks = (math_floor (js_div (of_int blocks) (of_int HALVING_INTERVAL)) + 1) * HALVING_INTERVAL"

definition js_rem :: "int \<Rightarrow> int \<Rightarrow> int" where
  \<comment> \<open>\<open>a % b\<close>: the sign is that of the dividend\<close>
  "js_rem a b = (if a < 0 then - ((- a) mod \<bar>b\<bar>) else a mod \<bar>b\<bar>)"

definition height_fields :: "jsv \<Rightarrow> (string \<times> jsv) list" where
  \<comment> \<open>the fields computed from the height; without a numeric height they are NaN\<close>
  "height_fields blocks =
     (case js_num_opt blocks of
        None \<Rightarrow> [(''blockReward'', JNaN), (''blockRewardUnit'', JStr ''TAR''), (''halvingInterval'', JInt HALVING_INTERVAL),
                 (''nextHalvingBlock'', JNaN), (''blocksUntilHalving'', JNaN), (''currentEra'', JNaN)]
      | Some q \<Rightarrow>
          let n = math_floor q in
          [(''blockReward'', JNum (getCurrentBlockReward n)), (''blockRewardUnit'', JStr ''TAR''),
           (''halvingInterval'', JInt HALVING_INTERVAL), (''nextHalvingBlock'', JInt (next_halving n)),
           (''blocksUntilHalving'', JInt (HALVING_INTERVAL - js_rem n HALVING_INTERVAL)),
           (''currentEra'', JInt (math_floor (js_div (of_int n) (of_int HALVING_INTERVAL)) + 1))])"

definition mining_info :: "'x api_services \<Rightarrow> ('x, response) io" where
  "mining_info sv =
     io_catch
       (io_bind (settle (api_rpc sv ''getmininginfo'' [])) (\<lambda>r1.
        io_bind (settle (api_rpc sv ''getblockchaininfo'' [])) (\<lambda>r2.
        io_bind (io_catch (api_rpc sv ''getnetworkhashps'' [JNum 120, JNum (- 1)]) (\<lambda>_. io_return (JNum 0))) (\<lambda>networkHashps.
        io_bind (io_lift r1) (\<lambda>miningInfo.
        io_bind (io_lift r2) (\<lambda>blockchainInfo.
        io_bind (io_lift (js_prop miningInfo ''blocks'')) (\<lambda>blocks.
          res_json (JObj (
            [(''algorithm'', JStr ''SHA256d''), (''blocks'', blocks),
             (''currentBlockSize'', js_or (js_prop_opt miningInfo ''currentblocksize'') (JNum 0)),
             (''currentBlockWeight'', js_or (js_prop_opt miningInfo ''currentblockweight'') (JNum 0)),
             (''difficulty'', js_prop_opt miningInfo ''difficulty''), (''networkHashrate'', networkHashps),
             (''networkHashrateUnit'', JStr ''H/s''),
             (''pooledTx'', js_or (js_prop_opt miningInfo ''pooledtx'') (JNum 0)),
             (''chain'', js_prop_opt miningInfo ''chain'')] @ height_fields blocks @
            [(''asicCompatible'', JBool True), (''stratumPort'', JNum 3333), (''totalSupply'', JNum 50000000000),
             (''publicMiningSupply'', JNum 40000000000)])))))))))
       (\<lambda>_. unavailable)"

definition mining_difficulty :: "'x api_services \<Rightarrow> ('x, response) io" where
  "mining_difficulty sv =
     io_catch
       (io_bind (settle (api_rpc sv ''getdifficulty'' [])) (\<lambda>r1.
        io_bind (io_catch (api_rpc sv ''getnetworkhashps'' [JNum 120, JNum (- 1)]) (\<lambda>_. io_return (JNum 0))) (\<lambda>hashps.
        io_bind (io_lift r1) (\<lambda>difficulty.
          res_json (JObj [(''difficulty'', difficulty), (''networkHashrate'', hashps), (''networkHashrateUnit'', JStr ''H/s''),
            (''nBits'', JStr ''1f00ffff''),
            (''powTarget'', JStr ''0000ffff00000000000000000000000000000000000000000000000000000000'')])))))
       (\<lambda>_. unavailable)"

definition mining_hashrate :: "'x api_services \<Rightarrow> string option \<Rightarrow> ('x, response) io" where
  "mining_hashrate sv q =
     (let nblocks = query_int q 120 in
      io_catch
        (io_bind (api_rpc sv ''getnetworkhashps'' [JInt nblocks, JNum (- 1)]) (\<lambda>hashps.
           res_json (JObj [(''hashrate'', hashps), (''unit'', JStr ''H/s''), (''averageBlocks'', JInt nblocks)])))
        (\<lambda>_. unavailable))"

definition mining_blocktemplate :: "'x api_services \<Rightarrow> ('x, response) io" where
  "mining_blocktemplate sv =
     io_catch
       (io_bind (api_rpc sv ''getblocktemplate'' [JObj [(''rules'', JArr [JStr ''segwit''])]]) res_json)
       (\<lambda>_. unavailable)"

section \<open>Transaction routes\<close>

definition nonempty_string :: "jsv \<Rightarrow> bool" where
  "nonempty_string v \<longleftrightarrow> (case js_string_opt v of None \<Rightarrow> False | Some s \<Rightarrow> s \<noteq> [])"

definition message_body :: "string \<Rightarrow> string \<Rightarrow> jsv" where
  "message_body err msg = JObj [(''error'', JStr err), (''message'', JStr msg)]"

definition transactions_decode :: "'x api_services \<Rightarrow> jsv \<Rightarrow> ('x, response) io" where
  "transactions_decode sv body =
     io_catch
       (io_bind (io_lift (js_prop body ''rawTx'')) (\<lambda>rawTx.
          if \<not> nonempty_string rawTx then respond 400 (error_body ''rawTx hex string is required'')
          else io_bind (api_rpc sv ''decoderawtransaction'' [rawTx]) res_json))
       (\<lambda>e. respond 400 (message_body ''Failed to decode transaction'' e))"

definition MAX_RAW_TX_CHARS :: nat where "MAX_RAW_TX_CHARS = 800000"

definition send_rejected :: "string \<Rightarrow> response" where
  "send_rejected msg =
     (if js_includes msg ''insufficient fee'' then (400, message_body ''Insufficient fee'' msg)
      else if js_includes msg ''already in block chain'' then (409, message_body ''Transaction already confirmed'' msg)
      else if js_includes msg ''bad-txns'' then (400, message_body ''Invalid transaction'' msg)
      else (400, message_body ''Failed to broadcast transaction'' msg))"

definition transactions_send :: "'x api_services \<Rightarrow> jsv \<Rightarrow> ('x, response) io" where
  "transactions_send sv body =
     io_catch
       (io_bind (io_lift (js_prop body ''hex'')) (\<lambda>hex.
          if \<not> nonempty_string hex then respond 400 (error_body ''hex string is required'')
          else if MAX_RAW_TX_CHARS < length (text_of (js_string_opt hex))
          then respond 400 (message_body ''Transaction too large'' ''Maximum raw transaction size is 400KB'')
          else
            io_bind (api_rpc sv ''sendrawtransaction'' [hex]) (\<lambda>txid.
              res_json (JObj [(''txid'', txid), (''message'', JStr ''Transaction broadcast successfully''),
                (''url'', JStr (''/tx/'' @ js_tostring txid))]))))
       (\<lambda>e. io_return (send_rejected e))"

definition transactions_get :: "'x api_services \<Rightarrow> string \<Rightarrow> ('x, response) io" where
  "transactions_get sv txid =
     io_catch
       (if \<not> is_txid txid then respond 400 (error_body ''Invalid txid format'')
        else io_bind (api_rpc sv ''getrawtransaction'' [JStr txid, JBool True]) res_json)
       (\<lambda>_. respond 404 (error_body ''Transaction not found''))"

section \<open>Wallet routes\<close>

definition wallet_validate :: "'x api_services \<Rightarrow> string \<Rightarrow> ('x, response) io" where
  "wallet_validate sv address =
     io_catch
       (io_bind (api_rpc sv ''validateaddress'' [JStr address]) (\<lambda>result.
        io_bind (io_lift (js_prop result ''isvalid'')) (\<lambda>isvalid.
          res_json (JObj [(''address'', JStr address), (''valid'', isvalid),
            (''scriptPubKey'', js_prop_opt result ''scriptPubKey''),
            (''isWitness'', js_or (js_prop_opt result ''iswitness'') (JBool False)),
            (''witnessVersion'', js_prop_opt result ''witness_version''),
            (''witnessProgram'', js_prop_opt result ''witness_program''),
            (''network'', if truthy isvalid then JStr (if startsWith address ''tar1'' then ''bech32'' else ''base58'') else JNull)]))))
       (\<lambda>_. unavailable)"

definition fee_answer :: "int \<Rightarrow> rat \<Rightarrow> jsv" where
  "fee_answer confTarget feeRate =
     JObj [(''feeRate'', JNum feeRate), (''unit'', JStr ''TAR/kB''), (''confTarget'', JInt confTarget),
       (''fast'', JNum (max (js_mul feeRate 2) (fl (1 / 10 ^ 4)))), (''medium'', JNum feeRate),
       (''slow'', JNum (max (js_mul feeRate (1 / 2)) (fl (1 / 10 ^ 6))))]"

definition wallet_estimate_fee :: "'x api_services \<Rightarrow> string option \<Rightarrow> ('x, response) io" where
  "wallet_estimate_fee sv q =
     (let confTarget = query_int q 6 in
      io_catch
        (io_bind
          (io_catch
            (io_bind (api_rpc sv ''estimatesmartfee'' [JInt confTarget, JStr ''CONSERVATIVE'']) (\<lambda>estimate.
             io_bind (io_lift (js_prop estimate ''feerate'')) (\<lambda>feerate.
               io_return (case js_num_opt feerate of Some r \<Rightarrow> if r \<noteq> 0 then r else fl (1 / 10 ^ 5) | None \<Rightarrow> fl (1 / 10 ^ 5)))))
            (\<lambda>_. io_return (fl (1 / 10 ^ 5))))
          (\<lambda>feeRate. res_json (fee_answer confTarget feeRate)))
        (\<lambda>_. unavailable))"

fun sum_amounts :: "rat option \<Rightarrow> jsv list \<Rightarrow> exn + rat option" where
  \<comment> \<open>\<open>utxos.reduce((sum, u) => sum + u.amount, 0)\<close>\<close>
  "sum_amounts acc [] = Inr acc"
| "sum_amounts acc (u # us) = res_bind (js_prop u ''amount'') (\<lambda>a. sum_amounts (num_add acc (js_num_opt a)) us)"

definition wallet_utxo :: "'x api_services \<Rightarrow> string \<Rightarrow> string option \<Rightarrow> string option \<Rightarrow> ('x, response) io" where
  "wallet_utxo sv address qmin qmax =
     io_catch
       (io_bind (api_rpc sv ''listunspent'' [JInt (query_int qmin 0), JInt (query_int qmax 9999999), JArr [JStr address]]) (\<lambda>utxos.
          case utxos of
            JArr us \<Rightarrow>
              io_bind (io_lift (sum_amounts (Some 0) us)) (\<lambda>sum.
                res_json (JObj [(''address'', JStr address), (''utxos'', utxos), (''total'', num_json sum),
                  (''count'', JInt (int (length us)))]))
          | _ \<Rightarrow> io_throw type_error))
       (\<lambda>_. unavailable)"

section \<open>Cross-origin requests\<close>

definition cors_allowed :: "string option \<Rightarrow> string option \<Rightarrow> bool" where
  \<comment> \<open>the configured origins, and the origin of the request\<close>
  "cors_allowed corsOrigin origin =
     (let configured = (case corsOrigin of None \<Rightarrow> ''https://tarcoin.org'' | Some s \<Rightarrow> if s = [] then ''https://tarcoin.org'' else s);
          allowedOrigins = map js_trim (js_split CHR '','' configured)
      in case origin of None \<Rightarrow> True | Some v \<Rightarrow> v = [] \<or> v \<in> set allowedOrigins)"

section \<open>How often the node is asked\<close>

definition posts_logged :: "'x api_services \<Rightarrow> ('x \<Rightarrow> (string \<times> jsv list) list) \<Rightarrow> ('x \<Rightarrow> int list) \<Rightarrow> bool" where
  \<comment> \<open>\<open>plog\<close> and \<open>slept\<close> read the calls and the waits off the outside state\<close>
  "posts_logged sv plog slept \<longleftrightarrow>
     (\<forall>m ps x. plog (snd (as_post sv m ps x)) = plog x @ [(m, ps)] \<and> slept (snd (as_post sv m ps x)) = slept x) \<and>
     (\<forall>t x. plog (as_sleep sv t x) = plog x \<and> slept (as_sleep sv t x) = slept x @ [t])"

lemma attempts_log:
  assumes "posts_logged sv plog slept" and "\<And>x. post_outcome (fst (as_post sv m ps x)) = Inl e" and "n < maxRetries"
  shows "fst (rpc_attempts sv m ps (Suc n) x) = Inl (snd e) \<and>
    plog (snd (rpc_attempts sv m ps (Suc n) x)) = plog x @ replicate (if retryable e then Suc n else 1) (m, ps) \<and>
    slept (snd (rpc_attempts sv m ps (Suc n) x)) =
      slept x @ (if retryable e then take n (drop (maxRetries - Suc n) backoffMs) else [])"
  using assms(3)
proof (induction n arbitrary: x)
  case 0
  obtain r y where y: "as_post sv m ps x = (r, y)" by fastforce
  have "plog y = plog x @ [(m, ps)]" "slept y = slept x" using assms(1) y unfolding posts_logged_def by (metis snd_conv)+
  with y assms(2) [of x] show ?case by simp
next
  case (Suc n)
  obtain r y where y: "as_post sv m ps x = (r, y)" by fastforce
  have l: "plog y = plog x @ [(m, ps)]" "slept y = slept x" using assms(1) y unfolding posts_logged_def by (metis snd_conv)+
  define z where "z = as_sleep sv (backoffMs ! (maxRetries - Suc (Suc n))) y"
  have z: "plog z = plog y" "slept z = slept y @ [backoffMs ! (maxRetries - Suc (Suc n))]"
    using assms(1) by (simp_all add: z_def posts_logged_def)
  have d: "drop (maxRetries - Suc (Suc n)) backoffMs =
      backoffMs ! (maxRetries - Suc (Suc n)) # drop (maxRetries - Suc n) backoffMs"
    using Suc.prems by (cases n) (auto simp: maxRetries_def backoffMs_def numeral_eq_Suc less_Suc_eq)
  have step: "rpc_attempts sv m ps (Suc (Suc n)) x =
      (if retryable e then rpc_attempts sv m ps (Suc n) z else (Inl (snd e), y))"
    using y assms(2) [of x] by (simp add: z_def)
  show ?case
    using Suc.IH [of z] Suc.prems l z unfolding step d by (simp del: rpc_attempts.simps)
qed


record apimem =
  am_posts :: "(string \<times> jsv list) list"
  am_slept :: "int list"

definition rejecting_node :: "apimem api_services" where
  \<comment> \<open>a node that answers every call with an error\<close>
  "rejecting_node =
     \<lparr>as_post = (\<lambda>m ps x. (Inr (JObj [(''error'', JObj [(''message'', JStr ''bad-txns'')])]), x\<lparr>am_posts := am_posts x @ [(m, ps)]\<rparr>)),
      as_sleep = (\<lambda>t x. x\<lparr>am_slept := am_slept x @ [t]\<rparr>), as_now = (\<lambda>x. (0, x))\<rparr>"


section \<open>The reward schedule\<close>

lemma era_floor:
  assumes "0 \<le> n" and "n < 25600000"
  shows "math_floor (js_div (of_int n) (of_int HALVING_INTERVAL)) = n div 400000"
proof -
  define q where "q = n div 400000"
  define y :: rat where "y = of_int n / 400000"
  have n: "n = 400000 * q + n mod 400000" by (simp add: q_def)
  have r: "0 \<le> n mod 400000" "n mod 400000 \<le> 399999" using pos_mod_bound [of 400000 n] by simp_all
  have q: "0 \<le> q" "q < 64" using assms by (simp_all add: q_def)
  have yq: "of_int q \<le> y" "y \<le> of_int q + 399999 / 400000"
    using n r unfolding y_def by (simp_all add: field_simps flip: of_int_mult of_int_add)
  have "fl (of_int q) \<le> fl y" using yq(1) by (rule fl_mono)
  then have lo: "of_int q \<le> fl y" using q by simp
  have "\<bar>fl y - y\<bar> \<le> \<bar>y\<bar> / 2 ^ 53" by (rule fl_error)
  also have "\<dots> \<le> 1 / 10 ^ 6 * (1 / 4)" using yq q assms unfolding y_def by simp
  finally have hi: "fl y < of_int q + 1" using yq(2) by (simp add: abs_if split: if_splits)
  from lo hi have "\<lfloor>fl y\<rfloor> = q" by (simp add: floor_eq_iff)
  then show ?thesis by (simp add: math_floor_def js_div_def HALVING_INTERVAL_def y_def q_def)
qed

lemma era_floor_late:
  assumes "25600000 \<le> n"
  shows "64 \<le> math_floor (js_div (of_int n) (of_int HALVING_INTERVAL))"
proof -
  have "(64 :: rat) \<le> of_int n / 400000" using assms by simp
  then have "fl (of_int 64) \<le> fl (of_int n / 400000)" by (intro fl_mono) simp
  then have "64 \<le> fl (of_int n / 400000)" by (subst (asm) fl_of_int) simp_all
  then show ?thesis by (simp add: math_floor_def js_div_def HALVING_INTERVAL_def le_floor_iff)
qed

lemma reward_value:
  "getCurrentBlockReward (int n) = (if n < 25600000 then 50000 / 2 ^ (n div 400000) else 0)"
proof (cases "n < 25600000")
  case False
  then show ?thesis using era_floor_late [of "int n"] by (simp add: getCurrentBlockReward_def)
next
  case True
  define k where "k = n div 400000"
  have k: "int n div 400000 = int k" "k < 64" using True by (simp_all add: k_def zdiv_int less_mult_imp_div_less)
  have e: "math_floor (js_div (of_int (int n)) (of_int HALVING_INTERVAL)) = int k"
    using era_floor [of "int n"] True k(1) by simp
  have p: "(2 :: rat) powi int k = 2 ^ k" by simp
  have d1: "fl (5000000000000 / 2 ^ k) = 5000000000000 / 2 ^ k"
    using fl_dyadic [of 5000000000000 "- int k"] by (simp add: power_int_minus divide_inverse)
  have d2: "fl (50000 / 2 ^ k) = 50000 / 2 ^ k"
    using fl_dyadic [of 50000 "- int k"] by (simp add: power_int_minus divide_inverse)
  have "js_div (js_div BLOCK_REWARD_TAR_UNITS (2 ^ k)) (10 ^ 8) = fl (5000000000000 / 2 ^ k / 10 ^ 8)"
    by (simp add: js_div_def BLOCK_REWARD_TAR_UNITS_def d1)
  also have "5000000000000 / 2 ^ k / 10 ^ 8 = (50000 / 2 ^ k :: rat)" by simp
  finally show ?thesis using True k e d2 unfolding getCurrentBlockReward_def Let_def e p by (simp add: k_def [symmetric])
qed

lemma reward_sum:
  "n \<le> 25600000 \<Longrightarrow>
   (\<Sum>h<n. getCurrentBlockReward (int h)) = 40000000000 - (800000 - of_nat (n mod 400000)) * (50000 / 2 ^ (n div 400000))"
proof (induction n)
  case 0 show ?case by simp
next
  case (Suc n)
  let ?R = "50000 / 2 ^ (n div 400000) :: rat"
  have ih: "(\<Sum>h<n. getCurrentBlockReward (int h)) = 40000000000 - (800000 - of_nat (n mod 400000)) * ?R"
    using Suc by simp
  have rw: "getCurrentBlockReward (int n) = ?R" using Suc.prems by (simp add: reward_value)
  have s: "(\<Sum>h<Suc n. getCurrentBlockReward (int h)) = 40000000000 - (799999 - of_nat (n mod 400000)) * ?R"
    unfolding sum.lessThan_Suc ih rw by (simp add: algebra_simps)
  show ?case
  proof (cases "Suc (n mod 400000) = 400000")
    case True
    then have "Suc n mod 400000 = 0" "Suc n div 400000 = Suc (n div 400000)" by (simp_all add: mod_Suc div_Suc)
    moreover from True have "n mod 400000 = 399999" by simp
    ultimately show ?thesis unfolding s by simp
  next
    case False
    then have "Suc n mod 400000 = Suc (n mod 400000)" "Suc n div 400000 = n div 400000" by (simp_all add: mod_Suc div_Suc)
    then show ?thesis unfolding s by simp
  qed
qed

text \<open>
  C34. The block rewards the mining endpoint reports halve exactly every 400,000 blocks, without a rounding
  error, and add up to the advertised public mining supply of 40,000,000,000: the total up to any
  height stays below it, and past the last era it falls short by one part in two to the 64.
\<close>
theorem reward_schedule_total:
  "getCurrentBlockReward (int n) = (if n < 25600000 then 50000 / 2 ^ (n div 400000) else 0) \<and>
   (\<Sum>h<n. getCurrentBlockReward (int h)) < 40000000000 \<and>
   (\<Sum>h<25600000 + n. getCurrentBlockReward (int h)) = 40000000000 * (1 - 1 / 2 ^ 64)"
proof -
  have full: "(\<Sum>h<25600000 + k. getCurrentBlockReward (int h)) = 40000000000 * (1 - 1 / 2 ^ 64)" for k
  proof (induction k)
    case 0 show ?case using reward_sum [of 25600000] by simp
  next
    case (Suc k)
    have "(\<Sum>h<25600000 + Suc k. getCurrentBlockReward (int h)) =
        (\<Sum>h<25600000 + k. getCurrentBlockReward (int h)) + getCurrentBlockReward (int (25600000 + k))"
      by (simp only: add_Suc_right sum.lessThan_Suc)
    also have "getCurrentBlockReward (int (25600000 + k)) = 0" unfolding reward_value by simp
    finally show ?case using Suc.IH by simp
  qed
  have "(\<Sum>h<n. getCurrentBlockReward (int h)) < 40000000000"
  proof (cases "n \<le> 25600000")
    case True
    have "n mod 400000 < 400000" by simp
    then have "(of_nat (n mod 400000) :: rat) < 800000" by simp
    then show ?thesis unfolding reward_sum [OF True] by simp
  next
    case False
    then show ?thesis using full [of "n - 25600000"] by simp
  qed
  with full reward_value show ?thesis by simp
qed

end
