(* ===== verification/Website.thy ===== *)
theory Website
  imports Explorer_Controllers
begin

text \<open>
  The server side of the website (\<open>website/app/api\<close>): the download route, the proxies of the name
  service, the faucet routes; and the script that prepares the static export (\<open>export-ipfs.js\<close>).
  The file system, the network and the node's command line are parameters.
\<close>

section \<open>Paths\<close>

fun norm_segments :: "string list \<Rightarrow> string list \<Rightarrow> string list" where
  \<comment> \<open>resolve \<open>.\<close> and \<open>..\<close>; the first argument is the path so far, reversed\<close>
  "norm_segments acc [] = rev acc"
| "norm_segments acc (s # ss) =
     (if s = [] \<or> s = ''.'' then norm_segments acc ss
      else if s = ''..'' then norm_segments (tl acc) ss
      else norm_segments (s # acc) ss)"

definition path_resolve :: "string \<Rightarrow> string \<Rightarrow> string" where
  \<comment> \<open>\<open>path.resolve(base, rel)\<close> for an absolute base and a relative path\<close>
  "path_resolve base rel =
     ''/'' @ js_join ''/'' (norm_segments [] (js_split CHR ''/'' base @ js_split CHR ''/'' rel))"

section \<open>The download route\<close>

record file_entry =
  fe_filename :: string
  fe_contentType :: string
  fe_localPaths :: "string list"
  fe_githubAsset :: "string option"

definition RELEASE_VERSION :: string where
  "RELEASE_VERSION = ''v1.2.6''"

definition GITHUB_RELEASE_BASE :: string where
  "GITHUB_RELEASE_BASE = ''https://github.com/Tarcoin/tarcoin/releases/download/'' @ RELEASE_VERSION"

definition FILE_MAP :: "(string \<times> file_entry) list" where
  "FILE_MAP =
     [(''tarcoin-extension.zip'',
        \<lparr>fe_filename = ''tarcoin-extension.zip'', fe_contentType = ''application/zip'',
         fe_localPaths = [''public/downloads/tarcoin-extension.zip'', ''public/tarcoin-extension.zip''],
         fe_githubAsset = None\<rparr>),
      (''tarcoin-linux-full.zip'',
        \<lparr>fe_filename = ''tarcoin-linux-full.zip'', fe_contentType = ''application/zip'',
         fe_localPaths = [''public/downloads/tarcoin-linux-full.zip'', ''public/tarcoin-linux-full.zip''],
         fe_githubAsset = Some (''tarcoin-linux-full-'' @ RELEASE_VERSION @ ''.zip'')\<rparr>),
      (''tarcoin-linux-daemon.zip'',
        \<lparr>fe_filename = ''tarcoin-linux-daemon.zip'', fe_contentType = ''application/zip'',
         fe_localPaths = [''public/downloads/tarcoin-linux-daemon.zip'', ''public/tarcoin-linux-daemon.zip''],
         fe_githubAsset = Some (''tarcoin-linux-server-'' @ RELEASE_VERSION @ ''.zip'')\<rparr>),
      (''tarcoin-wallet-win64.zip'',
        \<lparr>fe_filename = ''tarcoin-wallet-win64.zip'', fe_contentType = ''application/zip'',
         fe_localPaths = [''public/downloads/tarcoin-wallet-win64.zip'', ''public/tarcoin-wallet-win64.zip''],
         fe_githubAsset = Some (''tarcoin-windows-wallet-'' @ RELEASE_VERSION @ ''.zip'')\<rparr>),
      (''tarcoin-macos-app.zip'',
        \<lparr>fe_filename = ''tarcoin-macos-app.zip'', fe_contentType = ''application/zip'',
         fe_localPaths = [''public/downloads/tarcoin-macos-app.zip'', ''public/tarcoin-macos-app.zip''],
         fe_githubAsset = Some ''tarcoin-macos-app.zip''\<rparr>),
      (''tarcoin-wallet.apk'',
        \<lparr>fe_filename = ''tarcoin-wallet.apk'', fe_contentType = ''application/vnd.android.package-archive'',
         fe_localPaths = [''public/tarcoin-wallet.apk'', ''public/downloads/tarcoin-wallet.apk''],
         fe_githubAsset = None\<rparr>)]"

definition inherited_names :: "string list" where
  \<comment> \<open>what an object literal inherits from \<open>Object.prototype\<close>\<close>
  "inherited_names =
     [''constructor'', ''__proto__'', ''__defineGetter__'', ''__defineSetter__'', ''__lookupGetter__'', ''__lookupSetter__'',
      ''hasOwnProperty'', ''isPrototypeOf'', ''propertyIsEnumerable'', ''toLocaleString'', ''toString'', ''valueOf'']"

datatype web_response =
    WJson nat jsv
  | WFile file_entry "8 word list"
  | WRedirect nat string

fun serve_local :: "(string \<Rightarrow> 8 word list option) \<Rightarrow> string \<Rightarrow> string list \<Rightarrow> 8 word list option \<times> string list" where
  \<comment> \<open>the first readable path, and the paths that were read\<close>
  "serve_local readFileSync projectRoot [] = (None, [])"
| "serve_local readFileSync projectRoot (localPath # ps) =
     (let fullPath = path_resolve projectRoot localPath in
      if \<not> startsWith fullPath (path_resolve projectRoot []) then serve_local readFileSync projectRoot ps
      else
        (case readFileSync fullPath of
           Some buffer \<Rightarrow> (Some buffer, [fullPath])
         | None \<Rightarrow> (case serve_local readFileSync projectRoot ps of (r, tried) \<Rightarrow> (r, fullPath # tried))))"

definition download_GET :: "(string \<Rightarrow> 8 word list option) \<Rightarrow> string \<Rightarrow> string \<Rightarrow> exn + web_response \<times> string list" where
  \<comment> \<open>the answer, and the files read on the way\<close>
  "download_GET readFileSync projectRoot file =
     (case map_get FILE_MAP file of
        None \<Rightarrow>
          if file \<in> set inherited_names then Inl type_error
          else Inr (WJson 404 (error_body ''Unknown download file''), [])
      | Some entry \<Rightarrow>
          (case serve_local readFileSync projectRoot (fe_localPaths entry) of
             (Some buffer, tried) \<Rightarrow> Inr (WFile entry buffer, tried)
           | (None, tried) \<Rightarrow>
               (case fe_githubAsset entry of
                  Some asset \<Rightarrow> Inr (WRedirect 302 (GITHUB_RELEASE_BASE @ ''/'' @ asset), tried)
                | None \<Rightarrow> Inr (WJson 404 (error_body ''File not found on server''), tried))))"

section \<open>Proxies and faucet routes\<close>

record 'x web_services =
  wb_fetch :: "string \<Rightarrow> string \<Rightarrow> jsv option \<Rightarrow> 'x \<Rightarrow> (exn + nat \<times> jsv) \<times> 'x"
    \<comment> \<open>method, address and body; the status and the parsed JSON, or the exception of either\<close>
  wb_exec :: "string \<Rightarrow> 'x \<Rightarrow> (exn + string) \<times> 'x"
  wb_parse :: "string \<Rightarrow> exn + jsv"

definition web_call :: "('x \<Rightarrow> (exn + 'a) \<times> 'x) \<Rightarrow> ('x, 'a) io" where
  "web_call f = f"

definition tns_GET :: "'x web_services \<Rightarrow> string list \<Rightarrow> string \<Rightarrow> ('x, response) io" where
  "tns_GET sv path url_search =
     io_catch
       (io_bind (web_call (wb_fetch sv ''GET''
           (''http://127.0.0.1:3005/api/tns/'' @ js_join ''/'' path @ url_search) None)) (\<lambda>(status, data).
          respond status (to_json data)))
       (\<lambda>e. respond 502 (JObj [(''error'', JStr ''TNS Service unavailable''), (''details'', JStr e)]))"

definition tns_POST :: "'x web_services \<Rightarrow> string list \<Rightarrow> exn + jsv \<Rightarrow> ('x, response) io" where
  "tns_POST sv path body =
     io_catch
       (io_bind (io_lift body) (\<lambda>b.
        io_bind (web_call (wb_fetch sv ''POST'' (''http://127.0.0.1:3005/api/tns/'' @ js_join ''/'' path) (Some (to_json b)))) (\<lambda>(status, data).
          respond status (to_json data))))
       (\<lambda>e. respond 502 (JObj [(''error'', JStr ''TNS Service unavailable''), (''details'', JStr e)]))"

definition domains_register_POST :: "'x web_services \<Rightarrow> exn + jsv \<Rightarrow> ('x, response) io" where
  "domains_register_POST sv body =
     io_catch
       (io_bind (io_lift body) (\<lambda>b.
        io_bind (web_call (wb_fetch sv ''POST'' ''http://127.0.0.1:3005/api/tns/register'' (Some (to_json b)))) (\<lambda>(status, data).
          respond status (to_json data))))
       (\<lambda>e. respond 502 (JObj [(''error'', JStr ''TNS Registration service temporarily unavailable''), (''details'', JStr e)]))"

definition web_faucet_POST :: "exn + jsv \<Rightarrow> ('x, response) io" where
  "web_faucet_POST body =
     io_catch
       (io_bind (io_lift body) (\<lambda>_.
          respond 403 (error_body ''The bootstrap faucet has officially concluded following the live NestEx exchange listing. All rewards are now allocated to active Proof-of-Work miners.'')))
       (\<lambda>_. respond 500 (error_body ''Internal Server Error connecting to Faucet Backend''))"

definition is_ledger_payout :: "jsv \<Rightarrow> bool" where
  "is_ledger_payout tx \<longleftrightarrow>
     js_prop_opt tx ''category'' = JStr ''send'' \<and>
     (case js_num_opt (js_prop_opt tx ''amount'') of Some x \<Rightarrow> \<bar>x\<bar> \<noteq> 10000 | None \<Rightarrow> True)"

definition ledger_payouts :: "jsv list \<Rightarrow> jsv list" where
  \<comment> \<open>newest first\<close>
  "ledger_payouts transactions =
     sort_key (\<lambda>tx. - num_or0 (js_prop_opt tx ''time'')) (filter is_ledger_payout transactions)"

definition faucet_ledger_GET :: "'x web_services \<Rightarrow> ('x, response) io" where
  "faucet_ledger_GET sv =
     io_catch
       (io_bind (web_call (wb_exec sv ''/usr/local/bin/tarcoin-cli -rpcwallet=faucet getbalance'')) (\<lambda>balStdout.
        io_bind (web_call (wb_exec sv ''/usr/local/bin/tarcoin-cli -rpcwallet=faucet listtransactions \"*\" 10000'')) (\<lambda>txStdout.
        io_bind (io_lift (wb_parse sv txStdout)) (\<lambda>transactions.
          case transactions of
            JArr txs \<Rightarrow>
              if list_all destructurable txs then
                res_json (JObj [(''success'', JBool True), (''balance'', num_json (js_parseFloat (js_trim balStdout))),
                  (''payouts'', JArr (ledger_payouts txs))])
              else io_throw type_error
          | _ \<Rightarrow> io_throw type_error))))
       (\<lambda>e. res_json (JObj [(''success'', JBool False), (''error'', JStr ''Failed to connect to node.''), (''details'', JStr e),
              (''balance'', JNull), (''payouts'', JArr [])]))"

section \<open>The static export\<close>

datatype tree = TFile string | TDir string "tree list"

definition path_join :: "string \<Rightarrow> string \<Rightarrow> string" where
  "path_join dir name = dir @ ''/'' @ name"

fun findRouteFiles :: "string \<Rightarrow> tree list \<Rightarrow> string list" where
  "findRouteFiles dir [] = []"
| "findRouteFiles dir (TDir name entries # ts) =
     findRouteFiles (path_join dir name) entries @ findRouteFiles dir ts"
| "findRouteFiles dir (TFile name # ts) =
     (if name = ''route.ts'' \<or> name = ''route.js'' then [path_join dir name] else []) @ findRouteFiles dir ts"

type_synonym files = "string \<Rightarrow> string option"

definition renameSync :: "string \<Rightarrow> string \<Rightarrow> (files, unit) io" where
  "renameSync a b = (\<lambda>fs. case fs a of None \<Rightarrow> (Inl ''ENOENT'', fs) | Some c \<Rightarrow> (Inr (), (fs(a := None))(b := Some c)))"

definition bak_of :: "string \<Rightarrow> string" where
  "bak_of r = r @ ''.bak''"

fun rename_routes :: "string list \<Rightarrow> string list \<Rightarrow> files \<Rightarrow> (exn + unit) \<times> string list \<times> files" where
  \<comment> \<open>step 1; the second argument and the second result are the routes renamed so far\<close>
  "rename_routes [] renamed fs = (Inr (), renamed, fs)"
| "rename_routes (r # rs) renamed fs =
     (case renameSync r (bak_of r) fs of
        (Inl e, fs') \<Rightarrow> (Inl e, renamed, fs')
      | (Inr _, fs') \<Rightarrow> rename_routes rs (renamed @ [r]) fs')"

fun restore_routes :: "string list \<Rightarrow> files \<Rightarrow> files" where
  "restore_routes [] fs = fs"
| "restore_routes (r # rs) fs =
     restore_routes rs (if fs (bak_of r) \<noteq> None then snd (renameSync (bak_of r) r fs) else fs)"

definition getDepthPrefix :: "nat \<Rightarrow> string" where
  "getDepthPrefix depth = (if depth = 0 then ''./'' else concat (replicate depth ''../''))"

definition internalPages :: "string list" where
  "internalPages =
     [''explorer'', ''mining'', ''domains'', ''wallet'', ''api'', ''whitepaper'', ''transparency'', ''download'', ''downloads'',
      ''faq'', ''faucet'', ''network'', ''richlist'', ''security'', ''brand'', ''legal'', ''privacy'', ''verify'', ''you-need-to-know'']"

function replace_all :: "string \<Rightarrow> string \<Rightarrow> string \<Rightarrow> string" where
  \<comment> \<open>\<open>s.replace(/pat/g, rep)\<close> for a literal pattern\<close>
  "replace_all pat rep s =
     (if s = [] \<or> pat = [] then s
      else if startsWith s pat then rep @ replace_all pat rep (drop (length pat) s)
      else hd s # replace_all pat rep (tl s))"
  by pat_completeness auto
termination by (relation "measure (\<lambda>(p, r, s). length s)") auto

declare replace_all.simps [simp del]

definition dq :: string where "dq = [CHR 0x22]"

definition bs :: string where "bs = [CHR 0x5C]"

definition asset_rules :: "string \<Rightarrow> (string \<times> string) list" where
  "asset_rules prefix =
     [(''href='' @ dq @ ''/_next/'', ''href='' @ dq @ prefix @ ''_next/''),
      (''src='' @ dq @ ''/_next/'', ''src='' @ dq @ prefix @ ''_next/''),
      (''href='' @ dq @ ''/logo.png'' @ dq, ''href='' @ dq @ prefix @ ''logo.png'' @ dq),
      (''src='' @ dq @ ''/logo.png'' @ dq, ''src='' @ dq @ prefix @ ''logo.png'' @ dq),
      (''href='' @ dq @ ''/favicon.png'' @ dq, ''href='' @ dq @ prefix @ ''favicon.png'' @ dq),
      (''href='' @ dq @ ''/favicon.ico'' @ dq, ''href='' @ dq @ prefix @ ''favicon.ico'' @ dq),
      (''href='' @ dq @ ''/tarcoin-favicon'', ''href='' @ dq @ prefix @ ''tarcoin-favicon''),
      (''src='' @ dq @ ''/tarcoin-logo'', ''src='' @ dq @ prefix @ ''tarcoin-logo''),
      (''src='' @ dq @ ''/cryptojar_partnership.png'' @ dq, ''src='' @ dq @ prefix @ ''cryptojar_partnership.png'' @ dq),
      (''src='' @ dq @ ''/blockspot-icon.png'' @ dq, ''src='' @ dq @ prefix @ ''blockspot-icon.png'' @ dq),
      (''src='' @ dq @ ''/blockspot.png'' @ dq, ''src='' @ dq @ prefix @ ''blockspot.png'' @ dq)]"

definition page_rules :: "string \<Rightarrow> (string \<times> string) list" where
  "page_rules prefix =
     map (\<lambda>p. (''href='' @ dq @ ''/'' @ p @ ''/'' @ dq, ''href='' @ dq @ prefix @ p @ ''/'' @ dq)) internalPages @
     [(''href='' @ dq @ ''/'' @ dq, ''href='' @ dq @ prefix @ dq),
      (bs @ dq @ ''/_next/'', bs @ dq @ prefix @ ''_next/''),
      (dq @ ''assetPrefix'' @ dq @ '':'' @ dq @ dq,
       dq @ ''assetPrefix'' @ dq @ '':'' @ dq @ (if prefix = ''./'' then ''.'' else butlast prefix) @ dq)]"

definition relativize :: "nat \<Rightarrow> string \<Rightarrow> string" where
  \<comment> \<open>what \<open>processHtmlFiles\<close> does to a page at that depth\<close>
  "relativize depth content =
     foldl (\<lambda>s (pat, rep). replace_all pat rep s) content
       (asset_rules (getDepthPrefix depth) @ page_rules (getDepthPrefix depth))"

fun processHtmlFiles :: "string \<Rightarrow> nat \<Rightarrow> tree list \<Rightarrow> files \<Rightarrow> files" where
  "processHtmlFiles dir depth [] fs = fs"
| "processHtmlFiles dir depth (TDir name entries # ts) fs =
     processHtmlFiles dir depth ts (processHtmlFiles (path_join dir name) (Suc depth) entries fs)"
| "processHtmlFiles dir depth (TFile name # ts) fs =
     processHtmlFiles dir depth ts
       (if endsWith name ''.html''
        then fs(path_join dir name := map_option (relativize depth) (fs (path_join dir name))) else fs)"

fun replace_first :: "string \<Rightarrow> string \<Rightarrow> string \<Rightarrow> string" where
  \<comment> \<open>\<open>s.replace(pat, rep)\<close>\<close>
  "replace_first pat rep [] = (if pat = [] then rep else [])"
| "replace_first pat rep (c # cs) =
     (if startsWith (c # cs) pat then rep @ drop (length pat) (c # cs) else c # replace_first pat rep cs)"

definition patch_webpack :: "string \<Rightarrow> string" where
  "patch_webpack code = replace_first (''d.p='' @ dq @ ''/_next/'' @ dq) (''d.p='' @ dq @ dq) code"

fun patch_chunks :: "string \<Rightarrow> string list \<Rightarrow> files \<Rightarrow> files" where
  "patch_chunks chunksDir [] fs = fs"
| "patch_chunks chunksDir (file # ns) fs =
     patch_chunks chunksDir ns
       (if startsWith file ''webpack-'' \<and> endsWith file ''.js''
        then fs(path_join chunksDir file := map_option patch_webpack (fs (path_join chunksDir file))) else fs)"

record build_output =
  bo_pages :: "tree list"
  bo_chunks :: "string list"

definition export_steps :: "(files \<Rightarrow> (exn + build_output) \<times> files) \<Rightarrow> string \<Rightarrow> string \<Rightarrow> (files, unit) io" where
  \<comment> \<open>steps 2 and 3: the build, then the rewriting of its output\<close>
  "export_steps build outDir chunksDir =
     io_bind build (\<lambda>out.
       io_modify (\<lambda>fs. patch_chunks chunksDir (bo_chunks out) (processHtmlFiles outDir 0 (bo_pages out) fs)))"

definition export_ipfs ::
  "string list \<Rightarrow> (files \<Rightarrow> (exn + build_output) \<times> files) \<Rightarrow> string \<Rightarrow> string \<Rightarrow> files \<Rightarrow> (exn + unit) \<times> files" where
  "export_ipfs routes build outDir chunksDir fs =
     (case rename_routes routes [] fs of
        (Inl e, renamed, fs1) \<Rightarrow> (Inl e, restore_routes renamed fs1)
      | (Inr _, renamed, fs1) \<Rightarrow>
          (case export_steps build outDir chunksDir fs1 of (r, fs2) \<Rightarrow> (r, restore_routes renamed fs2)))"


section \<open>Which files the download route reads\<close>

definition plain :: "string \<Rightarrow> bool" where
  "plain s \<longleftrightarrow> s \<notin> {[], ''.'', ''..''}"

lemma norm_plain: "list_all plain ss \<Longrightarrow> norm_segments acc ss = rev acc @ ss"
  by (induction ss arbitrary: acc) (auto simp: plain_def)

lemma norm_append: "\<exists>acc'. \<forall>ts. norm_segments acc (ss @ ts) = norm_segments acc' ts"
proof (induction ss arbitrary: acc)
  case Nil show ?case by auto
next
  case (Cons s ss)
  consider "s = ''..''" | "s \<in> {[], ''.''}" | "s \<notin> {[], ''.'', ''..''}" by blast
  then show ?case using Cons [of "tl acc"] Cons [of acc] Cons [of "s # acc"] by cases auto
qed

lemma join_append: "xs \<noteq> [] \<Longrightarrow> ys \<noteq> [] \<Longrightarrow> js_join sep (xs @ ys) = js_join sep xs @ sep @ js_join sep ys"
proof (induction xs rule: induct_list012)
  case (2 x)
  then show ?case by (cases ys) auto
next
  case (3 x y zs)
  then show ?case by simp
qed simp

lemma resolve_under_public:
  assumes "js_split CHR ''/'' rel = ''public'' # p # ps" and "list_all plain (p # ps)"
  shows "startsWith (path_resolve r rel) (path_resolve r ''public'' @ ''/'')"
proof -
  obtain acc where acc: "\<forall>ts. norm_segments [] (js_split CHR ''/'' r @ ts) = norm_segments acc ts" using norm_append by blast
  have s: "js_split CHR ''/'' ''public'' = [''public'']" by code_simp
  have pub: "plain ''public''" by (simp add: plain_def)
  have a: "path_resolve r rel = ''/'' @ js_join ''/'' ((rev acc @ [''public'']) @ (p # ps))"
    using norm_plain [of "''public'' # p # ps" acc] assms pub acc by (simp add: path_resolve_def del: norm_segments.simps)
  have b: "path_resolve r ''public'' = ''/'' @ js_join ''/'' (rev acc @ [''public''])"
    using norm_plain [of "[''public'']" acc] pub acc s by (simp add: path_resolve_def del: norm_segments.simps)
  show ?thesis unfolding a b by (subst join_append) (simp_all add: startsWith_def)
qed

lemma serve_local_reads:
  "set (snd (serve_local rd r ps)) \<subseteq> path_resolve r ` set ps"
  by (induction ps) (auto simp: Let_def split: option.splits prod.splits)

definition public_path :: "string \<Rightarrow> bool" where
  "public_path rel \<longleftrightarrow>
     (case js_split CHR ''/'' rel of d # p # ps \<Rightarrow> d = ''public'' \<and> list_all plain (p # ps) | _ \<Rightarrow> False)"

lemma file_map_public: "list_all (\<lambda>(k, e). list_all public_path (fe_localPaths e)) FILE_MAP"
  by code_simp

lemma public_path_resolve: "public_path rel \<Longrightarrow> startsWith (path_resolve r rel) (path_resolve r ''public'' @ ''/'')"
  by (auto simp: public_path_def split: list.splits intro: resolve_under_public)

text \<open>
  C25. Whatever file name is asked for, wherever the server runs and whatever is on its disk, the download
  route only reads files below the public directory; it knows six names, and the names every object
  inherits make it throw instead of answering 404.
\<close>
theorem download_confined:
  "case download_GET rd projectRoot file of
     Inr (answer, files_read) \<Rightarrow>
       list_all (\<lambda>p. startsWith p (path_resolve projectRoot ''public'' @ ''/'')) files_read \<and>
       (file \<in> set (map_keys FILE_MAP) \<or> answer = WJson 404 (error_body ''Unknown download file''))
   | Inl e \<Rightarrow> e = type_error \<and> file \<in> set inherited_names"
proof (cases "map_get FILE_MAP file")
  case None
  then have "file \<notin> set (map_keys FILE_MAP)" by (simp add: map_of_eq_None_iff)
  with None show ?thesis by (simp add: download_GET_def)
next
  case (Some e)
  then have m: "(file, e) \<in> set FILE_MAP" by (rule map_of_SomeD)
  obtain r tried where sl: "serve_local rd projectRoot (fe_localPaths e) = (r, tried)" by fastforce
  have "list_all public_path (fe_localPaths e)" using m file_map_public by (auto simp: list_all_iff)
  with serve_local_reads [of rd projectRoot "fe_localPaths e"] sl
  have "list_all (\<lambda>p. startsWith p (path_resolve projectRoot ''public'' @ ''/'')) tried"
    by (auto simp: list_all_iff public_path_resolve)
  with Some sl m show ?thesis by (force simp: download_GET_def split: option.splits)
qed

section \<open>The export script puts the routes back\<close>

definition keeps_baks :: "string list \<Rightarrow> (files \<Rightarrow> (exn + 'a) \<times> files) \<Rightarrow> bool" where
  \<comment> \<open>whatever else the step does, it leaves the renamed routes alone\<close>
  "keeps_baks routes step \<longleftrightarrow> (\<forall>fs. \<forall>r \<in> set routes. snd (step fs) (bak_of r) = fs (bak_of r))"

definition routes_ok :: "string list \<Rightarrow> files \<Rightarrow> bool" where
  "routes_ok routes fs \<longleftrightarrow>
     distinct routes \<and> (\<forall>r \<in> set routes. fs r \<noteq> None \<and> bak_of r \<notin> set routes)"

lemma bak_inj [simp]: "bak_of a = bak_of b \<longleftrightarrow> a = b"
  by (simp add: bak_of_def)

lemma bak_neq [simp]: "bak_of a \<noteq> a" "a \<noteq> bak_of a"
  by (simp_all add: bak_of_def)

lemma rename_routes_result:
  assumes "routes_ok (done @ rs) fs0" and "\<forall>r \<in> set done. fs (bak_of r) = fs0 r" and "\<forall>r \<in> set rs. fs r = fs0 r"
  shows "\<exists>fs'. rename_routes rs done fs = (Inr (), done @ rs, fs') \<and> (\<forall>r \<in> set (done @ rs). fs' (bak_of r) = fs0 r)"
  using assms
proof (induction rs arbitrary: "done" fs)
  case Nil then show ?case by auto
next
  case (Cons r rs)
  obtain c where c: "fs0 r = Some c" using Cons.prems(1) by (auto simp: routes_ok_def)
  define fs1 where "fs1 = (fs(r := None))(bak_of r := Some c)"
  have rn: "renameSync r (bak_of r) fs = (Inr (), fs1)" using Cons.prems(3) c by (simp add: renameSync_def fs1_def)
  have "\<exists>fs'. rename_routes rs (done @ [r]) fs1 = (Inr (), (done @ [r]) @ rs, fs') \<and> (\<forall>q \<in> set ((done @ [r]) @ rs). fs' (bak_of q) = fs0 q)"
  proof (rule Cons.IH)
    show "routes_ok ((done @ [r]) @ rs) fs0" using Cons.prems(1) by simp
    show "\<forall>q \<in> set (done @ [r]). fs1 (bak_of q) = fs0 q"
      using Cons.prems(1,2) c by (auto simp: fs1_def routes_ok_def)
    show "\<forall>q \<in> set rs. fs1 q = fs0 q"
      using Cons.prems(1,3) by (auto simp: fs1_def routes_ok_def)
  qed
  then show ?case by (simp add: rn)
qed

lemma restore_routes_result:
  assumes "routes_ok rs fs0" and "\<forall>r \<in> set rs. fs (bak_of r) = fs0 r"
  shows "(\<forall>r \<in> set rs. restore_routes rs fs r = fs0 r) \<and> (\<forall>q. q \<notin> set rs \<longrightarrow> q \<notin> bak_of ` set rs \<longrightarrow> restore_routes rs fs q = fs q)"
  using assms
proof (induction rs arbitrary: fs)
  case Nil then show ?case by simp
next
  case (Cons r rs)
  obtain c where c: "fs0 r = Some c" using Cons.prems(1) by (auto simp: routes_ok_def)
  define fs1 where "fs1 = (fs(bak_of r := None))(r := Some c)"
  have rn: "restore_routes (r # rs) fs = restore_routes rs fs1"
    using Cons.prems(2) c by (simp add: renameSync_def fs1_def)
  have ok: "routes_ok rs fs0" using Cons.prems(1) by (auto simp: routes_ok_def)
  have "\<forall>q \<in> set rs. fs1 (bak_of q) = fs0 q" using Cons.prems by (auto simp: fs1_def routes_ok_def)
  note IH = Cons.IH [OF ok this]
  have "r \<notin> set rs" "r \<notin> bak_of ` set rs" using Cons.prems(1) by (auto simp: routes_ok_def)
  moreover have "fs1 r = fs0 r" "\<And>q. q \<noteq> r \<Longrightarrow> q \<noteq> bak_of r \<Longrightarrow> fs1 q = fs q" using c by (simp_all add: fs1_def)
  ultimately show ?case unfolding rn using IH by simp
qed

text \<open>
  C24. However the static build ends, with success or with an exception at any point, the export script
  leaves every API route file where it was, with its content, provided the build does not touch the
  renamed copies.
\<close>
theorem export_restores_routes:
  assumes "routes_ok routes fs" and "keeps_baks routes (export_steps build outDir chunksDir)" and "r \<in> set routes"
  shows "snd (export_ipfs routes build outDir chunksDir fs) r = fs r"
proof -
  obtain fs1 where fs1: "rename_routes routes [] fs = (Inr (), routes, fs1)" "\<forall>r \<in> set routes. fs1 (bak_of r) = fs r"
    using rename_routes_result [of "[]" routes fs fs] assms(1) by auto
  obtain res fs2 where fs2: "export_steps build outDir chunksDir fs1 = (res, fs2)" by fastforce
  have "\<forall>r \<in> set routes. fs2 (bak_of r) = fs r"
    using assms(2) fs1(2) fs2 unfolding keeps_baks_def by (metis snd_conv)
  from restore_routes_result [OF assms(1) this] assms(3) show ?thesis
    by (simp add: export_ipfs_def fs1 fs2)
qed

definition failing_build :: "files \<Rightarrow> (exn + build_output) \<times> files" where
  "failing_build fs = (Inl ''next build failed'', fs(''out'' := Some ''partial''))"

theorem export_restores_routes_witness:
  "snd (export_ipfs [''api/faucet/route.ts''] failing_build ''out'' ''chunks'' (Map.empty(''api/faucet/route.ts'' := Some ''code'')))
     ''api/faucet/route.ts'' = Some ''code''"
proof -
  have "keeps_baks [''api/faucet/route.ts''] (export_steps failing_build ''out'' ''chunks'')"
    by (simp add: keeps_baks_def export_steps_def failing_build_def io_bind_def bak_of_def)
  moreover have "routes_ok [''api/faucet/route.ts''] (Map.empty(''api/faucet/route.ts'' := Some ''code''))"
    by (simp add: routes_ok_def bak_of_def)
  ultimately show ?thesis
    using export_restores_routes [of "[''api/faucet/route.ts'']" "Map.empty(''api/faucet/route.ts'' := Some ''code'')" failing_build
        "''out''" "''chunks''" "''api/faucet/route.ts''"] by simp
qed

end
