(* ===== verification/Loyalty_Drop.thy ===== *)
theory Loyalty_Drop
  imports Payout_Properties
begin

text \<open>
  The weekly loyalty payout (\<open>mining_pool/src/sunday-loyalty-drop.js\<close>): the miners seen on at least
  six of the last seven days share one million.  The Redis client and the node are parameters of the
  script, and so are the last seven dates.
\<close>

record 'x drop_services =
  dr_connect :: "'x \<Rightarrow> (exn + unit) \<times> 'x"
  dr_keys :: "string \<Rightarrow> 'x \<Rightarrow> (exn + string list) \<times> 'x"
  dr_smembers :: "string \<Rightarrow> 'x \<Rightarrow> (exn + string list) \<times> 'x"
  dr_call :: "string \<Rightarrow> jsv list \<Rightarrow> 'x \<Rightarrow> (exn + jsv) \<times> 'x"
  dr_quit :: "'x \<Rightarrow> 'x"

definition REWARD_WALLET :: string where "REWARD_WALLET = ''ecosystem''"

definition WEEKLY_REWARD :: rat where "WEEKLY_REWARD = 1000000"

definition REQUIRED_UPTIME_DAYS :: nat where "REQUIRED_UPTIME_DAYS = 6"

definition drop_rpcCall :: "'x drop_services \<Rightarrow> string \<Rightarrow> jsv list \<Rightarrow> ('x, jsv) io" where
  "drop_rpcCall sv rpcMethod params =
     io_bind (dr_call sv rpcMethod params) (\<lambda>res.
       if truthy (js_prop_opt res ''error'') then io_throw (error_message (js_prop_opt (js_prop_opt res ''error'') ''message''))
       else io_lift (js_prop res ''result''))"

definition key_wallet :: "string \<Rightarrow> string" where
  \<comment> \<open>\<open>key.split(':')[2]\<close>; the keys have two colons\<close>
  "key_wallet key = (let ps = js_split CHR '':'' key in if 2 < length ps then ps ! 2 else ''undefined'')"

definition activeCount :: "string list \<Rightarrow> string list \<Rightarrow> nat" where
  "activeCount last7Days activeDays = length (filter (\<lambda>day. day \<in> set activeDays) last7Days)"

fun eligible_miners :: "'x drop_services \<Rightarrow> string list \<Rightarrow> string list \<Rightarrow> ('x, string list) io" where
  "eligible_miners sv last7Days [] = io_return []"
| "eligible_miners sv last7Days (key # keys) =
     io_bind (dr_smembers sv key) (\<lambda>activeDays.
     io_bind (eligible_miners sv last7Days keys) (\<lambda>rest.
       io_return
         (if REQUIRED_UPTIME_DAYS \<le> activeCount last7Days activeDays then key_wallet key # rest else rest)))"

definition reward_per_miner :: "nat \<Rightarrow> rat" where
  \<comment> \<open>\<open>parseFloat((WEEKLY_REWARD / n).toFixed(8))\<close>\<close>
  "reward_per_miner n = to_fixed 8 (js_div WEEKLY_REWARD (of_nat n))"

definition drop_payouts :: "string list \<Rightarrow> amounts" where
  "drop_payouts eligibleMiners =
     foldl (\<lambda>m miner. map_set miner (reward_per_miner (length eligibleMiners)) m) [] eligibleMiners"

datatype drop_outcome = Nobody | Paid jsv | Failed string

definition drop_body :: "'x drop_services \<Rightarrow> string list \<Rightarrow> ('x, drop_outcome) io" where
  "drop_body sv last7Days =
     io_bind (dr_keys sv ''miner:uptime:*'') (\<lambda>keys.
       if keys = [] then io_return Nobody
       else
         io_bind (eligible_miners sv last7Days keys) (\<lambda>eligibleMiners.
           if eligibleMiners = [] then io_return Nobody
           else
             io_bind (drop_rpcCall sv ''sendmany'' [JStr REWARD_WALLET, amounts_json (drop_payouts eligibleMiners)]) (\<lambda>txid.
               io_return (Paid txid))))"

definition runPayout :: "'x drop_services \<Rightarrow> string list \<Rightarrow> ('x, drop_outcome) io" where
  \<comment> \<open>\<open>process.exit\<close> when there is nobody to pay skips the \<open>finally\<close> block\<close>
  "runPayout sv last7Days =
     io_bind (dr_connect sv) (\<lambda>_.
     io_bind (io_catch (drop_body sv last7Days) (\<lambda>e. io_return (Failed e))) (\<lambda>outcome.
       if outcome = Nobody then io_return outcome
       else io_seq (io_modify (dr_quit sv)) (io_return outcome)))"


section \<open>What is paid\<close>

lemma drop_payouts_eq:
  assumes "distinct ms"
  shows "drop_payouts ms = map (\<lambda>m. (m, reward_per_miner (length ms))) ms"
proof -
  have "foldl (\<lambda>m k. map_set k r m) acc ks = acc @ map (\<lambda>k. (k, r)) ks"
    if "distinct ks" "set ks \<inter> fst ` set acc = {}" for ks acc and r :: rat
    using that
  proof (induction ks arbitrary: acc)
    case (Cons k ks)
    then have "map_set k r acc = acc @ [(k, r)]" by (induction acc) auto
    with Cons show ?case by auto
  qed simp
  from this [of ms "[]"] assms show ?thesis by (simp add: drop_payouts_def)
qed

lemma reward_error:
  assumes "0 < n"
  shows "\<bar>reward_per_miner n - 1000000 / of_nat n\<bar> \<le> 9 / 10 ^ 9"
proof -
  have "(1 :: rat) \<le> of_nat n" using assms by simp
  then have "\<bar>1000000 / of_nat n :: rat\<bar> \<le> 9 * 10 ^ 6" by (simp add: divide_le_eq)
  from to_fixed_fl_error [OF this] show ?thesis by (simp add: reward_per_miner_def js_div_def WEEKLY_REWARD_def)
qed

lemma six_rewards_exceed: "1000000 < 6 * reward_per_miner 6"
proof -
  define x :: rat where "x = fl (500000 / 3)"
  have "\<bar>fl (500000 / 3) - 500000 / 3\<bar> \<le> \<bar>500000 / 3\<bar> / (2 ^ 53 :: rat)" by (rule fl_error)
  then have x: "166666.666666665 < x" "x < 166666.666666668" by (simp_all add: x_def abs_if split: if_splits)
  then have "\<lfloor>x * 10 ^ 8 + 1 / 2\<rfloor> = 16666666666667" by (simp add: floor_eq_iff)
  with x have d: "fixed_digits 8 x = 16666666666667" by (simp add: fixed_digits_def)
  have "\<bar>fl (16666666666667 / 10 ^ 8) - 16666666666667 / 10 ^ 8\<bar> \<le> \<bar>16666666666667 / 10 ^ 8\<bar> / (2 ^ 53 :: rat)" by (rule fl_error)
  then have "166666.666666668 < fl (16666666666667 / 10 ^ 8)" by (simp add: abs_if split: if_splits)
  then show ?thesis by (simp add: reward_per_miner_def js_div_def WEEKLY_REWARD_def to_fixed_def d flip: x_def)
qed

text \<open>
  The loyalty payout gives every eligible miner the same amount, and the amounts add up to one million up
  to nine billionths per miner; the rounding may go up, and with six miners they exceed the million.
\<close>
lemma drop_splits_million:
  assumes "distinct ms" and "ms \<noteq> []"
  shows "map fst (drop_payouts ms) = ms \<and>
    \<bar>payout_total (drop_payouts ms) - 1000000\<bar> \<le> of_nat (length ms) * (9 / 10 ^ 9) \<and>
    (length ms = 6 \<longrightarrow> 1000000 < payout_total (drop_payouts ms))"
proof -
  let ?n = "of_nat (length ms) :: rat"
  have n: "0 < ?n" using assms(2) by simp
  have sum: "payout_total (drop_payouts ms) = ?n * reward_per_miner (length ms)"
    by (simp add: drop_payouts_eq [OF assms(1)] payout_total_def sum_list_triv o_def)
  have "1000000 = ?n * (1000000 / ?n)" using n by simp
  with sum have "payout_total (drop_payouts ms) - 1000000 = ?n * (reward_per_miner (length ms) - 1000000 / ?n)"
    by (simp add: right_diff_distrib)
  then have "\<bar>payout_total (drop_payouts ms) - 1000000\<bar> = ?n * \<bar>reward_per_miner (length ms) - 1000000 / ?n\<bar>"
    using n by (simp add: abs_mult)
  also have "\<dots> \<le> ?n * (9 / 10 ^ 9)" using reward_error [of "length ms"] assms(2) n by (intro mult_left_mono) simp_all
  finally have "\<bar>payout_total (drop_payouts ms) - 1000000\<bar> \<le> ?n * (9 / 10 ^ 9)" .
  moreover have "length ms = 6 \<longrightarrow> 1000000 < payout_total (drop_payouts ms)"
    unfolding sum using six_rewards_exceed by simp
  moreover have "map fst (drop_payouts ms) = ms" by (simp add: drop_payouts_eq [OF assms(1)] o_def)
  ultimately show ?thesis by blast
qed

lemma drop_splits_million_witness:
  "let ms = [''a'', ''b'', ''c'', ''d'', ''e'', ''f'']
   in map fst (drop_payouts ms) = ms \<and> \<bar>payout_total (drop_payouts ms) - 1000000\<bar> \<le> 6 * (9 / 10 ^ 9) \<and>
      1000000 < payout_total (drop_payouts ms)"
proof -
  define ms where "ms = [''a'', ''b'', ''c'', ''d'', ''e'', ''f'']"
  have "distinct ms" "ms \<noteq> []" "length ms = 6" by (simp_all add: ms_def)
  then show ?thesis using drop_splits_million [of ms] unfolding Let_def ms_def [symmetric] by (metis of_nat_numeral)
qed

end
