(* ===== verification/Share_Ledger.thy ===== *)
theory Share_Ledger
  imports Share_Properties Payout_Properties
begin

text \<open>
  From an accepted share to a payout.  The share handler writes every accepted share to the Redis
  list \<open>pool:shares\<close>, cut to the last million; the payout run reads the list back an hour later.
  The specification between the two is the ledger: the workers of the accepted shares, newest
  first.  The share handler refines the step that adds an entry, and a payout run pays every wallet
  its exact part of the ledger, up to the rounding of doubles and of eight decimal places.
\<close>

section \<open>The ledger\<close>

type_synonym ledger = "jsv list"

definition ledger_size :: nat where
  "ledger_size = 1000000"

definition credit_entry :: "jsv \<Rightarrow> ledger \<Rightarrow> ledger" where
  "credit_entry worker L = take ledger_size (worker # L)"

definition shares_of :: "(string \<Rightarrow> string) \<Rightarrow> ledger \<Rightarrow> string \<Rightarrow> nat" where
  \<comment> \<open>the entries whose wallet resolves to the address \<open>a\<close>\<close>
  "shares_of \<rho> L a = length (filter (\<lambda>worker. \<rho> (pw_wallet (parseMinerWorker worker)) = a) L)"

definition exact_share :: "rat \<Rightarrow> rat \<Rightarrow> nat \<Rightarrow> nat \<Rightarrow> rat" where
  \<comment> \<open>the part of the balance, less the reserve and the fee, that \<open>n\<close> of \<open>N\<close> entries earn\<close>
  "exact_share b fee n N = (b - 1 / 10) * (1 - fee / 100) * (of_nat n / of_nat N)"

section \<open>The list that represents it\<close>

fun cmd_key :: "redis_cmd \<Rightarrow> string" where
  "cmd_key (LPush k v) = k"
| "cmd_key (LTrim k a b) = k"
| "cmd_key (LRange k a b) = k"
| "cmd_key (LLen k) = k"
| "cmd_key (RGet k) = k"
| "cmd_key (RSet k v) = k"
| "cmd_key (RSetEx k t v) = k"
| "cmd_key (RDel k) = k"
| "cmd_key (RIncr k) = k"
| "cmd_key (RIncrByFloat k q) = k"
| "cmd_key (SAdd k e) = k"
| "cmd_key (SMembers k) = k"
| "cmd_key (RExpire k t) = k"
| "cmd_key (RKeys p) = p"

definition shares_key :: string where
  "shares_key = ''pool:shares''"

definition share_list :: "'x services \<Rightarrow> ('x \<Rightarrow> rval list) \<Rightarrow> bool" where
  \<comment> \<open>\<open>ls\<close> reads the list off the outside state; pushing, trimming and reading do what Redis documents,
     and nothing else touches it\<close>
  "share_list sv ls \<longleftrightarrow>
     (\<forall>c x. \<exists>r. fst (sv_redis sv c x) = Inr r) \<and>
     (\<forall>v x. ls (snd (sv_redis sv (LPush shares_key v) x)) = v # ls x) \<and>
     (\<forall>b x. 0 \<le> b \<longrightarrow> ls (snd (sv_redis sv (LTrim shares_key 0 b) x)) = take (nat b + 1) (ls x)) \<and>
     (\<forall>x. fst (sv_redis sv (LRange shares_key 0 (- 1)) x) = Inr (RList (ls x))) \<and>
     (\<forall>a b x. ls (snd (sv_redis sv (LRange shares_key a b) x)) = ls x) \<and>
     (\<forall>c x. cmd_key c \<noteq> shares_key \<longrightarrow> ls (snd (sv_redis sv c x)) = ls x) \<and>
     (\<forall>p m ps x. ls (snd (sv_post sv p m ps x)) = ls x) \<and>
     (\<forall>d x. ls (snd (sv_tns sv d x)) = ls x) \<and>
     (\<forall>x. ls (snd (sv_now sv x)) = ls x) \<and>
     (\<forall>x. ls (snd (sv_today sv x)) = ls x) \<and>
     (\<forall>w. ls (w_ext (sv_others sv w)) = ls (w_ext w))"

fun entry_worker :: "rval \<Rightarrow> jsv" where
  "entry_worker (RJson v) = js_prop_opt v ''worker''"
| "entry_worker _ = JUndef"

fun is_entry :: "rval \<Rightarrow> bool" where
  "is_entry (RJson (JObj m)) = True"
| "is_entry _ = False"

definition ledger_of :: "('x \<Rightarrow> rval list) \<Rightarrow> 'x world \<Rightarrow> ledger" where
  \<comment> \<open>the abstraction function\<close>
  "ledger_of ls w = map entry_worker (ls (w_ext w))"

definition same_shares :: "('x \<Rightarrow> rval list) \<Rightarrow> 'x world \<Rightarrow> 'x world \<Rightarrow> bool" where
  "same_shares ls w w' \<longleftrightarrow> ls (w_ext w') = ls (w_ext w)"

interpretation untouched: frame_rel "same_shares ls" for ls
  by unfold_locales (simp_all add: same_shares_def)

subsection \<open>What leaves the list alone\<close>

lemma untouched_redis: "share_list sv ls \<Longrightarrow> cmd_key c \<noteq> shares_key \<Longrightarrow> io_keeps (same_shares ls) (redis sv c)"
  by (simp add: io_keeps_def same_shares_def redis_def await_def on_ext_run share_list_def)

lemma untouched_now: "share_list sv ls \<Longrightarrow> io_keeps (same_shares ls) (date_now sv)"
  by (simp add: io_keeps_def same_shares_def date_now_def read_ext_run share_list_def)

lemma untouched_today: "share_list sv ls \<Longrightarrow> io_keeps (same_shares ls) (read_ext (sv_today sv))"
  by (simp add: io_keeps_def same_shares_def read_ext_run share_list_def)

lemma untouched_modify: "(\<And>w. w_ext (f w) = w_ext w) \<Longrightarrow> io_keeps (same_shares ls) (io_modify f)"
  by (simp add: io_keeps_def same_shares_def io_modify_run)

lemma untouched_upd: "io_keeps (same_shares ls) (upd_obj i f)"
  by (simp add: io_keeps_def same_shares_def upd_obj_run)

lemma untouched_write: "io_keeps (same_shares ls) (sock_write sock line)"
  by (simp add: io_keeps_def same_shares_def sock_write_run)

lemma untouched_tns: "share_list sv ls \<Longrightarrow> io_keeps (same_shares ls) (await sv (on_ext (sv_tns sv d)))"
  by (simp add: io_keeps_def same_shares_def await_def on_ext_run share_list_def)

lemma untouched_post: "share_list sv ls \<Longrightarrow> io_keeps (same_shares ls) (await sv (on_ext (sv_post sv p m ps)))"
  by (simp add: io_keeps_def same_shares_def await_def on_ext_run share_list_def)

lemma untouched_rpc: "share_list sv ls \<Longrightarrow> io_keeps (same_shares ls) (rpcCall sv m ps o')"
  unfolding rpcCall_def by (intro untouched.keeps_rules untouched_post)

lemma untouched_resolve: "share_list sv ls \<Longrightarrow> io_keeps (same_shares ls) (resolveTnsToAddress sv wd)"
  unfolding resolveTnsToAddress_def resolve_miss_def Let_def
  by (auto split: option.splits intro!: untouched.keeps_rules untouched_now untouched_tns untouched_modify)

lemmas untouched_rules =
  untouched.keeps_rules untouched_redis untouched_now untouched_today untouched_upd untouched_write
  untouched_rpc untouched_resolve

lemma untouched_accept: "share_list sv ls \<Longrightarrow> io_keeps (same_shares ls) (accept_share sv sock i s)"
  unfolding accept_share_def by (intro untouched_rules) assumption+

lemma untouched_hashrate: "share_list sv ls \<Longrightarrow> io_keeps (same_shares ls) (record_hashrate sv i name)"
  unfolding record_hashrate_def Let_def get_obj_def
  by (intro untouched_rules) (assumption | simp add: shares_key_def)+

lemma untouched_block: "share_list sv ls \<Longrightarrow> io_keeps (same_shares ls) (handleBlockFound sv h cb name)"
  unfolding handleBlockFound_def
  by (intro untouched_rules untouched_modify) (assumption | simp add: shares_key_def)+

section \<open>The share handler refines the ledger\<close>

lemma share_listD:
  assumes "share_list sv ls"
  shows "\<exists>r. fst (sv_redis sv c x) = Inr r"
    and "ls (snd (sv_redis sv (LPush shares_key v) x)) = v # ls x"
    and "0 \<le> b \<Longrightarrow> ls (snd (sv_redis sv (LTrim shares_key 0 b) x)) = take (nat b + 1) (ls x)"
    and "fst (sv_redis sv (LRange shares_key 0 (- 1)) x) = Inr (RList (ls x))"
    and "ls (snd (sv_redis sv (LRange shares_key a b) x)) = ls x"
    and "ls (w_ext (sv_others sv w)) = ls (w_ext w)"
  using assms unfolding share_list_def by (elim conjE; auto)+

lemma redis_shares:
  assumes "share_list sv ls"
  obtains r w' where "redis sv c w = (Inr r, w')" "fst (sv_redis sv c (w_ext w)) = Inr r"
    "ls (w_ext w') = ls (snd (sv_redis sv c (w_ext w)))"
proof -
  obtain r where r: "fst (sv_redis sv c (w_ext w)) = Inr r" using share_listD(1) [OF assms] by blast
  have "redis sv c w = (fst (sv_redis sv c (w_ext w)), snd (redis sv c w))"
    by (simp add: redis_def await_def on_ext_run)
  moreover have "ls (w_ext (snd (redis sv c w))) = ls (snd (sv_redis sv c (w_ext w)))"
    by (simp add: redis_def await_def on_ext_run share_listD(6) [OF assms])
  ultimately show thesis using that r by metis
qed

lemma record_share_list:
  assumes "share_list sv ls"
  shows "\<exists>time. ls (w_ext (snd (record_share sv i name w))) =
    take ledger_size (RJson (JObj [(''worker'', name), (''time'', JInt time)]) # ls (w_ext w))"
proof -
  obtain time w1 where w1: "date_now sv w = (Inr time, w1)" "ls (w_ext w1) = ls (w_ext w)"
    using untouched_now [OF assms] by (force simp: date_now_def read_ext_run io_keeps_def same_shares_def)
  define e where "e = RJson (JObj [(''worker'', name), (''time'', JInt time)])"
  obtain r2 w2 where w2: "redis sv (LPush shares_key e) w1 = (Inr r2, w2)" "ls (w_ext w2) = e # ls (w_ext w)"
    using w1(2) share_listD(2) [OF assms] by (metis redis_shares [OF assms])
  obtain r3 w3 where w3: "redis sv (LTrim shares_key 0 999999) w2 = (Inr r3, w3)" "ls (w_ext w3) = take ledger_size (e # ls (w_ext w))"
  proof -
    obtain r3 w3 where "redis sv (LTrim shares_key 0 999999) w2 = (Inr r3, w3)"
      "ls (w_ext w3) = ls (snd (sv_redis sv (LTrim shares_key 0 999999) (w_ext w2)))" by (rule redis_shares [OF assms])
    with share_listD(3) [OF assms, of 999999] w2(2) that show thesis by (simp add: ledger_size_def)
  qed
  have "ls (w_ext (snd (record_hashrate sv i name w3))) = ls (w_ext w3)"
    using untouched_hashrate [OF assms] by (simp add: io_keeps_def same_shares_def)
  moreover have "record_share sv i name w = record_hashrate sv i name w3"
    unfolding record_share_def shares_key_def [symmetric]
    by (simp add: io_bind_def io_seq_def w1 w2 w3 flip: e_def)
  ultimately show ?thesis using w3(2) unfolding e_def by metis
qed

lemma pool_check_job_ledger:
  assumes "share_list sv ls" and "w_redis w" and "w_blockTemplate w = Some t" and "sb_jobId s = JStr (j_jobId t)"
    and "share_header t (pool_coinbase t en1 s) s = Inr header"
  shows "\<exists>time. ls (w_ext (snd (pool_check_job sv sock i s en1 w))) =
    take ledger_size (RJson (JObj [(''worker'', sb_worker s), (''time'', JInt time)]) # ls (w_ext w))"
proof -
  let ?cb = "pool_coinbase t en1 s"
  let ?block = "io_when (meets_network t header) (handleBlockFound sv header ?cb (sb_worker s))"
  let ?err = "\<lambda>_ :: exn. sock_write sock (reply_error (sb_id s) 20 ''Verification error'')"
  obtain t1 t2 t3 x where v: "accept_share sv sock i s w =
      (Inr (), w\<lparr>w_ext := x, w_objs := (w_objs w)(i := credit_share t1 t2 t3 (w_objs w i)),
        w_out := w_out w @ [(sock, reply_true (sb_id s))]\<rparr>)" (is "_ = (_, ?v)")
    using accept_share_run [of sv sock i s w] by blast
  have x: "ls (w_ext ?v) = ls (w_ext w)"
    using untouched_accept [OF assms(1), of sock i s] unfolding io_keeps_def same_shares_def by (metis v snd_conv)
  obtain r w1 where w1: "record_share sv i (sb_worker s) ?v = (r, w1)" by fastforce
  obtain time where time: "ls (w_ext w1) =
      take ledger_size (RJson (JObj [(''worker'', sb_worker s), (''time'', JInt time)]) # ls (w_ext w))"
    using record_share_list [OF assms(1), of i "sb_worker s" ?v] w1 x by auto
  have "io_keeps (same_shares ls) ?block" by (intro untouched_rules untouched_block assms(1))
  moreover have "io_keeps (same_shares ls) (?err e)" for e by (rule untouched_write)
  ultimately have k: "ls (w_ext (snd (io_catch (\<lambda>_. case r of Inl e \<Rightarrow> (Inl e, w1) | Inr u \<Rightarrow> ?block w1) ?err ?v))) = ls (w_ext w1)"
    by (auto simp: io_catch_def io_keeps_def same_shares_def split: sum.split prod.split) (metis snd_conv)+
  have "pool_check_job sv sock i s en1 w = io_catch (\<lambda>_. case r of Inl e \<Rightarrow> (Inl e, w1) | Inr u \<Rightarrow> ?block w1) ?err ?v"
    using assms(2-5) v w1
    by (simp add: pool_check_job_def pool_verify_def pool_coinbase_def Let_def io_simps io_bind_Inr io_catch_def io_seq_def io_bind_def io_when_def
        split: sum.split)
  with k time show ?thesis by metis
qed

text \<open>
  C3. The share handler refines the ledger: every submission of a known miner either leaves the ledger
  and the miner's count of valid shares as they were, or adds one to the count and the worker it names
  to the ledger, which keeps the last million entries; and the list in Redis stays a list of share
  records.
\<close>
theorem share_ledger_refines:
  assumes "share_list sv ls" and "w_redis w" and "map_get (w_poolMiners w) name = Some i"
    and "read_submission msg = Inr s" and "others_keep (tail_frame i) sv"
    and "w' = snd (handleSubmit sv sock msg name en1 w)"
  shows "(if m_validShares (w_objs w' i) = m_validShares (w_objs w i) then ledger_of ls w' = ledger_of ls w
      else m_validShares (w_objs w' i) = Suc (m_validShares (w_objs w i)) \<and>
        ledger_of ls w' = credit_entry (sb_worker s) (ledger_of ls w)) \<and>
    (list_all is_entry (ls (w_ext w)) \<longrightarrow> list_all is_entry (ls (w_ext w')))"
proof -
  let ?v = "w\<lparr>w_objs := (w_objs w)(i := mark_share s (w_objs w i))\<rparr>"
  note branches = pool_submit_branches [OF assms(3-5), of sock en1, folded assms(6), unfolded Let_def]
  have refused: ?thesis if "w' = answered sock i s c reason w" for c reason
  proof -
    have "w_ext w' = w_ext w" "m_validShares (w_objs w' i) = m_validShares (w_objs w i)"
      by (simp_all add: that answered_def mark_share_def Let_def)
    then show ?thesis by (simp add: ledger_of_def)
  qed
  have accepted: ?thesis if "shareKey s \<notin> set (seen_shares (sb_jobId s) (w_objs w i))" "w_blockTemplate w = Some t"
    "sb_jobId s = JStr (j_jobId t)" "share_header t (pool_coinbase t en1 s) s = Inr header" "credited sock i s w w'" for t header
  proof -
    note hyps = that
    have "w' = snd (pool_check_job sv sock i s en1 ?v)"
      using that(1) by (simp add: assms(6) pool.submit_run [OF assms(3,4)] Let_def)
    moreover obtain time where "ls (w_ext (snd (pool_check_job sv sock i s en1 ?v))) =
        take ledger_size (RJson (JObj [(''worker'', sb_worker s), (''time'', JInt time)]) # ls (w_ext ?v))"
      using pool_check_job_ledger [OF assms(1), of ?v t s en1 header sock i] assms(2) hyps(2-4) by auto
    ultimately have l: "ls (w_ext w') = take ledger_size (RJson (JObj [(''worker'', sb_worker s), (''time'', JInt time)]) # ls (w_ext w))"
      by simp
    have "ledger_of ls w' = take ledger_size (map entry_worker (RJson (JObj [(''worker'', sb_worker s), (''time'', JInt time)]) # ls (w_ext w)))"
      by (simp only: ledger_of_def l take_map)
    then have "ledger_of ls w' = credit_entry (sb_worker s) (ledger_of ls w)"
      by (simp add: ledger_of_def credit_entry_def)
    moreover have "list_all is_entry (ls (w_ext w)) \<longrightarrow> list_all is_entry (ls (w_ext w'))"
      unfolding l list_all_iff by (auto dest!: in_set_takeD)
    ultimately show ?thesis using credited_fields(1) [OF that(5)] by simp
  qed
  show ?thesis
  proof (cases "shareKey s \<in> set (seen_shares (sb_jobId s) (w_objs w i))")
    case True
    with branches have "w' = answered sock i s 22 ''Duplicate share'' w" by simp
    then show ?thesis by (rule refused)
  next
    case fresh: False
    show ?thesis
    proof (cases "w_blockTemplate w")
      case None
      with branches fresh have "w' = answered sock i s 21 ''Job not found'' w" by simp
      then show ?thesis by (rule refused)
    next
      case (Some t)
      show ?thesis
      proof (cases "sb_jobId s = JStr (j_jobId t)")
        case False
        with branches fresh Some have "w' = answered sock i s 21 ''Job not found'' w" by simp
        then show ?thesis by (rule refused)
      next
        case job: True
        show ?thesis
        proof (cases "share_header t (pool_coinbase t en1 s) s")
          case (Inl e)
          with branches fresh Some job have "w' = answered sock i s 20 ''Verification error'' w" by simp
          then show ?thesis by (rule refused)
        next
          case (Inr header)
          with branches fresh Some job have "credited sock i s w w'" by simp
          with fresh Some job Inr show ?thesis by (rule accepted)
        qed
      qed
    qed
  qed
qed

section \<open>Counting the ledger\<close>

definition names_fixed :: "'x services \<Rightarrow> (string \<Rightarrow> jsv) \<Rightarrow> bool" where
  \<comment> \<open>the name service gives the same answer for a domain throughout the run\<close>
  "names_fixed sv ans \<longleftrightarrow> (\<forall>d x. fst (sv_tns sv d x) = Inr (ans d))"

definition cache_agrees :: "(string \<Rightarrow> jsv) \<Rightarrow> 'x world \<Rightarrow> bool" where
  "cache_agrees ans w \<longleftrightarrow> (\<forall>d a t. map_get (w_tns w) d = Some (a, t) \<longrightarrow> resolved_address (ans d) = Some a)"

definition resolved :: "(string \<Rightarrow> jsv) \<Rightarrow> string \<Rightarrow> string" where
  \<comment> \<open>the address a wallet or domain stands for\<close>
  "resolved ans wd =
     (let domain = js_trim (toLowerCase wd)
      in if wd \<noteq> [] \<and> endsWith domain ''.tar'' \<and> tns_domain_ok domain
         then (case resolved_address (ans domain) of Some a \<Rightarrow> a | None \<Rightarrow> wd) else wd)"

definition names_kept :: "'x services \<Rightarrow> (string \<Rightarrow> jsv) \<Rightarrow> bool" where
  "names_kept sv ans \<longleftrightarrow> names_fixed sv ans \<and> others_keep (\<lambda>w w'. cache_agrees ans w \<longrightarrow> cache_agrees ans w') sv"

lemma agrees_ext [simp]: "cache_agrees ans (w\<lparr>w_ext := x\<rparr>) = cache_agrees ans w"
  by (simp add: cache_agrees_def)

lemma agrees_others: "names_kept sv ans \<Longrightarrow> cache_agrees ans w \<Longrightarrow> cache_agrees ans (sv_others sv w)"
  by (simp add: names_kept_def others_keep_def)

lemma agrees_await: "names_kept sv ans \<Longrightarrow> io_ok (cache_agrees ans) (await sv (on_ext f)) anything"
  by (simp add: io_ok_def await_def on_ext_run agrees_others)

lemma agrees_redis: "names_kept sv ans \<Longrightarrow> io_ok (cache_agrees ans) (redis sv c) anything"
  unfolding redis_def by (rule agrees_await)

lemma agrees_rpc: "names_kept sv ans \<Longrightarrow> io_ok (cache_agrees ans) (rpcCall sv m ps o') anything"
  unfolding rpcCall_def by (intro ok_bind_any agrees_await ok_if ok_throw ok_lift anythingI)

lemma resolve_run:
  assumes "names_kept sv ans" and "cache_agrees ans w"
  shows "\<exists>w'. resolveTnsToAddress sv wd w = (Inr (resolved ans wd), w') \<and> cache_agrees ans w'"
proof -
  define domain where "domain = js_trim (toLowerCase wd)"
  define now where "now = fst (sv_now sv (w_ext w))"
  define v where "v = w\<lparr>w_ext := snd (sv_now sv (w_ext w))\<rparr>"
  have v: "cache_agrees ans v" using assms(2) by (simp add: v_def)
  have miss: "\<exists>w'. resolve_miss sv domain wd now v =
      (Inr (case resolved_address (ans domain) of Some a \<Rightarrow> a | None \<Rightarrow> wd), w') \<and> cache_agrees ans w'"
  proof -
    define u where "u = sv_others sv (v\<lparr>w_ext := snd (sv_tns sv domain (w_ext v))\<rparr>)"
    have "fst (sv_tns sv domain (w_ext v)) = Inr (ans domain)"
      using assms(1) by (simp add: names_kept_def names_fixed_def)
    then have t: "await sv (on_ext (sv_tns sv domain)) v = (Inr (ans domain), u)"
      by (simp add: await_def on_ext_run u_def)
    have u: "cache_agrees ans u" using v by (simp add: u_def agrees_others [OF assms(1)])
    show ?thesis
      using u by (cases "resolved_address (ans domain)")
        (simp_all add: resolve_miss_def io_catch_def io_bind_def t io_return_def io_seq_def io_modify_def cache_agrees_def)
  qed
  show ?thesis
  proof (cases "wd \<noteq> [] \<and> endsWith domain ''.tar'' \<and> tns_domain_ok domain")
    case False
    then have "resolveTnsToAddress sv wd w = (Inr wd, w)"
      by (auto simp: resolveTnsToAddress_def Let_def io_return_def simp flip: domain_def)
    moreover have "resolved ans wd = wd"
      using False by (auto simp: resolved_def Let_def simp flip: domain_def)
    ultimately show ?thesis using assms(2) by simp
  next
    case True
    then have run: "resolveTnsToAddress sv wd w =
        (case map_get (w_tns w) domain of
           Some (address, expiresAt) \<Rightarrow> if now < expiresAt then (Inr address, v) else resolve_miss sv domain wd now v
         | None \<Rightarrow> resolve_miss sv domain wd now v)"
      by (auto simp: resolveTnsToAddress_def Let_def io_simps io_bind_Inr date_now_def now_def v_def simp flip: domain_def
          split: option.split)
    have r: "resolved ans wd = (case resolved_address (ans domain) of Some a \<Rightarrow> a | None \<Rightarrow> wd)"
      using True by (simp add: resolved_def Let_def flip: domain_def)
    show ?thesis
      using miss v assms(2) unfolding run r
      by (cases "map_get (w_tns w) domain") (auto simp: cache_agrees_def)
  qed
qed

definition wallet_of :: "(string \<Rightarrow> jsv) \<Rightarrow> jsv \<Rightarrow> string" where
  "wallet_of ans worker = resolved ans (pw_wallet (parseMinerWorker worker))"

definition count_table :: "(string \<Rightarrow> nat) \<Rightarrow> (string \<times> nat) list \<Rightarrow> bool" where
  \<comment> \<open>the table holds the positive values of the counting function\<close>
  "count_table n ws \<longleftrightarrow> (\<forall>a. map_get ws a = (if n a = 0 then None else Some (n a)))"

lemma count_shares_run:
  assumes "names_kept sv ans" and "cache_agrees ans w" and "list_all is_entry vs" and "count_table n ws"
  shows "\<exists>ws' w'. count_shares sv vs ws w = (Inr ws', w') \<and> cache_agrees ans w' \<and>
    count_table (\<lambda>a. n a + shares_of (resolved ans) (map entry_worker vs) a) ws'"
  using assms(2-4)
proof (induction vs arbitrary: n ws w)
  case Nil
  then show ?case by (simp add: io_return_def shares_of_def)
next
  case (Cons v vs)
  obtain m where v: "v = RJson (JObj m)" using Cons.prems(2) by (cases v rule: is_entry.cases) auto
  let ?wallet = "wallet_of ans (entry_worker v)"
  obtain w1 where w1: "resolveTnsToAddress sv (pw_wallet (parseMinerWorker (entry_worker v))) w = (Inr ?wallet, w1)"
    "cache_agrees ans w1" using resolve_run [OF assms(1) Cons.prems(1)] unfolding wallet_of_def by blast
  have t: "count_table (\<lambda>a. n a + (if a = ?wallet then 1 else 0)) (add_count ?wallet ws)"
    using Cons.prems(3) by (auto simp: count_table_def add_count_def)
  have "count_shares sv (v # vs) ws w = count_shares sv vs (add_count ?wallet ws) w1"
    using w1(1) by (simp add: v json_parse_def io_lift_def io_bind_def)
  moreover obtain ws' w' where "count_shares sv vs (add_count ?wallet ws) w1 = (Inr ws', w')" "cache_agrees ans w'"
    "count_table (\<lambda>a. n a + (if a = ?wallet then 1 else 0) + shares_of (resolved ans) (map entry_worker vs) a) ws'"
    using Cons.IH [OF w1(2) _ t] Cons.prems(2) by auto
  moreover have "(\<lambda>a. n a + (if a = ?wallet then 1 else 0) + shares_of (resolved ans) (map entry_worker vs) a) =
      (\<lambda>a. n a + shares_of (resolved ans) (map entry_worker (v # vs)) a)"
    by (auto simp: shares_of_def wallet_of_def fun_eq_iff)
  ultimately show ?case by auto
qed

section \<open>From counts to amounts\<close>

lemma worker_reward_error:
  assumes "0 \<le> A" "A \<le> 5 * 10 ^ 6" "c \<le> N" "0 < N"
  shows "\<bar>worker_reward A N c - A * (of_nat c / of_nat N)\<bar> \<le> 1 / 10 ^ 8"
proof -
  define q :: rat where "q = of_nat c / of_nat N"
  have q: "0 \<le> q" "q \<le> 1" using assms(3,4) by (simp_all add: q_def)
  have "\<bar>fl q - q\<bar> \<le> q / 2 ^ 53" using fl_error [of q] q by simp
  also have "\<dots> \<le> 1 / 2 ^ 53" using q by simp
  finally have "A * \<bar>fl q - q\<bar> \<le> A * (1 / 2 ^ 53)" by (rule mult_left_mono [OF _ assms(1)])
  also have "A * \<bar>fl q - q\<bar> = \<bar>A * fl q - A * q\<bar>" using assms(1) by (simp add: abs_mult flip: right_diff_distrib)
  also have "A * (1 / 2 ^ 53) \<le> 1 / 10 ^ 9" using assms(2) by simp
  finally have e2: "\<bar>A * fl q - A * q\<bar> \<le> 1 / 10 ^ 9" .
  have f: "0 \<le> fl q" "fl q \<le> 1" using q fl_nonneg fl_mono [of q 1] fl_of_int [of 1] by auto
  then have "\<bar>A * fl q\<bar> \<le> 9 * 10 ^ 6"
    using assms(1,2) mult_mono [of A "5 * 10 ^ 6" "fl q" 1] by simp
  from to_fixed_fl_error [OF this] e2
  have "\<bar>to_fixed 8 (fl (A * fl q)) - A * q\<bar> \<le> 1 / 10 ^ 8" by (simp add: abs_if split: if_splits)
  then show ?thesis by (simp add: worker_reward_def js_mul_def js_div_def flip: q_def)
qed

lemma distributed_error:
  assumes b: "49000 \<le> b" "b \<le> 5 * 10 ^ 6" and fee: "0 \<le> fee" "fee \<le> 100"
  shows "\<bar>js_mul (js_sub b (fl (1 / 10))) (js_sub 1 (js_div fee 100)) - (b - 1 / 10) * (1 - fee / 100)\<bar> \<le> 8 / 10 ^ 9"
proof -
  define S where "S = js_sub b (fl (1 / 10))"
  define g where "g = js_sub 1 (js_div fee 100)"
  have t: "\<bar>fl (1 / 10) - 1 / 10\<bar> \<le> 1 / 10 ^ 16" using fl_error [of "1 / 10"] by (simp add: abs_if split: if_splits)
  then have "\<bar>fl (b - fl (1 / 10)) - (b - fl (1 / 10))\<bar> \<le> 2 / 10 ^ 9"
    using b by (intro fl_error_amount) (simp add: abs_if split: if_splits)
  with t have S: "\<bar>S - (b - 1 / 10)\<bar> \<le> 3 / 10 ^ 9" unfolding S_def js_sub_def by (simp add: abs_if split: if_splits)
  have f: "0 \<le> fee / 100" "fee / 100 \<le> 1" using fee by simp_all
  then have "\<bar>fl (fee / 100) - fee / 100\<bar> \<le> 1 / 2 ^ 53" using fl_error [of "fee / 100"] by (simp add: abs_if split: if_splits)
  moreover have ff: "0 \<le> fl (fee / 100)" "fl (fee / 100) \<le> 1"
    using f fl_mono [of "fee / 100" 1] fl_of_int [of 1] by (simp_all add: fl_nonneg)
  moreover have "\<bar>fl (1 - fl (fee / 100)) - (1 - fl (fee / 100))\<bar> \<le> 1 / 2 ^ 53"
    using fl_error [of "1 - fl (fee / 100)"] ff by (simp add: abs_if split: if_splits)
  ultimately have g: "\<bar>g - (1 - fee / 100)\<bar> \<le> 2 / 2 ^ 53" "0 \<le> g" "g \<le> 1"
    unfolding g_def js_sub_def js_div_def using fl_mono [of "1 - fl (fee / 100)" 1] fl_of_int [of 1]
    by (simp_all add: fl_nonneg abs_if split: if_splits)
  have "\<bar>S * g - (b - 1 / 10) * (1 - fee / 100)\<bar> = \<bar>(S - (b - 1 / 10)) * g + (b - 1 / 10) * (g - (1 - fee / 100))\<bar>"
    by (simp add: algebra_simps)
  also have "\<dots> \<le> \<bar>S - (b - 1 / 10)\<bar> * g + (b - 1 / 10) * \<bar>g - (1 - fee / 100)\<bar>"
    using g(2) b by (intro order.trans [OF abs_triangle_ineq]) (simp add: abs_mult)
  also have "\<dots> \<le> 3 / 10 ^ 9 * 1 + 5 * 10 ^ 6 * (2 / 2 ^ 53)"
    using S g b by (intro add_mono mult_mono) simp_all
  finally have p: "\<bar>S * g - (b - 1 / 10) * (1 - fee / 100)\<bar> \<le> 5 / 10 ^ 9" by simp
  have "\<bar>S * g\<bar> \<le> 10 ^ 7 + 1"
  proof -
    have "0 \<le> S" "S \<le> 10 ^ 7" using S b by (simp_all add: abs_if split: if_splits)
    then show ?thesis using g(2,3) mult_mono [of S "10 ^ 7" g 1] by simp
  qed
  from fl_error_amount [OF this] p have "\<bar>fl (S * g) - (b - 1 / 10) * (1 - fee / 100)\<bar> \<le> 8 / 10 ^ 9" by (simp add: abs_if split: if_splits)
  then show ?thesis by (simp add: js_mul_def flip: S_def g_def)
qed

lemma assign_rewards_get:
  assumes "distinct (map_keys ws)"
  shows "map_get (fst (assign_rewards A N ws p T)) a =
    (case map_get ws a of
       Some c \<Rightarrow> if 1 \<le> worker_reward A N c then Some (worker_reward A N c) else map_get p a
     | None \<Rightarrow> map_get p a)"
  using assms
proof (induction ws arbitrary: p T)
  case (Cons wc ws)
  obtain w c where "wc = (w, c)" by fastforce
  moreover from this Cons.prems have "a = w \<Longrightarrow> map_get ws a = None" by (auto simp: map_of_eq_None_iff)
  ultimately show ?case using Cons by (auto simp: Let_def split: option.split)
qed simp

definition worth :: "rat \<Rightarrow> rat \<Rightarrow> nat \<Rightarrow> nat \<Rightarrow> rat option \<Rightarrow> bool" where
  \<comment> \<open>the amount is the exact share up to two units of the eighth decimal place; shares below one are left out\<close>
  "worth b fee n N amount \<longleftrightarrow>
     (case amount of
        Some x \<Rightarrow> \<bar>x - exact_share b fee n N\<bar> \<le> 2 / 10 ^ 8
      | None \<Rightarrow> exact_share b fee n N < 1 + 2 / 10 ^ 8)"

lemma compute_payouts_worth:
  assumes b: "49000 \<le> b" "b \<le> 5 * 10 ^ 6" and fee: "0 \<le> fee" "fee \<le> 100"
    and ws: "counts_ok ws N" "0 < N" "count_table n ws" and a: "a \<noteq> f"
  shows "worth b fee (n a) N (map_get (compute_payouts b fee f ws N) a)"
proof -
  define S where "S = js_sub b (fl (1 / 10))"
  define A where "A = js_mul S (js_sub 1 (js_div fee 100))"
  note SA = amount_to_distribute [OF b fee S_def A_def]
  have A: "0 \<le> A" "A \<le> 5 * 10 ^ 6" using SA b by simp_all
  define D where "D = (b - 1 / 10) * (1 - fee / 100)"
  define q :: rat where "q = of_nat (n a) / of_nat N"
  have D: "\<bar>A - D\<bar> \<le> 8 / 10 ^ 9" using distributed_error [OF b fee] by (simp add: A_def S_def D_def)
  have le: "n a \<le> N"
  proof (cases "n a = 0")
    case False
    with ws(3) have "map_get ws a = Some (n a)" by (simp add: count_table_def)
    then have "n a \<in> set (map snd ws)" by (force dest: map_of_SomeD)
    from member_le_sum_list [OF this] ws(1) show ?thesis by (simp add: counts_ok_def)
  qed simp
  then have q: "0 \<le> q" "q \<le> 1" using ws(2) by (simp_all add: q_def)
  have "\<bar>A * q - D * q\<bar> = \<bar>A - D\<bar> * q" using q(1) by (simp add: abs_mult flip: left_diff_distrib)
  also have "\<dots> \<le> 8 / 10 ^ 9 * 1" using D q by (intro mult_mono) simp_all
  finally have e1: "\<bar>A * (of_nat (n a) / of_nat N) - exact_share b fee (n a) N\<bar> \<le> 8 / 10 ^ 9"
    by (simp add: exact_share_def q_def D_def)
  with worker_reward_error [OF A le ws(2)]
  have "\<bar>worker_reward A N (n a) - exact_share b fee (n a) N\<bar> \<le> 1 / 10 ^ 8 + 8 / 10 ^ 9" by linarith
  also have "\<dots> \<le> 2 / 10 ^ 8" by simp
  finally have e: "\<bar>worker_reward A N (n a) - exact_share b fee (n a) N\<bar> \<le> 2 / 10 ^ 8" .
  have "map_get (compute_payouts b fee f ws N) a = map_get (fst (assign_rewards A N ws [] 0)) a"
    using a by (simp add: compute_payouts_def Let_def split: prod.split option.split flip: S_def A_def)
  also have "\<dots> = (if n a \<noteq> 0 \<and> 1 \<le> worker_reward A N (n a) then Some (worker_reward A N (n a)) else None)"
    using ws(1,3) by (simp add: assign_rewards_get counts_ok_def count_table_def)
  finally have get: "map_get (compute_payouts b fee f ws N) a =
      (if n a \<noteq> 0 \<and> 1 \<le> worker_reward A N (n a) then Some (worker_reward A N (n a)) else None)" .
  define x where "x = worker_reward A N (n a)"
  define E where "E = exact_share b fee (n a) N"
  have "E < 1 + 2 / 10 ^ 8" if "x < 1" using e that unfolding x_def [symmetric] E_def [symmetric] by (simp add: abs_if split: if_splits)
  moreover have "E = 0" if "n a = 0" using that by (simp add: E_def exact_share_def)
  ultimately show ?thesis using e unfolding get worth_def x_def [symmetric] E_def [symmetric] by auto
qed

lemma assign_rewards_empty:
  "fst (assign_rewards A N ws q U) = [] \<Longrightarrow> q = [] \<and> snd (assign_rewards A N ws q U) = U"
proof (induction ws arbitrary: q U)
  case (Cons wc ws)
  obtain w c where wc: "wc = (w, c)" by fastforce
  have set: "map_set w x q \<noteq> []" for x by (cases q) auto
  show ?case
  proof (cases "1 \<le> worker_reward A N c")
    case True
    with Cons.prems have "fst (assign_rewards A N ws (map_set w (worker_reward A N c) q) (js_add U (worker_reward A N c))) = []"
      by (simp add: wc Let_def)
    from Cons.IH [OF this] set show ?thesis by blast
  next
    case False
    with Cons show ?thesis by (simp add: wc Let_def)
  qed
qed simp

lemma compute_payouts_some:
  assumes b: "49000 \<le> b" "b \<le> 5 * 10 ^ 6" and "f \<noteq> []"
  shows "compute_payouts b fee f ws N \<noteq> []"
proof -
  define S where "S = js_sub b (fl (1 / 10))"
  define A where "A = js_mul S (js_sub 1 (js_div fee 100))"
  obtain p T where p: "assign_rewards A N ws [] 0 = (p, T)" by fastforce
  have t: "\<bar>fl (1 / 10) - 1 / 10\<bar> \<le> 1 / 10 ^ 16" using fl_error [of "1 / 10"] by (simp add: abs_if split: if_splits)
  then have "\<bar>fl (b - fl (1 / 10)) - (b - fl (1 / 10))\<bar> \<le> 2 / 10 ^ 9"
    using b by (intro fl_error_amount) (simp add: abs_if split: if_splits)
  with t b have S: "1000 \<le> S" "S \<le> 9 * 10 ^ 6" unfolding S_def js_sub_def by (simp_all add: abs_if split: if_splits)
  then have "0 < to_fixed 8 (fl S)" using to_fixed_fl_error [of S] by (simp add: abs_if split: if_splits)
  then have z: "p = [] \<Longrightarrow> 0 < to_fixed 8 (js_sub S T)"
    using assign_rewards_empty [of A N ws "[]" 0] p by (simp add: js_sub_def)
  have set: "map_set f x p \<noteq> []" for x by (cases p) auto
  have "compute_payouts b fee f ws N =
      (if 0 < to_fixed 8 (js_sub S T)
       then map_set f (case map_get p f of Some x \<Rightarrow> to_fixed 8 (js_add x (to_fixed 8 (js_sub S T))) | None \<Rightarrow> to_fixed 8 (js_sub S T)) p
       else p)"
    using assms(3) by (simp add: compute_payouts_def Let_def p flip: S_def A_def split: option.split)
  with z set show ?thesis by (cases "p = []") simp_all
qed

section \<open>A payout run pays the ledger\<close>

definition addresses_checked :: "'x services \<Rightarrow> (string \<Rightarrow> bool) \<Rightarrow> bool" where
  \<comment> \<open>the node answers \<open>validateaddress\<close>, and the answer depends on the address alone\<close>
  "addresses_checked sv valid \<longleftrightarrow>
     (\<forall>p a x. fst (sv_post sv p ''validateaddress'' [JStr a] x) =
        Inr (JObj [(''result'', JObj [(''isvalid'', JBool (valid a))])]))"

definition window_env ::
  "'x services \<Rightarrow> ('x \<Rightarrow> rval list) \<Rightarrow> (string \<Rightarrow> jsv) \<Rightarrow> (string \<Rightarrow> bool) \<Rightarrow> ('x \<Rightarrow> (string \<times> jsv list) list) \<Rightarrow> bool" where
  "window_env sv ls ans valid rlog \<longleftrightarrow>
     share_list sv ls \<and> names_kept sv ans \<and> addresses_checked sv valid \<and> rpc_observed sv rlog \<and> fee_constant sv \<and>
     others_keep (\<lambda>w w'. w_poolWallet w' = w_poolWallet w) sv"

lemma validate_payouts_run:
  assumes "addresses_checked sv valid"
  shows "\<exists>w'. validate_payouts sv f as p w = (Inr (foldl (\<lambda>m a. reassign f a m) p (filter (\<lambda>a. a \<noteq> f \<and> \<not> valid a) as)), w')"
proof (induction as arbitrary: p w)
  case Nil show ?case by (simp add: io_return_def)
next
  case (Cons a as)
  obtain w1 where w1: "rpcCall sv ''validateaddress'' [JStr a] [] w = (Inr (JObj [(''isvalid'', JBool (valid a))]), w1)"
    using assms by (simp add: rpcCall_def io_bind_def await_def on_ext_run io_lift_def addresses_checked_def)
  show ?case
  proof (cases "a = f")
    case True
    then show ?thesis using Cons.IH [of p w] by simp
  next
    case False
    then have "validate_payouts sv f (a # as) p w = validate_payouts sv f as (if valid a then p else reassign f a p) w1"
      by (simp add: io_bind_def io_catch_def w1 io_lift_def io_return_def)
    with False Cons.IH [of "if valid a then p else reassign f a p" w1] show ?thesis by (cases "valid a") simp_all
  qed
qed

lemma reassign_get: "a \<noteq> f \<Longrightarrow> map_get (foldl (\<lambda>m a. reassign f a m) p bad) a = (if a \<in> set bad then None else map_get p a)"
  by (induction bad arbitrary: p) (auto simp: reassign_def add_amount_def Let_def)

interpretation wallet: service_inv "\<lambda>w. w_poolWallet w = q" for q
  by unfold_locales simp_all

definition sent :: "amounts \<Rightarrow> jsv list list \<Rightarrow> bool" where
  "sent p cs \<longleftrightarrow> cs = [[JStr [], amounts_json p, JInt 101]]"

lemma okD: "io_ok I m Q \<Longrightarrow> I s \<Longrightarrow> m s = (r, s') \<Longrightarrow> I s'"
  by (metis io_ok_def snd_conv)

lemma pay_and_record_sends:
  assumes env: "pay_env sv rlog" and "redis_works sv" and w: "pay_inv rlog L q no_send w"
  shows "pay_inv rlog L q (sent p) (snd (pay_and_record sv p w))"
proof -
  obtain time w1 where w1: "date_now sv w = (Inr time, w1)" by (force simp: date_now_def read_ext_run)
  have i1: "pay_inv rlog L q no_send w1" by (rule okD [OF run_now [OF env] w w1])
  obtain r w2 where w2: "redis sv (RSet ''pool:payout:pending'' (payout_record time p JNull)) w1 = (Inr r, w2)"
    using total_redis [OF assms(2)] unfolding io_total_def by (metis prod.collapse)
  have i2: "pay_inv rlog L q no_send w2" by (rule okD [OF run_redis [OF env] i1 w2])
  let ?rest = "io_bind (send_payouts sv p) (\<lambda>txid.
     io_seq (redis sv (LPush ''pool:payout:history'' (payout_record time p txid)))
    (io_seq (redis sv (LTrim ''pool:payout:history'' 0 499))
    (io_seq (redis sv (RDel ''pool:payout:pending''))
      (io_return ()))))"
  have send: "io_step (pay_inv rlog L q no_send) (send_payouts sv p) (pay_inv rlog L q (sent p))"
    unfolding send_payouts_def
  proof (rule step_catch)
    show "io_step (pay_inv rlog L q no_send) (rpcCall sv ''sendmany'' [JStr [], amounts_json p, JInt 101] []) (pay_inv rlog L q (sent p))"
      using env unfolding pay_env_def
      by (intro called_step [OF _ fee.ok_rpcCall [OF fee_others]]) (auto simp: no_send_def sent_def)
    show "io_ok (pay_inv rlog L q (sent p))
       (io_catch
         (io_bind (rpcCall sv ''listtransactions'' [JStr ''*'', JInt 10, JInt 0, JBool True] []) (\<lambda>recent.
          io_bind (find_recent_send sv (js_array recent)) (\<lambda>found.
            case found of Some tx \<Rightarrow> io_return (js_prop_opt tx ''txid'')
            | None \<Rightarrow> io_seq (redis sv (RDel ''pool:payout:pending'')) (io_throw e))))
         (\<lambda>listErr. io_seq (redis sv (RDel ''pool:payout:pending'')) (io_throw e))) anything" for e
      by (intro run_rules run_find env) simp
  qed
  have "io_step (pay_inv rlog L q no_send) ?rest (pay_inv rlog L q (sent p))"
    by (rule step_after [OF send, where R = anything]) (intro run_rules env)
  then have "pay_inv rlog L q (sent p) (snd (?rest w2))" using i2 by (simp add: io_step_def)
  moreover have "pay_and_record sv p w = ?rest w2"
    by (simp add: pay_and_record_def io_seq_def io_bind_def w1 w2)
  ultimately show ?thesis by simp
qed

lemma distribute_sends:
  assumes env: "window_env sv ls ans valid rlog" and names: "cache_agrees ans w"
    and entries: "list_all is_entry (ls (w_ext w))" "ls (w_ext w) \<noteq> []"
    and b: "49000 \<le> b" "b \<le> 5 * 10 ^ 6" and q: "0 \<le> q" "q \<le> 100"
    and f: "f = (if sv_feeWallet sv \<noteq> [] then sv_feeWallet sv else w_poolWallet w)" "f \<noteq> []"
    and start: "pay_inv rlog L q no_send w"
    and Ld: "Ld = ledger_of ls w"
  shows "\<exists>p. pay_inv rlog L q (sent p) (snd (distribute sv b w)) \<and>
    (\<forall>a. a \<noteq> f \<longrightarrow>
      (if valid a then worth b q (shares_of (resolved ans) Ld a) (length Ld) (map_get p a) else map_get p a = None))"
proof -
  have pe: "pay_env sv rlog" and sl: "share_list sv ls" and nk: "names_kept sv ans" and ac: "addresses_checked sv valid"
    and wl: "others_keep (\<lambda>w w'. w_poolWallet w = v \<longrightarrow> w_poolWallet w' = v) sv" for v
    using env by (auto simp: window_env_def pay_env_def others_keep_def)
  have works: "redis_works sv" using share_listD(1) [OF sl] by (simp add: redis_works_def)
  obtain w1 where w1: "redis sv (LRange ''pool:shares'' 0 (- 1)) w = (Inr (RList (ls (w_ext w))), w1)"
    using share_listD(4) [OF sl] by (simp add: redis_def await_def on_ext_run shares_key_def)
  have i1: "pay_inv rlog L q no_send w1" by (rule okD [OF run_redis [OF pe] start w1])
  have c1: "cache_agrees ans w1" by (rule okD [OF agrees_redis [OF nk] names w1])
  have p1: "w_poolWallet w1 = w_poolWallet w" by (rule okD [OF wallet.ok_redis [OF wl] _ w1]) (rule refl)
  have "count_table (\<lambda>a. 0) []" by (simp add: count_table_def)
  from count_shares_run [OF nk c1 entries(1) this]
  obtain ws w2 where w2: "count_shares sv (ls (w_ext w)) [] w1 = (Inr ws, w2)"
    and ws: "count_table (shares_of (resolved ans) Ld) ws" by (auto simp: Ld ledger_of_def)
  have n: "counts_ok ws (length Ld)" "0 < length Ld"
    using count_shares_ok [of sv "ls (w_ext w)" "[]" w1 ws 0] w2 entries(2) by (simp_all add: counts_ok_def Ld ledger_of_def)
  have "io_ok (\<lambda>w'. w_poolWallet w' = w_poolWallet w) (count_shares sv vs us) anything" for vs us
  proof (induction vs arbitrary: us)
    case Nil show ?case by (simp add: ok_return)
  next
    case (Cons v vs)
    show ?case unfolding count_shares.simps by (intro ok_rules wallet.ok_resolve wl Cons.IH anythingI)
  qed
  from okD [OF this p1 w2] have p2: "w_poolWallet w2 = w_poolWallet w" .
  have i2: "pay_inv rlog L q no_send w2" by (rule okD [OF run_count [OF pe] i1 w2])
  then have fee: "w_poolFee w2 = q" by (simp add: called_def)
  define p where "p = compute_payouts b q f ws (length Ld)"
  have p: "p \<noteq> []" using compute_payouts_some [OF b f(2)] by (simp add: p_def)
  define final where "final = foldl (\<lambda>m a. reassign f a m) p (filter (\<lambda>a. a \<noteq> f \<and> \<not> valid a) (map_keys p))"
  obtain w3 where w3: "validate_payouts sv f (map_keys p) p w2 = (Inr final, w3)"
    using validate_payouts_run [OF ac] unfolding final_def by blast
  have i3: "pay_inv rlog L q no_send w3" by (rule okD [OF run_validate [OF pe] i2 w3])
  have "io_step (\<lambda>v. v = w3) (io_seq (pay_and_record sv final) (bonus_engine sv f final)) (pay_inv rlog L q (sent final))"
    unfolding io_seq_def
    by (rule step_after [OF _ run_bonus [OF pe]]) (simp add: io_step_def pay_and_record_sends [OF pe works i3])
  moreover have "distribute sv b w = io_seq (pay_and_record sv final) (bonus_engine sv f final) w3"
  proof -
    have fw: "(if sv_feeWallet sv \<noteq> [] then sv_feeWallet sv else w_poolWallet w2) = f" by (simp only: f(1) p2)
    have pl: "compute_payouts b q f ws (length (ls (w_ext w))) = p" by (simp add: p_def Ld ledger_of_def)
    have b1: "io_bind (redis sv (LRange ''pool:shares'' 0 (- 1))) g w = g (RList (ls (w_ext w))) w1"
      and b2: "io_bind (count_shares sv (ls (w_ext w)) []) h w1 = h ws w2"
      and b3: "io_bind (validate_payouts sv f (map_keys p) p) k w2 = k final w3"
      and get: "io_bind (io_get x) l w2 = l (x w2) w2" for g h k l x
      by (simp_all add: io_bind_def w1 w2 w3 io_get_def)
    show ?thesis
      unfolding distribute_def b1 reply_list_def rval.case Let_def
      using entries(2) p by (simp only: if_False b2 get fw fee pl b3)
  qed
  ultimately have "pay_inv rlog L q (sent final) (snd (distribute sv b w))" by (simp add: io_step_def)
  moreover have "if valid a then worth b q (shares_of (resolved ans) Ld a) (length Ld) (map_get final a) else map_get final a = None"
    if a: "a \<noteq> f" for a
    using compute_payouts_worth [OF b q n ws a, folded p_def] a
    by (auto simp: final_def reassign_get image_iff map_of_eq_None_iff)
  ultimately show ?thesis by blast
qed


section \<open>An instance\<close>

abbreviation mem_shares :: "mem \<Rightarrow> rval list" where
  "mem_shares x \<equiv> mem_list (mm_store x) shares_key"

lemma mem_share_list: "share_list (mem_services answer) mem_shares"
proof -
  have "mem_list (snd (mem_exec c st)) shares_key = mem_list st shares_key" if "cmd_key c \<noteq> shares_key" for c st
    using that by (cases c) (auto simp: mem_list_def Let_def)
  moreover have "mem_range vs 0 b = take (nat b + 1) vs" if "0 \<le> b" for vs b
    using that by (simp add: mem_range_def list_range_def)
  moreover have "mem_range vs 0 (- 1) = vs" for vs by (cases vs) (simp_all add: mem_range_def list_range_def)
  ultimately show ?thesis
    unfolding share_list_def by (simp add: mem_services_def case_prod_beta) (simp add: mem_list_def)
qed

theorem share_ledger_refines_witness:
  "ledger_of mem_shares (snd (handleSubmit demo_services 5 (demo_submit ''job1'') (JStr ''alice'') ''abcd0000'' demo_world)) =
     [JStr ''alice'']"
proof -
  define w' where "w' = snd (handleSubmit demo_services 5 (demo_submit ''job1'') (JStr ''alice'') ''abcd0000'' demo_world)"
  have k: "others_keep (tail_frame 0) demo_services" by (simp add: tail.others_keep_id)
  have t: "w_redis demo_world" "w_blockTemplate demo_world = Some demo_job" "sb_jobId (demo_submission ''job1'') = JStr (j_jobId demo_job)"
    "sb_worker (demo_submission ''job1'') = JStr ''alice''" "ledger_of mem_shares demo_world = []"
    by (simp_all add: demo_world_def mem_world_def demo_submission_def demo_job_def ledger_of_def mem_list_def)
  obtain h where "share_header demo_job (pool_coinbase demo_job ''abcd0000'' (demo_submission ''job1'')) (demo_submission ''job1'') = Inr h"
    using demo_header by blast
  then have "credited 5 0 (demo_submission ''job1'') demo_world w'"
    using pool_submit_branches [OF demo_known(1) demo_read [of "''job1''"] k, of 5 "''abcd0000''", folded w'_def] t
    by (simp add: Let_def demo_fresh)
  from credited_fields(1) [OF this] have "m_validShares (w_objs w' 0) \<noteq> m_validShares (w_objs demo_world 0)" by simp
  with share_ledger_refines [OF mem_share_list t(1) demo_known(1) demo_read k w'_def]
  have "ledger_of mem_shares w' = credit_entry (JStr ''alice'') []" by (simp add: t)
  then show ?thesis unfolding w'_def by (simp add: credit_entry_def ledger_size_def)
qed


end
