(* ===== verification/Routes.thy ===== *)
theory Routes
  imports Rest_Api Answers
begin

text \<open>
  The route tables of the two Express servers, \<open>explorer/src/server.ts\<close> and \<open>api/src/server.ts\<close> with
  its routers: which handler a request reaches, and what every request gets back.  A route is a
  method, a path pattern and a handler of the values of its parameters.  How Express compares a
  pattern with a path is the parameter \<open>matches\<close>; routes are tried in the order of the table, as
  Express does, and the last handler of either server answers 404.  A path is given by its segments.
\<close>

section \<open>Routing\<close>

datatype seg = Lit string | Param

type_synonym matcher = "seg list \<Rightarrow> string list \<Rightarrow> string list option"

record web_request =
  rq_method :: string
  rq_path :: "string list"
  rq_query :: "string \<Rightarrow> string option"
  rq_body :: jsv

type_synonym 's route = "string \<times> seg list \<times> (string list \<Rightarrow> ('s, response) io)"

definition arg :: "nat \<Rightarrow> string list \<Rightarrow> string" where
  "arg i ps = (if i < length ps then ps ! i else [])"

fun dispatch :: "matcher \<Rightarrow> 's route list \<Rightarrow> web_request \<Rightarrow> ('s, response) io \<Rightarrow> ('s, response) io" where
  "dispatch matches [] rq fallback = fallback"
| "dispatch matches ((m, pat, h) # routes) rq fallback =
     (case (if m = rq_method rq then matches pat (rq_path rq) else None) of
        Some ps \<Rightarrow> h ps
      | None \<Rightarrow> dispatch matches routes rq fallback)"

section \<open>The explorer\<close>

definition ex_early_routes :: "'x ex_services \<Rightarrow> 'x explorer route list" where
  \<comment> \<open>registered before \<open>initialize\<close>\<close>
  "ex_early_routes sv =
     [(''GET'', [Lit ''health''], \<lambda>_. ex_health sv),
      (''GET'', [Lit ''api'', Lit ''genesis''], \<lambda>_. ex_genesis)]"

definition ex_routes :: "'x ex_services \<Rightarrow> web_request \<Rightarrow> 'x explorer route list" where
  "ex_routes sv rq =
     [(''GET'', [Lit ''api'', Lit ''blocks''], \<lambda>_. getRecent sv (rq_query rq ''count'')),
      (''GET'', [Lit ''api'', Lit ''block'', Lit ''height'', Param], \<lambda>ps. getByHeight sv (arg 0 ps)),
      (''GET'', [Lit ''api'', Lit ''block'', Param], \<lambda>ps. getByHash sv (arg 0 ps)),
      (''GET'', [Lit ''api'', Lit ''tx'', Param], \<lambda>ps. getByTxid sv (arg 0 ps)),
      (''POST'', [Lit ''api'', Lit ''tx'', Lit ''broadcast''], \<lambda>_. ex_broadcast sv (rq_body rq)),
      (''GET'', [Lit ''api'', Lit ''address'', Param], \<lambda>ps. getByAddress sv (arg 0 ps)),
      (''GET'', [Lit ''api'', Lit ''address'', Param, Lit ''txs''],
         \<lambda>ps. getTransactions sv (arg 0 ps) (rq_query rq ''count'') (rq_query rq ''skip'')),
      (''GET'', [Lit ''api'', Lit ''address'', Param, Lit ''utxo''], \<lambda>ps. getUtxo sv (arg 0 ps)),
      (''GET'', [Lit ''api'', Lit ''mempool''], \<lambda>_. mempool_getAll sv (rq_query rq ''limit'')),
      (''GET'', [Lit ''api'', Lit ''mempool'', Lit ''stats''], \<lambda>_. mempool_getStats sv),
      (''GET'', [Lit ''api'', Lit ''supply''], \<lambda>_. getSupply sv),
      (''GET'', [Lit ''api'', Lit ''supply'', Lit ''circulating''], \<lambda>_. getCirculating sv),
      (''GET'', [Lit ''api'', Lit ''network'', Lit ''stats''], \<lambda>_. getNetworkStats sv),
      (''GET'', [Lit ''api'', Lit ''richlist''], \<lambda>_. getRichList sv),
      (''GET'', [Lit ''api'', Lit ''search''], \<lambda>_. search sv (rq_query rq ''q''))]"

definition ex_handle :: "matcher \<Rightarrow> 'x ex_services \<Rightarrow> web_request \<Rightarrow> ('x explorer, response) io" where
  "ex_handle matches sv rq =
     dispatch matches (ex_early_routes sv @ ex_routes sv rq) rq (respond 404 (error_body ''Not found''))"

definition ex_initialize :: "(exn + unit) \<Rightarrow> 'x explorer \<Rightarrow> 'x explorer" where
  \<comment> \<open>the cache gets the Redis client exactly if \<open>connect\<close> succeeded\<close>
  "ex_initialize outcome w = w\<lparr>ew_client := (case outcome of Inl _ \<Rightarrow> False | Inr _ \<Rightarrow> True)\<rparr>"

section \<open>The REST API\<close>

definition blockchain_router :: "'x api_services \<Rightarrow> 'x route list" where
  "blockchain_router sv =
     [(''GET'', [Lit ''info''], \<lambda>_. blockchain_info sv),
      (''GET'', [Lit ''block'', Param], \<lambda>ps. blockchain_block sv (arg 0 ps)),
      (''GET'', [Lit ''block'', Lit ''height'', Param], \<lambda>ps. blockchain_height sv (arg 0 ps)),
      (''GET'', [Lit ''supply''], \<lambda>_. blockchain_supply sv),
      (''GET'', [Lit ''difficulty''], \<lambda>_. blockchain_difficulty sv)]"

definition wallet_router :: "'x api_services \<Rightarrow> web_request \<Rightarrow> 'x route list" where
  "wallet_router sv rq =
     [(''GET'', [Lit ''validate'', Param], \<lambda>ps. wallet_validate sv (arg 0 ps)),
      (''GET'', [Lit ''estimate-fee''], \<lambda>_. wallet_estimate_fee sv (rq_query rq ''blocks'')),
      (''GET'', [Lit ''utxo'', Param], \<lambda>ps. wallet_utxo sv (arg 0 ps) (rq_query rq ''minconf'') (rq_query rq ''maxconf''))]"

definition mining_router :: "'x api_services \<Rightarrow> web_request \<Rightarrow> 'x route list" where
  "mining_router sv rq =
     [(''GET'', [Lit ''info''], \<lambda>_. mining_info sv),
      (''GET'', [Lit ''difficulty''], \<lambda>_. mining_difficulty sv),
      (''GET'', [Lit ''hashrate''], \<lambda>_. mining_hashrate sv (rq_query rq ''blocks'')),
      (''GET'', [Lit ''blocktemplate''], \<lambda>_. mining_blocktemplate sv)]"

definition transactions_router :: "'x api_services \<Rightarrow> web_request \<Rightarrow> 'x route list" where
  "transactions_router sv rq =
     [(''POST'', [Lit ''decode''], \<lambda>_. transactions_decode sv (rq_body rq)),
      (''POST'', [Lit ''send''], \<lambda>_. transactions_send sv (rq_body rq)),
      (''GET'', [Param], \<lambda>ps. transactions_get sv (arg 0 ps))]"

definition mounted :: "string \<Rightarrow> 's route list \<Rightarrow> 's route list" where
  \<comment> \<open>\<open>app.use('/api/v1/name', router)\<close>\<close>
  "mounted name routes = map (\<lambda>(m, pat, h). (m, [Lit ''api'', Lit ''v1'', Lit name] @ pat, h)) routes"

definition api_routes :: "'x api_services \<Rightarrow> web_request \<Rightarrow> 'x route list" where
  \<comment> \<open>without the documentation pages; a redirect carries its target as the body\<close>
  "api_routes sv rq =
     [(''GET'', [Lit ''health''], \<lambda>_. api_node_health sv),
      (''GET'', [], \<lambda>_. respond 302 (JStr ''/api/docs''))] @
     mounted ''blockchain'' (blockchain_router sv) @ mounted ''wallet'' (wallet_router sv rq) @
     mounted ''mining'' (mining_router sv rq) @ mounted ''transactions'' (transactions_router sv rq)"

definition api_handle :: "matcher \<Rightarrow> 'x api_services \<Rightarrow> web_request \<Rightarrow> ('x, response) io" where
  "api_handle matches sv rq =
     dispatch matches (api_routes sv rq) rq (api_not_found (CHR ''/'' # js_join ''/'' (rq_path rq)))"

section \<open>Every request is answered\<close>

definition ok_answer :: "nat set \<Rightarrow> ('s, response) io \<Rightarrow> bool" where
  "ok_answer S m \<longleftrightarrow> io_ok (\<lambda>_. True) m (status_in S)"

lemma answers_catch:
  assumes "ok_answer S m" and "\<And>e. ok_answer S (h e)" and "\<And>e. io_total (h e)"
  shows "answers S (io_catch m h)"
  using assms unfolding ok_answer_def by (intro answersI ok_catch total_catch)

lemma ok_answer_respond: "status \<in> S \<Longrightarrow> ok_answer S (respond status body)"
  by (simp add: ok_answer_def ok_respond)

lemma ok_answer_json: "200 \<in> S \<Longrightarrow> ok_answer S (res_json body)"
  by (simp add: res_json_def ok_answer_respond)

lemma ok_answer_bind: "(\<And>x. ok_answer S (f x)) \<Longrightarrow> ok_answer S (io_bind m f)"
  by (simp add: ok_answer_def ok_bind_true)

lemma ok_answer_if: "ok_answer S m \<Longrightarrow> ok_answer S n \<Longrightarrow> ok_answer S (if b then m else n)"
  by simp

lemma ok_answer_catch: "ok_answer S m \<Longrightarrow> (\<And>e. ok_answer S (h e)) \<Longrightarrow> ok_answer S (io_catch m h)"
  by (simp add: ok_answer_def ok_catch)

lemma ok_answer_throw: "ok_answer S (io_throw e)"
  by (simp add: ok_answer_def ok_throw)

lemma ok_answer_option: "ok_answer S m \<Longrightarrow> (\<And>x. ok_answer S (f x)) \<Longrightarrow> ok_answer S (case v of None \<Rightarrow> m | Some x \<Rightarrow> f x)"
  by (cases v) auto

lemma ok_answer_sum: "(\<And>e. ok_answer S (g e)) \<Longrightarrow> (\<And>x. ok_answer S (f x)) \<Longrightarrow> ok_answer S (case v of Inl e \<Rightarrow> g e | Inr x \<Rightarrow> f x)"
  by (cases v) auto

lemma ok_answer_store: "200 \<in> S \<Longrightarrow> ok_answer S (store_and_answer sv key ttl v)"
  by (simp add: store_and_answer_def io_seq_def ok_answer_bind ok_answer_json)

lemma ok_answer_cached: "200 \<in> S \<Longrightarrow> ok_answer S m \<Longrightarrow> ok_answer S (cached_or sv key m)"
  by (simp add: cached_or_def ok_answer_bind ok_answer_json)

lemmas ok_answers = ok_answer_respond ok_answer_json ok_answer_bind ok_answer_if ok_answer_catch ok_answer_throw
  ok_answer_option ok_answer_sum ok_answer_store ok_answer_cached

lemma dispatch_answers:
  assumes "list_all (\<lambda>(m, pat, h). \<forall>ps. answers S (h ps)) routes" and "answers S fallback"
  shows "answers S (dispatch matches routes rq fallback)"
  using assms by (induction matches routes rq fallback rule: dispatch.induct) (auto split: option.split)

lemma answers_respond: "status \<in> S \<Longrightarrow> answers S (respond status body)"
  by (simp add: answers_def respond_def io_return_def)

abbreviation ex_statuses :: "nat set" where
  "ex_statuses \<equiv> {200, 400, 404, 500}"

lemma ex_early_answers: "answers ex_statuses (ex_health sv)" "answers ex_statuses ex_genesis"
  by (auto simp: answers_def ex_health_def ex_genesis_def res_json_def respond_def io_bind_def io_return_def io_catch_def
      ex_now_def io_total_def split: prod.splits sum.splits)

lemma block_answers:
  "answers ex_statuses (getRecent sv q)" "answers ex_statuses (getByHeight sv p)" "answers ex_statuses (getByHash sv p)"
  unfolding getRecent_def getByHeight_def getByHash_def Let_def
  by (intro answers_catch ok_answers total_respond; simp)+

lemma tx_answers: "answers ex_statuses (getByTxid sv p)" "answers ex_statuses (ex_broadcast sv b)"
  unfolding getByTxid_def ex_broadcast_def Let_def
  by (intro answers_catch ok_answers total_respond; simp)+

lemma ok_address_info: "ok_answer ex_statuses (address_info sv a d)"
  unfolding address_info_def Let_def by (intro ok_answers; simp)

lemma address_answers:
  "answers ex_statuses (getByAddress sv p)" "answers ex_statuses (getTransactions sv p q1 q2)"
  "answers ex_statuses (getUtxo sv p)"
  unfolding getByAddress_def getTransactions_def getUtxo_def Let_def
  by (intro answers_catch ok_address_info ok_answers total_respond; simp)+

lemma network_answers:
  "answers ex_statuses (mempool_getAll sv q)" "answers ex_statuses (mempool_getStats sv)"
  "answers ex_statuses (getSupply sv)" "answers ex_statuses (getCirculating sv)"
  "answers ex_statuses (getNetworkStats sv)" "answers ex_statuses (getRichList sv)"
  unfolding mempool_getAll_def mempool_getStats_def getSupply_def getCirculating_def getNetworkStats_def
    getRichList_def Let_def
  by (intro answers_catch ok_answers total_respond; simp)+

lemma search_answers: "answers ex_statuses (search sv q)"
  unfolding search_def search_domain_def search_height_def search_hash_def search_address_def Let_def
  by (intro answers_catch ok_answers total_respond; simp)

abbreviation api_statuses :: "nat set" where
  "api_statuses \<equiv> {200, 302, 400, 404, 409, 500}"

lemma ok_answer_unavailable: "ok_answer api_statuses unavailable"
  by (simp add: unavailable_def ok_answer_respond)

lemma total_unavailable: "io_total unavailable"
  by (simp add: unavailable_def total_respond)

lemmas rest_rules = answers_catch ok_answers ok_answer_unavailable total_unavailable total_respond

lemma api_early_answers: "answers api_statuses (api_node_health sv)"
  by (auto simp: answers_def api_node_health_def res_json_def respond_def io_bind_def io_return_def io_catch_def
      api_clock_def split: prod.splits sum.splits)

lemma blockchain_answers:
  "answers api_statuses (blockchain_info sv)" "answers api_statuses (blockchain_block sv p)"
  "answers api_statuses (blockchain_height sv p)" "answers api_statuses (blockchain_supply sv)"
  "answers api_statuses (blockchain_difficulty sv)"
  unfolding blockchain_info_def blockchain_block_def blockchain_height_def blockchain_supply_def
    blockchain_difficulty_def
  by (intro rest_rules; simp)+

lemma mining_answers:
  "answers api_statuses (mining_info sv)" "answers api_statuses (mining_difficulty sv)"
  "answers api_statuses (mining_hashrate sv q)" "answers api_statuses (mining_blocktemplate sv)"
  unfolding mining_info_def mining_difficulty_def mining_hashrate_def mining_blocktemplate_def Let_def
  by (intro rest_rules; simp)+

lemma ok_send_rejected: "ok_answer api_statuses (io_return (send_rejected e))"
  by (simp add: ok_answer_def ok_return status_in_def send_rejected_def)

lemma transactions_answers:
  "answers api_statuses (transactions_decode sv b)" "answers api_statuses (transactions_send sv b)"
  "answers api_statuses (transactions_get sv p)"
  unfolding transactions_decode_def transactions_send_def transactions_get_def
  by (intro rest_rules ok_send_rejected total_return; simp)+

lemma ok_answer_jsv:
  "(\<And>xs. ok_answer S (f xs)) \<Longrightarrow> ok_answer S g \<Longrightarrow> ok_answer S (case v of JArr xs \<Rightarrow> f xs | _ \<Rightarrow> g)"
  by (cases v) auto

lemma wallet_answers:
  "answers api_statuses (wallet_validate sv p)" "answers api_statuses (wallet_estimate_fee sv q)"
  "answers api_statuses (wallet_utxo sv p q1 q2)"
  unfolding wallet_validate_def wallet_estimate_fee_def wallet_utxo_def Let_def
  by (intro rest_rules ok_answer_jsv; simp)+

lemmas explorer_answers = ex_early_answers block_answers tx_answers address_answers network_answers search_answers

lemmas rest_answers = api_early_answers blockchain_answers mining_answers transactions_answers wallet_answers


section \<open>Which handler a path reaches\<close>

fun seg_match :: matcher where
  "seg_match [] [] = Some []"
| "seg_match (Lit l # pat) (s # path) = (if l = s then seg_match pat path else None)"
| "seg_match (Param # pat) (s # path) = map_option ((#) s) (seg_match pat path)"
| "seg_match _ _ = None"

definition express_matcher :: "matcher \<Rightarrow> bool" where
  \<comment> \<open>the documented comparison, for paths in lower case with decoded segments: a literal segment is
     itself, a parameter is any one segment\<close>
  "express_matcher matches \<longleftrightarrow> (\<forall>pat path. list_all (\<lambda>s. toLowerCase s = s) path \<longrightarrow> matches pat path = seg_match pat path)"

definition get_request :: "string list \<Rightarrow> web_request" where
  "get_request path = \<lparr>rq_method = ''GET'', rq_path = path, rq_query = (\<lambda>_. None), rq_body = JUndef\<rparr>"

lemma lower_literals [simp]:
  "toLowerCase ''api'' = ''api''" "toLowerCase ''block'' = ''block''" "toLowerCase ''height'' = ''height''"
  by code_simp+

text \<open>
  A height and a hash go to their own handlers, because the two patterns differ in length; a path
  that stops after \<open>height\<close> is taken for the hash \<open>height\<close>.
\<close>

lemma block_routes:
  assumes "express_matcher matches" and "toLowerCase p = p"
  shows "ex_handle matches sv (get_request [''api'', ''block'', ''height'', p]) = getByHeight sv p"
    "ex_handle matches sv (get_request [''api'', ''block'', p]) = getByHash sv p"
proof -
  have "matches pat [''api'', ''block'', ''height'', p] = seg_match pat [''api'', ''block'', ''height'', p]"
    "matches pat [''api'', ''block'', p] = seg_match pat [''api'', ''block'', p]" for pat
    using assms by (simp_all add: express_matcher_def)
  then show "ex_handle matches sv (get_request [''api'', ''block'', ''height'', p]) = getByHeight sv p"
    "ex_handle matches sv (get_request [''api'', ''block'', p]) = getByHash sv p"
    by (simp_all add: ex_handle_def ex_early_routes_def ex_routes_def get_request_def arg_def)
qed

end
