(* ===== verification/Domains.thy ===== *)
theory Domains
  imports Website
begin

text \<open>
  The registration page of the Tarcoin Name Service (\<open>website/app/domains/page.tsx\<close>): cleaning and
  classifying the searched name, its price in USDT and in TAR, the availability check that runs as
  an effect of the page, and the order form.

  A page is a record of its \<open>useState\<close> cells together with what React and the browser hold for it:
  the runs of the availability effect with their timers and requests, the cleanup of the last run,
  and the orders that were posted.  One function per event handler and per callback gives the next
  page.  The effect runs after a render in which one of its dependencies changed; \<open>rendered\<close>
  compares them.  Callbacks of different runs interleave freely.
\<close>

section \<open>Names\<close>

definition is_hex_digit :: "char \<Rightarrow> bool" where
  "is_hex_digit c \<longleftrightarrow>
     (let n = code_of c in 48 \<le> n \<and> n \<le> 57 \<or> 97 \<le> n \<and> n \<le> 102 \<or> 65 \<le> n \<and> n \<le> 70)"

definition getSafePolygonScanUrl :: "string option \<Rightarrow> string" where
  "getSafePolygonScanUrl txHash =
     (let safe = js_trim (case txHash of None \<Rightarrow> [] | Some s \<Rightarrow> s)
      in if startsWith safe ''0x'' \<and> length safe = 66 \<and> list_all is_hex_digit (drop 2 safe)
         then ''https://polygonscan.com/tx/'' @ safe else ''https://polygonscan.com'')"

definition name_char :: "char \<Rightarrow> bool" where
  "name_char c \<longleftrightarrow> (let n = code_of c in 97 \<le> n \<and> n \<le> 122 \<or> 48 \<le> n \<and> n \<le> 57 \<or> n = 45)"

definition cleanName :: "string \<Rightarrow> string" where
  "cleanName query =
     (let clean = toLowerCase (js_trim query);
          clean = (if endsWith clean ''.tar'' then take (length clean - 4) clean else clean)
      in filter name_char clean)"

definition reservation :: "string \<Rightarrow> string option" where
  \<comment> \<open>the reason of a reserved name, its dashes in ASCII\<close>
  "reservation name =
     (if name = [] then None
      else if startsWith name ''tarcoin''
      then Some ''Official Tarcoin Brand Reserved - Exclusive to Core Team & Foundation.''
      else if name = ''tar'' then Some ''Protocol Ticker Reserved - Exclusive to Core Foundation.''
      else if length name \<le> 2
      then Some ''1 & 2 Character Names (0-9, 00-99, a-z) are Locked for VVIPs & Protocol Security.''
      else None)"

definition isReserved :: "string \<Rightarrow> bool" where
  "isReserved name \<longleftrightarrow> reservation name \<noteq> None"

section \<open>Prices\<close>

definition PREMIUM_KEYWORDS :: "string list" where
  "PREMIUM_KEYWORDS =
     [''vip'', ''btc'', ''usd'', ''eth'', ''dex'', ''ceo'', ''god'', ''top'', ''pay'', ''pro'',
      ''win'', ''app'', ''bot'', ''dao'', ''sol'', ''xmr'', ''ltc'', ''one'', ''ace'', ''hot'', ''sun'',
      ''max'', ''gem'', ''hub'', ''box'', ''run'', ''fit'', ''law'', ''art'', ''gas'', ''web'', ''dev'',
      ''love'', ''usdt'', ''pool'', ''gold'', ''node'', ''coin'', ''mine'', ''bank'', ''cash'', ''king'',
      ''moon'', ''safe'', ''swap'', ''earn'', ''rich'', ''star'', ''fire'', ''fast'', ''best'', ''real'',
      ''game'', ''play'', ''meta'', ''defi'', ''card'', ''free'', ''gift'', ''luck'', ''boss'', ''lord'',
      ''apex'', ''core'', ''drop'', ''link'', ''pass'', ''team'', ''hero'', ''rock'', ''blue'', ''cool'',
      ''money'', ''chain'', ''token'', ''crypt'', ''block'', ''whale'', ''yield'', ''stake'', ''trust'',
      ''super'', ''smart'', ''elite'', ''alpha'', ''prime'', ''cloud'', ''cyber'', ''world'']"

record TierInfo =
  ti_tier :: nat
  ti_name :: string
  ti_minLen :: nat
  ti_maxLen :: nat
  ti_priceUsdt :: rat
  ti_priceTarUsd :: rat
  ti_isReserved :: bool

definition RESERVED :: TierInfo where
  "RESERVED = \<lparr>ti_tier = 0, ti_name = ''VVIP & Core Reserved'', ti_minLen = 1, ti_maxLen = 2,
     ti_priceUsdt = 0, ti_priceTarUsd = 0, ti_isReserved = True\<rparr>"

definition TIER_3 :: TierInfo where
  "TIER_3 = \<lparr>ti_tier = 1, ti_name = ''3-Character Standard'', ti_minLen = 3, ti_maxLen = 3,
     ti_priceUsdt = 500, ti_priceTarUsd = 375, ti_isReserved = False\<rparr>"

definition TIER_4 :: TierInfo where
  "TIER_4 = \<lparr>ti_tier = 2, ti_name = ''4-Character Standard'', ti_minLen = 4, ti_maxLen = 4,
     ti_priceUsdt = 200, ti_priceTarUsd = 150, ti_isReserved = False\<rparr>"

definition TIER_5 :: TierInfo where
  "TIER_5 = \<lparr>ti_tier = 3, ti_name = ''5-Character Brand'', ti_minLen = 5, ti_maxLen = 5,
     ti_priceUsdt = 50, ti_priceTarUsd = 75 / 2, ti_isReserved = False\<rparr>"

definition TIER_STANDARD :: TierInfo where
  "TIER_STANDARD = \<lparr>ti_tier = 4, ti_name = ''Standard (6-8 Characters)'', ti_minLen = 6, ti_maxLen = 8,
     ti_priceUsdt = 20, ti_priceTarUsd = 15, ti_isReserved = False\<rparr>"

definition TIER_EXTENDED :: TierInfo where
  "TIER_EXTENDED = \<lparr>ti_tier = 5, ti_name = ''Extended (9+ Characters)'', ti_minLen = 9, ti_maxLen = 64,
     ti_priceUsdt = 10, ti_priceTarUsd = 15 / 2, ti_isReserved = False\<rparr>"

definition premiumInfo :: "string \<Rightarrow> string option" where
  \<comment> \<open>the reason of a premium name\<close>
  "premiumInfo name =
     (let len = length name; numeric = list_all (is_digit_of 10) name
      in if len \<le> 2 \<or> isReserved name then None
         else if numeric \<and> len = 3 then Some ''Pure 3-Digit Numeric (999 Club)''
         else if numeric \<and> len = 4 then Some ''Pure 4-Digit Numeric (10k Club)''
         else if name \<in> set PREMIUM_KEYWORDS then Some ''High-Value Web3 Keyword / Ticker''
         else if list_all (\<lambda>c. c = hd name) name then Some ''Repeating Pattern''
         else if len = 4 \<and> name ! 0 = name ! 2 \<and> name ! 1 = name ! 3 then Some ''Repeating Pattern (ABAB)''
         else None)"

definition isPremium :: "string \<Rightarrow> bool" where
  "isPremium name \<longleftrightarrow> premiumInfo name \<noteq> None"

definition baseTier :: "string \<Rightarrow> TierInfo option" where
  "baseTier name =
     (let len = length name
      in if len = 0 then None
         else if isReserved name then Some RESERVED
         else if len = 3 then Some TIER_3
         else if len = 4 then Some TIER_4
         else if len = 5 then Some TIER_5
         else if len \<le> 8 then Some TIER_STANDARD
         else Some TIER_EXTENDED)"

definition effectiveBaseUsdt :: "string \<Rightarrow> rat" where
  "effectiveBaseUsdt name =
     (case baseTier name of None \<Rightarrow> 0 | Some t \<Rightarrow> js_mul (ti_priceUsdt t) (if isPremium name then 2 else 1))"

definition effectiveBaseTarUsd :: "string \<Rightarrow> rat" where
  "effectiveBaseTarUsd name =
     (case baseTier name of None \<Rightarrow> 0 | Some t \<Rightarrow> js_mul (ti_priceTarUsd t) (if isPremium name then 2 else 1))"

datatype duration = OneYear | FourYears

definition durationMultiplier :: "duration \<Rightarrow> rat" where
  "durationMultiplier years = (if years = FourYears then 3 else 1)"

definition usdtTotal :: "string \<Rightarrow> duration \<Rightarrow> rat" where
  "usdtTotal name years = js_mul (effectiveBaseUsdt name) (durationMultiplier years)"

definition tarTotalUsd :: "string \<Rightarrow> duration \<Rightarrow> rat" where
  "tarTotalUsd name years = js_mul (effectiveBaseTarUsd name) (durationMultiplier years)"

definition tarAmount :: "rat \<Rightarrow> string \<Rightarrow> duration \<Rightarrow> int" where
  "tarAmount tarPriceUsd name years =
     (if tarTotalUsd name years = 0 \<or> tarPriceUsd \<le> 0 then 0
      else \<lceil>js_div (tarTotalUsd name years) tarPriceUsd\<rceil>)"

section \<open>The page\<close>

datatype payment = PayTAR | PayUSDT

type_synonym answer = "exn + bool \<times> (exn + jsv)"
  \<comment> \<open>of a \<open>fetch\<close>: rejected, or the \<open>ok\<close> of its response and the outcome of \<open>res.json()\<close>\<close>

datatype phase = TimerSet | TimerCleared | Requested | Settled

record check =
  ck_name :: string
  ck_cancelled :: bool
  ck_phase :: phase

record order =
  od_domain :: string
  od_years :: duration
  od_txHash :: string
  od_tarAddress :: "string option"
  od_ipfsCid :: "string option"
  od_amountUsdt :: rat

record page =
  dp_search :: string
  dp_years :: duration
  dp_paymentMethod :: payment
  dp_copied :: "string option"
  dp_isCheckingAvailability :: bool
  dp_isTaken :: bool
  dp_registeredData :: jsv
  dp_tarPriceUsd :: rat
  dp_txHash :: string
  dp_enableTarAddress :: bool
  dp_tarAddressInput :: string
  dp_enableIpfs :: bool
  dp_ipfsCidInput :: string
  dp_isSubmitting :: bool
  dp_submittedOrder :: "order option"
  dp_submitError :: "string option"
  dp_checks :: "check list" \<comment> \<open>the runs of the availability effect\<close>
  dp_cleanup :: "nat option" \<comment> \<open>the run whose cleanup function React holds\<close>
  dp_pending :: "order list" \<comment> \<open>submissions whose answer is outstanding\<close>
  dp_posted :: "order list" \<comment> \<open>every order posted to \<open>/api/domains/register\<close>\<close>

definition page0 :: page where
  "page0 = \<lparr>dp_search = [], dp_years = FourYears, dp_paymentMethod = PayTAR, dp_copied = None,
     dp_isCheckingAvailability = False, dp_isTaken = False, dp_registeredData = JNull,
     dp_tarPriceUsd = fl (105 / 10 ^ 7), dp_txHash = [], dp_enableTarAddress = True,
     dp_tarAddressInput = [], dp_enableIpfs = False, dp_ipfsCidInput = [], dp_isSubmitting = False,
     dp_submittedOrder = None, dp_submitError = None, dp_checks = [], dp_cleanup = None,
     dp_pending = [], dp_posted = []\<rparr>"

abbreviation dp_name :: "page \<Rightarrow> string" where
  "dp_name p \<equiv> cleanName (dp_search p)"

section \<open>The availability check\<close>

definition cancel_check :: "check \<Rightarrow> check" where
  \<comment> \<open>\<open>cancelled = true; clearTimeout(timer)\<close>\<close>
  "cancel_check c =
     c\<lparr>ck_cancelled := True, ck_phase := (if ck_phase c = TimerSet then TimerCleared else ck_phase c)\<rparr>"

definition run_cleanup :: "page \<Rightarrow> page" where
  "run_cleanup p =
     (case dp_cleanup p of
        None \<Rightarrow> p
      | Some i \<Rightarrow> p\<lparr>dp_checks := (dp_checks p)[i := cancel_check (dp_checks p ! i)], dp_cleanup := None\<rparr>)"

definition availability_effect :: "page \<Rightarrow> page" where
  "availability_effect p =
     (if dp_name p = [] \<or> isReserved (dp_name p)
      then p\<lparr>dp_isTaken := False, dp_registeredData := JNull, dp_isCheckingAvailability := False\<rparr>
      else p\<lparr>dp_isCheckingAvailability := True,
             dp_checks := dp_checks p @ [\<lparr>ck_name = dp_name p, ck_cancelled = False, ck_phase = TimerSet\<rparr>],
             dp_cleanup := Some (length (dp_checks p))\<rparr>)"

definition rendered :: "page \<Rightarrow> page \<Rightarrow> page" where
  \<comment> \<open>the render of the new page after the old one\<close>
  "rendered old new =
     (if (dp_name new, isReserved (dp_name new)) \<noteq> (dp_name old, isReserved (dp_name old))
      then availability_effect (run_cleanup new) else new)"

definition check_timer :: "nat \<Rightarrow> page \<Rightarrow> page" where
  \<comment> \<open>the timer of run \<open>i\<close> expires and its request goes out\<close>
  "check_timer i p =
     (if i < length (dp_checks p) \<and> ck_phase (dp_checks p ! i) = TimerSet
      then p\<lparr>dp_checks := (dp_checks p)[i := (dp_checks p ! i)\<lparr>ck_phase := Requested\<rparr>]\<rparr> else p)"

definition registration :: "answer \<Rightarrow> jsv option" where
  \<comment> \<open>the registration an answer reports; a rejected request, an error status and a body that is
     not JSON report none\<close>
  "registration r =
     (case r of
        Inl _ \<Rightarrow> None
      | Inr (ok, body) \<Rightarrow>
          (case (if ok then body else Inr JNull) of
             Inl _ \<Rightarrow> None
           | Inr data \<Rightarrow>
               if truthy data \<and> truthy (js_prop_opt data ''success'') \<and> truthy (js_prop_opt data ''targetAddress'')
               then Some data else None))"

definition check_answer :: "nat \<Rightarrow> answer \<Rightarrow> page \<Rightarrow> page" where
  \<comment> \<open>the promise chain of run \<open>i\<close>\<close>
  "check_answer i r p =
     (if i < length (dp_checks p) \<and> ck_phase (dp_checks p ! i) = Requested
      then let q = p\<lparr>dp_checks := (dp_checks p)[i := (dp_checks p ! i)\<lparr>ck_phase := Settled\<rparr>]\<rparr>
           in if ck_cancelled (dp_checks p ! i) then q
              else (case registration r of
                      Some data \<Rightarrow> q\<lparr>dp_isTaken := True, dp_registeredData := data, dp_isCheckingAvailability := False\<rparr>
                    | None \<Rightarrow> q\<lparr>dp_isTaken := False, dp_registeredData := JNull, dp_isCheckingAvailability := False\<rparr>)
      else p)"

section \<open>The price feed\<close>

definition parseFloat_js :: "jsv \<Rightarrow> rat option" where
  \<comment> \<open>\<open>parseFloat(v)\<close>: a number is printed and read back as itself; a text may carry an exponent\<close>
  "parseFloat_js v =
     (case v of
        JNum x \<Rightarrow> Some x
      | _ \<Rightarrow>
          (let t = dropWhile is_space (js_tostring v);
               sign = (if t \<noteq> [] \<and> (hd t = CHR ''-'' \<or> hd t = CHR ''+'') then 1 else 0);
               u = drop sign t;
               ds = takeWhile (is_digit_of 10) u;
               rest = drop (length ds) u;
               fs = (if startsWith rest ''.'' then takeWhile (is_digit_of 10) (tl rest) else []);
               tail = (if startsWith rest ''.'' then drop (length fs) (tl rest) else rest);
               e = (if startsWith tail ''e'' \<or> startsWith tail ''E'' then tl tail else []);
               esign = (if e \<noteq> [] \<and> (hd e = CHR ''-'' \<or> hd e = CHR ''+'') then 1 else 0);
               es = takeWhile (is_digit_of 10) (drop esign e);
               ev = (if esign = 1 \<and> hd e = CHR ''-'' then - int (digits_val 10 es) else int (digits_val 10 es));
               m = (of_nat (digits_val 10 (ds @ fs)) :: rat) * 10 powi (ev - int (length fs))
           in if ds = [] \<and> fs = [] then None
              else Some (fl (if sign = 1 \<and> hd t = CHR ''-'' then - m else m))))"

definition is_tar_ticker :: "jsv \<Rightarrow> bool" where
  "is_tar_ticker x \<longleftrightarrow>
     js_prop_opt x ''ticker_id'' = JStr ''TAR_USDT'' \<or> js_prop_opt x ''base_currency'' = JStr ''TAR''"

definition price_answer :: "answer \<Rightarrow> page \<Rightarrow> page" where
  "price_answer r p =
     (case r of
        Inr (True, Inr (JArr tickers)) \<Rightarrow>
          (case dropWhile (\<lambda>x. x \<noteq> JNull \<and> \<not> is_tar_ticker x) tickers of
             [] \<Rightarrow> p
           | t # _ \<Rightarrow>
               (case (if truthy t then parseFloat_js (js_prop_opt t ''last_price'') else None) of
                  Some x \<Rightarrow> if 0 < x then p\<lparr>dp_tarPriceUsd := x\<rparr> else p
                | None \<Rightarrow> p))
      | _ \<Rightarrow> p)"

section \<open>The controls\<close>

definition type_search :: "string \<Rightarrow> page \<Rightarrow> page" where
  "type_search s p = rendered p (p\<lparr>dp_search := s, dp_submittedOrder := None, dp_submitError := None\<rparr>)"

definition registerAnother :: "page \<Rightarrow> page" where
  "registerAnother p = rendered p (p\<lparr>dp_submittedOrder := None, dp_txHash := [], dp_search := []\<rparr>)"

definition handleCopy :: "string \<Rightarrow> page \<Rightarrow> page" where
  "handleCopy s p = p\<lparr>dp_copied := Some s\<rparr>"

definition copy_timeout :: "page \<Rightarrow> page" where
  "copy_timeout p = p\<lparr>dp_copied := None\<rparr>"

datatype card = NoCard | ReservedCard string | RegisteredCard jsv | SubmittedCard order | CheckoutCard bool

definition shown_card :: "page \<Rightarrow> card" where
  "shown_card p =
     (if dp_name p = [] \<or> baseTier (dp_name p) = None then NoCard
      else case reservation (dp_name p) of
        Some reason \<Rightarrow> ReservedCard reason
      | None \<Rightarrow>
          if dp_isTaken p \<and> truthy (dp_registeredData p) then RegisteredCard (dp_registeredData p)
          else case dp_submittedOrder p of
            Some od \<Rightarrow> SubmittedCard od
          | None \<Rightarrow> CheckoutCard (dp_isCheckingAvailability p))"

definition form_enabled :: "page \<Rightarrow> bool" where
  \<comment> \<open>the form is on the page and its button is not disabled\<close>
  "form_enabled p \<longleftrightarrow>
     (case shown_card p of CheckoutCard _ \<Rightarrow> True | _ \<Rightarrow> False) \<and> dp_paymentMethod p = PayUSDT \<and>
     \<not> (dp_isSubmitting p \<or> js_trim (dp_txHash p) = [])"

section \<open>The order form\<close>

definition page_order :: "page \<Rightarrow> order" where
  \<comment> \<open>the body of the request; the page keeps the same values for the confirmation\<close>
  "page_order p =
     \<lparr>od_domain = dp_name p @ ''.tar'', od_years = dp_years p, od_txHash = js_trim (dp_txHash p),
      od_tarAddress = (if dp_enableTarAddress p then Some (js_trim (dp_tarAddressInput p)) else None),
      od_ipfsCid = (if dp_enableIpfs p then Some (js_trim (dp_ipfsCidInput p)) else None),
      od_amountUsdt = usdtTotal (dp_name p) (dp_years p)\<rparr>"

definition order_body :: "order \<Rightarrow> jsv" where
  "order_body od =
     JObj [(''domain'', JStr (od_domain od)),
       (''years'', JInt (if od_years od = FourYears then 4 else 1)),
       (''paymentMethod'', JStr ''USDT_POLYGON''), (''txHash'', JStr (od_txHash od)),
       (''tarAddress'', case od_tarAddress od of None \<Rightarrow> JNull | Some a \<Rightarrow> JStr a),
       (''ipfsCid'', case od_ipfsCid od of None \<Rightarrow> JNull | Some a \<Rightarrow> JStr a)]"

definition form_error :: "page \<Rightarrow> string option" where
  "form_error p =
     (let cleanTx = js_trim (dp_txHash p)
      in if cleanTx = [] \<or> length cleanTx < 10
         then Some ''Please enter a valid Polygon Transaction Hash (TXID).''
         else if \<not> dp_enableTarAddress p \<and> \<not> dp_enableIpfs p
         then Some ''Please select at least one record option (Tarcoin Address or IPFS Website).''
         else if dp_enableTarAddress p \<and> js_trim (dp_tarAddressInput p) = []
         then Some ''Please enter your Tarcoin receiving address (tar1...).''
         else if dp_enableIpfs p \<and> js_trim (dp_ipfsCidInput p) = []
         then Some ''Please enter your IPFS Website CID (bafy... or Qm...).''
         else None)"

definition handleUsdtSubmit :: "page \<Rightarrow> page" where
  \<comment> \<open>up to the first \<open>await\<close>\<close>
  "handleUsdtSubmit p =
     (case form_error p of
        Some msg \<Rightarrow> p\<lparr>dp_submitError := Some msg\<rparr>
      | None \<Rightarrow> p\<lparr>dp_submitError := None, dp_isSubmitting := True,
                   dp_pending := dp_pending p @ [page_order p], dp_posted := dp_posted p @ [page_order p]\<rparr>)"

definition submit_failure :: "answer \<Rightarrow> exn option" where
  \<comment> \<open>the exception the \<open>try\<close> block ends with\<close>
  "submit_failure r =
     (case r of
        Inl e \<Rightarrow> Some e
      | Inr (ok, Inl e) \<Rightarrow> Some e
      | Inr (ok, Inr data) \<Rightarrow>
          if ok then None
          else (case js_prop data ''error'' of
                  Inl e \<Rightarrow> Some e
                | Inr err \<Rightarrow> Some (js_tostring (js_or err (JStr ''Failed to submit domain registration'')))))"

definition submit_answer :: "nat \<Rightarrow> answer \<Rightarrow> page \<Rightarrow> page" where
  \<comment> \<open>the rest of the handler, for the submission at place \<open>k\<close>\<close>
  "submit_answer k r p =
     (if k < length (dp_pending p)
      then let q = p\<lparr>dp_pending := take k (dp_pending p) @ drop (Suc k) (dp_pending p), dp_isSubmitting := False\<rparr>
           in (case submit_failure r of
                 None \<Rightarrow> q\<lparr>dp_submittedOrder := Some (dp_pending p ! k)\<rparr>
               | Some msg \<Rightarrow>
                   q\<lparr>dp_submitError := Some (if msg = [] then ''Failed to submit order. Please try again.'' else msg)\<rparr>)
      else p)"

section \<open>Runs of the page\<close>

text \<open>
  One step is one handler or callback.  The parameter is the registry: every request for a name
  is answered with what it holds for that name, at any time and in any order.
\<close>

inductive page_step :: "(string \<Rightarrow> answer) \<Rightarrow> page \<Rightarrow> page \<Rightarrow> bool" for reg where
  "page_step reg p (type_search s p)"
| "page_step reg p (p\<lparr>dp_years := y\<rparr>)"
| "page_step reg p (p\<lparr>dp_paymentMethod := m\<rparr>)"
| "page_step reg p (p\<lparr>dp_txHash := s\<rparr>)"
| "page_step reg p (p\<lparr>dp_enableTarAddress := b\<rparr>)"
| "page_step reg p (p\<lparr>dp_tarAddressInput := s\<rparr>)"
| "page_step reg p (p\<lparr>dp_enableIpfs := b\<rparr>)"
| "page_step reg p (p\<lparr>dp_ipfsCidInput := s\<rparr>)"
| "page_step reg p (handleCopy s p)"
| "page_step reg p (copy_timeout p)"
| "page_step reg p (price_answer r p)"
| "page_step reg p (check_timer i p)"
| "page_step reg p (check_answer i (reg (ck_name (dp_checks p ! i))) p)"
| "shown_card p = SubmittedCard od \<Longrightarrow> page_step reg p (registerAnother p)"
| "form_enabled p \<Longrightarrow> page_step reg p (handleUsdtSubmit p)"
| "page_step reg p (submit_answer k r p)"

inductive page_reach :: "(string \<Rightarrow> answer) \<Rightarrow> page \<Rightarrow> bool" for reg where
  page_start: "page_reach reg page0"
| page_next: "page_reach reg p \<Longrightarrow> page_step reg p q \<Longrightarrow> page_reach reg q"

lemma page_invariant:
  assumes "page_reach reg p" and "I page0" and "\<And>p q. I p \<Longrightarrow> page_step reg p q \<Longrightarrow> I q"
  shows "I p"
  using assms(1) by induction (use assms(2,3) in auto)

section \<open>Cleaned names\<close>

lemma name_char_plain:
  assumes "name_char c"
  shows "\<not> is_space c" "lower_char c = c" "c \<noteq> CHR ''.''"
  using assms by (auto simp: name_char_def is_space_def lower_char_def Let_def)

lemma clean_name_chars: "list_all name_char (cleanName s)"
  by (simp add: cleanName_def Let_def list_all_iff)

lemma trim_plain:
  assumes "list_all (\<lambda>c. \<not> is_space c) s" shows "js_trim s = s"
proof -
  have "dropWhile is_space t = t" if "list_all (\<lambda>c. \<not> is_space c) t" for t
    using that by (cases t) auto
  with assms show ?thesis by (simp add: js_trim_def)
qed

lemma clean_name_fixed:
  assumes "list_all name_char s" shows "cleanName s = s"
proof -
  have "js_trim s = s" using assms by (intro trim_plain) (auto simp: list_all_iff name_char_plain)
  moreover have "toLowerCase s = s"
    using assms by (simp add: toLowerCase_def list_all_iff name_char_plain map_idI)
  moreover have "\<not> endsWith s ''.tar''"
  proof
    assume "endsWith s ''.tar''"
    then have "CHR ''.'' \<in> set s"
      by (metis endsWith_def in_set_dropD list.set_intros(1))
    with assms show False by (auto simp: list_all_iff dest: name_char_plain)
  qed
  moreover have "filter name_char s = s" using assms by (simp add: list_all_iff)
  ultimately show ?thesis by (simp add: cleanName_def Let_def)
qed

section \<open>Prices of names\<close>

lemma fl_half:
  assumes "\<bar>m\<bar> \<le> 2 ^ 53" shows "fl (of_int m / 2) = of_int m / 2"
proof -
  have "of_int m * 2 powi (- 1) = (of_int m / 2 :: rat)" by (simp add: power_int_def)
  with fl_dyadic [OF assms, of "- 1"] show ?thesis by (simp only:)
qed

lemmas tier_defs = RESERVED_def TIER_3_def TIER_4_def TIER_5_def TIER_STANDARD_def TIER_EXTENDED_def

definition tier_units :: "string \<Rightarrow> int" where
  \<comment> \<open>the yearly standard price of a name in units of 10 USDT\<close>
  "tier_units name =
     (if name = [] \<or> isReserved name then 0
      else if length name = 3 then 50 else if length name = 4 then 20 else if length name = 5 then 5
      else if length name \<le> 8 then 2 else 1)"

definition premium_factor :: "string \<Rightarrow> int" where
  "premium_factor name = (if isPremium name then 2 else 1)"

definition duration_factor :: "duration \<Rightarrow> int" where
  "duration_factor years = (if years = FourYears then 3 else 1)"

definition list_price :: "string \<Rightarrow> duration \<Rightarrow> int" where
  "list_price name years = 10 * tier_units name * premium_factor name * duration_factor years"

lemma tier_units_bounds: "0 \<le> tier_units name" "tier_units name \<le> 50"
  by (simp_all add: tier_units_def)

lemma tier_prices:
  "(case baseTier name of None \<Rightarrow> 0 | Some t \<Rightarrow> ti_priceUsdt t) = of_int (10 * tier_units name)"
  "(case baseTier name of None \<Rightarrow> 0 | Some t \<Rightarrow> ti_priceTarUsd t) = of_int (15 * tier_units name) / 2"
  by (simp_all add: baseTier_def tier_units_def tier_defs)

lemma mul_half_int:
  assumes "\<bar>m * n\<bar> \<le> 2 ^ 53"
  shows "js_mul (of_int m / 2) (of_int n) = of_int (m * n) / 2" "js_mul (of_int m) (of_int n) = of_int (m * n)"
  using fl_half [OF assms] fl_of_int [OF assms] by (simp_all add: js_mul_def)

lemma unit_products:
  shows "\<bar>10 * tier_units name * premium_factor name\<bar> \<le> 2 ^ 53"
    "\<bar>15 * tier_units name * premium_factor name\<bar> \<le> 2 ^ 53"
    "\<bar>10 * tier_units name * premium_factor name * duration_factor years\<bar> \<le> 2 ^ 53"
    "\<bar>15 * tier_units name * premium_factor name * duration_factor years\<bar> \<le> 2 ^ 53"
  using tier_units_bounds [of name] by (simp_all add: premium_factor_def duration_factor_def)

lemma premium_rat: "(if isPremium name then 2 else 1) = rat_of_int (premium_factor name)"
  by (simp add: premium_factor_def)

lemma duration_rat: "durationMultiplier years = of_int (duration_factor years)"
  by (simp add: durationMultiplier_def duration_factor_def)

lemma base_usdt: "effectiveBaseUsdt name = of_int (10 * tier_units name * premium_factor name)"
proof -
  have "effectiveBaseUsdt name = js_mul (of_int (10 * tier_units name)) (of_int (premium_factor name))"
    unfolding effectiveBaseUsdt_def premium_rat tier_prices(1) [symmetric]
    by (simp add: js_mul_def split: option.split)
  then show ?thesis by (simp only: mul_half_int(2) [OF unit_products(1)])
qed

lemma base_tar: "effectiveBaseTarUsd name = of_int (15 * tier_units name * premium_factor name) / 2"
proof -
  have "effectiveBaseTarUsd name = js_mul (of_int (15 * tier_units name) / 2) (of_int (premium_factor name))"
    unfolding effectiveBaseTarUsd_def premium_rat tier_prices(2) [symmetric]
    by (simp add: js_mul_def split: option.split)
  then show ?thesis by (simp only: mul_half_int(1) [OF unit_products(2)])
qed

lemma usdt_total_eq: "usdtTotal name years = of_int (list_price name years)"
  by (simp only: usdtTotal_def base_usdt duration_rat mul_half_int(2) [OF unit_products(3)] list_price_def)

lemma tar_total_eq: "tarTotalUsd name years = 3 / 4 * of_int (list_price name years)"
  by (simp only: tarTotalUsd_def base_tar duration_rat mul_half_int(1) [OF unit_products(4)])
    (simp add: list_price_def)

lemma list_price_pos: "name \<noteq> [] \<Longrightarrow> \<not> isReserved name \<Longrightarrow> 10 \<le> list_price name years"
  by (simp add: list_price_def tier_units_def premium_factor_def duration_factor_def)

lemma tar_amount_bounds:
  assumes "0 < price"
  shows "tarTotalUsd name years * (1 - 1 / 2 ^ 53) \<le> of_int (tarAmount price name years) * price"
    "of_int (tarAmount price name years) * price \<le> tarTotalUsd name years * (1 + 1 / 2 ^ 53) + price"
proof -
  let ?t = "tarTotalUsd name years"
  have t0: "0 \<le> ?t"
    by (simp add: tar_total_eq list_price_def tier_units_bounds premium_factor_def duration_factor_def)
  define x where "x = ?t / price"
  have x0: "0 \<le> x" and tx: "?t = x * price" using t0 assms by (simp_all add: x_def)
  have e: "\<bar>fl x - x\<bar> \<le> x / 2 ^ 53" using fl_error [of x] x0 by simp
  define a where "a = rat_of_int (tarAmount price name years)"
  have "fl x \<le> a \<and> a \<le> fl x + 1"
  proof (cases "?t = 0")
    case True
    then show ?thesis by (simp add: a_def x_def tarAmount_def)
  next
    case False
    then have "a = of_int \<lceil>fl x\<rceil>" using assms by (simp add: a_def x_def tarAmount_def js_div_def)
    then show ?thesis by (simp only: le_of_int_ceiling of_int_ceiling_le_add_one)
  qed
  with e have "x * (1 - 1 / 2 ^ 53) \<le> a" "a \<le> x * (1 + 1 / 2 ^ 53) + 1"
    by (simp_all add: abs_if algebra_simps split: if_splits)
  from this [THEN mult_right_mono, of price] assms
  show "?t * (1 - 1 / 2 ^ 53) \<le> a * price" "a * price \<le> ?t * (1 + 1 / 2 ^ 53) + price"
    by (simp_all add: tx algebra_simps)
qed

section \<open>The availability shown\<close>

definition searchable :: "string \<Rightarrow> bool" where
  "searchable name \<longleftrightarrow> name \<noteq> [] \<and> \<not> isReserved name"

definition avail_view :: "page \<Rightarrow> bool \<times> bool \<times> jsv \<times> check list \<times> nat option" where
  "avail_view p = (dp_isCheckingAvailability p, dp_isTaken p, dp_registeredData p, dp_checks p, dp_cleanup p)"

definition shows_answer :: "answer \<Rightarrow> page \<Rightarrow> bool" where
  "shows_answer r p \<longleftrightarrow>
     (case registration r of
        None \<Rightarrow> \<not> dp_isTaken p \<and> dp_registeredData p = JNull
      | Some data \<Rightarrow> dp_isTaken p \<and> dp_registeredData p = data)"

definition live_check :: "(string \<Rightarrow> answer) \<Rightarrow> page \<Rightarrow> nat \<Rightarrow> bool" where
  "live_check reg p i \<longleftrightarrow>
     i < length (dp_checks p) \<and> \<not> ck_cancelled (dp_checks p ! i) \<and> ck_name (dp_checks p ! i) = dp_name p \<and>
     ck_phase (dp_checks p ! i) \<noteq> TimerCleared \<and>
     (dp_isCheckingAvailability p \<longleftrightarrow> ck_phase (dp_checks p ! i) \<noteq> Settled) \<and>
     (ck_phase (dp_checks p ! i) = Settled \<longrightarrow> shows_answer (reg (dp_name p)) p)"

definition others_cancelled :: "page \<Rightarrow> bool" where
  "others_cancelled p \<longleftrightarrow> (\<forall>j < length (dp_checks p). dp_cleanup p \<noteq> Some j \<longrightarrow> ck_cancelled (dp_checks p ! j))"

definition avail_inv :: "(string \<Rightarrow> answer) \<Rightarrow> page \<Rightarrow> bool" where
  "avail_inv reg p \<longleftrightarrow> others_cancelled p \<and>
     (if searchable (dp_name p)
      then (case dp_cleanup p of None \<Rightarrow> False | Some i \<Rightarrow> live_check reg p i)
      else dp_cleanup p = None \<and> \<not> dp_isCheckingAvailability p \<and> \<not> dp_isTaken p \<and> dp_registeredData p = JNull)"

lemma avail_inv_frame:
  assumes "avail_inv reg p" and "avail_view q = avail_view p" and "dp_name q = dp_name p"
  shows "avail_inv reg q"
proof -
  have "dp_isCheckingAvailability q = dp_isCheckingAvailability p" "dp_isTaken q = dp_isTaken p"
    "dp_registeredData q = dp_registeredData p" "dp_checks q = dp_checks p" "dp_cleanup q = dp_cleanup p"
    using assms(2) by (simp_all add: avail_view_def)
  with assms(1,3) show ?thesis
    by (simp only: avail_inv_def others_cancelled_def live_check_def shows_answer_def)
qed

lemma avail_cleanup:
  assumes "avail_inv reg p" and "avail_view q = avail_view p"
  shows "(\<forall>c \<in> set (dp_checks (run_cleanup q)). ck_cancelled c) \<and> dp_cleanup (run_cleanup q) = None \<and>
    dp_search (run_cleanup q) = dp_search q"
proof (cases "dp_cleanup q")
  case None
  then show ?thesis using assms
    by (auto simp: run_cleanup_def avail_inv_def others_cancelled_def avail_view_def in_set_conv_nth)
next
  case (Some i)
  have "ck_cancelled c" if "c \<in> set ((dp_checks q)[i := cancel_check (dp_checks q ! i)])" for c
  proof -
    from that obtain j where "j < length (dp_checks q)" "c = (dp_checks q)[i := cancel_check (dp_checks q ! i)] ! j"
      by (auto simp: in_set_conv_nth)
    then show ?thesis using assms Some
      by (cases "j = i") (auto simp: cancel_check_def avail_inv_def others_cancelled_def avail_view_def)
  qed
  with Some show ?thesis by (simp add: run_cleanup_def)
qed

lemma avail_effect:
  assumes "\<forall>c \<in> set (dp_checks p). ck_cancelled c" and "dp_cleanup p = None"
  shows "avail_inv reg (availability_effect p)"
  using assms
  by (auto simp: availability_effect_def avail_inv_def others_cancelled_def live_check_def searchable_def nth_append less_Suc_eq)

lemma avail_rendered:
  assumes "avail_inv reg p" and "avail_view q = avail_view p"
  shows "avail_inv reg (rendered p q)"
proof (cases "dp_name q = dp_name p")
  case True
  then show ?thesis using assms by (simp add: rendered_def avail_inv_frame)
next
  case False
  then show ?thesis using avail_cleanup [OF assms] by (simp add: rendered_def avail_effect)
qed

lemma avail_check_timer: "avail_inv reg p \<Longrightarrow> avail_inv reg (check_timer i p)"
  unfolding check_timer_def
  by (auto simp: avail_inv_def others_cancelled_def live_check_def shows_answer_def nth_list_update
      split: option.splits)

lemma avail_check_answer:
  assumes "avail_inv reg p"
  shows "avail_inv reg (check_answer i (reg (ck_name (dp_checks p ! i))) p)"
proof (cases "i < length (dp_checks p) \<and> ck_phase (dp_checks p ! i) = Requested")
  case False
  then show ?thesis using assms unfolding check_answer_def by (simp only: if_False)
next
  case True
  show ?thesis
  proof (cases "ck_cancelled (dp_checks p ! i)")
    case c: True
    then have "dp_cleanup p \<noteq> Some i" if "searchable (dp_name p)"
      using assms that by (auto simp: avail_inv_def live_check_def)
    with True c assms show ?thesis
      by (auto simp: check_answer_def avail_inv_def others_cancelled_def live_check_def shows_answer_def
          nth_list_update split: option.splits)
  next
    case c: False
    with True assms have cl: "dp_cleanup p = Some i" by (auto simp: avail_inv_def others_cancelled_def)
    with assms have s: "searchable (dp_name p)" and l: "live_check reg p i"
      by (auto simp: avail_inv_def split: if_splits)
    with True c cl assms show ?thesis
      by (auto simp: check_answer_def Let_def avail_inv_def others_cancelled_def live_check_def shows_answer_def
          nth_list_update split: option.splits)
  qed
qed

lemma price_answer_view: "avail_view (price_answer r p) = avail_view p" "dp_search (price_answer r p) = dp_search p"
  by (auto simp: price_answer_def avail_view_def split: sum.splits prod.splits bool.splits jsv.splits list.splits option.splits)

lemma submit_view: "avail_view (handleUsdtSubmit p) = avail_view p" "dp_search (handleUsdtSubmit p) = dp_search p"
  "avail_view (submit_answer k r p) = avail_view p" "dp_search (submit_answer k r p) = dp_search p"
  by (simp_all add: handleUsdtSubmit_def submit_answer_def avail_view_def Let_def split: option.split)

lemma avail_step:
  assumes "avail_inv reg p" and "page_step reg p q"
  shows "avail_inv reg q"
  using assms(2)
proof cases
  case (1 s)
  then show ?thesis using assms(1) by (simp add: type_search_def avail_view_def avail_rendered)
next
  case (14 od)
  then show ?thesis using assms(1) by (simp add: registerAnother_def avail_view_def avail_rendered)
next
  case (12 i)
  then show ?thesis using assms(1) by (simp add: avail_check_timer)
next
  case (13 i)
  then show ?thesis using assms(1) by (simp add: avail_check_answer)
qed (rule avail_inv_frame [OF assms(1)];
    simp add: price_answer_view submit_view; simp add: handleCopy_def copy_timeout_def avail_view_def)+

lemma reach_avail: "page_reach reg p \<Longrightarrow> avail_inv reg p"
proof (erule page_invariant)
  show "avail_inv reg page0"
    by (simp add: avail_inv_def others_cancelled_def page0_def cleanName_def js_trim_def toLowerCase_def
        searchable_def)
qed (rule avail_step)

text \<open>
  C19. On every reachable page whose name can be registered, once no check is running the page shows
  the registry's answer for exactly this name, whatever was typed before and in whatever order
  the answers to earlier names arrive; and a check that is running ends with that answer as soon as
  its timer expires and its request is answered.
\<close>

theorem availability_shown_current:
  assumes "page_reach reg p" and "searchable (dp_name p)"
  shows "if dp_isCheckingAvailability p
    then \<exists>i. let q = check_answer i (reg (dp_name p)) (check_timer i p)
             in \<not> dp_isCheckingAvailability q \<and> shows_answer (reg (dp_name p)) q
    else shows_answer (reg (dp_name p)) p"
proof -
  obtain i where l: "live_check reg p i"
    using reach_avail [OF assms(1)] assms(2) by (auto simp: avail_inv_def split: option.splits)
  show ?thesis
  proof (cases "dp_isCheckingAvailability p")
    case False
    with l show ?thesis by (simp add: live_check_def)
  next
    case True
    with l have ph: "ck_phase (dp_checks p ! i) = TimerSet \<or> ck_phase (dp_checks p ! i) = Requested"
      by (cases "ck_phase (dp_checks p ! i)") (auto simp: live_check_def)
    let ?t = "check_timer i p"
    have "i < length (dp_checks ?t) \<and> ck_phase (dp_checks ?t ! i) = Requested \<and> \<not> ck_cancelled (dp_checks ?t ! i)"
      using ph l by (auto simp: check_timer_def live_check_def)
    then have "\<not> dp_isCheckingAvailability (check_answer i (reg (dp_name p)) ?t) \<and>
        shows_answer (reg (dp_name p)) (check_answer i (reg (dp_name p)) ?t)"
      by (simp add: check_answer_def shows_answer_def Let_def split: option.split)
    with True show ?thesis by (auto simp: Let_def)
  qed
qed

definition demo_registry :: "string \<Rightarrow> answer" where
  "demo_registry name =
     (if name = ''abc''
      then Inr (True, Inr (JObj [(''success'', JBool True), (''targetAddress'', JStr ''tar1q'')]))
      else Inr (False, Inr JNull))"

definition late_answer :: "nat \<Rightarrow> page \<Rightarrow> page" where
  "late_answer i p = check_answer i (demo_registry (ck_name (dp_checks p ! i))) p"

definition race_page :: page where
  \<comment> \<open>the answer for \<open>abc\<close> arrives after the one for \<open>abcd\<close>\<close>
  "race_page = late_answer 0 (late_answer 1 (check_timer 1 (type_search ''Abcd''
     (check_timer 0 (type_search '' abc.tar'' page0)))))"

lemma race_page_reach: "page_reach demo_registry race_page"
  unfolding race_page_def late_answer_def
  by (intro page_next [OF _ page_step.intros(13)] page_next [OF _ page_step.intros(12)]
      page_next [OF _ page_step.intros(1)] page_start)

lemma race_page_settled:
  "dp_name race_page = ''abcd'' \<and> \<not> dp_isCheckingAvailability race_page \<and> searchable ''abcd''"
  by code_simp

theorem availability_shown_current_witness:
  "shows_answer (demo_registry ''abcd'') race_page \<and> registration (demo_registry ''abcd'') = None"
proof -
  have "searchable (dp_name race_page)" using race_page_settled by simp
  from availability_shown_current [OF race_page_reach this] race_page_settled
  show ?thesis by (simp add: demo_registry_def registration_def)
qed

text \<open>
  While a check runs the page still shows the answer for the name before: after \<open>abc\<close> was
  found registered, typing \<open>abcd\<close> shows \<open>abcd.tar\<close> as registered to the owner of \<open>abc.tar\<close>.
\<close>

lemma stale_registration_shown:
  "let p = type_search ''abcd'' (late_answer 0 (check_timer 0 (type_search ''abc'' page0)))
   in dp_name p = ''abcd'' \<and> dp_isCheckingAvailability p \<and>
      shown_card p = RegisteredCard (JObj [(''success'', JBool True), (''targetAddress'', JStr ''tar1q'')])"
  by code_simp

text \<open>
  An unreachable registry is shown as an available name.
\<close>

lemma outage_shown_available:
  "let p = check_answer 0 (Inl ''Failed to fetch'') (check_timer 0 (type_search ''abc'' page0))
   in shown_card p = CheckoutCard False"
  by code_simp

section \<open>Orders\<close>

definition order_ok :: "order \<Rightarrow> bool" where
  "order_ok od \<longleftrightarrow>
     (let name = take (length (od_domain od) - 4) (od_domain od)
      in od_domain od = name @ ''.tar'' \<and> list_all name_char name \<and> searchable name \<and>
         od_amountUsdt od = usdtTotal name (od_years od) \<and> 10 \<le> length (od_txHash od) \<and>
         (od_tarAddress od, od_ipfsCid od) \<noteq> (None, None) \<and>
         od_tarAddress od \<noteq> Some [] \<and> od_ipfsCid od \<noteq> Some [])"

definition order_inv :: "page \<Rightarrow> bool" where
  "order_inv p \<longleftrightarrow>
     length (dp_pending p) \<le> 1 \<and> (dp_isSubmitting p \<longleftrightarrow> dp_pending p \<noteq> []) \<and>
     set (dp_pending p) \<subseteq> set (dp_posted p) \<and> list_all order_ok (dp_posted p) \<and>
     (case dp_submittedOrder p of None \<Rightarrow> True | Some od \<Rightarrow> od \<in> set (dp_posted p))"

definition order_view :: "page \<Rightarrow> order list \<times> order list \<times> bool" where
  "order_view p = (dp_pending p, dp_posted p, dp_isSubmitting p)"

lemma order_inv_frame:
  assumes "order_inv p" and "order_view q = order_view p"
    and "dp_submittedOrder q = dp_submittedOrder p \<or> dp_submittedOrder q = None"
  shows "order_inv q"
  using assms by (auto simp: order_inv_def order_view_def split: option.splits)

lemma rendered_view:
  "order_view (rendered p q) = order_view q" "dp_submittedOrder (rendered p q) = dp_submittedOrder q"
  by (simp_all add: rendered_def availability_effect_def run_cleanup_def order_view_def split: option.split)

lemma callback_view:
  "order_view (check_timer i p) = order_view p" "dp_submittedOrder (check_timer i p) = dp_submittedOrder p"
  "order_view (check_answer i r p) = order_view p" "dp_submittedOrder (check_answer i r p) = dp_submittedOrder p"
  by (simp_all add: check_timer_def check_answer_def Let_def order_view_def split: option.split)

lemma price_view: "order_view (price_answer r p) = order_view p" "dp_submittedOrder (price_answer r p) = dp_submittedOrder p"
  by (auto simp: price_answer_def order_view_def split: sum.splits prod.splits bool.splits jsv.splits list.splits option.splits)

lemma form_searchable: "form_enabled p \<Longrightarrow> searchable (dp_name p)"
  by (auto simp: form_enabled_def shown_card_def searchable_def isReserved_def split: if_splits option.splits)

lemma page_order_ok:
  assumes "form_enabled p" and "form_error p = None"
  shows "order_ok (page_order p)"
  using form_searchable [OF assms(1)] assms(2) clean_name_chars [of "dp_search p"]
  by (auto simp: order_ok_def page_order_def form_error_def Let_def split: if_splits)

lemma order_submit:
  assumes "order_inv p" and "form_enabled p"
  shows "order_inv (handleUsdtSubmit p)"
proof (cases "form_error p")
  case None
  have "dp_pending p = []" using assms by (auto simp: order_inv_def form_enabled_def)
  with None assms page_order_ok [OF assms(2) None] show ?thesis
    by (auto simp: handleUsdtSubmit_def order_inv_def split: option.splits)
next
  case (Some msg)
  then show ?thesis using assms by (simp add: handleUsdtSubmit_def order_inv_def split: option.splits)
qed

lemma order_answer:
  assumes "order_inv p" shows "order_inv (submit_answer k r p)"
proof (cases "dp_pending p")
  case Nil
  then show ?thesis using assms by (simp add: submit_answer_def)
next
  case (Cons od ods)
  with assms have p: "dp_pending p = [od]" by (simp add: order_inv_def)
  show ?thesis
  proof (cases k)
    case 0
    with p assms show ?thesis by (simp add: submit_answer_def Let_def order_inv_def split: option.splits)
  next
    case (Suc j)
    with p assms show ?thesis by (simp add: submit_answer_def)
  qed
qed

lemma order_step:
  assumes "order_inv p" and "page_step reg p q"
  shows "order_inv q"
  using assms(2)
proof cases
  case 15
  then show ?thesis using assms(1) by (simp add: order_submit)
next
  case (16 k r)
  then show ?thesis using assms(1) by (simp add: order_answer)
qed (rule order_inv_frame [OF assms(1)];
    simp add: rendered_view callback_view price_view type_search_def registerAnother_def;
    simp add: handleCopy_def copy_timeout_def order_view_def)+


definition order_page :: page where
  "order_page = submit_answer 0 (Inr (True, Inr JNull)) (handleUsdtSubmit
     ((((type_search ''miner'' page0)\<lparr>dp_paymentMethod := PayUSDT\<rparr>)\<lparr>dp_txHash := ''0x0123456789''\<rparr>)\<lparr>dp_tarAddressInput := ''tar1q''\<rparr>))"

lemma order_page_reach: "page_reach reg order_page"
proof -
  have "form_enabled ((((type_search ''miner'' page0)\<lparr>dp_paymentMethod := PayUSDT\<rparr>)\<lparr>dp_txHash := ''0x0123456789''\<rparr>)\<lparr>dp_tarAddressInput := ''tar1q''\<rparr>)"
    by code_simp
  then show ?thesis unfolding order_page_def
    by (intro page_next [OF _ page_step.intros(16)] page_next [OF _ page_step.intros(15)]
        page_next [OF _ page_step.intros(6)] page_next [OF _ page_step.intros(4)]
        page_next [OF _ page_step.intros(3)] page_next [OF _ page_step.intros(1)] page_start)
qed


text \<open>
  C28. A name that can be registered costs between 10 and 3,000 USDT, four years cost three times one
  year, the price in TAR is three quarters of the price in USDT to the cent, and the TAR amount the
  page asks for is worth that price at the live rate, up to one TAR above and one rounding below.
\<close>

theorem domain_prices:
  assumes "name \<noteq> []" and "\<not> isReserved name" and "0 < price"
  shows "10 \<le> usdtTotal name years \<and> usdtTotal name years \<le> 3000 \<and>
    usdtTotal name FourYears = 3 * usdtTotal name OneYear \<and>
    tarTotalUsd name years = 3 / 4 * usdtTotal name years \<and>
    tarTotalUsd name years * (1 - 1 / 2 ^ 53) \<le> of_int (tarAmount price name years) * price \<and>
    of_int (tarAmount price name years) * price \<le> tarTotalUsd name years * (1 + 1 / 2 ^ 53) + price"
proof (intro conjI)
  show "10 \<le> usdtTotal name years" using list_price_pos [OF assms(1,2), of years] by (simp add: usdt_total_eq)
  show "usdtTotal name years \<le> 3000"
    using tier_units_bounds [of name] by (simp add: usdt_total_eq list_price_def premium_factor_def duration_factor_def)
  show "usdtTotal name FourYears = 3 * usdtTotal name OneYear"
    by (simp add: usdt_total_eq list_price_def duration_factor_def)
  show "tarTotalUsd name years = 3 / 4 * usdtTotal name years" by (simp add: usdt_total_eq tar_total_eq)
qed (rule tar_amount_bounds [OF assms(3)])+

theorem domain_prices_witness:
  "tarTotalUsd ''miner'' FourYears = 3 / 4 * usdtTotal ''miner'' FourYears \<and>
   tarTotalUsd ''miner'' FourYears * (1 - 1 / 2 ^ 53) \<le> of_int (tarAmount (1 / 2 ^ 16) ''miner'' FourYears) * (1 / 2 ^ 16)"
proof -
  have "\<not> isReserved ''miner''" by code_simp
  then show ?thesis using domain_prices [of "''miner''" "1 / 2 ^ 16" FourYears] by simp
qed

text \<open>
  The registration route hands a posted order to the registrar unchanged and relays its answer.
\<close>

lemma order_json: "to_json (order_body od) = order_body od"
  by (simp add: order_body_def split: option.split)

lemma order_forwarded:
  assumes "wb_fetch sv ''POST'' ''http://127.0.0.1:3005/api/tns/register'' (Some (order_body od)) x = (Inr (status, data), x')"
  shows "domains_register_POST sv (Inr (order_body od)) x = respond status (to_json data) x'"
  using assms by (simp add: domains_register_POST_def order_json web_call_def io_simps io_bind_def respond_def)

end
