(* ===== verification/Explorer_Frontend.thy ===== *)
theory Explorer_Frontend
  imports Routes Domains "HOL-Library.Multiset"
begin

text \<open>
  The pages of the explorer front end (\<open>explorer/frontend\<close>): the home page, the mempool page, the list
  of blocks, the pages of one block, transaction or address, the search boxes and the price ticker.
  A page is a record of its state cells; each callback of a request and each control gives the
  next page.  What a request ends with (\<open>fetched\<close>) is an argument: rejected, or a status and the
  outcome of reading the body.  Numbers printed with \<open>toLocaleString\<close>, dates and styles are left out.
\<close>

section \<open>Answers and lists\<close>

type_synonym fetched = "exn + nat \<times> (exn + jsv)"

definition http_ok :: "nat \<Rightarrow> bool" where
  "http_ok status \<longleftrightarrow> 200 \<le> status \<and> status < 300"

definition json_or_throw :: "fetched \<Rightarrow> exn + jsv" where
  \<comment> \<open>\<open>if (!res.ok) throw new Error(`HTTP ${res.status}`); const data = await res.json();\<close>\<close>
  "json_or_throw r =
     (case r of
        Inl e \<Rightarrow> Inl e
      | Inr (status, body) \<Rightarrow> if http_ok status then body else Inl (''HTTP '' @ radix_digits 10 status))"

definition nullish :: "jsv \<Rightarrow> bool" where
  "nullish v \<longleftrightarrow> v = JNull \<or> v = JUndef"

fun coalesce :: "jsv list \<Rightarrow> jsv" where
  \<comment> \<open>\<open>a ?? b ?? c\<close>\<close>
  "coalesce [] = JUndef"
| "coalesce [v] = v"
| "coalesce (v # vs) = (if nullish v then coalesce vs else v)"

definition fields_or :: "jsv \<Rightarrow> string list \<Rightarrow> jsv \<Rightarrow> jsv" where
  \<comment> \<open>\<open>x.a ?? x.b ?? d\<close>\<close>
  "fields_or x ks d = coalesce (map (js_prop_opt x) ks @ [d])"

definition list_field :: "string list \<Rightarrow> jsv \<Rightarrow> exn + jsv" where
  \<comment> \<open>\<open>Array.isArray(data) ? data : data.a ?? data.b ?? []\<close>\<close>
  "list_field ks data =
     (case data of
        JArr _ \<Rightarrow> Inr data
      | _ \<Rightarrow> if nullish data then Inl type_error else Inr (fields_or data ks (JArr [])))"

definition heights_desc :: "jsv \<Rightarrow> exn + jsv list" where
  \<comment> \<open>\<open>list.sort((a, b) => b.height - a.height)\<close> for numeric heights\<close>
  "heights_desc list =
     (case list of
        JArr xs \<Rightarrow>
          if 2 \<le> length xs \<and> \<not> list_all (\<lambda>b. \<not> nullish b) xs then Inl type_error
          else Inr (sort_key (\<lambda>b. - num_or0 (js_prop_opt b ''height'')) xs)
      | _ \<Rightarrow> Inl type_error)"

section \<open>The home page\<close>

record home =
  hp_blocks :: "jsv list"
  hp_txs :: jsv
  hp_stats :: jsv
  hp_loadingBlocks :: bool
  hp_loadingStats :: bool
  hp_newBlockHeight :: jsv
  hp_error :: "string option"
  hp_prevTopHeight :: jsv
  hp_minFeeRate :: rat

definition home0 :: home where
  "home0 = \<lparr>hp_blocks = [], hp_txs = JArr [], hp_stats = JObj [], hp_loadingBlocks = True,
     hp_loadingStats = True, hp_newBlockHeight = JNull, hp_error = None, hp_prevTopHeight = JNull,
     hp_minFeeRate = 0\<rparr>"

definition top_height :: "jsv list \<Rightarrow> jsv" where
  "top_height list = (case list of [] \<Rightarrow> JUndef | b # _ \<Rightarrow> js_prop_opt b ''height'')"

definition higher :: "jsv \<Rightarrow> jsv \<Rightarrow> bool" where
  "higher a b \<longleftrightarrow> (case (js_num_opt a, js_num_opt b) of (Some x, Some y) \<Rightarrow> y < x | _ \<Rightarrow> False)"

definition home_fetchBlocks :: "fetched \<Rightarrow> home \<Rightarrow> home" where
  "home_fetchBlocks r p =
     (case res_bind (json_or_throw r) (\<lambda>data. res_bind (list_field [''blocks''] data) heights_desc) of
        Inl e \<Rightarrow> p\<lparr>hp_error := Some e, hp_loadingBlocks := False\<rparr>
      | Inr list \<Rightarrow>
          p\<lparr>hp_newBlockHeight :=
              (if hp_prevTopHeight p \<noteq> JNull \<and> higher (top_height list) (hp_prevTopHeight p)
               then top_height list else hp_newBlockHeight p),
            hp_prevTopHeight := coalesce [top_height list, JNull],
            hp_blocks := list, hp_loadingBlocks := False\<rparr>)"

definition home_new_block_timeout :: "home \<Rightarrow> home" where
  "home_new_block_timeout p = p\<lparr>hp_newBlockHeight := JNull\<rparr>"

definition home_fetchStats :: "fetched \<Rightarrow> home \<Rightarrow> home" where
  "home_fetchStats r p =
     (case json_or_throw r of
        Inl _ \<Rightarrow> p\<lparr>hp_loadingStats := False\<rparr>
      | Inr data \<Rightarrow> p\<lparr>hp_stats := data, hp_loadingStats := False\<rparr>)"

definition min_fee_keys :: "string list" where
  "min_fee_keys = [''mempoolMinFee'', ''minFeeRate'', ''min_fee_rate'', ''minfeerate'']"

definition home_fetchMempoolStats :: "fetched \<Rightarrow> home \<Rightarrow> home" where
  "home_fetchMempoolStats r p =
     (case json_or_throw r of
        Inl _ \<Rightarrow> p
      | Inr data \<Rightarrow>
          (case js_num_opt (if nullish data then JUndef else fields_or data min_fee_keys (JNum 0)) of
             Some rawMinFee \<Rightarrow> if 0 < rawMinFee then p\<lparr>hp_minFeeRate := js_mul rawMinFee 100000\<rparr> else p
           | None \<Rightarrow> p))"

definition home_fetchTxs :: "fetched \<Rightarrow> home \<Rightarrow> home" where
  "home_fetchTxs r p =
     (case res_bind (json_or_throw r) (list_field [''transactions'', ''txs'']) of
        Inl _ \<Rightarrow> p
      | Inr list \<Rightarrow> p\<lparr>hp_txs := list\<rparr>)"

definition circulatingSupply :: "rat \<Rightarrow> rat" where
  \<comment> \<open>the mined supply shown for the supply the node reports, without the reserve\<close>
  "circulatingSupply rawCirc = (if 10000000000 + 1000000 < rawCirc then js_sub rawCirc 10000000000 else rawCirc)"

definition secToNext :: "int \<Rightarrow> int \<Rightarrow> int" where
  \<comment> \<open>from the clock in milliseconds and the time of the last block\<close>
  "secToNext now lastBlockTime =
     max 0 (600 - (if lastBlockTime = 0 then 0 else math_floor (js_div (of_int now) 1000) - lastBlockTime))"

definition nextBlockEst :: "int \<Rightarrow> int \<Rightarrow> string" where
  "nextBlockEst now lastBlockTime =
     (let s = secToNext now lastBlockTime
      in if s < 60 then ''~'' @ int_to_string 10 s @ ''s''
         else ''~'' @ int_to_string 10 (s div 60) @ ''m '' @ int_to_string 10 (s mod 60) @ ''s'')"

section \<open>Search boxes\<close>

definition is_alnum :: "char \<Rightarrow> bool" where
  "is_alnum c \<longleftrightarrow> (let n = code_of c in 97 \<le> n \<and> n \<le> 122 \<or> 65 \<le> n \<and> n \<le> 90 \<or> 48 \<le> n \<and> n \<le> 57)"

definition looks_like_address :: "string \<Rightarrow> bool" where
  \<comment> \<open>\<open>/^(1|3|bc1|tar1|T)[a-zA-Z0-9]{10,}$/\<close>\<close>
  "looks_like_address q \<longleftrightarrow>
     list_ex (\<lambda>p. startsWith q p \<and> 10 \<le> length (drop (length p) q) \<and> list_all is_alnum (drop (length p) q))
       [''1'', ''3'', ''bc1'', ''tar1'', ''T'']"

definition home_handleSearch :: "string \<Rightarrow> string option" where
  \<comment> \<open>the path the router goes to, for a trimmed query\<close>
  "home_handleSearch query =
     (if query = [] then None
      else if is_txid query then Some (''/block/'' @ query)
      else if all_digits query then Some (''/block/'' @ query)
      else if looks_like_address query then Some (''/address/'' @ query)
      else if endsWith (toLowerCase query) ''.tar'' then Some (''/address/'' @ query)
      else Some (''/block/'' @ query))"

definition shell_handleSearch :: "string \<Rightarrow> string option" where
  "shell_handleSearch search_text =
     (let q = js_trim search_text
      in if q = [] then None
         else if all_digits q then Some (''/block/'' @ q)
         else if length q = 64 then Some (''/tx/'' @ q)
         else Some (''/address/'' @ q))"

section \<open>The pages of one block, transaction or address\<close>

definition truncate_hash :: "nat \<Rightarrow> nat \<Rightarrow> string \<Rightarrow> string" where
  "truncate_hash h t s =
     (if length s \<le> h + t + 3 then s else take h s @ ''...'' @ drop (length s - t) s)"

record 'a loaded =
  ld_data :: 'a
  ld_loading :: bool
  ld_error :: "string option"

definition block_request :: "string \<Rightarrow> string list" where
  \<comment> \<open>the segments of the address a block page asks for\<close>
  "block_request hash =
     (if all_digits hash then [''api'', ''block'', ''height'', hash] else [''api'', ''block'', hash])"

definition block_load :: "fetched \<Rightarrow> jsv loaded \<Rightarrow> jsv loaded" where
  "block_load r p =
     (case r of
        Inl e \<Rightarrow> p\<lparr>ld_error := Some e, ld_loading := False\<rparr>
      | Inr (status, body) \<Rightarrow>
          if \<not> http_ok status
          then p\<lparr>ld_error := Some (''Block not found (HTTP '' @ radix_digits 10 status @ '')''), ld_loading := False\<rparr>
          else (case body of
                  Inl e \<Rightarrow> p\<lparr>ld_error := Some e, ld_loading := False\<rparr>
                | Inr data \<Rightarrow> p\<lparr>ld_data := data, ld_loading := False\<rparr>))"

definition tx_load :: "fetched \<Rightarrow> jsv loaded \<Rightarrow> jsv loaded" where
  "tx_load r p =
     (case json_or_throw r of
        Inl e \<Rightarrow> p\<lparr>ld_error := Some e, ld_loading := False\<rparr>
      | Inr data \<Rightarrow> p\<lparr>ld_data := data, ld_loading := False\<rparr>)"

definition addrType :: "string \<Rightarrow> string" where
  "addrType address =
     (if startsWith address ''tar1'' then ''bech32 (SegWit)''
      else if startsWith address ''T'' then ''P2PKH (Base58)''
      else if startsWith address ''3'' then ''P2SH''
      else if endsWith (toLowerCase address) ''.tar'' then ''TNS Domain (.tar)''
      else ''Unknown'')"

definition list_or_empty :: "fetched \<Rightarrow> exn + jsv list" where
  \<comment> \<open>\<open>.then(r => r.ok ? r.json() : []).then(d => Array.isArray(d) ? d : [])\<close>\<close>
  "list_or_empty r =
     (case r of
        Inl e \<Rightarrow> Inl e
      | Inr (status, body) \<Rightarrow>
          if http_ok status then res_bind body (\<lambda>d. Inr (case d of JArr xs \<Rightarrow> xs | _ \<Rightarrow> [])) else Inr [])"

definition sort_numeric :: "(jsv \<Rightarrow> rat) \<Rightarrow> jsv list \<Rightarrow> exn + jsv list" where
  \<comment> \<open>a comparator that reads a property throws on a null element\<close>
  "sort_numeric k xs =
     (if 2 \<le> length xs \<and> \<not> list_all (\<lambda>b. \<not> nullish b) xs then Inl type_error else Inr (sort_key k xs))"

definition address_txs :: "fetched \<Rightarrow> jsv list loaded \<Rightarrow> jsv list loaded" where
  "address_txs r p =
     (case res_bind (list_or_empty r) (sort_numeric (\<lambda>t. - num_or0 (js_prop_opt t ''time''))) of
        Inl _ \<Rightarrow> p\<lparr>ld_loading := False\<rparr>
      | Inr xs \<Rightarrow> p\<lparr>ld_data := xs, ld_loading := False\<rparr>)"

definition address_utxos :: "fetched \<Rightarrow> jsv list loaded \<Rightarrow> jsv list loaded" where
  "address_utxos r p =
     (case res_bind (list_or_empty r) (sort_numeric (\<lambda>u. num_or0 (js_prop_opt u ''confirmations''))) of
        Inl _ \<Rightarrow> p\<lparr>ld_loading := False\<rparr>
      | Inr xs \<Rightarrow> p\<lparr>ld_data := xs, ld_loading := False\<rparr>)"

section \<open>The list of blocks\<close>

definition has_genesis :: "jsv list \<Rightarrow> bool" where
  "has_genesis list =
     list_ex (\<lambda>b. js_prop_opt b ''height'' = JNum 0 \<or> js_prop_opt b ''hash'' = JStr GENESIS_HASH) list"

definition blocks_list :: "fetched \<Rightarrow> fetched \<Rightarrow> exn + jsv list" where
  \<comment> \<open>from the answers to the list and, if it is asked for, to the genesis block\<close>
  "blocks_list r genesis =
     res_bind (json_or_throw r) (\<lambda>data.
     res_bind (list_field [''blocks''] data) (\<lambda>v.
       case v of
         JArr list \<Rightarrow>
           if \<not> list_all (\<lambda>b. \<not> nullish b) list \<and> \<not> has_genesis (takeWhile (\<lambda>b. \<not> nullish b) list) then Inl type_error
           else if \<not> has_genesis list \<and> 0 < length list \<and> length list < 100
           then (case json_or_throw genesis of
                   Inl _ \<Rightarrow> heights_desc (JArr list)
                 | Inr g \<Rightarrow> heights_desc (JArr (list @ [g])))
           else heights_desc (JArr list)
       | _ \<Rightarrow> Inl type_error))"

definition blocks_fetchBlocks :: "fetched \<Rightarrow> fetched \<Rightarrow> jsv list loaded \<Rightarrow> jsv list loaded" where
  "blocks_fetchBlocks r genesis p =
     (case blocks_list r genesis of
        Inl e \<Rightarrow> p\<lparr>ld_error := Some (if e = [] then ''Failed to load blocks'' else e), ld_loading := False\<rparr>
      | Inr list \<Rightarrow> p\<lparr>ld_data := list, ld_error := None, ld_loading := False\<rparr>)"

section \<open>The price ticker\<close>

datatype price_source = Live | Cache | Loading

record TickerData =
  tk_price :: rat
  tk_change24h :: rat
  tk_high24h :: rat
  tk_low24h :: rat
  tk_source :: price_source

definition FALLBACK_PRICE :: rat where
  "FALLBACK_PRICE = fl (1176 / 10 ^ 8)"

definition ticker0 :: TickerData where
  "ticker0 = \<lparr>tk_price = FALLBACK_PRICE, tk_change24h = 0, tk_high24h = 0, tk_low24h = 0, tk_source = Loading\<rparr>"

definition float_or :: "jsv \<Rightarrow> rat \<Rightarrow> rat" where
  \<comment> \<open>\<open>parseFloat(v) || d\<close>\<close>
  "float_or v d = (case parseFloat_js v of None \<Rightarrow> d | Some x \<Rightarrow> if x = 0 then d else x)"

definition live_ticker :: "jsv \<Rightarrow> TickerData" where
  "live_ticker tar =
     (let price = float_or (js_prop_opt tar ''last_price'') FALLBACK_PRICE;
          old = float_or (js_prop_opt tar ''oldltp24h'') price;
          change = (if 0 < old then js_mul (js_div (js_sub price old) old) 100 else 0)
      in \<lparr>tk_price = price, tk_change24h = js_div (of_int (math_round (js_mul change 100))) 100,
          tk_high24h = float_or (js_prop_opt tar ''high'') price,
          tk_low24h = float_or (js_prop_opt tar ''low'') price, tk_source = Live\<rparr>)"

definition find_ticker :: "jsv \<Rightarrow> exn + jsv option" where
  \<comment> \<open>\<open>data.find(...)\<close>\<close>
  "find_ticker data =
     (case data of
        JArr ts \<Rightarrow>
          (case dropWhile (\<lambda>t. \<not> nullish t \<and> \<not> is_tar_ticker t) ts of
             [] \<Rightarrow> Inr None
           | t # _ \<Rightarrow> if nullish t then Inl type_error else Inr (Some t))
      | _ \<Rightarrow> Inl type_error)"

definition fetchPrice :: "fetched \<Rightarrow> TickerData \<times> string option \<Rightarrow> TickerData \<times> string option" where
  \<comment> \<open>the ticker and the price kept in the browser's storage\<close>
  "fetchPrice r = (\<lambda>(tk, stored).
     case res_bind (json_or_throw r) find_ticker of
       Inr None \<Rightarrow> (tk, stored)
     | Inr (Some tar) \<Rightarrow> (live_ticker tar, Some (num_to_string (tk_price (live_ticker tar))))
     | Inl _ \<Rightarrow>
         (case stored of
            None \<Rightarrow> (tk, stored)
          | Some cached \<Rightarrow>
              (case (if cached = [] then None else parseFloat_js (JStr cached)) of
                 Some p \<Rightarrow> if 0 < p then (tk\<lparr>tk_price := p, tk_source := Cache\<rparr>, stored) else (tk, stored)
               | None \<Rightarrow> (tk, stored))))"

section \<open>The mempool page\<close>

datatype SortKey = SortFee | SortSize | SortFeerate | SortTime

datatype SortDir = Asc | Desc

record mempool_view =
  mv_txs :: "jsv list"
  mv_stats :: jsv
  mv_loadingTxs :: bool
  mv_loadingStats :: bool
  mv_error :: "string option"
  mv_sortKey :: SortKey
  mv_sortDir :: SortDir
  mv_page :: nat
  mv_ticker :: nat
  mv_countdown :: nat

definition mempool_view0 :: mempool_view where
  "mempool_view0 = \<lparr>mv_txs = [], mv_stats = JObj [], mv_loadingTxs = True, mv_loadingStats = True,
     mv_error = None, mv_sortKey = SortFeerate, mv_sortDir = Desc, mv_page = 0, mv_ticker = 0, mv_countdown = 10\<rparr>"

definition PAGE_SIZE :: nat where "PAGE_SIZE = 25"

definition mempool_fetchTxs :: "fetched \<Rightarrow> mempool_view \<Rightarrow> mempool_view" where
  \<comment> \<open>a change of \<open>ticker\<close> restarts the countdown; the list is an array\<close>
  "mempool_fetchTxs r p =
     (case res_bind (json_or_throw r) (list_field [''transactions'', ''txs'']) of
        Inl e \<Rightarrow> p\<lparr>mv_error := Some e, mv_loadingTxs := False\<rparr>
      | Inr list \<Rightarrow>
          p\<lparr>mv_txs := js_array list, mv_loadingTxs := False, mv_ticker := Suc (mv_ticker p), mv_countdown := 10\<rparr>)"

definition mempool_fetchStats :: "fetched \<Rightarrow> mempool_view \<Rightarrow> mempool_view" where
  "mempool_fetchStats r p =
     (case json_or_throw r of
        Inl _ \<Rightarrow> p\<lparr>mv_loadingStats := False\<rparr>
      | Inr data \<Rightarrow> p\<lparr>mv_stats := data, mv_loadingStats := False\<rparr>)"

definition mempool_second :: "mempool_view \<Rightarrow> mempool_view" where
  "mempool_second p = p\<lparr>mv_countdown := mv_countdown p - 1\<rparr>"

definition handleSort :: "SortKey \<Rightarrow> mempool_view \<Rightarrow> mempool_view" where
  "handleSort key p =
     (if mv_sortKey p = key then p\<lparr>mv_sortDir := (if mv_sortDir p = Asc then Desc else Asc), mv_page := 0\<rparr>
      else p\<lparr>mv_sortKey := key, mv_sortDir := Desc, mv_page := 0\<rparr>)"

definition tx_fee :: "jsv \<Rightarrow> rat" where
  \<comment> \<open>\<open>a.fee ?? a.fees?.base ?? 0\<close>\<close>
  "tx_fee a = num_or0 (coalesce [js_prop_opt a ''fee'', js_prop_opt (js_prop_opt a ''fees'') ''base'', JNum 0])"

definition sort_value :: "SortKey \<Rightarrow> jsv \<Rightarrow> rat" where
  \<comment> \<open>for numeric fields and a positive size\<close>
  "sort_value key a =
     (case key of
        SortFee \<Rightarrow> tx_fee a
      | SortSize \<Rightarrow> num_or0 (fields_or a [''size'', ''vsize''] (JNum 0))
      | SortFeerate \<Rightarrow>
          (let computed = js_mul (js_div (tx_fee a) (num_or0 (fields_or a [''vsize'', ''size''] (JNum 1)))) (10 ^ 8)
           in num_or0 (coalesce [js_prop_opt a ''feerate'', JNum computed]))
      | SortTime \<Rightarrow> num_or0 (fields_or a [''time'', ''firstSeen'', ''first_seen''] (JNum 0)))"

definition sorted_txs :: "mempool_view \<Rightarrow> jsv list" where
  "sorted_txs p =
     sort_key (\<lambda>a. if mv_sortDir p = Desc then - sort_value (mv_sortKey p) a else sort_value (mv_sortKey p) a) (mv_txs p)"

definition totalPages :: "mempool_view \<Rightarrow> nat" where
  "totalPages p = max 1 (nat \<lceil>js_div (of_nat (length (sorted_txs p))) (of_nat PAGE_SIZE)\<rceil>)"

definition page_of :: "nat \<Rightarrow> mempool_view \<Rightarrow> jsv list" where
  "page_of i p = take PAGE_SIZE (drop (i * PAGE_SIZE) (sorted_txs p))"

definition paged :: "mempool_view \<Rightarrow> jsv list" where
  "paged p = page_of (mv_page p) p"

definition page_number :: "mempool_view \<Rightarrow> nat \<Rightarrow> int" where
  \<comment> \<open>the page of the button at place \<open>i\<close>\<close>
  "page_number p i =
     (let n = int (totalPages p); c = int (mv_page p)
      in if 7 < n then (if c < 4 then int i else if n - 5 < c then n - 7 + int i else c - 3 + int i) else int i)"

definition page_buttons :: "mempool_view \<Rightarrow> int list" where
  "page_buttons p = map (page_number p) [0..<min (totalPages p) 7]"

definition prev_page :: "mempool_view \<Rightarrow> mempool_view" where
  "prev_page p = p\<lparr>mv_page := mv_page p - 1\<rparr>"

definition next_page :: "mempool_view \<Rightarrow> mempool_view" where
  "next_page p = p\<lparr>mv_page := min (totalPages p - 1) (Suc (mv_page p))\<rparr>"

definition goto_page :: "int \<Rightarrow> mempool_view \<Rightarrow> mempool_view" where
  "goto_page n p = p\<lparr>mv_page := nat n\<rparr>"

section \<open>Pages of the mempool\<close>

lemma page_quotient:
  assumes "n < 2 ^ 32"
  shows "nat \<lceil>js_div (of_nat n) 25\<rceil> = (n + 24) div 25"
proof -
  define q where "q = n div 25"
  define r where "r = n mod 25"
  have nqr: "n = 25 * q + r" and r: "r < 25" by (simp_all add: q_def r_def)
  have q: "q < 2 ^ 32" using assms by (simp add: q_def)
  define x where "x = rat_of_nat n / 25"
  have flq: "fl (of_nat m) = of_nat m" if "m \<le> 2 ^ 32" for m
    using that fl_of_int [of "int m"] by simp
  show ?thesis
  proof (cases "r = 0")
    case True
    then have "x = of_nat q" by (simp add: x_def nqr)
    then have "js_div (of_nat n) 25 = of_nat q" using flq [of q] q by (simp add: js_div_def x_def)
    then show ?thesis using True by (simp add: nqr)
  next
    case False
    have up: "x \<le> of_nat (q + 1)" using r by (simp add: x_def nqr)
    then have fu: "fl x \<le> of_nat (q + 1)" using fl_mono [OF up] flq [of "q + 1"] q by simp
    have x: "of_nat q + 1 / 25 \<le> x" using False by (simp add: x_def nqr field_simps)
    have "x / 2 ^ 53 < 1 / 25"
    proof -
      have "x < 2 ^ 32" using assms by (simp add: x_def)
      then show ?thesis by simp
    qed
    moreover have "\<bar>fl x - x\<bar> \<le> x / 2 ^ 53" using fl_error [of x] by (simp add: x_def)
    ultimately have lo: "of_nat q < fl x" using x by linarith
    have "\<lceil>fl x\<rceil> = int (q + 1)" using lo fu by (intro ceiling_unique) simp_all
    then have "nat \<lceil>js_div (of_nat n) 25\<rceil> = q + 1" by (simp add: js_div_def x_def)
    moreover have "(n + 24) div 25 = q + 1" using False r by (simp add: nqr)
    ultimately show ?thesis by simp
  qed
qed

lemma length_sorted_txs [simp]: "length (sorted_txs p) = length (mv_txs p)"
  by (simp add: sorted_txs_def)

lemma total_pages_eq:
  "length (mv_txs p) < 2 ^ 32 \<Longrightarrow> totalPages p = max 1 ((length (mv_txs p) + 24) div 25)"
  by (simp add: totalPages_def PAGE_SIZE_def page_quotient)

lemma chunks_concat: "concat (map (\<lambda>i. take k (drop (i * k) xs)) [0..<n]) = take (n * k) xs"
proof (induction n)
  case (Suc n)
  have "take (n * k) xs @ take k (drop (n * k) xs) = take (n * k + k) xs" by (simp only: take_add)
  with Suc show ?case by (simp add: add.commute [of k])
qed simp

lemma pages_concat:
  assumes "length (mv_txs p) < 2 ^ 32"
  shows "concat (map (\<lambda>i. page_of i p) [0..<totalPages p]) = sorted_txs p"
proof -
  have "length (mv_txs p) \<le> totalPages p * 25"
    by (simp add: total_pages_eq [OF assms])
  then show ?thesis
    using chunks_concat [of 25 "sorted_txs p" "totalPages p"] by (simp add: page_of_def PAGE_SIZE_def)
qed

definition in_order :: "mempool_view \<Rightarrow> jsv \<Rightarrow> jsv \<Rightarrow> bool" where
  "in_order p a b \<longleftrightarrow>
     (if mv_sortDir p = Desc then sort_value (mv_sortKey p) b \<le> sort_value (mv_sortKey p) a
      else sort_value (mv_sortKey p) a \<le> sort_value (mv_sortKey p) b)"

lemma sorted_txs_order: "sorted_wrt (in_order p) (sorted_txs p)"
proof -
  define k where "k a = (if mv_sortDir p = Desc then - sort_value (mv_sortKey p) a else sort_value (mv_sortKey p) a)" for a
  have "sorted (map k (sort_key k (mv_txs p)))" by simp
  then have "sorted_wrt (\<lambda>a b. k a \<le> k b) (sort_key k (mv_txs p))" by (simp add: sorted_map)
  moreover have "k a \<le> k b \<longleftrightarrow> in_order p a b" for a b by (simp add: k_def in_order_def)
  ultimately have "sorted_wrt (in_order p) (sort_key k (mv_txs p))" by simp
  then show ?thesis by (simp add: sorted_txs_def k_def [abs_def])
qed

lemma page_number_step: "page_number p i = page_number p 0 + int i"
  by (simp add: page_number_def Let_def)

lemma page_buttons_upto: "page_buttons p = map (\<lambda>i. page_number p 0 + int i) [0..<min (totalPages p) 7]"
  unfolding page_buttons_def by (rule map_cong [OF refl page_number_step])

lemma page_buttons_range:
  assumes "mv_page p < totalPages p"
  shows "set (page_buttons p) \<subseteq> {0..<int (totalPages p)}" "int (mv_page p) \<in> set (page_buttons p)"
    "distinct (page_buttons p)"
proof -
  have lo: "0 \<le> page_number p 0" and hi: "page_number p 0 + int (min (totalPages p) 7) \<le> int (totalPages p)"
    and c: "page_number p 0 \<le> int (mv_page p)" "int (mv_page p) < page_number p 0 + int (min (totalPages p) 7)"
    using assms by (auto simp: page_number_def Let_def)
  show "set (page_buttons p) \<subseteq> {0..<int (totalPages p)}" using lo hi by (auto simp: page_buttons_upto)
  have "int (mv_page p) = page_number p 0 + int (nat (int (mv_page p) - page_number p 0))"
    "nat (int (mv_page p) - page_number p 0) < min (totalPages p) 7" using c by linarith+
  then show "int (mv_page p) \<in> set (page_buttons p)"
    by (auto simp: page_buttons_upto image_iff intro!: bexI [of _ "nat (int (mv_page p) - page_number p 0)"])
  show "distinct (page_buttons p)" by (simp add: page_buttons_upto distinct_map inj_on_def)
qed

text \<open>
  C27. The pages of the mempool table are the sorted list cut into pieces: read in order they are a
  permutation of the transactions received, in the chosen order of the chosen column, and on every
  page of the range the buttons below the table are different pages of the range with the current
  one among them.
\<close>

theorem mempool_pages:
  assumes "length (mv_txs p) < 2 ^ 32" and "mv_page p < totalPages p"
  shows "concat (map (\<lambda>i. page_of i p) [0..<totalPages p]) = sorted_txs p \<and>
    mset (sorted_txs p) = mset (mv_txs p) \<and> sorted_wrt (in_order p) (sorted_txs p) \<and>
    set (page_buttons p) \<subseteq> {0..<int (totalPages p)} \<and> int (mv_page p) \<in> set (page_buttons p) \<and>
    distinct (page_buttons p)"
  using pages_concat [OF assms(1)] page_buttons_range [OF assms(2)] sorted_txs_order [of p]
  by (simp add: sorted_txs_def)

definition sized_tx :: "nat \<Rightarrow> jsv" where
  "sized_tx n = JObj [(''txid'', JStr (radix_digits 10 n)), (''size'', JNum (of_nat n))]"

definition demo_view :: mempool_view where
  "demo_view = mempool_view0\<lparr>mv_txs := map sized_tx [1..<31], mv_sortKey := SortSize, mv_page := 1\<rparr>"

theorem mempool_pages_witness:
  "concat (map (\<lambda>i. page_of i demo_view) [0..<totalPages demo_view]) = sorted_txs demo_view \<and>
   int (mv_page demo_view) \<in> set (page_buttons demo_view) \<and> totalPages demo_view = 2"
proof -
  have l: "length (mv_txs demo_view) < 2 ^ 32" by (simp add: demo_view_def)
  have t: "totalPages demo_view = 2" by (simp add: total_pages_eq [OF l]) (simp add: demo_view_def)
  have "mv_page demo_view < totalPages demo_view" by (simp add: t) (simp add: demo_view_def)
  from mempool_pages [OF l this] t show ?thesis by blast
qed

text \<open>
  A poll that returns fewer transactions leaves the page number behind: the table is empty although
  there are transactions, and with at most 25 of them the buttons are gone as well.
\<close>

lemma page_beyond_end:
  assumes "txs \<noteq> []" and "length txs \<le> 25" and "0 < mv_page p"
  shows "let q = mempool_fetchTxs (Inr (200, Inr (JArr txs))) p
         in mv_txs q \<noteq> [] \<and> paged q = [] \<and> totalPages q = 1"
proof -
  let ?q = "mempool_fetchTxs (Inr (200, Inr (JArr txs))) p"
  have q: "mv_txs ?q = txs" "mv_page ?q = mv_page p"
    by (simp_all add: mempool_fetchTxs_def json_or_throw_def http_ok_def list_field_def)
  have "length (mv_txs ?q) < 2 ^ 32" using assms(2) by (simp add: q)
  from total_pages_eq [OF this] have "totalPages ?q = 1" using assms(2) by (simp add: q)
  moreover have "length (sorted_txs ?q) \<le> mv_page ?q * PAGE_SIZE"
    using assms by (simp add: q PAGE_SIZE_def)
  ultimately show ?thesis using assms(1) by (simp add: q paged_def page_of_def Let_def)
qed

text \<open>
  An error message of the home and mempool pages is never cleared: a later successful poll keeps it.
\<close>

lemma error_banner_stays:
  "hp_error p \<noteq> None \<Longrightarrow> hp_error (home_fetchBlocks r p) \<noteq> None"
  "mv_error q \<noteq> None \<Longrightarrow> mv_error (mempool_fetchTxs r q) \<noteq> None"
  by (simp_all add: home_fetchBlocks_def mempool_fetchTxs_def split: sum.split)

section \<open>Search and the explorer's handlers\<close>

definition page_lookup :: "matcher \<Rightarrow> 'x ex_services \<Rightarrow> string \<Rightarrow> ('x explorer, response) io" where
  \<comment> \<open>the request of the block page for its parameter\<close>
  "page_lookup matches sv param = ex_handle matches sv (get_request (block_request param))"

lemma block_page_lookup:
  assumes "express_matcher matches" and "toLowerCase q = q"
  shows "page_lookup matches sv q = (if all_digits q then getByHeight sv q else getByHash sv q)"
  by (simp add: page_lookup_def block_request_def block_routes [OF assms])

text \<open>
  The home page sends every 64-digit hash to the block page, a transaction id included, although its
  search box offers transactions; the block page then asks for a block only.
\<close>

lemma home_search_txid_as_block:
  assumes "is_txid q" shows "home_handleSearch q = Some (''/block/'' @ q)"
proof -
  have "q \<noteq> []" using assms by (auto simp: is_txid_def)
  with assms show ?thesis by (simp add: home_handleSearch_def)
qed

text \<open>
  The block list asks for \<open>limit=100\<close>; the explorer reads \<open>count\<close> and answers with its default of 10.
\<close>

lemma blocks_limit_ignored:
  assumes "express_matcher matches"
  shows "ex_handle matches sv
      ((get_request [''api'', ''blocks''])\<lparr>rq_query := (\<lambda>k. if k = ''limit'' then Some ''100'' else None)\<rparr>) =
    getRecent sv None"
proof -
  have "toLowerCase ''blocks'' = ''blocks''" by code_simp
  then have "matches pat [''api'', ''blocks''] = seg_match pat [''api'', ''blocks'']" for pat
    using assms by (simp add: express_matcher_def)
  then show ?thesis by (simp add: ex_handle_def ex_early_routes_def ex_routes_def get_request_def)
qed

end
