(* ===== verification/Dashboard.thy ===== *)
theory Dashboard
  imports Pool_Api Explorer_Frontend
begin

text \<open>
  The pool's dashboard (\<open>mining_pool/public/dashboard.html\<close>), a browser program that polls the pool's
  statistics every five seconds, keeps the share counts it saw in the browser's storage and works a
  hash rate out of them.  First the price in the header, then the functions on texts and numbers, the measurement over a history of
  samples and the chart series; then the state of the page and its handlers and callbacks, in the
  order of the source.

  Times, share counts and heights are integers.  A difficulty is a \<open>num\<close>: \<open>None\<close> is NaN, which is
  also what a missing difficulty becomes in every expression that uses it.  A text that the page
  builds with characters outside Latin-1 or with the browser's locale is not built: a toast is a
  value of the type \<open>notice\<close> with the figures it mentions.
\<close>

section \<open>The price in the header\<close>

record price_tag =
  pt_price :: string
  pt_change :: "string \<times> bool"
    \<comment> \<open>the text and whether it is shown as a rise\<close>
  pt_stored :: "string option"

definition TAG_FALLBACK :: rat where
  "TAG_FALLBACK = fl (1176 / 100000000)"

definition price_text :: "rat \<Rightarrow> string" where
  "price_text p =
     (if p < fl (1 / 10000) then fixed_string 8 p else if p < fl (1 / 100) then fixed_string 6 p else fixed_string 4 p)"

definition fetchTar :: "fetched \<Rightarrow> price_tag \<Rightarrow> price_tag" where
  "fetchTar r t =
     (case res_bind (json_or_throw r) find_ticker of
        Inr (Some tar) \<Rightarrow>
          let price = float_or (js_prop_opt tar ''last_price'') TAG_FALLBACK;
              old = float_or (js_prop_opt tar ''oldltp24h'') price;
              chg = (if 0 < old then js_mul (js_div (js_sub price old) old) 100 else 0)
          in t\<lparr>pt_price := price_text price,
               pt_change := ((if 0 \<le> chg then ''+'' else []) @ fixed_string 1 chg @ ''%'', 0 \<le> chg),
               pt_stored := Some (num_to_string price)\<rparr>
      | _ \<Rightarrow>
          (case (case pt_stored t of
                   None \<Rightarrow> Some TAG_FALLBACK
                 | Some c \<Rightarrow> if c = [] then Some TAG_FALLBACK else parseFloat_js (JStr c)) of
             Some p \<Rightarrow> if 0 < p then t\<lparr>pt_price := price_text p\<rparr> else t
           | None \<Rightarrow> t))"

section \<open>Constants\<close>

definition POOL_MS :: int where "POOL_MS = 5000"
definition BACKGROUND_EVERY :: nat where "BACKGROUND_EVERY = 4"
definition BLOCK_SPAN :: int where "BLOCK_SPAN = 20"
definition COINBASE_MATURITY :: int where "COINBASE_MATURITY = 100"
definition MIN_SHARES :: int where "MIN_SHARES = 3"
definition MIN_SECONDS :: rat where "MIN_SECONDS = 25"
definition IDLE_MS :: int where "IDLE_MS = 10 * 60 * 1000"
definition RAW_MS :: int where "RAW_MS = 1800000"
definition ROLL_MS :: int where "ROLL_MS = 60000"
definition ROLL_KEEP :: nat where "ROLL_KEEP = 1500"
definition MEASURE_MS :: int where "MEASURE_MS = 300000"
definition CHAIN_SPAN :: int where "CHAIN_SPAN = 40"
definition CHAIN_PER_POLL :: nat where "CHAIN_PER_POLL = 6"

definition RANGES :: "(string \<times> int) list" where
  "RANGES = [(''15m'', 900000), (''1h'', 3600000), (''6h'', 21600000), (''24h'', 86400000)]"

definition TWO32 :: rat where
  \<comment> \<open>\<open>4294967296\<close>, the hashes of a share of difficulty one\<close>
  "TWO32 = 4294967296"

lemmas dash_constants =
  POOL_MS_def BACKGROUND_EVERY_def BLOCK_SPAN_def MIN_SHARES_def MIN_SECONDS_def IDLE_MS_def RAW_MS_def
  ROLL_MS_def ROLL_KEEP_def MEASURE_MS_def CHAIN_SPAN_def CHAIN_PER_POLL_def RANGES_def TWO32_def

section \<open>Names and texts\<close>

definition split_tar_match :: "string \<Rightarrow> (string \<times> string) option" where
  \<comment> \<open>\<open>/^([a-z0-9_-]+\.tar)(?:\.(.+))?$/i\<close>: the pool's pattern with the underscore\<close>
  "split_tar_match s =
     (let name = takeWhile (\<lambda>c. c \<noteq> CHR ''.'') s;
          rest = drop (length name) s;
          after = drop 4 rest
      in if name = [] \<or> \<not> list_all (\<lambda>c. alnum_char c \<or> c = CHR ''_'' \<or> c = CHR ''-'') name then None
         else if toLowerCase (take 4 rest) \<noteq> ''.tar'' then None
         else case after of
           [] \<Rightarrow> Some (name @ take 4 rest, [])
         | c # w \<Rightarrow>
             if c = CHR ''.'' \<and> w \<noteq> [] \<and> list_all (\<lambda>x. \<not> line_terminator x) w
             then Some (name @ take 4 rest, w) else None)"

definition splitMinerWorker :: "jsv \<Rightarrow> string \<times> string" where
  \<comment> \<open>the address and the name of the rig\<close>
  "splitMinerWorker raw =
     (if \<not> truthy raw then ([], ''(unnamed)'')
      else let s = js_trim (js_tostring raw) in
        case split_tar_match s of
          Some (domain, worker) \<Rightarrow> (toLowerCase domain, if worker = [] then ''default'' else worker)
        | None \<Rightarrow>
            (let parts = js_split CHR ''.'' s; rest = js_join ''.'' (tl parts)
             in (hd parts, if rest = [] then ''(unnamed)'' else rest)))"

type_synonym num = "rat option"

fun scale_hash :: "string list \<Rightarrow> rat \<Rightarrow> rat \<times> string" where
  \<comment> \<open>the loop of \<open>fmtHash\<close> over the units that are left\<close>
  "scale_hash [] h = (h, [])"
| "scale_hash [u] h = (h, u)"
| "scale_hash (u # v # us) h = (if 1000 \<le> h then scale_hash (v # us) (js_div h 1000) else (h, u))"

definition fmtHash :: "num \<Rightarrow> string" where
  "fmtHash n =
     (case n of
        None \<Rightarrow> ''0 H/s''
      | Some h0 \<Rightarrow>
          if h0 \<le> 0 then ''0 H/s''
          else let (h, u) = scale_hash [''H/s'', ''KH/s'', ''MH/s'', ''GH/s'', ''TH/s'', ''PH/s'', ''EH/s''] h0
            in fixed_string (if h < 10 then 2 else if h < 100 then 1 else 0) h @ '' '' @ u)"

definition fmtDur :: "num \<Rightarrow> string option" where
  \<comment> \<open>\<open>None\<close> is the dash\<close>
  "fmtDur n =
     (case n of
        None \<Rightarrow> None
      | Some s \<Rightarrow>
          if s \<le> 0 then None
          else Some (
            if s < 90 then int_to_string 10 (math_round s) @ ''s''
            else if s < 5400 then int_to_string 10 (math_round (js_div s 60)) @ '' min''
            else if s < 172800 then fixed_string 1 (js_div s 3600) @ '' hours''
            else if s < 63072000 then fixed_string 1 (js_div s 86400) @ '' days''
            else fixed_string 1 (js_div s 31536000) @ '' years''))"

definition agoText :: "int \<Rightarrow> int \<Rightarrow> string" where
  "agoText now ms =
     (let s = max 0 (math_round (js_div (of_int (now - ms)) 1000)) in
      if s < 60 then int_to_string 10 s @ ''s ago''
      else if s < 3600 then int_to_string 10 (s div 60) @ ''m ago''
      else if s < 86400 then int_to_string 10 (s div 3600) @ ''h '' @ int_to_string 10 (s mod 3600 div 60) @ ''m ago''
      else int_to_string 10 (s div 86400) @ ''d ago'')"

definition esc_char :: "char \<Rightarrow> string" where
  "esc_char c =
     (if c = CHR ''&'' then ''&amp;'' else if c = CHR ''<'' then ''&lt;'' else if c = CHR ''>'' then ''&gt;''
      else if c = CHR 0x22 then ''&quot;'' else [c])"

definition esc :: "jsv \<Rightarrow> string" where
  "esc v = concat (map esc_char (js_tostring v))"

definition key :: "string \<Rightarrow> string \<Rightarrow> string" where
  "key m a = m @ ''|'' @ a"

section \<open>Measurement\<close>

record sample =
  sm_t :: int
  sm_shares :: int
  sm_diff :: num

fun num_mul :: "num \<Rightarrow> num \<Rightarrow> num" where
  "num_mul (Some a) (Some b) = Some (js_mul a b)"
| "num_mul _ _ = None"

fun nan_add :: "num \<Rightarrow> num \<Rightarrow> num" where
  "nan_add (Some a) (Some b) = Some (js_add a b)"
| "nan_add _ _ = None"

fun num_div :: "num \<Rightarrow> rat \<Rightarrow> num" where
  \<comment> \<open>only used with a divisor that is not zero\<close>
  "num_div (Some a) b = Some (js_div a b)"
| "num_div None b = None"

fun num_min :: "num \<Rightarrow> num \<Rightarrow> num" where
  "num_min (Some a) (Some b) = Some (min a b)"
| "num_min _ _ = None"

fun num_max :: "num \<Rightarrow> num \<Rightarrow> num" where
  "num_max (Some a) (Some b) = Some (max a b)"
| "num_max _ _ = None"

definition num_less :: "rat \<Rightarrow> num \<Rightarrow> bool" where
  \<comment> \<open>\<open>q < n\<close>; a comparison with NaN is false\<close>
  "num_less q n = (case n of None \<Rightarrow> False | Some x \<Rightarrow> q < x)"

datatype lowest = Infinity | Lowest num

fun low_min :: "lowest \<Rightarrow> num \<Rightarrow> lowest" where
  "low_min Infinity d = Lowest d"
| "low_min (Lowest x) d = Lowest (num_min x d)"

fun finite_or_zero :: "lowest \<Rightarrow> rat" where
  \<comment> \<open>\<open>isFinite(dmin) ? dmin : 0\<close>\<close>
  "finite_or_zero (Lowest (Some x)) = x"
| "finite_or_zero _ = 0"

record tally =
  tl_hashes :: num
  tl_shares :: int
  tl_dt :: rat
  tl_dmin :: lowest
  tl_dmax :: num

definition tally_step :: "sample \<Rightarrow> sample \<Rightarrow> tally \<Rightarrow> tally" where
  \<comment> \<open>the body of the loop of \<open>rateOver\<close> for the sample \<open>x\<close> that follows \<open>p\<close>\<close>
  "tally_step p x r =
     (let ds = sm_shares x - sm_shares p in
      if ds < 0 then r
      else let r1 = r\<lparr>tl_dt := js_add (tl_dt r) (js_div (of_int (sm_t x - sm_t p)) 1000),
                      tl_shares := tl_shares r + ds,
                      tl_hashes := nan_add (tl_hashes r)
                        (num_mul (num_mul (Some (of_int ds)) (sm_diff x)) (Some TWO32))\<rparr>
        in if 0 < ds then
             r1\<lparr>tl_dmin := low_min (low_min (tl_dmin r1) (sm_diff x)) (sm_diff p),
                tl_dmax := num_max (num_max (tl_dmax r1) (sm_diff x)) (sm_diff p)\<rparr>
           else r1)"

fun tally_all :: "sample list \<Rightarrow> tally \<Rightarrow> tally" where
  "tally_all (p # x # h) r = tally_all (x # h) (tally_step p x r)"
| "tally_all _ r = r"

definition no_tally :: tally where
  "no_tally = \<lparr>tl_hashes = Some 0, tl_shares = 0, tl_dt = 0, tl_dmin = Infinity, tl_dmax = Some 0\<rparr>"

record rates =
  rt_hashes :: num
  rt_shares :: int
  rt_dt :: rat
  rt_dmin :: rat
  rt_dmax :: num
  rt_atReported :: num
  rt_atMin :: rat
  rt_atMax :: num
  rt_perMin :: rat

definition window :: "sample list \<Rightarrow> int \<Rightarrow> sample list" where
  \<comment> \<open>from the first sample that is at most \<open>windowMs\<close> older than the last one\<close>
  "window h windowMs = dropWhile (\<lambda>x. windowMs < sm_t (last h) - sm_t x) h"

definition rateOver :: "sample list \<Rightarrow> int \<Rightarrow> rates" where
  \<comment> \<open>\<open>rateOver(h, 0, h.length - 1, windowMs)\<close>, the only way it is called\<close>
  "rateOver h windowMs =
     (let r = tally_all (window h windowMs) no_tally;
          dmin = finite_or_zero (tl_dmin r);
          shares = of_int (tl_shares r);
          dt = tl_dt r
      in \<lparr>rt_hashes = tl_hashes r, rt_shares = tl_shares r, rt_dt = dt, rt_dmin = dmin, rt_dmax = tl_dmax r,
          rt_atReported = (if 0 < dt then num_div (tl_hashes r) dt else Some 0),
          rt_atMin = (if 0 < dt then js_div (js_mul (js_mul shares dmin) TWO32) dt else 0),
          rt_atMax = (if 0 < dt then num_div (num_mul (num_mul (Some shares) (tl_dmax r)) (Some TWO32)) dt else Some 0),
          rt_perMin = (if 0 < dt then js_mul (js_div shares dt) 60 else 0)\<rparr>)"

record measurement =
  ms_rate :: rat
  ms_lo :: num
  ms_hi :: num
  ms_reported :: num
  ms_shares :: int
  ms_dt :: rat
  ms_perMin :: rat
  ms_dmin :: rat
  ms_dmax :: num
  ms_unstable :: bool
  ms_calibrated :: bool

definition measured :: "rates \<Rightarrow> measurement" where
  "measured r =
     \<lparr>ms_rate = rt_atMin r, ms_lo = Some (rt_atMin r), ms_hi = rt_atMax r, ms_reported = rt_atReported r,
      ms_shares = rt_shares r, ms_dt = rt_dt r, ms_perMin = rt_perMin r, ms_dmin = rt_dmin r, ms_dmax = rt_dmax r,
      ms_unstable = num_less (3 / 2) (if rt_dmin r \<noteq> 0 then num_div (rt_dmax r) (rt_dmin r) else Some 1),
      ms_calibrated = False\<rparr>"

definition calibrated :: "rates \<Rightarrow> rat \<Rightarrow> measurement" where
  "calibrated r cd =
     (let rate = js_div (js_mul (js_mul (of_int (rt_shares r)) cd) TWO32) (rt_dt r)
      in (measured r)\<lparr>ms_rate := rate, ms_lo := Some rate, ms_hi := Some rate,
                      ms_calibrated := True, ms_unstable := False\<rparr>)"

definition too_few :: "rates \<Rightarrow> bool" where
  "too_few r \<longleftrightarrow> rt_dt r < MIN_SECONDS \<or> rt_shares r < MIN_SHARES"

definition measure_history :: "rat option \<Rightarrow> sample list option \<Rightarrow> measurement option" where
  \<comment> \<open>\<open>measure(m, addr)\<close> on the history and the calibration it looks up; its error figure
     \<open>1 / sqrt(shares)\<close> is only printed and is left out\<close>
  "measure_history calib hist =
     (case hist of
        None \<Rightarrow> None
      | Some h \<Rightarrow>
          if length h < 2 then None
          else let r = rateOver h MEASURE_MS in
            if too_few r then None
            else case calib of
              Some cd \<Rightarrow> Some (if cd \<noteq> 0 then calibrated r cd else measured r)
            | None \<Rightarrow> Some (measured r))"

definition progress_history :: "sample list option \<Rightarrow> int \<times> rat" where
  "progress_history hist =
     (case hist of
        None \<Rightarrow> (0, 0)
      | Some h \<Rightarrow> if length h < 2 then (0, 0) else let r = rateOver h MEASURE_MS in (rt_shares r, rt_dt r))"

section \<open>Chart series\<close>

record rollup =
  ro_t :: int
  ro_shares :: int
  ro_dmin :: num
  ro_dmax :: num

record row =
  rw_t :: int
  rw_shares :: int
  rw_low :: num

definition sample_row :: "sample \<Rightarrow> row" where
  "sample_row s = \<lparr>rw_t = sm_t s, rw_shares = sm_shares s, rw_low = sm_diff s\<rparr>"

definition rollup_row :: "rollup \<Rightarrow> row" where
  "rollup_row r = \<lparr>rw_t = ro_t r, rw_shares = ro_shares r, rw_low = ro_dmin r\<rparr>"

fun back_to :: "row list \<Rightarrow> nat \<Rightarrow> rat \<Rightarrow> nat \<Rightarrow> nat" where
  \<comment> \<open>the \<open>while\<close> loop that walks back to the start of the trailing window\<close>
  "back_to rows i win 0 = 0"
| "back_to rows i win (Suc j) =
     (if of_int (rw_t (rows ! i) - rw_t (rows ! j)) < win then back_to rows i win j else Suc j)"

definition lowest_in :: "bool \<Rightarrow> row list \<Rightarrow> nat \<Rightarrow> nat \<Rightarrow> lowest" where
  "lowest_in useRaw rows j i =
     foldl (\<lambda>d q. low_min d (if useRaw then num_min (rw_low (rows ! q)) (rw_low (rows ! (q - 1))) else rw_low (rows ! q)))
       Infinity [Suc j..<Suc i]"

definition series_point :: "rat option \<Rightarrow> bool \<Rightarrow> row list \<Rightarrow> rat \<Rightarrow> nat \<Rightarrow> (int \<times> rat) list" where
  \<comment> \<open>one round of the loop: a point, or nothing where the source continues\<close>
  "series_point cd useRaw rows win i =
     (let j = back_to rows i win i in
      if j = i then []
      else let dt = js_div (of_int (rw_t (rows ! i) - rw_t (rows ! j))) 1000;
               ds = rw_shares (rows ! i) - rw_shares (rows ! j)
        in if dt \<le> 0 \<or> ds < 0 then []
           else let dmin = finite_or_zero (lowest_in useRaw rows j i) in
             if dmin \<le> 0 then []
             else [(rw_t (rows ! i),
                    js_div (js_mul (js_mul (of_int ds) (case cd of Some c \<Rightarrow> if c \<noteq> 0 then c else dmin | None \<Rightarrow> dmin)) TWO32) dt)])"

definition last_of :: "nat \<Rightarrow> 'a list \<Rightarrow> 'a list" where
  \<comment> \<open>\<open>xs.slice(-n)\<close>\<close>
  "last_of n xs = drop (length xs - n) xs"

definition series_rows :: "sample list \<Rightarrow> rollup list \<Rightarrow> int \<Rightarrow> int \<Rightarrow> bool \<times> row list" where
  \<comment> \<open>which rows the series reads: the flag says they are raw samples\<close>
  "series_rows hist rolls now rangeMs =
     (let from = now - rangeMs;
          raw = filter (\<lambda>x. from \<le> rw_t x) (map sample_row hist);
          rolled = filter (\<lambda>x. from \<le> rw_t x) (map rollup_row rolls)
      in if rangeMs \<le> RAW_MS \<or> length rolled < 2 then (True, raw) else (False, rolled))"

definition series_of :: "rat option \<Rightarrow> sample list \<Rightarrow> rollup list \<Rightarrow> int \<Rightarrow> int \<Rightarrow> int \<Rightarrow> (int \<times> rat) list" where
  \<comment> \<open>\<open>seriesFor\<close> on the rows and the calibration it looks up\<close>
  "series_of cd hist rolls now rangeMs buckets =
     (let (useRaw, rows) = series_rows hist rolls now rangeMs in
      if length rows < 2 then []
      else let win = max 60000 (js_div (of_int rangeMs) (of_int buckets))
        in last_of 180 (concat (map (series_point cd useRaw rows win) [1..<length rows])))"

definition median_rate :: "(int \<times> rat) list \<Rightarrow> rat option" where
  \<comment> \<open>\<open>baselineRate\<close> on the points of the last half hour\<close>
  "median_rate pts =
     (if length pts < 6 then None else Some (sort (map snd pts) ! (length pts div 2)))"

section \<open>What the services answer\<close>

record dworker =
  dw_shares :: int
  dw_lastSeen :: rat
  dw_difficulty :: num

record dblock =
  db_worker :: jsv
  db_height :: jsv
  db_time :: num

record stats =
  st_workers :: "(string \<times> dworker) list"
  st_blocksFound :: "dblock list"
  st_apiMiner :: "jsv option"

definition worker_view :: "jsv \<Rightarrow> dworker option" where
  \<comment> \<open>an entry of \<open>workers\<close> with a whole share count and a numeric time, as the pool serves it\<close>
  "worker_view v =
     (case (js_prop_opt v ''shares'', js_prop_opt v ''lastSeen'') of
        (JNum n, JNum t) \<Rightarrow>
          if n = of_int \<lfloor>n\<rfloor>
          then Some \<lparr>dw_shares = \<lfloor>n\<rfloor>, dw_lastSeen = t, dw_difficulty = js_num_opt (js_prop_opt v ''difficulty'')\<rparr>
          else None
      | _ \<Rightarrow> None)"

definition block_view :: "jsv \<Rightarrow> dblock" where
  "block_view b =
     \<lparr>db_worker = js_prop_opt b ''worker'', db_height = js_prop_opt b ''height'',
      db_time = js_num_opt (js_prop_opt b ''time'')\<rparr>"

fun workers_view :: "(string \<times> jsv) list \<Rightarrow> (string \<times> dworker) list option" where
  "workers_view [] = Some []"
| "workers_view ((a, v) # ws) =
     (case worker_view v of
        None \<Rightarrow> None
      | Some w \<Rightarrow> (case workers_view ws of None \<Rightarrow> None | Some r \<Rightarrow> Some ((a, w) # r)))"

definition stats_view :: "jsv \<Rightarrow> stats option" where
  \<comment> \<open>a statistics body of the shape the pool serves\<close>
  "stats_view d =
     (case workers_view (js_entries (js_prop_opt d ''workers'')) of
        None \<Rightarrow> None
      | Some ws \<Rightarrow> Some \<lparr>st_workers = ws, st_blocksFound = map block_view (js_array (js_prop_opt d ''blocksFound'')),
                        st_apiMiner = None\<rparr>)"

record netinfo =
  ni_difficulty :: num
  ni_blocks :: "int option"
  ni_networkHashrate :: num
  ni_blockReward :: num
  ni_time :: "int option"

record header =
  hd_time :: int
  hd_difficulty :: num

record validity =
  va_valid :: bool
  va_addr :: string
  va_resolved :: "string option"
  va_domain :: "string option"

section \<open>The state of the page\<close>

record luck =
  lk_since :: int
  lk_expected :: rat
  lk_secs :: rat
  lk_blocks :: "(string \<times> num) list"
  lk_last :: int

datatype notice =
    HashrateDropped string rat rat
  | MinerStopped
  | MinerBack
  | BlockFound jsv num
  | AlertsToggled bool
  | Calibrated rat
  | LuckReset

datatype stored =
    SHistory "string \<rightharpoonup> sample list"
  | SRollups "string \<rightharpoonup> rollup list"
  | SLuck "string \<rightharpoonup> luck"
  | SBlocks "(int \<times> header) list"
  | SCalib "string \<rightharpoonup> rat"
  | SWatch "string list"
  | SSeen "jsv list"
  | SText string

record dash =
  da_history :: "string \<rightharpoonup> sample list"
  da_rollups :: "string \<rightharpoonup> rollup list"
  da_compare :: bool
  da_luck :: "string \<rightharpoonup> luck"
  da_dropState :: "string \<rightharpoonup> nat"
  da_blockCache :: "(int \<times> header) list"
  da_calib :: "string \<rightharpoonup> rat"
  da_watch :: "string list"
  da_seen :: "jsv list"
  da_wallet :: string
  da_mode :: string
  da_range :: string
  da_alertsOn :: bool
  da_stats :: "string \<rightharpoonup> stats"
  da_failed :: "string \<Rightarrow> bool"
  da_net :: "netinfo option"
  da_chain :: "netinfo option"
  da_older :: "(int \<times> int) option"
  da_balance :: "jsv option"
  da_validity :: "validity option"
  da_cycle :: nat
  da_sort :: "string \<times> int"
  da_session :: "int \<times> int option \<times> string option"
  da_wasIdle :: "bool option"
  da_toasts :: "notice list"
  da_storage :: "string \<rightharpoonup> stored"

definition saveJSON :: "string \<Rightarrow> stored \<Rightarrow> dash \<Rightarrow> dash" where
  "saveJSON k v s = s\<lparr>da_storage := (da_storage s)(k \<mapsto> v)\<rparr>"

definition toast :: "notice \<Rightarrow> dash \<Rightarrow> dash" where
  \<comment> \<open>the notes shown so far, in order\<close>
  "toast t s = s\<lparr>da_toasts := da_toasts s @ [t]\<rparr>"

definition measure_js :: "dash \<Rightarrow> string \<Rightarrow> string \<Rightarrow> measurement option" where
  "measure_js s m addr = measure_history (da_calib s addr) (da_history s (key m addr))"

definition progress :: "dash \<Rightarrow> string \<Rightarrow> string \<Rightarrow> int \<times> rat" where
  "progress s m addr = progress_history (da_history s (key m addr))"

definition list_or_none :: "'a list option \<Rightarrow> 'a list" where
  "list_or_none x = (case x of None \<Rightarrow> [] | Some l \<Rightarrow> l)"

definition seriesFor :: "dash \<Rightarrow> int \<Rightarrow> string \<Rightarrow> string \<Rightarrow> int \<Rightarrow> int \<Rightarrow> (int \<times> rat) list" where
  "seriesFor s now m addr rangeMs buckets =
     series_of (da_calib s addr) (list_or_none (da_history s (key m addr)))
       (list_or_none (da_rollups s (key m addr))) now rangeMs buckets"

definition isIdle :: "int \<Rightarrow> dworker \<Rightarrow> bool" where
  "isIdle now w \<longleftrightarrow> of_int IDLE_MS < js_sub (of_int now) (dw_lastSeen w)"

definition stats_worker :: "stats \<Rightarrow> string \<Rightarrow> dworker option" where
  "stats_worker d a = map_get (st_workers d) a"

definition bMine :: "dash \<Rightarrow> dblock \<Rightarrow> bool" where
  \<comment> \<open>the test that \<open>accrueLuck\<close>, \<open>checkAlerts\<close>, \<open>poolRecentBlocks\<close> and \<open>render\<close> share\<close>
  "bMine s b =
     (let bAddr = fst (splitMinerWorker (db_worker b)) in
      bAddr = da_wallet s \<or>
      (case da_validity s of
         None \<Rightarrow> False
       | Some v \<Rightarrow> va_domain v = Some bAddr \<or> va_resolved v = Some bAddr))"

definition net_field :: "(netinfo \<Rightarrow> num) \<Rightarrow> netinfo option \<Rightarrow> num" where
  \<comment> \<open>\<open>n && n.f\<close>, with \<open>None\<close> for every value that is false\<close>
  "net_field f n = (case n of None \<Rightarrow> None | Some i \<Rightarrow> if f i = Some 0 then None else f i)"

definition difficulty_now :: "dash \<Rightarrow> num" where
  "difficulty_now s =
     (case net_field ni_difficulty (da_net s) of Some d \<Rightarrow> Some d | None \<Rightarrow> net_field ni_difficulty (da_chain s))"

section \<open>Luck and drops\<close>

definition luck_block :: "dash \<Rightarrow> dblock \<Rightarrow> luck \<Rightarrow> luck" where
  "luck_block s b L =
     (if bMine s b \<and> (case db_time b of None \<Rightarrow> False | Some t \<Rightarrow> of_int (lk_since L) \<le> t)
      then L\<lparr>lk_blocks := map_set (js_tostring (db_height b)) (db_time b) (lk_blocks L)\<rparr> else L)"

definition accrue_mode :: "int \<Rightarrow> rat \<Rightarrow> string \<Rightarrow> dash \<Rightarrow> dash" where
  "accrue_mode now D m s =
     (case da_stats s m of
        None \<Rightarrow> s
      | Some d \<Rightarrow>
          if da_wallet s = [] then s
          else let w = stats_worker d (da_wallet s);
                   k = key m (da_wallet s);
                   L0 = (case da_luck s k of Some L \<Rightarrow> L
                         | None \<Rightarrow> \<lparr>lk_since = now, lk_expected = 0, lk_secs = 0, lk_blocks = [], lk_last = now\<rparr>);
                   L = foldl (\<lambda>L b. luck_block s b L) L0 (st_blocksFound d);
                   live = (case w of Some x \<Rightarrow> if isIdle now x then None else measure_js s m (da_wallet s) | None \<Rightarrow> None);
                   dt = min (js_div (of_int (now - (if lk_last L = 0 then now else lk_last L))) 1000) 120;
                   L1 = L\<lparr>lk_last := now\<rparr>;
                   L2 = (case live of
                           Some l \<Rightarrow>
                             if 0 < dt then
                               L1\<lparr>lk_expected := js_add (lk_expected L1)
                                    (js_mul (js_div (ms_rate l) (js_mul D TWO32)) dt),
                                  lk_secs := js_add (lk_secs L1) dt\<rparr>
                             else L1
                         | None \<Rightarrow> L1)
            in s\<lparr>da_luck := (da_luck s)(k \<mapsto> L2)\<rparr>)"

definition accrueLuck :: "int \<Rightarrow> dash \<Rightarrow> dash" where
  "accrueLuck now s =
     (case difficulty_now s of
        None \<Rightarrow> s
      | Some D \<Rightarrow>
          let s2 = accrue_mode now D ''pool'' (accrue_mode now D ''solo'' s)
          in saveJSON ''tarcoin.luck.v1'' (SLuck (da_luck s2)) s2)"

definition luckFor :: "dash \<Rightarrow> string \<Rightarrow> string \<Rightarrow> (nat \<times> rat \<times> rat \<times> num \<times> int) option" where
  \<comment> \<open>found, expected, seconds, percentage and start\<close>
  "luckFor s m addr =
     (case da_luck s (key m addr) of
        None \<Rightarrow> None
      | Some L \<Rightarrow>
          if lk_secs L < 120 then None
          else let found = length (lk_blocks L)
            in Some (found, lk_expected L, lk_secs L,
                     (if 0 < lk_expected L then Some (js_mul (js_div (of_nat found) (lk_expected L)) 100) else None),
                     lk_since L))"

definition baselineRate :: "dash \<Rightarrow> int \<Rightarrow> string \<Rightarrow> string \<Rightarrow> rat option" where
  "baselineRate s now m addr = median_rate (seriesFor s now m addr 1800000 30)"

definition checkDrop :: "int \<Rightarrow> string \<Rightarrow> string \<Rightarrow> dash \<Rightarrow> dash" where
  "checkDrop now m addr s =
     (let k = key m addr in
      case (baselineRate s now m addr, measure_js s m addr) of
        (Some base, Some live) \<Rightarrow>
          if base = 0 then s\<lparr>da_dropState := (da_dropState s)(k \<mapsto> 0)\<rparr>
          else let low = ms_rate live < js_mul base (fl (6 / 10));
                   n = (if low then (case da_dropState s k of None \<Rightarrow> 0 | Some c \<Rightarrow> c) + 1 else 0);
                   s1 = s\<lparr>da_dropState := (da_dropState s)(k \<mapsto> n)\<rparr>
            in if n = 3 then toast (HashrateDropped addr (ms_rate live) base) s1 else s1
      | _ \<Rightarrow> s\<lparr>da_dropState := (da_dropState s)(k \<mapsto> 0)\<rparr>)"

section \<open>Recording a poll\<close>

definition tracked :: "dash \<Rightarrow> string list" where
  "tracked s = (if da_wallet s \<noteq> [] then [da_wallet s] else []) @ da_watch s"

definition roll_row :: "dworker \<Rightarrow> int \<Rightarrow> rollup list \<Rightarrow> rollup list" where
  \<comment> \<open>\<open>rollUp\<close> on the rows of one key\<close>
  "roll_row w now r =
     (if r \<noteq> [] \<and> now - ro_t (last r) < ROLL_MS then
        butlast r @ [(last r)\<lparr>ro_dmin := num_min (ro_dmin (last r)) (dw_difficulty w),
                              ro_dmax := num_max (ro_dmax (last r)) (dw_difficulty w),
                              ro_shares := dw_shares w, ro_t := now\<rparr>]
      else let r1 = (if r \<noteq> [] \<and> dw_shares w < ro_shares (last r) then [] else r)
        in last_of ROLL_KEEP
             (r1 @ [\<lparr>ro_t = now, ro_shares = dw_shares w, ro_dmin = dw_difficulty w, ro_dmax = dw_difficulty w\<rparr>]))"

definition rollUp :: "string \<Rightarrow> string \<Rightarrow> dworker \<Rightarrow> int \<Rightarrow> dash \<Rightarrow> dash" where
  "rollUp m addr w now s =
     s\<lparr>da_rollups := (da_rollups s)(key m addr \<mapsto> roll_row w now (list_or_none (da_rollups s (key m addr))))\<rparr>"

fun shift_old :: "int \<Rightarrow> sample list \<Rightarrow> sample list" where
  \<comment> \<open>\<open>while(h.length > 2 && now - h[0].t > RAW_MS) h.shift()\<close>\<close>
  "shift_old now (a # b # c # h) =
     (if RAW_MS < now - sm_t a then shift_old now (b # c # h) else a # b # c # h)"
| "shift_old now h = h"

definition SAMPLE_GAP :: rat where
  \<comment> \<open>\<open>POOL_MS * 0.8\<close>\<close>
  "SAMPLE_GAP = js_mul (of_int POOL_MS) (fl (8 / 10))"

definition sample_row_add :: "dworker \<Rightarrow> int \<Rightarrow> sample list \<Rightarrow> sample list" where
  \<comment> \<open>the part of \<open>record\<close> that works on the samples of one key\<close>
  "sample_row_add w now h =
     (let h1 = (if h \<noteq> [] \<and> dw_shares w < sm_shares (last h) then [] else h);
          h2 = (if h = [] \<or> SAMPLE_GAP \<le> of_int (now - sm_t (last h))
                then h1 @ [\<lparr>sm_t = now, sm_shares = dw_shares w, sm_diff = dw_difficulty w\<rparr>] else h1)
      in last_of 900 (shift_old now h2))"

definition record_worker :: "string \<Rightarrow> int \<Rightarrow> string list \<Rightarrow> string \<times> dworker \<Rightarrow> dash \<Rightarrow> dash" where
  "record_worker m now keepRoll aw s =
     (let (a, w) = aw; k = key m a;
          s1 = s\<lparr>da_history := (da_history s)(k \<mapsto> sample_row_add w now (list_or_none (da_history s k)))\<rparr>
      in if a \<in> set keepRoll then rollUp m a w now s1 else s1)"

definition second_part :: "string \<Rightarrow> string" where
  \<comment> \<open>\<open>k.split("|")[1]\<close> as a property name\<close>
  "second_part k = (let parts = js_split CHR ''|'' k in if 1 < length parts then parts ! 1 else ''undefined'')"

definition drop_history :: "string \<Rightarrow> stats \<Rightarrow> dash \<Rightarrow> string \<Rightarrow> bool" where
  \<comment> \<open>the keys of this pool whose address is neither listed any more nor tracked as the wallet\<close>
  "drop_history m d s k \<longleftrightarrow>
     startsWith k (m @ ''|'') \<and> k \<notin> set (map (\<lambda>aw. key m (fst aw)) (st_workers d)) \<and> k \<noteq> key m (da_wallet s)"

definition record_js :: "string \<Rightarrow> int \<Rightarrow> stats \<Rightarrow> dash \<Rightarrow> dash" where
  "record_js m now d s =
     (let keepRoll = tracked s;
          s1 = foldl (\<lambda>s aw. record_worker m now keepRoll aw s) s (st_workers d);
          s2 = s1\<lparr>da_history := (\<lambda>k. if drop_history m d s k then None else da_history s1 k),
                  da_rollups := (\<lambda>k. if second_part k \<notin> set keepRoll then None else da_rollups s1 k)\<rparr>
      in saveJSON ''tarcoin.rollups.v1'' (SRollups (da_rollups s2))
           (saveJSON ''tarcoin.history.v2'' (SHistory (da_history s2)) s2))"

definition fetchPool :: "string \<Rightarrow> int \<Rightarrow> exn + stats \<Rightarrow> jsv option \<Rightarrow> dash \<Rightarrow> dash" where
  \<comment> \<open>what follows the two requests: the statistics, and the miner's own figures where they came\<close>
  "fetchPool m now reply miner s =
     (case reply of
        Inl _ \<Rightarrow> s\<lparr>da_failed := (da_failed s)(m := True)\<rparr>
      | Inr d0 \<Rightarrow>
          let d = (case miner of Some v \<Rightarrow> if truthy v then d0\<lparr>st_apiMiner := Some v\<rparr> else d0 | None \<Rightarrow> d0)
          in record_js m now d (s\<lparr>da_stats := (da_stats s)(m \<mapsto> d), da_failed := (da_failed s)(m := False)\<rparr>))"

section \<open>Alerts\<close>

definition push_seen :: "jsv \<Rightarrow> jsv list \<Rightarrow> jsv list" where
  "push_seen h seen = (let l = seen @ [h] in if 200 < length l then tl l else l)"

definition alert_block :: "int \<Rightarrow> dblock \<Rightarrow> dash \<Rightarrow> dash" where
  "alert_block now b s =
     (if \<not> bMine s b then s
      else if db_height b \<in> set (da_seen s) then s
      else let s1 = s\<lparr>da_seen := push_seen (db_height b) (da_seen s)\<rparr>;
               s2 = saveJSON ''tarcoin.seenblocks'' (SSeen (da_seen s1)) s1
        in if (case db_time b of None \<Rightarrow> False | Some t \<Rightarrow> js_sub (of_int now) t < 3600000)
           then toast (BlockFound (db_height b)
                  (case net_field ni_blockReward (da_net s) of Some r \<Rightarrow> Some r | None \<Rightarrow> Some 0)) s2
           else s2)"

definition alert_idle :: "int \<Rightarrow> dash \<Rightarrow> dash" where
  "alert_idle now s =
     (case da_stats s (da_mode s) of
        None \<Rightarrow> s
      | Some d \<Rightarrow>
          (case stats_worker d (da_wallet s) of
             None \<Rightarrow> s
           | Some w \<Rightarrow>
               let idle = isIdle now w;
                   s1 = (if da_wasIdle s = Some False \<and> idle then toast MinerStopped s else s);
                   s2 = (if da_wasIdle s = Some True \<and> \<not> idle then toast MinerBack s1 else s1)
               in s2\<lparr>da_wasIdle := Some idle\<rparr>))"

definition alert_mode :: "int \<Rightarrow> string \<Rightarrow> dash \<Rightarrow> dash" where
  "alert_mode now m s =
     (case da_stats s m of None \<Rightarrow> s | Some dd \<Rightarrow> foldl (\<lambda>s b. alert_block now b s) s (st_blocksFound dd))"

definition checkAlerts :: "int \<Rightarrow> dash \<Rightarrow> dash" where
  "checkAlerts now s =
     (if da_wallet s = [] then s else alert_mode now ''pool'' (alert_mode now ''solo'' (alert_idle now s)))"

section \<open>Polling\<close>

definition render :: "int \<Rightarrow> dash \<Rightarrow> dash" where
  \<comment> \<open>the one state change of drawing the page: where this session started\<close>
  "render now s =
     (case da_stats s (da_mode s) of
        None \<Rightarrow> s
      | Some d \<Rightarrow>
          (case stats_worker d (da_wallet s) of
             None \<Rightarrow> s
           | Some w \<Rightarrow>
               let (start, startShares, startAddr) = da_session s in
               if startAddr \<noteq> Some (da_wallet s) \<or> startShares = None
               then s\<lparr>da_session := (now, Some (dw_shares w), Some (da_wallet s))\<rparr> else s))"

definition other_mode :: "string \<Rightarrow> string" where
  "other_mode m = (if m = ''solo'' then ''pool'' else ''solo'')"

definition pollPool :: "bool \<Rightarrow> dash \<Rightarrow> string list \<times> dash" where
  \<comment> \<open>up to the await: the pools to ask\<close>
  "pollPool everything s =
     ((if everything \<or> da_cycle s mod BACKGROUND_EVERY = 0 \<or> da_stats s (other_mode (da_mode s)) = None
       then [da_mode s, other_mode (da_mode s)] else [da_mode s]),
      s\<lparr>da_cycle := Suc (da_cycle s)\<rparr>)"

definition poll_done :: "int \<Rightarrow> int \<Rightarrow> int \<Rightarrow> int \<Rightarrow> dash \<Rightarrow> dash" where
  \<comment> \<open>\<open>pollPool\<close> after the await; each part reads the clock anew\<close>
  "poll_done n1 n2 n3 n4 s =
     (let s1 = accrueLuck n1 s;
          s2 = (if da_wallet s1 \<noteq> [] then checkDrop n2 (da_mode s1) (da_wallet s1) s1 else s1)
      in render n4 (checkAlerts n3 s2))"

section \<open>The chain\<close>

definition missing_headers :: "int \<Rightarrow> (int \<times> header) list \<Rightarrow> int list" where
  \<comment> \<open>the heights of the window without a header, the newest first\<close>
  "missing_headers tip cache =
     filter (\<lambda>h. map_get cache h = None) (rev [max 1 (tip - CHAIN_SPAN + 1)..tip])"

definition header_view :: "jsv \<Rightarrow> header option" where
  \<comment> \<open>\<open>b && b.time\<close>\<close>
  "header_view b =
     (case js_num_opt (js_prop_opt b ''time'') of
        None \<Rightarrow> None
      | Some t \<Rightarrow> if t = 0 then None else Some \<lparr>hd_time = \<lfloor>t\<rfloor>, hd_difficulty = js_num_opt (js_prop_opt b ''difficulty'')\<rparr>)"

definition cache_header :: "int \<Rightarrow> jsv \<Rightarrow> (int \<times> header) list \<Rightarrow> (int \<times> header) list" where
  "cache_header h b cache = (case header_view b of None \<Rightarrow> cache | Some v \<Rightarrow> map_set h v cache)"

fun fill_loop :: "(int \<Rightarrow> exn + jsv) \<Rightarrow> int list \<Rightarrow> (int \<times> header) list \<Rightarrow> nat \<times> (int \<times> header) list" where
  \<comment> \<open>the requests in turn, with the number of answers; the first request that fails ends the loop\<close>
  "fill_loop ask [] cache = (0, cache)"
| "fill_loop ask (h # hs) cache =
     (case ask h of
        Inl _ \<Rightarrow> (0, cache)
      | Inr b \<Rightarrow> (let (got, cache') = fill_loop ask hs (cache_header h b cache) in (Suc got, cache')))"

definition prune_headers :: "int \<Rightarrow> (int \<times> header) list \<Rightarrow> (int \<times> header) list" where
  "prune_headers tip cache = filter (\<lambda>(h, _). \<not> h < tip - CHAIN_SPAN * 3) cache"

definition fill_cache :: "(int \<Rightarrow> exn + jsv) \<Rightarrow> int \<Rightarrow> (int \<times> header) list \<Rightarrow> nat \<times> (int \<times> header) list" where
  "fill_cache ask tip cache =
     (let (got, cache') = fill_loop ask (take CHAIN_PER_POLL (missing_headers tip cache)) cache
      in (got, prune_headers tip cache'))"

definition fillBlockCache :: "(int \<Rightarrow> exn + jsv) \<Rightarrow> int \<Rightarrow> dash \<Rightarrow> dash" where
  \<comment> \<open>the whole run, where \<open>ask\<close> is what the API answers for a height\<close>
  "fillBlockCache ask tip s =
     (let (got, cache) = fill_cache ask tip (da_blockCache s);
          s1 = s\<lparr>da_blockCache := cache\<rparr>
      in if 0 < got then saveJSON ''tarcoin.blockcache.v1'' (SBlocks cache) s1 else s1)"

definition chainSeries :: "(int \<times> header) list \<Rightarrow> (int \<times> rat) list \<times> (int \<times> rat) list \<times> nat" where
  "chainSeries cache =
     (let heights = sort (map_keys cache);
          diff = concat (map (\<lambda>h. case map_get cache h of
                    Some b \<Rightarrow> (case hd_difficulty b of Some d \<Rightarrow> if d \<noteq> 0 then [(h, d)] else [] | None \<Rightarrow> [])
                  | None \<Rightarrow> []) heights);
          gap = concat (map (\<lambda>h. case (map_get cache h, map_get cache (h - 1)) of
                   (Some b, Some prev) \<Rightarrow>
                     if hd_time prev < hd_time b then [(h, js_div (of_int (hd_time b - hd_time prev)) 60)] else []
                 | _ \<Rightarrow> []) heights)
      in (diff, gap, length heights))"

definition tip_of :: "netinfo option \<Rightarrow> netinfo option \<Rightarrow> int option" where
  \<comment> \<open>\<open>(a && a.blocks) || (b && b.blocks)\<close>, with \<open>None\<close> for a value that is missing\<close>
  "tip_of a b =
     (case a of
        Some i \<Rightarrow> (case ni_blocks i of
                    Some h \<Rightarrow> if h \<noteq> 0 then Some h else (case b of Some j \<Rightarrow> ni_blocks j | None \<Rightarrow> None)
                  | None \<Rightarrow> (case b of Some j \<Rightarrow> ni_blocks j | None \<Rightarrow> None))
      | None \<Rightarrow> (case b of Some j \<Rightarrow> ni_blocks j | None \<Rightarrow> None))"

definition older_wanted :: "dash \<Rightarrow> int option" where
  \<comment> \<open>the height \<open>pollNetwork\<close> asks for to measure the block time\<close>
  "older_wanted s =
     (case tip_of (da_chain s) (da_net s) of
        None \<Rightarrow> None
      | Some tip \<Rightarrow>
          let want = tip - BLOCK_SPAN in
          if 0 < want \<and> (case da_older s of None \<Rightarrow> True | Some (h, _) \<Rightarrow> h \<noteq> want) then Some want else None)"

definition avgBlockSeconds :: "dash \<Rightarrow> rat option" where
  "avgBlockSeconds s =
     (case (da_chain s, da_older s) of
        (Some c, Some (oh, ot)) \<Rightarrow>
          (case (ni_time c, ni_blocks c) of
             (Some ct, Some cb) \<Rightarrow>
               if ct = 0 \<or> ot = 0 \<or> cb \<le> oh then None
               else Some (js_div (of_int (ct - ot)) (of_int (cb - oh)))
           | _ \<Rightarrow> None)
      | _ \<Rightarrow> None)"

definition recent_of :: "int \<Rightarrow> dash \<Rightarrow> dblock list" where
  \<comment> \<open>the listed blocks of both pools from the height \<open>low\<close> on\<close>
  "recent_of low s =
     filter (\<lambda>b. case js_num_opt (db_height b) of None \<Rightarrow> False | Some h \<Rightarrow> of_int low \<le> h)
       (concat (map (\<lambda>m. case da_stats s m of None \<Rightarrow> [] | Some d \<Rightarrow> st_blocksFound d) [''solo'', ''pool'']))"

definition poolRecentBlocks :: "dash \<Rightarrow> (nat \<times> nat \<times> int) option" where
  "poolRecentBlocks s =
     (case tip_of (da_chain s) (da_net s) of
        None \<Rightarrow> None
      | Some tip \<Rightarrow>
          let recent = recent_of (tip - BLOCK_SPAN + 1) s
          in Some (length (remdups (map db_height recent)),
                   length (remdups (map db_height (filter (bMine s) recent))), BLOCK_SPAN))"

definition solo_odds :: "dash \<Rightarrow> rat \<Rightarrow> (rat \<times> rat \<times> rat \<times> num) option" where
  \<comment> \<open>\<open>solo(rate)\<close>: seconds per block, coins per day, reward, share of the network\<close>
  "solo_odds s rate =
     (case difficulty_now s of
        None \<Rightarrow> None
      | Some diff \<Rightarrow>
          if rate \<le> 0 then None
          else let seconds = js_div (js_mul diff TWO32) rate;
                   reward = (case net_field ni_blockReward (da_net s) of Some r \<Rightarrow> r | None \<Rightarrow> 0)
            in Some (seconds, js_div (js_mul reward 86400) seconds, reward,
                     (case net_field ni_networkHashrate (da_net s) of
                        Some n \<Rightarrow> Some (js_mul (js_div rate n) 100) | None \<Rightarrow> None)))"

definition implausible :: "dash \<Rightarrow> rat \<Rightarrow> bool" where
  "implausible s rate =
     (case net_field ni_networkHashrate (da_net s) of None \<Rightarrow> False | Some n \<Rightarrow> js_mul n (fl (11 / 10)) < rate)"

definition confirmations :: "int option \<Rightarrow> int \<Rightarrow> (int \<times> bool) option" where
  \<comment> \<open>of a listed block, and whether its coins can be spent\<close>
  "confirmations tip height =
     (case tip of None \<Rightarrow> None
      | Some t \<Rightarrow> let conf = t - height + 1 in Some (conf, COINBASE_MATURITY \<le> conf))"

section \<open>Miners and blocks\<close>

record miner_blocks =
  mb_count :: nat
  mb_workers :: "(string \<times> nat) list"
  mb_list :: "dblock list"

definition add_block :: "dblock \<Rightarrow> (string \<times> miner_blocks) list \<Rightarrow> (string \<times> miner_blocks) list" where
  "add_block b blocks =
     (let (addr, name) = splitMinerWorker (db_worker b);
          e = (case map_get blocks addr of Some e \<Rightarrow> e | None \<Rightarrow> \<lparr>mb_count = 0, mb_workers = [], mb_list = []\<rparr>);
          n = (case map_get (mb_workers e) name of Some n \<Rightarrow> n | None \<Rightarrow> 0)
      in map_set addr (e\<lparr>mb_count := Suc (mb_count e), mb_workers := map_set name (n + 1) (mb_workers e),
                         mb_list := mb_list e @ [b]\<rparr>) blocks)"

definition blocksByMiner :: "stats \<Rightarrow> (string \<times> miner_blocks) list" where
  "blocksByMiner d = foldl (\<lambda>m b. add_block b m) [] (st_blocksFound d)"

record miner_row =
  mr_addr :: string
  mr_shares :: int
  mr_diff :: num
  mr_seen :: rat
  mr_rate :: rat
  mr_live :: "measurement option"
  mr_idle :: bool
  mr_pct :: rat
  mr_blocks :: nat

definition total_shares :: "stats \<Rightarrow> int" where
  "total_shares d = sum_list (map (\<lambda>aw. dw_shares (snd aw)) (st_workers d))"

definition share_pct :: "int \<Rightarrow> int \<Rightarrow> rat" where
  "share_pct shares totalShares =
     (if totalShares \<noteq> 0 then js_mul (js_div (of_int shares) (of_int totalShares)) 100 else 0)"

definition make_row :: "dash \<Rightarrow> int \<Rightarrow> stats \<Rightarrow> string \<times> dworker \<Rightarrow> miner_row" where
  "make_row s now d aw =
     (let (a, w) = aw; live = measure_js s (da_mode s) a
      in \<lparr>mr_addr = a, mr_shares = dw_shares w, mr_diff = dw_difficulty w, mr_seen = dw_lastSeen w,
          mr_rate = (if isIdle now w then 0 else case live of Some l \<Rightarrow> ms_rate l | None \<Rightarrow> - 1),
          mr_live = live, mr_idle = isIdle now w, mr_pct = share_pct (dw_shares w) (total_shares d),
          mr_blocks = (case map_get (blocksByMiner d) a of Some b \<Rightarrow> mb_count b | None \<Rightarrow> 0)\<rparr>)"

definition row_value :: "string \<Rightarrow> miner_row \<Rightarrow> rat" where
  \<comment> \<open>\<open>x[k] || 0\<close> for the numeric columns\<close>
  "row_value k r =
     (if k = ''shares'' then of_int (mr_shares r)
      else if k = ''diff'' then (case mr_diff r of Some d \<Rightarrow> d | None \<Rightarrow> 0)
      else if k = ''rate'' then mr_rate r else if k = ''pct'' then mr_pct r
      else if k = ''blocks'' then of_nat (mr_blocks r) else if k = ''seen'' then mr_seen r else 0)"

definition miner_rows :: "(string \<Rightarrow> rat) \<Rightarrow> dash \<Rightarrow> int \<Rightarrow> stats \<Rightarrow> miner_row list" where
  \<comment> \<open>the table of \<open>render\<close>; \<open>collate\<close> is the rank of a text in the order of \<open>localeCompare\<close>\<close>
  "miner_rows collate s now d =
     (let (k, dir) = da_sort s;
          rank = (\<lambda>r. if k = ''addr'' then collate (mr_addr r) else row_value k r)
      in sort_key (\<lambda>r. of_int dir * rank r) (map (make_row s now d) (st_workers d)))"

datatype shown_rate = ApiRate rat | Measured measurement

record wallet_card =
  cd_idle :: bool
  cd_live :: "shown_rate option"
  cd_blocks :: "miner_blocks option"

definition first_entry :: "('a \<Rightarrow> 'b option) \<Rightarrow> 'a option list \<Rightarrow> 'b option" where
  \<comment> \<open>\<open>o[a] || o[b] || o[c]\<close> over the names that are there\<close>
  "first_entry look names =
     foldr (\<lambda>n acc. case n of None \<Rightarrow> acc | Some x \<Rightarrow> (case look x of Some v \<Rightarrow> Some v | None \<Rightarrow> acc)) names None"

definition target_wallet :: "dash \<Rightarrow> string" where
  "target_wallet s =
     (case da_validity s of
        Some v \<Rightarrow> (case va_resolved v of Some a \<Rightarrow> if a \<noteq> [] then a else da_wallet s | None \<Rightarrow> da_wallet s)
      | None \<Rightarrow> da_wallet s)"

definition card_names :: "dash \<Rightarrow> string option list" where
  "card_names s =
     [Some (da_wallet s), (case da_validity s of Some v \<Rightarrow> va_domain v | None \<Rightarrow> None), Some (target_wallet s)]"

definition card_live :: "dash \<Rightarrow> string \<Rightarrow> dworker \<Rightarrow> jsv option \<Rightarrow> bool \<Rightarrow> shown_rate option" where
  \<comment> \<open>the figure of the pool where it has one, the page's own measurement where the pool has no answer\<close>
  "card_live s m w api idle =
     (case api of
        Some v \<Rightarrow>
          (case js_num_opt (js_prop_opt v ''hashrate'') of
             Some h \<Rightarrow> if js_array (js_prop_opt v ''workers'') \<noteq> [] \<and> 0 < h \<and> \<not> idle then Some (ApiRate h) else None
           | None \<Rightarrow> None)
      | None \<Rightarrow>
          if idle then None
          else case measure_js s m (da_wallet s) of
            Some l \<Rightarrow> Some (Measured l)
          | None \<Rightarrow>
              map_option Measured (measure_js s m (case card_names s ! 1 of Some x \<Rightarrow> x | None \<Rightarrow> target_wallet s)))"

definition walletCard :: "int \<Rightarrow> string \<Rightarrow> stats \<Rightarrow> dash \<Rightarrow> wallet_card option" where
  "walletCard now m d s =
     (let w = first_entry (stats_worker d) (card_names s);
          blocks = first_entry (map_get (blocksByMiner d)) (card_names s);
          api = st_apiMiner d
      in case w of
           None \<Rightarrow> (case blocks of None \<Rightarrow> None | Some b \<Rightarrow> Some \<lparr>cd_idle = True, cd_live = None, cd_blocks = Some b\<rparr>)
         | Some x \<Rightarrow>
             let hasLive = (case api of Some v \<Rightarrow> js_array (js_prop_opt v ''workers'') \<noteq> [] | None \<Rightarrow> False);
                 idle = (isIdle now x \<or> api \<noteq> None \<and> \<not> hasLive);
                 apiH = (case api of Some v \<Rightarrow> js_num_opt (js_prop_opt v ''hashrate'') | None \<Rightarrow> None)
             in if m \<noteq> da_mode s \<and> (idle \<or> \<not> hasLive \<or> apiH = Some 0) then None
                else Some \<lparr>cd_idle = idle, cd_live = card_live s m x api idle, cd_blocks = blocks\<rparr>)"

section \<open>The wallet\<close>

definition domain_char :: "char \<Rightarrow> bool" where
  "domain_char c \<longleftrightarrow> alnum_char c \<or> c = CHR ''_'' \<or> c = CHR ''-''"

fun find_domain :: "string \<Rightarrow> string option" where
  \<comment> \<open>the first match of \<open>/([a-zA-Z0-9_-]+\.tar)/i\<close>\<close>
  "find_domain s =
     (let name = takeWhile domain_char s; rest = drop (length name) s in
      if name \<noteq> [] \<and> toLowerCase (take 4 rest) = ''.tar'' then Some (name @ take 4 rest)
      else case s of [] \<Rightarrow> None | _ # s' \<Rightarrow> find_domain s')"

declare find_domain.simps [simp del]

definition first_answer :: "exn + jsv \<Rightarrow> exn + jsv \<Rightarrow> exn + jsv" where
  \<comment> \<open>the pool's own resolver, and the website's when that request fails\<close>
  "first_answer own site = (case own of Inr v \<Rightarrow> Inr v | Inl _ \<Rightarrow> site)"

definition validate_address :: "string \<Rightarrow> string \<Rightarrow> (string \<Rightarrow> exn + jsv) \<Rightarrow> validity option" where
  \<comment> \<open>the address check of the REST API; a failed request or a body without properties leaves nothing\<close>
  "validate_address addr checkAddr api =
     (case res_bind (api checkAddr) (\<lambda>d. js_prop d ''valid'') of
        Inl _ \<Rightarrow> None
      | Inr v \<Rightarrow> Some \<lparr>va_valid = truthy v, va_addr = addr,
                      va_resolved = (if truthy v then Some checkAddr else None), va_domain = None\<rparr>)"

definition validate_result :: "string \<Rightarrow> (string \<Rightarrow> exn + jsv) \<Rightarrow> (string \<Rightarrow> exn + jsv) \<Rightarrow> (string \<Rightarrow> exn + jsv) \<Rightarrow> validity option" where
  \<comment> \<open>what \<open>validate\<close> writes in the end: \<open>own\<close> and \<open>site\<close> resolve a domain, \<open>api\<close> checks an address\<close>
  "validate_result addr own site api =
     (let checkAddr = js_trim addr in
      case (if js_includes (toLowerCase checkAddr) ''.tar'' then find_domain checkAddr else None) of
        None \<Rightarrow> validate_address addr checkAddr api
      | Some m \<Rightarrow>
          let domain = toLowerCase m;
              target = (case first_answer (own domain) (site domain) of
                          Inr r \<Rightarrow> js_string_opt (js_prop_opt r ''targetAddress'') | Inl _ \<Rightarrow> None)
          in case target of
               Some t \<Rightarrow>
                 if t \<noteq> [] then
                   Some \<lparr>va_valid = True, va_addr = addr, va_resolved = Some t, va_domain = Some domain\<rparr>
                 else if endsWith (toLowerCase checkAddr) ''.tar'' then
                   Some \<lparr>va_valid = False, va_addr = addr, va_resolved = None, va_domain = Some domain\<rparr>
                 else validate_address addr checkAddr api
             | None \<Rightarrow>
                 if endsWith (toLowerCase checkAddr) ''.tar'' then
                   Some \<lparr>va_valid = False, va_addr = addr, va_resolved = None, va_domain = Some domain\<rparr>
                 else validate_address addr checkAddr api)"

definition validate_start :: "int \<Rightarrow> string \<Rightarrow> dash \<Rightarrow> dash" where
  \<comment> \<open>up to the first await\<close>
  "validate_start now addr s =
     (let s1 = s\<lparr>da_validity := None\<rparr> in if addr = [] then render now s1 else s1)"

definition validate_done :: "int \<Rightarrow> validity option \<Rightarrow> dash \<Rightarrow> dash" where
  \<comment> \<open>the last write, for whatever address the run was started\<close>
  "validate_done now v s = render now (s\<lparr>da_validity := v\<rparr>)"

definition setWallet :: "int \<Rightarrow> string \<Rightarrow> dash \<Rightarrow> dash" where
  "setWallet now a s =
     (let wallet = js_trim a; (start, _, _) = da_session s;
          s1 = s\<lparr>da_wallet := wallet, da_balance := None, da_wasIdle := None,
                 da_session := (start, None, None),
                 da_storage := (da_storage s)(''tarcoin.wallet'' \<mapsto> SText wallet)\<rparr>;
          s2 = (if wallet \<noteq> [] \<and> wallet \<notin> set (da_watch s1)
                then let watch = da_watch s1 @ [wallet]
                  in saveJSON ''tarcoin.watchlist'' (SWatch watch) (s1\<lparr>da_watch := watch\<rparr>)
                else s1)
      in validate_start now wallet (render now s2))"

definition setMode :: "int \<Rightarrow> string \<Rightarrow> dash \<Rightarrow> string list \<times> dash" where
  "setMode now m s =
     pollPool False (render now (s\<lparr>da_mode := m, da_storage := (da_storage s)(''tarcoin.mode'' \<mapsto> SText m)\<rparr>))"

section \<open>Buttons\<close>

definition unwatch :: "int \<Rightarrow> string \<Rightarrow> dash \<Rightarrow> dash" where
  "unwatch now a s =
     (let watch = filter (\<lambda>x. x \<noteq> a) (da_watch s)
      in render now (saveJSON ''tarcoin.watchlist'' (SWatch watch) (s\<lparr>da_watch := watch\<rparr>)))"

definition calibSet :: "int \<Rightarrow> string \<Rightarrow> dash \<Rightarrow> dash" where
  "calibSet now box s =
     (case (parseFloat_js (JStr box), measure_js s (da_mode s) (da_wallet s)) of
        (Some ths, Some live) \<Rightarrow>
          if ths \<le> 0 then s
          else let cd = js_div (js_mul (js_mul ths 1000000000000) (ms_dt live)) (js_mul (of_int (ms_shares live)) TWO32);
                   calib = (da_calib s)(da_wallet s \<mapsto> cd)
            in toast (Calibrated cd) (render now (saveJSON ''tarcoin.calibration'' (SCalib calib) (s\<lparr>da_calib := calib\<rparr>)))
      | _ \<Rightarrow> s)"

definition calibClear :: "int \<Rightarrow> dash \<Rightarrow> dash" where
  "calibClear now s =
     (let calib = (da_calib s)(da_wallet s := None)
      in render now (saveJSON ''tarcoin.calibration'' (SCalib calib) (s\<lparr>da_calib := calib\<rparr>)))"

definition luckReset :: "int \<Rightarrow> dash \<Rightarrow> dash" where
  "luckReset now s =
     (let luck = (da_luck s)(key (da_mode s) (da_wallet s) := None)
      in toast LuckReset (render now (saveJSON ''tarcoin.luck.v1'' (SLuck luck) (s\<lparr>da_luck := luck\<rparr>))))"

definition toggleCompare :: "int \<Rightarrow> dash \<Rightarrow> dash" where
  "toggleCompare now s =
     (let c = (\<not> da_compare s)
      in render now (s\<lparr>da_compare := c, da_storage := (da_storage s)(''tarcoin.compare'' \<mapsto> SText (if c then ''1'' else ''0''))\<rparr>))"

definition setRange :: "int \<Rightarrow> string \<Rightarrow> dash \<Rightarrow> dash" where
  "setRange now r s = render now (s\<lparr>da_range := r, da_storage := (da_storage s)(''tarcoin.range'' \<mapsto> SText r)\<rparr>)"

definition toggleAlerts :: "int \<Rightarrow> dash \<Rightarrow> dash" where
  "toggleAlerts now s =
     (let a = (\<not> da_alertsOn s)
      in toast (AlertsToggled a)
           (render now (s\<lparr>da_alertsOn := a, da_storage := (da_storage s)(''tarcoin.alerts'' \<mapsto> SText (if a then ''1'' else ''0''))\<rparr>)))"

definition sortBy :: "int \<Rightarrow> string \<Rightarrow> dash \<Rightarrow> dash" where
  "sortBy now k s =
     render now (s\<lparr>da_sort := (k, if fst (da_sort s) = k then - snd (da_sort s)
                                  else if k = ''addr'' then 1 else - 1)\<rparr>)"

section \<open>Whose block it was\<close>

record pool_info =
  pi_name :: string
  pi_isOfficial :: bool
  pi_tag :: "string option"

fun printable_of_hex :: "string \<Rightarrow> string" where
  \<comment> \<open>two characters at a time, as \<open>parseInt(hex.substr(i, 2), 16)\<close> reads them\<close>
  "printable_of_hex [] = []"
| "printable_of_hex [a] = (case js_parseInt 16 [a] of Some n \<Rightarrow> if 32 \<le> n \<and> n \<le> 126 then [char_of (nat n)] else [] | None \<Rightarrow> [])"
| "printable_of_hex (a # b # r) =
     (case js_parseInt 16 [a, b] of Some n \<Rightarrow> if 32 \<le> n \<and> n \<le> 126 then [char_of (nat n)] else [] | None \<Rightarrow> [])
     @ printable_of_hex r"

definition known_pools :: "(string \<times> pool_info) list" where
  "known_pools =
     [(''zpool.ca'', \<lparr>pi_name = ''zpool.ca'', pi_isOfficial = False, pi_tag = None\<rparr>),
      (''argfamining'', \<lparr>pi_name = ''ArgfaMining'', pi_isOfficial = False, pi_tag = Some ''SOLO''\<rparr>),
      (''xppool'', \<lparr>pi_name = ''XP Pool'', pi_isOfficial = False, pi_tag = Some ''SOLO''\<rparr>),
      (''bitaxermt'', \<lparr>pi_name = ''BitaxeRMT'', pi_isOfficial = False, pi_tag = None\<rparr>),
      (''cryptopickaxe'', \<lparr>pi_name = ''CryptoPickaxe'', pi_isOfficial = False, pi_tag = None\<rparr>),
      (''fewbit'', \<lparr>pi_name = ''FewBit'', pi_isOfficial = False, pi_tag = None\<rparr>),
      (''tarcoin'', \<lparr>pi_name = ''Tarcoin Pool'', pi_isOfficial = True, pi_tag = None\<rparr>)]"

definition parsePoolFromCoinbase :: "string \<Rightarrow> bool \<Rightarrow> pool_info" where
  "parsePoolFromCoinbase hex isOurPool =
     (if isOurPool then \<lparr>pi_name = ''Tarcoin Pool'', pi_isOfficial = True, pi_tag = None\<rparr>
      else if hex = [] then \<lparr>pi_name = ''Solo / Miner'', pi_isOfficial = False, pi_tag = None\<rparr>
      else let s = toLowerCase (printable_of_hex hex)
        in case filter (\<lambda>(mark, _). js_includes s mark) known_pools of
             (_, info) # _ \<Rightarrow> info
           | [] \<Rightarrow> \<lparr>pi_name = ''Solo Miner'', pi_isOfficial = False, pi_tag = None\<rparr>)"

section \<open>Start\<close>

definition load :: "int \<Rightarrow> (string \<rightharpoonup> stored) \<Rightarrow> notice list \<Rightarrow> dash" where
  \<comment> \<open>the page as it starts on what the storage holds; \<open>notes\<close> are the notes of earlier visits\<close>
  "load now st notes =
     (let txt = (\<lambda>k d. case st k of Some (SText t) \<Rightarrow> if t \<noteq> [] then t else d | _ \<Rightarrow> d);
          rng = txt ''tarcoin.range'' ''15m''
      in \<lparr>da_history = (case st ''tarcoin.history.v2'' of Some (SHistory h) \<Rightarrow> h | _ \<Rightarrow> Map.empty),
          da_rollups = (case st ''tarcoin.rollups.v1'' of Some (SRollups r) \<Rightarrow> r | _ \<Rightarrow> Map.empty),
          da_compare = (txt ''tarcoin.compare'' [] = ''1''),
          da_luck = (case st ''tarcoin.luck.v1'' of Some (SLuck l) \<Rightarrow> l | _ \<Rightarrow> Map.empty),
          da_dropState = Map.empty,
          da_blockCache = (case st ''tarcoin.blockcache.v1'' of Some (SBlocks c) \<Rightarrow> c | _ \<Rightarrow> []),
          da_calib = (case st ''tarcoin.calibration'' of Some (SCalib c) \<Rightarrow> c | _ \<Rightarrow> Map.empty),
          da_watch = (case st ''tarcoin.watchlist'' of Some (SWatch l) \<Rightarrow> l | _ \<Rightarrow> []),
          da_seen = (case st ''tarcoin.seenblocks'' of Some (SSeen l) \<Rightarrow> l | _ \<Rightarrow> []),
          da_wallet = js_trim (txt ''tarcoin.wallet'' []), da_mode = txt ''tarcoin.mode'' ''solo'',
          da_range = (if map_get RANGES rng = None then ''15m'' else rng),
          da_alertsOn = (txt ''tarcoin.alerts'' [] = ''1''), da_stats = Map.empty, da_failed = (\<lambda>_. False),
          da_net = None, da_chain = None, da_older = None, da_balance = None, da_validity = None, da_cycle = 0,
          da_sort = (''shares'', - 1), da_session = (now, None, None), da_wasIdle = None,
          da_toasts = notes, da_storage = st\<rparr>)"

end
