(* ===== verification/Dashboard_Properties.thy ===== *)
theory Dashboard_Properties
  imports Dashboard Answers
begin

text \<open>
  What the dashboard guarantees: the shape of the histories it keeps, under every order of its
  handlers and callbacks; that a block is announced once; how far the rates it works out can be off;
  how fast the headers of the chain arrive; and how its reading of miner names meets the pool's.
\<close>

section \<open>Samples\<close>

definition follows :: "sample \<Rightarrow> sample \<Rightarrow> bool" where
  "follows a b \<longleftrightarrow> sm_t a + 4000 \<le> sm_t b \<and> sm_shares a \<le> sm_shares b"

definition samples_ok :: "sample list \<Rightarrow> bool" where
  "samples_ok h \<longleftrightarrow> successively follows h \<and> length h \<le> 900"

lemma sample_gap [simp]: "SAMPLE_GAP = 4000"
  by code_simp

lemma last_of_suffix: "\<exists>xs'. xs = xs' @ last_of n xs"
  by (metis append_take_drop_id last_of_def)

lemma last_of_length: "length (last_of n xs) \<le> n"
  by (simp add: last_of_def)

lemma last_of_last: "0 < n \<Longrightarrow> xs \<noteq> [] \<Longrightarrow> last_of n xs \<noteq> [] \<and> last (last_of n xs) = last xs"
  by (cases xs) (simp_all add: last_of_def)

lemma shift_old_suffix: "\<exists>h'. h = h' @ shift_old now h"
proof (induction now h rule: shift_old.induct)
  case (1 now a b c h)
  show ?case
  proof (cases "RAW_MS < now - sm_t a")
    case True
    with 1 obtain h' where "b # c # h = h' @ shift_old now (b # c # h)" by blast
    with True have "a # b # c # h = (a # h') @ shift_old now (a # b # c # h)" by simp
    then show ?thesis by blast
  qed simp
qed simp_all

lemma successively_suffix: "successively P (xs @ ys) \<Longrightarrow> successively P ys"
  by (simp add: successively_append_iff)

lemma samples_ok_add:
  assumes "samples_ok h" shows "samples_ok (sample_row_add w now h)"
proof -
  define h1 where "h1 = (if h \<noteq> [] \<and> dw_shares w < sm_shares (last h) then [] else h)"
  define x where "x = \<lparr>sm_t = now, sm_shares = dw_shares w, sm_diff = dw_difficulty w\<rparr>"
  define h2 where "h2 = (if h = [] \<or> SAMPLE_GAP \<le> of_int (now - sm_t (last h)) then h1 @ [x] else h1)"
  have 1: "successively follows h1" using assms by (simp add: h1_def samples_ok_def)
  have "follows (last h1) x" if "h1 \<noteq> []" "SAMPLE_GAP \<le> of_int (now - sm_t (last h))"
  proof -
    from that(1) have "h1 = h" "sm_shares (last h) \<le> dw_shares w" by (auto simp: h1_def split: if_splits)
    moreover have "4000 \<le> now - sm_t (last h)" using that(2) by simp
    ultimately show ?thesis by (simp add: follows_def x_def)
  qed
  with 1 have 2: "successively follows h2"
    by (auto simp: h2_def successively_append_iff h1_def)
  obtain p where "h2 = p @ shift_old now h2" using shift_old_suffix by blast
  moreover obtain q where "shift_old now h2 = q @ last_of 900 (shift_old now h2)" using last_of_suffix by blast
  ultimately have "h2 = (p @ q) @ last_of 900 (shift_old now h2)" by simp
  with 2 have "successively follows (last_of 900 (shift_old now h2))" by (metis successively_suffix)
  moreover have "sample_row_add w now h = last_of 900 (shift_old now h2)"
    by (simp only: sample_row_add_def Let_def h1_def x_def h2_def)
  ultimately show ?thesis by (simp add: samples_ok_def last_of_length)
qed

section \<open>Rollups\<close>

definition num_le :: "num \<Rightarrow> num \<Rightarrow> bool" where
  "num_le a b = (case (a, b) of (Some x, Some y) \<Rightarrow> x \<le> y | (None, None) \<Rightarrow> True | _ \<Rightarrow> False)"

definition rollups_ok :: "rollup list \<Rightarrow> bool" where
  "rollups_ok r \<longleftrightarrow> list_all (\<lambda>x. num_le (ro_dmin x) (ro_dmax x)) r \<and> length r \<le> ROLL_KEEP"

lemma num_le_refl [simp]: "num_le a a"
  by (cases a) (simp_all add: num_le_def)

lemma num_le_widen: "num_le a b \<Longrightarrow> num_le (num_min a d) (num_max b d)"
  by (cases a; cases b; cases d) (auto simp: num_le_def)

lemma list_all_suffix: "list_all P (xs @ ys) \<Longrightarrow> list_all P ys"
  by simp

lemma rollups_ok_row:
  assumes "rollups_ok r" shows "rollups_ok (roll_row w now r)"
proof (cases "r \<noteq> [] \<and> now - ro_t (last r) < ROLL_MS")
  case True
  then obtain r0 x where "r = r0 @ [x]" by (metis append_butlast_last_id)
  with True assms show ?thesis
    by (simp add: rollups_ok_def roll_row_def num_le_widen)
next
  case False
  define r1 where "r1 = (if r \<noteq> [] \<and> dw_shares w < ro_shares (last r) then [] else r)"
  define l where "l = r1 @ [\<lparr>ro_t = now, ro_shares = dw_shares w, ro_dmin = dw_difficulty w, ro_dmax = dw_difficulty w\<rparr>]"
  have "list_all (\<lambda>x. num_le (ro_dmin x) (ro_dmax x)) l" using assms by (simp add: l_def r1_def rollups_ok_def)
  then have "list_all (\<lambda>x. num_le (ro_dmin x) (ro_dmax x)) (last_of ROLL_KEEP l)"
    using last_of_suffix [of l ROLL_KEEP] list_all_suffix by metis
  moreover have "roll_row w now r = last_of ROLL_KEEP l" using False by (simp only: roll_row_def if_False Let_def l_def r1_def)
  ultimately show ?thesis by (simp add: rollups_ok_def last_of_length)
qed

section \<open>The page over time\<close>

inductive dash_step :: "dash \<Rightarrow> dash \<Rightarrow> bool" where
  \<comment> \<open>whatever the browser may run next: a callback of a request, a timer, a button, a reload\<close>
  poll_start: "dash_step s (snd (pollPool everything s))"
| fetched_pool: "dash_step s (fetchPool m now reply miner s)"
| poll_done: "dash_step s (poll_done n1 n2 n3 n4 s)"
| got_net: "dash_step s (s\<lparr>da_net := Some n\<rparr>)"
| got_chain: "dash_step s (s\<lparr>da_chain := Some n\<rparr>)"
| got_older: "dash_step s (s\<lparr>da_older := o'\<rparr>)"
| got_balance: "dash_step s (s\<lparr>da_balance := b\<rparr>)"
| got_header: "dash_step s (s\<lparr>da_blockCache := cache_header h v (da_blockCache s)\<rparr>)"
| headers_done: "dash_step s
    (let c = prune_headers tip (da_blockCache s); s1 = s\<lparr>da_blockCache := c\<rparr>
     in if got then saveJSON ''tarcoin.blockcache.v1'' (SBlocks c) s1 else s1)"
| net_drawn: "dash_step s (render now s)"
| validated: "dash_step s (validate_done now v s)"
| set_wallet: "dash_step s (setWallet now a s)"
| set_mode: "dash_step s (snd (setMode now m s))"
| un_watch: "dash_step s (unwatch now a s)"
| calib_set: "dash_step s (calibSet now box s)"
| calib_clear: "dash_step s (calibClear now s)"
| luck_reset: "dash_step s (luckReset now s)"
| compare: "dash_step s (toggleCompare now s)"
| set_range: "dash_step s (setRange now r s)"
| alerts: "dash_step s (toggleAlerts now s)"
| sort_by: "dash_step s (sortBy now k s)"
| reload: "dash_step s (load now (da_storage s) (da_toasts s))"

inductive dash_reach :: "dash \<Rightarrow> dash \<Rightarrow> bool" for s0 where
  start: "dash_reach s0 s0"
| step: "dash_reach s0 s \<Longrightarrow> dash_step s s' \<Longrightarrow> dash_reach s0 s'"

lemma fill_loop_reach:
  "dash_reach s0 s \<Longrightarrow> dash_reach s0 (s\<lparr>da_blockCache := snd (fill_loop ask hs (da_blockCache s))\<rparr>)"
proof (induction hs arbitrary: s)
  case (Cons h hs)
  show ?case
  proof (cases "ask h")
    case (Inr b)
    have "dash_reach s0 (s\<lparr>da_blockCache := cache_header h b (da_blockCache s)\<rparr>)"
      using Cons.prems by (rule dash_reach.step) (rule got_header)
    from Cons.IH [OF this] Inr show ?thesis by (simp add: case_prod_beta)
  qed (simp add: Cons.prems)
qed simp

lemma fillBlockCache_reach:
  \<comment> \<open>a whole run of \<open>fillBlockCache\<close> is a sequence of the steps\<close>
  assumes "dash_reach s0 s" shows "dash_reach s0 (fillBlockCache ask tip s)"
proof -
  define r where "r = fill_loop ask (take CHAIN_PER_POLL (missing_headers tip (da_blockCache s))) (da_blockCache s)"
  from fill_loop_reach [OF assms]
  have "dash_reach s0 (s\<lparr>da_blockCache := snd r\<rparr>)" by (simp add: r_def)
  from dash_reach.step [OF this headers_done [of _ tip "0 < fst r"]]
  show ?thesis by (simp add: fillBlockCache_def fill_cache_def r_def case_prod_beta Let_def cong: if_cong)
qed

section \<open>The invariant\<close>

fun stored_ok :: "stored \<Rightarrow> bool" where
  "stored_ok (SHistory h) = (\<forall>k l. h k = Some l \<longrightarrow> samples_ok l)"
| "stored_ok (SRollups r) = (\<forall>k l. r k = Some l \<longrightarrow> rollups_ok l)"
| "stored_ok (SBlocks c) = distinct (map_keys c)"
| "stored_ok (SWatch l) = (distinct l \<and> [] \<notin> set l)"
| "stored_ok (SSeen l) = (distinct l \<and> length l \<le> 200)"
| "stored_ok _ = True"

definition storage_ok :: "(string \<rightharpoonup> stored) \<Rightarrow> bool" where
  "storage_ok st \<longleftrightarrow> (\<forall>k v. st k = Some v \<longrightarrow> stored_ok v)"

definition stored_seen :: "(string \<rightharpoonup> stored) \<Rightarrow> jsv list" where
  "stored_seen st = (case st ''tarcoin.seenblocks'' of Some (SSeen l) \<Rightarrow> l | _ \<Rightarrow> [])"

definition announced :: "notice list \<Rightarrow> jsv list" where
  "announced ts = List.map_filter (\<lambda>t. case t of BlockFound h r \<Rightarrow> Some h | _ \<Rightarrow> None) ts"

definition seen_covers :: "notice list \<Rightarrow> jsv list \<Rightarrow> bool" where
  \<comment> \<open>as long as no height was forgotten\<close>
  "seen_covers ts seen \<longleftrightarrow> (length seen < 200 \<longrightarrow> distinct (announced ts) \<and> set (announced ts) \<subseteq> set seen)"

definition dash_inv :: "dash \<Rightarrow> bool" where
  "dash_inv s \<longleftrightarrow>
     stored_ok (SHistory (da_history s)) \<and> stored_ok (SRollups (da_rollups s)) \<and>
     stored_ok (SBlocks (da_blockCache s)) \<and> stored_ok (SWatch (da_watch s)) \<and> stored_ok (SSeen (da_seen s)) \<and>
     storage_ok (da_storage s) \<and> stored_seen (da_storage s) = da_seen s \<and>
     seen_covers (da_toasts s) (da_seen s)"

lemma storage_ok_upd [simp]: "storage_ok st \<Longrightarrow> stored_ok v \<Longrightarrow> storage_ok (st(k \<mapsto> v))"
  by (simp add: storage_ok_def)

lemma stored_seen_upd [simp]: "k \<noteq> ''tarcoin.seenblocks'' \<Longrightarrow> stored_seen (st(k \<mapsto> v)) = stored_seen st"
  by (simp add: stored_seen_def)

lemma dash_inv_other [simp]:
  "dash_inv (s\<lparr>da_compare := c\<rparr>) = dash_inv s" "dash_inv (s\<lparr>da_luck := l\<rparr>) = dash_inv s"
  "dash_inv (s\<lparr>da_dropState := ds\<rparr>) = dash_inv s" "dash_inv (s\<lparr>da_calib := cb\<rparr>) = dash_inv s"
  "dash_inv (s\<lparr>da_wallet := w\<rparr>) = dash_inv s" "dash_inv (s\<lparr>da_mode := m\<rparr>) = dash_inv s"
  "dash_inv (s\<lparr>da_range := r\<rparr>) = dash_inv s" "dash_inv (s\<lparr>da_alertsOn := a\<rparr>) = dash_inv s"
  "dash_inv (s\<lparr>da_stats := st\<rparr>) = dash_inv s" "dash_inv (s\<lparr>da_failed := f\<rparr>) = dash_inv s"
  "dash_inv (s\<lparr>da_net := n\<rparr>) = dash_inv s" "dash_inv (s\<lparr>da_chain := n\<rparr>) = dash_inv s"
  "dash_inv (s\<lparr>da_older := ol\<rparr>) = dash_inv s" "dash_inv (s\<lparr>da_balance := b\<rparr>) = dash_inv s"
  "dash_inv (s\<lparr>da_validity := v\<rparr>) = dash_inv s" "dash_inv (s\<lparr>da_cycle := cy\<rparr>) = dash_inv s"
  "dash_inv (s\<lparr>da_sort := so\<rparr>) = dash_inv s" "dash_inv (s\<lparr>da_session := se\<rparr>) = dash_inv s"
  "dash_inv (s\<lparr>da_wasIdle := wi\<rparr>) = dash_inv s"
  by (simp_all add: dash_inv_def)

lemma dash_inv_parts:
  assumes "dash_inv s"
  shows "stored_ok (SHistory h) \<Longrightarrow> dash_inv (s\<lparr>da_history := h\<rparr>)"
    and "stored_ok (SRollups r) \<Longrightarrow> dash_inv (s\<lparr>da_rollups := r\<rparr>)"
    and "stored_ok (SBlocks c) \<Longrightarrow> dash_inv (s\<lparr>da_blockCache := c\<rparr>)"
    and "stored_ok (SWatch l) \<Longrightarrow> dash_inv (s\<lparr>da_watch := l\<rparr>)"
    and "storage_ok st \<Longrightarrow> stored_seen st = da_seen s \<Longrightarrow> dash_inv (s\<lparr>da_storage := st\<rparr>)"
    and "announced [t] = [] \<Longrightarrow> dash_inv (toast t s)"
    and "stored_ok v \<Longrightarrow> k \<noteq> ''tarcoin.seenblocks'' \<Longrightarrow> dash_inv (saveJSON k v s)"
  using assms
  by (simp_all add: dash_inv_def toast_def saveJSON_def announced_def seen_covers_def map_filter_def)

lemma dash_inv_fields:
  assumes "dash_inv s"
  shows "stored_ok (SHistory (da_history s))" "stored_ok (SRollups (da_rollups s))"
    "stored_ok (SBlocks (da_blockCache s))" "stored_ok (SWatch (da_watch s))" "stored_ok (SSeen (da_seen s))"
    "storage_ok (da_storage s)" "stored_seen (da_storage s) = da_seen s"
  using assms by (simp_all only: dash_inv_def)

lemma announced_single [simp]:
  "announced [HashrateDropped a r b] = []" "announced [MinerStopped] = []" "announced [MinerBack] = []"
  "announced [AlertsToggled x] = []" "announced [Calibrated r] = []" "announced [LuckReset] = []"
  "announced [BlockFound h q] = [h]"
  by (simp_all add: announced_def map_filter_def)

lemma announced_append [simp]: "announced (xs @ ys) = announced xs @ announced ys"
  by (simp add: announced_def map_filter_def)

lemma dash_inv_render [simp]: "dash_inv (render now s) = dash_inv s"
  by (simp add: render_def split: option.split prod.split)

subsection \<open>Recording\<close>

lemma list_or_none_ok: "P [] \<Longrightarrow> (\<And>l. x = Some l \<Longrightarrow> P l) \<Longrightarrow> P (list_or_none x)"
  by (cases x) (simp_all add: list_or_none_def)

lemma samples_ok_Nil [simp]: "samples_ok []" and rollups_ok_Nil [simp]: "rollups_ok []"
  by (simp_all add: samples_ok_def rollups_ok_def)

lemma dash_inv_rollUp:
  assumes "dash_inv s" shows "dash_inv (rollUp m a w now s)"
  unfolding rollUp_def
  by (rule dash_inv_parts(2) [OF assms])
    (use dash_inv_fields(2) [OF assms] in \<open>auto intro!: rollups_ok_row list_or_none_ok [where P = rollups_ok]\<close>)

lemma dash_inv_record_worker: "dash_inv s \<Longrightarrow> dash_inv (record_worker m now keep aw s)"
proof -
  assume i: "dash_inv s"
  have "dash_inv (s\<lparr>da_history := (da_history s)(k \<mapsto> sample_row_add w now (list_or_none (da_history s k)))\<rparr>)" for k w
    by (rule dash_inv_parts(1) [OF i])
      (use dash_inv_fields(1) [OF i] in \<open>auto intro!: samples_ok_add list_or_none_ok [where P = samples_ok]\<close>)
  then show ?thesis by (simp add: record_worker_def Let_def dash_inv_rollUp split: prod.split)
qed

lemma foldl_inv: "P s \<Longrightarrow> (\<And>s x. P s \<Longrightarrow> P (f s x)) \<Longrightarrow> P (foldl f s xs)"
  by (induction xs arbitrary: s) simp_all

lemma dash_inv_record: "dash_inv s \<Longrightarrow> dash_inv (record_js m now d s)"
proof -
  assume "dash_inv s"
  then have i: "dash_inv (foldl (\<lambda>s aw. record_worker m now (tracked s0) aw s) s (st_workers d))" for s0
    by (rule foldl_inv) (rule dash_inv_record_worker)
  show ?thesis unfolding record_js_def Let_def
    by (intro dash_inv_parts i)
      (use dash_inv_fields [OF i [of s]] in \<open>simp_all split: if_splits\<close>)
qed

lemma dash_inv_fetchPool: "dash_inv s \<Longrightarrow> dash_inv (fetchPool m now reply miner s)"
  by (simp add: fetchPool_def Let_def dash_inv_record split: sum.split)

subsection \<open>Alerts\<close>

lemma dash_inv_alert_block:
  assumes "dash_inv s" shows "dash_inv (alert_block now b s)"
proof (cases "\<not> bMine s b \<or> db_height b \<in> set (da_seen s)")
  case False
  define seen where "seen = push_seen (db_height b) (da_seen s)"
  define s1 where "s1 = saveJSON ''tarcoin.seenblocks'' (SSeen seen) (s\<lparr>da_seen := seen\<rparr>)"
  have old: "distinct (da_seen s)" "length (da_seen s) \<le> 200" using dash_inv_fields(5) [OF assms] by simp_all
  then have new: "distinct seen" "length seen \<le> 200"
    using False by (auto simp: seen_def push_seen_def Let_def distinct_tl)
  have app: "seen = da_seen s @ [db_height b]" "length (da_seen s) < 200" if "length seen < 200"
    using that old(2) by (auto simp: seen_def push_seen_def Let_def split: if_splits)
  have i1: "dash_inv s1"
    using assms new app
    by (auto simp: dash_inv_def s1_def saveJSON_def stored_seen_def seen_covers_def)
  have "dash_inv (toast (BlockFound (db_height b) r) s1)" for r
  proof -
    have "seen_covers (da_toasts s @ [BlockFound (db_height b) r]) seen"
      using assms app False by (auto simp: seen_covers_def dash_inv_def)
    with i1 show ?thesis by (simp add: dash_inv_def toast_def s1_def saveJSON_def)
  qed
  with i1 False show ?thesis
    by (simp add: alert_block_def Let_def s1_def seen_def)
qed (auto simp: alert_block_def assms)

lemma dash_inv_alerts: "dash_inv s \<Longrightarrow> dash_inv (checkAlerts now s)"
proof -
  have m: "dash_inv s \<Longrightarrow> dash_inv (alert_mode now m s)" for m s
    by (auto simp: alert_mode_def intro: foldl_inv dash_inv_alert_block split: option.split)
  have "dash_inv s \<Longrightarrow> dash_inv (alert_idle now s)"
    by (auto simp: alert_idle_def Let_def intro!: dash_inv_parts split: option.split)
  then show "dash_inv s \<Longrightarrow> ?thesis" by (simp add: checkAlerts_def m)
qed

lemma dash_inv_poll_done: "dash_inv s \<Longrightarrow> dash_inv (poll_done n1 n2 n3 n4 s)"
proof -
  have "dash_inv (accrue_mode n D m s) = dash_inv s" for n D m s
    by (simp add: accrue_mode_def Let_def split: option.split)
  then have 1: "dash_inv s \<Longrightarrow> dash_inv (accrueLuck n s)" for n s
    by (simp add: accrueLuck_def Let_def dash_inv_parts(7) split: option.split)
  have 2: "dash_inv s \<Longrightarrow> dash_inv (checkDrop n m a s)" for n m a s
    by (auto simp: checkDrop_def Let_def intro!: dash_inv_parts(6) split: option.split)
  show "dash_inv s \<Longrightarrow> ?thesis" by (simp add: poll_done_def Let_def 1 2 dash_inv_alerts)
qed

subsection \<open>Every step\<close>

lemma dash_inv_validate_start [simp]: "dash_inv (validate_start now a s) = dash_inv s"
  by (simp add: validate_start_def Let_def)

lemma dash_inv_setWallet:
  assumes "dash_inv s" shows "dash_inv (setWallet now a s)"
proof -
  obtain start x y where se: "da_session s = (start, x, y)" by (cases "da_session s") auto
  define w where "w = js_trim a"
  define s1 where "s1 = s\<lparr>da_wallet := w, da_balance := None, da_wasIdle := None,
    da_session := (start, None, None), da_storage := (da_storage s)(''tarcoin.wallet'' \<mapsto> SText w)\<rparr>"
  define s2 where "s2 = (if w \<noteq> [] \<and> w \<notin> set (da_watch s1)
      then saveJSON ''tarcoin.watchlist'' (SWatch (da_watch s1 @ [w])) (s1\<lparr>da_watch := da_watch s1 @ [w]\<rparr>) else s1)"
  have 1: "dash_inv s1"
    unfolding s1_def by (rule dash_inv_parts(5)) (use dash_inv_fields [OF assms] assms in simp_all)
  have "stored_ok (SWatch (da_watch s1 @ [w]))" if "w \<noteq> []" "w \<notin> set (da_watch s1)"
    using that dash_inv_fields(4) [OF 1] by auto
  with 1 have "dash_inv s2" by (auto simp: s2_def intro!: dash_inv_parts)
  moreover have "setWallet now a s = validate_start now w (render now s2)"
    unfolding setWallet_def s2_def s1_def w_def se Let_def prod.case ..
  ultimately show ?thesis by simp
qed

lemma dash_inv_load:
  assumes "storage_ok st" and "seen_covers ts (stored_seen st)"
  shows "dash_inv (load now st ts)"
proof -
  have ok: "stored_ok v" if "st k = Some v" for k v using assms(1) that by (auto simp: storage_ok_def)
  have "stored_ok (SHistory (da_history (load now st ts)))"
    by (auto simp: load_def Let_def dest!: ok split: option.split stored.split)
  moreover have "stored_ok (SRollups (da_rollups (load now st ts)))"
    by (auto simp: load_def Let_def dest!: ok split: option.split stored.split)
  moreover have "stored_ok (SBlocks (da_blockCache (load now st ts)))"
    by (auto simp: load_def Let_def dest!: ok split: option.split stored.split)
  moreover have "stored_ok (SWatch (da_watch (load now st ts)))"
    by (auto simp: load_def Let_def dest!: ok split: option.split stored.split)
  moreover have "da_seen (load now st ts) = stored_seen st" "da_storage (load now st ts) = st"
    "da_toasts (load now st ts) = ts"
    by (simp_all add: load_def Let_def stored_seen_def)
  moreover have "stored_ok (SSeen (stored_seen st))"
    by (auto simp: stored_seen_def dest!: ok split: option.split stored.split)
  ultimately show ?thesis using assms by (simp only: dash_inv_def)
qed

lemma distinct_cache_header: "distinct (map_keys c) \<Longrightarrow> distinct (map_keys (cache_header h v c))"
  by (simp add: cache_header_def split: option.split)

lemma distinct_prune: "distinct (map_keys c) \<Longrightarrow> distinct (map_keys (prune_headers tip c))"
  by (simp add: prune_headers_def distinct_map_filter)

lemma dash_inv_step:
  assumes "dash_step s s'" and "dash_inv s" shows "dash_inv s'"
  using assms(1)
proof cases
  case (got_header h v)
  with assms(2) show ?thesis
    using dash_inv_fields(3) [OF assms(2)] by (auto intro!: dash_inv_parts distinct_cache_header)
next
  case (headers_done tip got)
  have "stored_ok (SBlocks (prune_headers tip (da_blockCache s)))"
    using dash_inv_fields(3) [OF assms(2)] by (simp add: distinct_prune)
  with assms(2) show ?thesis by (auto simp: headers_done Let_def intro!: dash_inv_parts)
next
  case (un_watch now a)
  have "stored_ok (SWatch (filter (\<lambda>x. x \<noteq> a) (da_watch s)))" using dash_inv_fields(4) [OF assms(2)] by simp
  with assms(2) show ?thesis by (simp add: un_watch unwatch_def Let_def dash_inv_parts)
next
  case (calib_set now box)
  with assms(2) show ?thesis
    by (auto simp: calibSet_def Let_def intro!: dash_inv_parts split: option.split)
next
  case (reload now)
  have "seen_covers (da_toasts s) (stored_seen (da_storage s))" using assms(2) by (simp add: dash_inv_def)
  with dash_inv_fields(6) [OF assms(2)] show ?thesis unfolding reload by (rule dash_inv_load)
qed (use assms(2) dash_inv_fields [OF assms(2)] in
    \<open>simp_all add: pollPool_def dash_inv_fetchPool dash_inv_poll_done dash_inv_setWallet validate_done_def
       setMode_def calibClear_def luckReset_def toggleCompare_def setRange_def toggleAlerts_def sortBy_def
       Let_def dash_inv_parts\<close>)

lemma dash_inv_reach: "dash_reach s0 s \<Longrightarrow> dash_inv s0 \<Longrightarrow> dash_inv s"
  by (induction rule: dash_reach.induct) (auto intro: dash_inv_step)

definition no_storage :: "string \<rightharpoonup> stored" where
  "no_storage = Map.empty"

lemma storage_ok_none [simp]: "storage_ok no_storage"
  by (simp add: storage_ok_def no_storage_def)

lemma dash_inv_start: "storage_ok st \<Longrightarrow> dash_reach (load now st []) s \<Longrightarrow> dash_inv s"
  by (erule dash_inv_reach) (rule dash_inv_load, simp_all add: seen_covers_def announced_def map_filter_def)

text \<open>
  C20. However the page's timers, answers, buttons and reloads follow each other, starting from a
  storage it wrote itself: in every history consecutive samples are at least four seconds apart with
  a share count that does not fall, and there are at most 900; there are at most 1500 rollups to a
  key, with their lowest difficulty not above the highest; no height is remembered twice, and at most
  200 are; and no address is watched twice.
\<close>

theorem dashboard_invariant:
  assumes "storage_ok st" and "dash_reach (load now st []) s"
  shows "(da_history s k = Some h \<longrightarrow> successively follows h \<and> length h \<le> 900) \<and>
    (da_rollups s k = Some r \<longrightarrow> list_all (\<lambda>x. num_le (ro_dmin x) (ro_dmax x)) r \<and> length r \<le> 1500) \<and>
    distinct (da_seen s) \<and> length (da_seen s) \<le> 200 \<and> distinct (da_watch s)"
  using dash_inv_fields [OF dash_inv_start [OF assms]]
  by (simp add: samples_ok_def rollups_ok_def ROLL_KEEP_def)

lemma record_worker_frame [simp]:
  "da_wallet (record_worker m now keep aw s) = da_wallet s" "da_seen (record_worker m now keep aw s) = da_seen s"
  "da_toasts (record_worker m now keep aw s) = da_toasts s" "da_stats (record_worker m now keep aw s) = da_stats s"
  "da_mode (record_worker m now keep aw s) = da_mode s" "da_validity (record_worker m now keep aw s) = da_validity s"
  "da_net (record_worker m now keep aw s) = da_net s" "da_chain (record_worker m now keep aw s) = da_chain s"
  "da_calib (record_worker m now keep aw s) = da_calib s" "da_wasIdle (record_worker m now keep aw s) = da_wasIdle s"
  "da_failed (record_worker m now keep aw s) = da_failed s"
  by (simp_all add: record_worker_def rollUp_def Let_def split: prod.split)

lemma foldl_frame: "(\<And>s x. f (g s x) = f s) \<Longrightarrow> f (foldl g s xs) = f s"
  by (induction xs arbitrary: s) simp_all

lemma record_frame [simp]:
  "da_wallet (record_js m now d s) = da_wallet s" "da_seen (record_js m now d s) = da_seen s"
  "da_toasts (record_js m now d s) = da_toasts s" "da_stats (record_js m now d s) = da_stats s"
  "da_mode (record_js m now d s) = da_mode s" "da_validity (record_js m now d s) = da_validity s"
  "da_net (record_js m now d s) = da_net s" "da_chain (record_js m now d s) = da_chain s"
  "da_calib (record_js m now d s) = da_calib s" "da_wasIdle (record_js m now d s) = da_wasIdle s"
  "da_failed (record_js m now d s) = da_failed s"
  by (simp_all add: record_js_def saveJSON_def Let_def foldl_frame)

lemma record_one_history:
  "st_workers d = [(a, w)] \<Longrightarrow>
   da_history (record_js m now d s) (key m a) = Some (sample_row_add w now (list_or_none (da_history s (key m a))))"
  by (simp add: record_js_def record_worker_def rollUp_def saveJSON_def drop_history_def Let_def)

definition sample_stats :: "(string \<times> dworker) list \<Rightarrow> stats" where
  \<comment> \<open>statistics with the given miners and one block\<close>
  "sample_stats ws =
     \<lparr>st_workers = ws,
      st_blocksFound = [\<lparr>db_worker = JStr ''tar1q.rig'', db_height = JNum 7, db_time = Some 1000\<rparr>],
      st_apiMiner = None\<rparr>"

definition sample_worker :: "int \<Rightarrow> dworker" where
  "sample_worker n = \<lparr>dw_shares = n, dw_lastSeen = 1000, dw_difficulty = Some 1024\<rparr>"

definition sample_page :: dash where
  \<comment> \<open>a first visit that has heard of one miner twice\<close>
  "sample_page =
     fetchPool ''solo'' 6000 (Inr (sample_stats [(''tar1q'', sample_worker 5)])) None
       (fetchPool ''solo'' 1000 (Inr (sample_stats [(''tar1q'', sample_worker 3)])) None (load 0 no_storage []))"

lemma sample_page_reach: "dash_reach (load 0 no_storage []) sample_page"
  unfolding sample_page_def by (intro dash_reach.step [OF _ fetched_pool] start)

theorem dashboard_invariant_witness:
  "length (the (da_history sample_page (key ''solo'' ''tar1q''))) = 2 \<and>
   length (the (da_history sample_page (key ''solo'' ''tar1q''))) \<le> 900"
proof -
  have "da_history sample_page (key ''solo'' ''tar1q'') =
      Some (sample_row_add (sample_worker 5) 6000 (sample_row_add (sample_worker 3) 1000 []))"
    by (simp add: sample_page_def fetchPool_def record_one_history sample_stats_def load_def no_storage_def
        list_or_none_def Let_def)
  moreover have "length (sample_row_add (sample_worker 5) 6000 (sample_row_add (sample_worker 3) 1000 [])) = 2"
    by code_simp
  ultimately show ?thesis
    using dashboard_invariant [OF storage_ok_none sample_page_reach, of "key ''solo'' ''tar1q''" _ "[]"] by simp
qed

text \<open>
  As long as fewer than 200 heights are remembered, no block is announced twice, whatever
  polls, changes of wallet and reloads lie between, and every announced height is remembered.
\<close>

lemma blocks_announced_once:
  assumes "storage_ok st" and "dash_reach (load now st []) s" and "length (da_seen s) < 200"
  shows "distinct (announced (da_toasts s)) \<and> set (announced (da_toasts s)) \<subseteq> set (da_seen s)"
  using dash_inv_start [OF assms(1,2)] assms(3) by (simp add: dash_inv_def seen_covers_def)

definition announce_page :: dash where
  \<comment> \<open>a first visit that tracks the wallet of the miner who found the block\<close>
  "announce_page =
     poll_done 7000 7000 7000 7000
       (fetchPool ''solo'' 1000 (Inr (sample_stats [])) None (setWallet 500 ''tar1q'' (load 0 no_storage [])))"

lemma announce_page_reach: "dash_reach (load 0 no_storage []) announce_page"
  unfolding announce_page_def
  by (intro dash_reach.step [OF _ dash_step.poll_done] dash_reach.step [OF _ fetched_pool]
      dash_reach.step [OF _ set_wallet] start)

lemma blocks_announced_once_witness:
  "announced (da_toasts announce_page) = [JNum 7] \<and> set (announced (da_toasts announce_page)) \<subseteq> set (da_seen announce_page)"
proof -
  have "announced (da_toasts announce_page) = [JNum 7]" "length (da_seen announce_page) < 200" by code_simp+
  with blocks_announced_once [OF storage_ok_none announce_page_reach] show ?thesis by blast
qed

section \<open>The range of a measurement\<close>

definition whole_diff :: "int \<Rightarrow> sample \<Rightarrow> bool" where
  \<comment> \<open>the difficulty is a whole number from 1 to the bound\<close>
  "whole_diff D x \<longleftrightarrow> (case sm_diff x of None \<Rightarrow> False | Some d \<Rightarrow> d = of_int \<lfloor>d\<rfloor> \<and> 1 \<le> \<lfloor>d\<rfloor> \<and> \<lfloor>d\<rfloor> \<le> D)"

lemma whole_diffE:
  assumes "whole_diff D x" obtains d where "sm_diff x = Some (of_int d)" "1 \<le> d" "d \<le> D"
proof (cases "sm_diff x")
  case (Some r)
  with assms have "r = of_int \<lfloor>r\<rfloor>" "1 \<le> \<lfloor>r\<rfloor>" "\<lfloor>r\<rfloor> \<le> D" by (simp_all add: whole_diff_def)
  with Some that [of "\<lfloor>r\<rfloor>"] show ?thesis by metis
qed (use assms in \<open>simp add: whole_diff_def\<close>)

definition tally_inv :: "int \<Rightarrow> tally \<Rightarrow> bool" where
  \<comment> \<open>the shares priced at the lowest and at the highest difficulty enclose the hashes counted\<close>
  "tally_inv D r \<longleftrightarrow> 0 \<le> tl_shares r \<and> 0 \<le> tl_dt r \<and>
     (\<exists>K lo hi. tl_hashes r = Some (of_int K * TWO32) \<and> tl_dmax r = Some (of_int hi) \<and> 0 \<le> lo \<and> hi \<le> D \<and>
        finite_or_zero (tl_dmin r) = of_int lo \<and> (tl_dmin r = Infinity \<longrightarrow> tl_shares r = 0) \<and>
        (tl_dmin r \<noteq> Infinity \<longrightarrow> tl_dmin r = Lowest (Some (of_int lo)) \<and> 1 \<le> lo) \<and>
        tl_shares r * lo \<le> K \<and> K \<le> tl_shares r * hi \<and> 0 \<le> hi)"

lemma no_tally_inv: "0 \<le> D \<Longrightarrow> tally_inv D no_tally"
  by (auto simp: tally_inv_def no_tally_def intro!: exI [of _ 0])

lemma times_TWO32: "\<bar>n\<bar> \<le> 2 ^ 53 \<Longrightarrow> js_mul (of_int n) TWO32 = of_int n * TWO32"
  using fl_dyadic [of n 32] by (simp add: js_mul_def TWO32_def)

lemma plus_TWO32: "\<bar>m + n\<bar> \<le> 2 ^ 53 \<Longrightarrow> js_add (of_int m * TWO32) (of_int n * TWO32) = of_int (m + n) * TWO32"
  using fl_dyadic [of "m + n" 32] by (simp add: js_add_def TWO32_def algebra_simps)

lemma tally_step_inv:
  assumes r: "tally_inv D r" and p: "whole_diff D p" and x: "whole_diff D x" and f: "follows p x"
    and bound: "(tl_shares r + (sm_shares x - sm_shares p)) * D \<le> 2 ^ 53"
  shows "tally_inv D (tally_step p x r)"
    and "tl_shares (tally_step p x r) = tl_shares r + (sm_shares x - sm_shares p)"
proof -
  obtain dp where dp: "sm_diff p = Some (of_int dp)" "1 \<le> dp" "dp \<le> D" using p by (rule whole_diffE)
  obtain dx where dx: "sm_diff x = Some (of_int dx)" "1 \<le> dx" "dx \<le> D" using x by (rule whole_diffE)
  define ds where "ds = sm_shares x - sm_shares p"
  have ds: "0 \<le> ds" and dt: "0 \<le> sm_t x - sm_t p" using f by (simp_all add: ds_def follows_def)
  obtain K lo hi where K: "tl_hashes r = Some (of_int K * TWO32)" "tl_dmax r = Some (of_int hi)" "0 \<le> lo" "hi \<le> D"
    "finite_or_zero (tl_dmin r) = of_int lo" "tl_dmin r = Infinity \<longrightarrow> tl_shares r = 0"
    "tl_dmin r \<noteq> Infinity \<longrightarrow> tl_dmin r = Lowest (Some (of_int lo)) \<and> 1 \<le> lo"
    "tl_shares r * lo \<le> K" "K \<le> tl_shares r * hi" "0 \<le> hi" "0 \<le> tl_shares r" "0 \<le> tl_dt r"
    using r unfolding tally_inv_def by blast
  have K0: "0 \<le> K" using K(3,8,11) by (meson mult_nonneg_nonneg order_trans)
  have "ds * dx \<le> ds * D" using ds dx(3) by (rule mult_left_mono [rotated])
  moreover have "K \<le> tl_shares r * D" using K(4,9,11) by (meson mult_left_mono order_trans)
  ultimately have sum: "K + ds * dx \<le> 2 ^ 53" using bound by (simp add: ds_def algebra_simps)
  have 0: "0 \<le> ds * dx" using ds dx(2) by simp
  have "num_mul (num_mul (Some (of_int ds)) (sm_diff x)) (Some TWO32) = Some (of_int (ds * dx) * TWO32)"
    using sum 0 K0 fl_of_int [of "ds * dx"] times_TWO32 [of "ds * dx"] by (simp add: dx js_mul_def)
  then have h: "nan_add (tl_hashes r) (num_mul (num_mul (Some (of_int ds)) (sm_diff x)) (Some TWO32)) =
      Some (of_int (K + ds * dx) * TWO32)"
    using plus_TWO32 [of K "ds * dx"] sum 0 K0 by (simp add: K)
  have t: "0 \<le> js_add (tl_dt r) (js_div (of_int (sm_t x - sm_t p)) 1000)"
    using K(12) dt by (simp add: js_add_def js_div_def fl_nonneg)
  show "tl_shares (tally_step p x r) = tl_shares r + (sm_shares x - sm_shares p)"
    using ds by (simp add: tally_step_def ds_def Let_def)
  show "tally_inv D (tally_step p x r)"
  proof (cases "ds = 0")
    case True
    then have "tally_step p x r = r\<lparr>tl_dt := js_add (tl_dt r) (js_div (of_int (sm_t x - sm_t p)) 1000),
        tl_shares := tl_shares r, tl_hashes := Some (of_int K * TWO32)\<rparr>"
      using h by (simp add: tally_step_def ds_def Let_def)
    then show ?thesis using r t K(1) by (simp add: tally_inv_def)
  next
    case False
    then have pos: "0 < ds" using ds by simp
    define lo' where "lo' = (if tl_dmin r = Infinity then min dx dp else min (min lo dx) dp)"
    define hi' where "hi' = max (max hi dx) dp"
    have step: "tally_step p x r = r\<lparr>tl_dt := js_add (tl_dt r) (js_div (of_int (sm_t x - sm_t p)) 1000),
        tl_shares := tl_shares r + ds, tl_hashes := Some (of_int (K + ds * dx) * TWO32),
        tl_dmin := low_min (low_min (tl_dmin r) (sm_diff x)) (sm_diff p),
        tl_dmax := num_max (num_max (tl_dmax r) (sm_diff x)) (sm_diff p)\<rparr>"
      using h pos by (simp add: tally_step_def ds_def Let_def)
    have lo': "low_min (low_min (tl_dmin r) (sm_diff x)) (sm_diff p) = Lowest (Some (of_int lo'))"
      using K(7) by (cases "tl_dmin r = Infinity") (simp_all add: lo'_def dx dp of_int_min)
    have hi': "num_max (num_max (tl_dmax r) (sm_diff x)) (sm_diff p) = Some (of_int hi')"
      by (simp add: K hi'_def dx dp of_int_max)
    have "ds * lo' \<le> ds * dx" "ds * dx \<le> ds * hi'" using ds by (simp_all add: lo'_def hi'_def mult_left_mono)
    moreover have "tl_shares r * lo' \<le> K"
    proof (cases "tl_dmin r = Infinity")
      case True
      then show ?thesis using K(6) K0 by simp
    next
      case False
      then have "tl_shares r * lo' \<le> tl_shares r * lo" using K(11) by (simp add: lo'_def mult_left_mono)
      with K(8) show ?thesis by simp
    qed
    moreover have "tl_shares r * hi \<le> tl_shares r * hi'" using K(11) by (simp add: hi'_def mult_left_mono)
    ultimately have "(tl_shares r + ds) * lo' \<le> K + ds * dx" "K + ds * dx \<le> (tl_shares r + ds) * hi'"
      using K(9) by (simp_all add: algebra_simps)
    moreover have "1 \<le> lo'" "hi' \<le> D" "0 \<le> hi'"
      using K(4,7,10) dx(2,3) dp(2,3) by (simp_all add: lo'_def hi'_def)
    moreover have "0 \<le> tl_shares r + ds" using K(11) ds by simp
    ultimately show ?thesis unfolding tally_inv_def step lo' hi' using t
      by (intro conjI exI [of _ "K + ds * dx"] exI [of _ lo'] exI [of _ hi']) simp_all
  qed
qed

lemma shares_grow: "successively follows h \<Longrightarrow> x \<in> set h \<Longrightarrow> sm_shares (hd h) \<le> sm_shares x"
proof (induction h rule: induct_list012)
  case (3 a b h)
  then have "sm_shares a \<le> sm_shares b" by (simp add: follows_def)
  with 3 show ?case by fastforce
qed auto

lemma tally_all_inv:
  "h \<noteq> [] \<Longrightarrow> successively follows h \<Longrightarrow> list_all (whole_diff D) h \<Longrightarrow> tally_inv D r \<Longrightarrow>
   (tl_shares r + (sm_shares (last h) - sm_shares (hd h))) * D \<le> 2 ^ 53 \<Longrightarrow>
   tally_inv D (tally_all h r) \<and> tl_shares (tally_all h r) = tl_shares r + (sm_shares (last h) - sm_shares (hd h))"
proof (induction h r rule: tally_all.induct)
  case (1 p x h r)
  define r1 where "r1 = tally_step p x r"
  have D: "0 \<le> D" using 1(4) by (auto simp: elim!: whole_diffE)
  have le: "sm_shares x \<le> sm_shares (last (x # h))" using shares_grow [of "x # h" "last (x # h)"] 1(3) by simp
  then have "(tl_shares r + (sm_shares x - sm_shares p)) * D \<le> (tl_shares r + (sm_shares (last (x # h)) - sm_shares p)) * D"
    using D by (simp add: mult_right_mono)
  also have "\<dots> \<le> 2 ^ 53" using 1(6) by simp
  finally have b: "(tl_shares r + (sm_shares x - sm_shares p)) * D \<le> 2 ^ 53" .
  have f: "follows p x" "whole_diff D p" "whole_diff D x" using 1(3,4) by simp_all
  note i = tally_step_inv [OF 1(5) f(2,3,1) b, folded r1_def]
  have "tally_inv D (tally_all (x # h) r1) \<and>
      tl_shares (tally_all (x # h) r1) = tl_shares r1 + (sm_shares (last (x # h)) - sm_shares (hd (x # h)))"
    unfolding r1_def
  proof (rule 1(1))
    show "tally_inv D (tally_step p x r)" using i(1) by (simp add: r1_def)
    show "(tl_shares (tally_step p x r) + (sm_shares (last (x # h)) - sm_shares (hd (x # h)))) * D \<le> 2 ^ 53"
      using 1(6) i(2) by (simp add: r1_def)
  qed (use 1(3,4) in simp_all)
  then show ?case using i(2) by (simp add: r1_def)
qed simp_all

lemma window_suffix:
  assumes "h \<noteq> []" and "0 \<le> ms"
  obtains p where "h = p @ window h ms" "window h ms \<noteq> []" "last (window h ms) = last h"
proof -
  have h: "h = takeWhile (\<lambda>x. ms < sm_t (last h) - sm_t x) h @ window h ms"
    by (simp add: window_def)
  have "window h ms \<noteq> []"
  proof
    assume "window h ms = []"
    then have "ms < sm_t (last h) - sm_t (last h)"
      using last_in_set [OF assms(1)] unfolding window_def dropWhile_eq_Nil_conv by blast
    with assms(2) show False by simp
  qed
  moreover from this have "last (window h ms) = last h" using h by (metis last_appendR)
  ultimately show ?thesis using that h by blast
qed

lemma window_tally:
  assumes h: "h \<noteq> []" "successively follows h" "list_all (whole_diff D) h" "0 \<le> ms"
    and bound: "(sm_shares (last h) - sm_shares (hd h)) * D \<le> 2 ^ 53"
  shows "tally_inv D (tally_all (window h ms) no_tally)"
    and "tl_shares (tally_all (window h ms) no_tally) \<le> sm_shares (last h) - sm_shares (hd h)"
proof -
  obtain p where p: "h = p @ window h ms" "window h ms \<noteq> []" "last (window h ms) = last h"
    using window_suffix [OF h(1,4)] by blast
  have D: "0 \<le> D" using h(1,3) by (cases h) (auto elim!: whole_diffE)
  have ok: "successively follows (window h ms)" "list_all (whole_diff D) (window h ms)"
    using h(2,3) p(1) by (metis successively_suffix, metis list_all_suffix)
  have "hd (window h ms) \<in> set h" using p(1,2) by (metis Un_iff hd_in_set set_append)
  with shares_grow [OF h(2)] have g: "sm_shares (hd h) \<le> sm_shares (hd (window h ms))" by blast
  then have "(sm_shares (last h) - sm_shares (hd (window h ms))) * D \<le> (sm_shares (last h) - sm_shares (hd h)) * D"
    using D by (simp add: mult_right_mono)
  with bound have "(tl_shares no_tally + (sm_shares (last (window h ms)) - sm_shares (hd (window h ms)))) * D \<le> 2 ^ 53"
    by (simp add: no_tally_def p(3))
  from tally_all_inv [OF p(2) ok no_tally_inv [OF D] this] g
  show "tally_inv D (tally_all (window h ms) no_tally)"
    "tl_shares (tally_all (window h ms) no_tally) \<le> sm_shares (last h) - sm_shares (hd h)"
    by (simp_all add: no_tally_def p(3))
qed

lemma rate_range_history:
  assumes h: "successively follows h" "list_all (whole_diff D) h"
    and bound: "(sm_shares (last h) - sm_shares (hd h)) * D \<le> 2 ^ 53"
    and m: "measure_history None (Some h) = Some l"
  obtains rep hi where "ms_reported l = Some rep" "ms_hi l = Some hi" "0 < ms_rate l" "ms_rate l \<le> rep" "rep \<le> hi"
proof -
  define r where "r = tally_all (window h MEASURE_MS) no_tally"
  from m have l: "2 \<le> length h" "\<not> too_few (rateOver h MEASURE_MS)" "l = measured (rateOver h MEASURE_MS)"
    by (auto simp: measure_history_def Let_def split: if_splits)
  then have n: "h \<noteq> []" by auto
  have D: "0 \<le> D" using n h(2) by (cases h) (auto elim!: whole_diffE)
  note t = window_tally [OF n h _ bound, of MEASURE_MS, folded r_def]
  have big: "3 \<le> tl_shares r" "25 \<le> tl_dt r"
    using l(2) by (simp_all add: too_few_def rateOver_def r_def Let_def MIN_SHARES_def MIN_SECONDS_def)
  obtain K lo hi where K: "tl_hashes r = Some (of_int K * TWO32)" "tl_dmax r = Some (of_int hi)" "hi \<le> D"
    "finite_or_zero (tl_dmin r) = of_int lo" "1 \<le> lo" "tl_shares r * lo \<le> K" "K \<le> tl_shares r * hi" "0 \<le> hi"
    using t(1) big(1) by (auto simp: tally_inv_def MEASURE_MS_def)
  have "tl_shares r * hi \<le> tl_shares r * D" using K(3) big(1) by (simp add: mult_left_mono)
  also have "\<dots> \<le> (sm_shares (last h) - sm_shares (hd h)) * D" using t(2) D by (simp add: MEASURE_MS_def mult_right_mono)
  finally have "tl_shares r * hi \<le> 2 ^ 53" using bound by simp
  with K(6,7) big(1) K(5) have b: "\<bar>tl_shares r * hi\<bar> \<le> 2 ^ 53" "\<bar>tl_shares r * lo\<bar> \<le> 2 ^ 53"
    using mult_nonneg_nonneg [of "tl_shares r" lo] by linarith+
  have p: "js_mul (js_mul (of_int (tl_shares r)) (of_int n)) TWO32 = of_int (tl_shares r * n) * TWO32"
    if "\<bar>tl_shares r * n\<bar> \<le> 2 ^ 53" for n
    using fl_of_int [OF that] times_TWO32 [OF that] by (simp add: js_mul_def)
  have lo: "ms_rate l = js_div (of_int (tl_shares r * lo) * TWO32) (tl_dt r)"
    using big p [OF b(2)] by (simp add: l(3) measured_def rateOver_def r_def [symmetric] Let_def K(4))
  have hi: "ms_hi l = Some (js_div (of_int (tl_shares r * hi) * TWO32) (tl_dt r))"
    using big p [OF b(1)] by (simp add: l(3) measured_def rateOver_def r_def [symmetric] Let_def K(2))
  have rep: "ms_reported l = Some (js_div (of_int K * TWO32) (tl_dt r))"
    using big by (simp add: l(3) measured_def rateOver_def r_def [symmetric] Let_def K(1))
  have mono: "js_div (of_int a * TWO32) (tl_dt r) \<le> js_div (of_int b * TWO32) (tl_dt r)" if "a \<le> b" for a b
    using that big(2) by (simp add: js_div_def TWO32_def divide_right_mono fl_mono)
  have "0 < tl_shares r * lo" using big(1) K(5) by simp
  then have "0 < (of_int (tl_shares r * lo) :: rat)" by (simp only: of_int_0_less_iff)
  then have "0 < ms_rate l" using big(2) by (simp add: lo js_div_def TWO32_def fl_pos del: of_int_mult)
  with that [OF rep hi] mono [OF K(6)] mono [OF K(7)] lo show ?thesis by simp
qed


definition measured_page :: dash where
  \<comment> \<open>a first visit that saw six shares in half a minute\<close>
  "measured_page =
     fetchPool ''solo'' 31000 (Inr (sample_stats [(''tar1q'', sample_worker 9)])) None
       (fetchPool ''solo'' 1000 (Inr (sample_stats [(''tar1q'', sample_worker 3)])) None (load 0 no_storage []))"

lemma measured_page_reach: "dash_reach (load 0 no_storage []) measured_page"
  unfolding measured_page_def by (intro dash_reach.step [OF _ fetched_pool] start)

definition measured_samples :: "sample list" where
  "measured_samples =
     [\<lparr>sm_t = 1000, sm_shares = 3, sm_diff = Some 1024\<rparr>, \<lparr>sm_t = 31000, sm_shares = 9, sm_diff = Some 1024\<rparr>]"

lemma measured_page_history: "da_history measured_page (key ''solo'' ''tar1q'') = Some measured_samples"
proof -
  have "da_history measured_page (key ''solo'' ''tar1q'') =
      Some (sample_row_add (sample_worker 9) 31000 (sample_row_add (sample_worker 3) 1000 []))"
    by (simp add: measured_page_def fetchPool_def record_one_history sample_stats_def load_def no_storage_def
        list_or_none_def Let_def)
  also have "sample_row_add (sample_worker 9) 31000 (sample_row_add (sample_worker 3) 1000 []) = measured_samples"
    by code_simp
  finally show ?thesis .
qed

lemma measured_samples_value:
  obtains m where "measure_history None (Some measured_samples) = Some m" "ms_shares m = 6"
proof -
  have "(case measure_history None (Some measured_samples) of None \<Rightarrow> False | Some m \<Rightarrow> ms_shares m = 6)"
    by code_simp
  with that show ?thesis by (auto split: option.splits)
qed

lemma measured_page_calib: "da_calib measured_page a = None"
  by (simp add: measured_page_def fetchPool_def load_def no_storage_def Let_def)


section \<open>Calibration\<close>

lemma fl_rel: obtains e where "fl x = x * (1 + e)" "\<bar>e\<bar> \<le> 1 / 2 ^ 53"
proof (cases "x = 0")
  case False
  define e where "e = (fl x - x) / x"
  have "\<bar>e\<bar> \<le> 1 / 2 ^ 53"
    using fl_error [of x] False by (simp add: e_def abs_divide divide_le_eq)
  moreover have "fl x = x * (1 + e)" using False by (simp add: e_def field_simps)
  ultimately show ?thesis using that by blast
qed (use that [of 0] in simp)

lemma rel_step:
  fixes P e k :: rat
  assumes "\<bar>P - 1\<bar> \<le> k / 2 ^ 53" and "\<bar>e\<bar> \<le> 1 / 2 ^ 53" and "0 \<le> k" "k \<le> 100"
  shows "\<bar>P * (1 + e) - 1\<bar> \<le> (k + 11 / 10) / 2 ^ 53"
proof -
  have "P * (1 + e) - 1 = (P - 1) + e + (P - 1) * e" by (simp add: algebra_simps)
  moreover have "\<bar>(P - 1) * e\<bar> \<le> (k / 2 ^ 53) * (1 / 2 ^ 53)"
    using assms by (simp only: abs_mult) (rule mult_mono, simp_all)
  moreover have "(k / 2 ^ 53) * (1 / 2 ^ 53) \<le> (1 / 10) / 2 ^ 53" using assms(4) by simp
  ultimately show ?thesis using assms(1,2) by (simp add: abs_if add_divide_distrib split: if_splits)
qed

lemma calibration_error:
  assumes "0 < ths" and "0 < dt" and "0 < n" and "n \<le> 2 ^ 53"
    and cd: "cd = js_div (js_mul (js_mul ths c) dt) (js_mul (of_int n) TWO32)"
    and rate: "rate = js_div (js_mul (js_mul (of_int n) cd) TWO32) dt"
  shows "\<bar>rate - ths * c\<bar> \<le> \<bar>ths * c\<bar> * (7 / 2 ^ 53)"
proof -
  obtain e1 where e1: "fl (ths * c) = ths * c * (1 + e1)" "\<bar>e1\<bar> \<le> 1 / 2 ^ 53" by (rule fl_rel)
  obtain e2 where e2: "fl (fl (ths * c) * dt) = fl (ths * c) * dt * (1 + e2)" "\<bar>e2\<bar> \<le> 1 / 2 ^ 53" by (rule fl_rel)
  obtain e3 where e3: "cd = fl (fl (ths * c) * dt) / (of_int n * TWO32) * (1 + e3)" "\<bar>e3\<bar> \<le> 1 / 2 ^ 53"
    using fl_rel [of "fl (fl (ths * c) * dt) / (of_int n * TWO32)"] times_TWO32 [of n] assms(3,4)
    by (auto simp: cd js_div_def js_mul_def)
  obtain e4 where e4: "fl (of_int n * cd) = of_int n * cd * (1 + e4)" "\<bar>e4\<bar> \<le> 1 / 2 ^ 53" by (rule fl_rel)
  obtain e5 where e5: "fl (fl (of_int n * cd) * TWO32) = fl (of_int n * cd) * TWO32 * (1 + e5)" "\<bar>e5\<bar> \<le> 1 / 2 ^ 53"
    by (rule fl_rel)
  obtain e6 where e6: "rate = fl (fl (of_int n * cd) * TWO32) / dt * (1 + e6)" "\<bar>e6\<bar> \<le> 1 / 2 ^ 53"
    using fl_rel [of "fl (fl (of_int n * cd) * TWO32) / dt"] by (auto simp: rate js_div_def js_mul_def)
  define P where "P = 1 * (1 + e1) * (1 + e2) * (1 + e3) * (1 + e4) * (1 + e5) * (1 + e6)"
  have "\<bar>P - 1\<bar> \<le> (0 + 11 / 10 + 11 / 10 + 11 / 10 + 11 / 10 + 11 / 10 + 11 / 10) / 2 ^ 53"
    unfolding P_def by (intro rel_step e1 e2 e3 e4 e5 e6) simp_all
  then have "\<bar>P - 1\<bar> \<le> 7 / 2 ^ 53" by simp
  moreover have "cd * (of_int n * TWO32) = ths * c * dt * (1 + e1) * (1 + e2) * (1 + e3)"
    using assms(3) by (subst e3(1), subst e2(1), subst e1(1)) (simp add: TWO32_def ac_simps)
  moreover have "rate * dt = cd * (of_int n * TWO32) * (1 + e4) * (1 + e5) * (1 + e6)"
    using assms(2) by (subst e6(1), subst e5(1), subst e4(1)) (simp add: ac_simps)
  ultimately have "\<bar>P - 1\<bar> \<le> 7 / 2 ^ 53" "rate * dt = ths * c * P * dt" by (simp_all only: P_def ac_simps mult_1)
  then have "\<bar>P - 1\<bar> \<le> 7 / 2 ^ 53" "rate = ths * c * P" using assms(2) by simp_all
  moreover from this(2) have "rate - ths * c = ths * c * (P - 1)" by (simp add: algebra_simps)
  ultimately show ?thesis
    using mult_left_mono [of "\<bar>P - 1\<bar>" "7 / 2 ^ 53" "\<bar>ths * c\<bar>"] by (simp add: abs_mult)
qed

text \<open>
  C30. Calibration solves for the rate entered: after \<open>ths\<close> TH/s is set for the tracked wallet, the
  measurement of the same samples is marked as calibrated and shows that rate up to seven units of
  relative rounding error.
\<close>

theorem calibration_solves_rate:
  assumes "parseFloat_js (JStr box) = Some ths" and "0 < ths"
    and "measure_js s (da_mode s) (da_wallet s) = Some live" and "ms_shares live \<le> 2 ^ 53"
  shows "\<exists>m. measure_js (calibSet now box s) (da_mode s) (da_wallet s) = Some m \<and> ms_calibrated m \<and>
    \<bar>ms_rate m - ths * 10 ^ 12\<bar> \<le> ths * 10 ^ 12 * (7 / 2 ^ 53)"
proof -
  obtain h where h: "da_history s (key (da_mode s) (da_wallet s)) = Some h" "\<not> length h < 2"
    using assms(3) by (auto simp: measure_js_def measure_history_def split: option.splits if_splits)
  define r where "r = rateOver h MEASURE_MS"
  have few: "\<not> too_few r" and sh: "ms_shares live = rt_shares r" "ms_dt live = rt_dt r"
    using assms(3) h
    by (auto simp: measure_js_def measure_history_def r_def Let_def calibrated_def measured_def
        split: option.splits if_splits)
  have pos: "0 < rt_dt r" "0 < rt_shares r" using few by (simp_all add: too_few_def MIN_SECONDS_def MIN_SHARES_def)
  define cd where "cd = js_div (js_mul (js_mul ths (10 ^ 12)) (rt_dt r)) (js_mul (of_int (rt_shares r)) TWO32)"
  have "0 < cd" using pos assms(2) by (simp add: cd_def js_div_def js_mul_def TWO32_def fl_pos)
  have k: "da_history (calibSet now box s) = da_history s" "da_calib (calibSet now box s) = (da_calib s)(da_wallet s \<mapsto> cd)"
    using assms(1,2,3)
    by (simp_all add: calibSet_def Let_def toast_def saveJSON_def render_def sh cd_def split: option.split prod.split)
  have "measure_js (calibSet now box s) (da_mode s) (da_wallet s) = Some (calibrated r cd)"
    using h few \<open>0 < cd\<close> by (simp add: measure_js_def measure_history_def k r_def Let_def)
  moreover have "ms_calibrated (calibrated r cd)" by (simp add: calibrated_def Let_def)
  moreover have "\<bar>ms_rate (calibrated r cd) - ths * 10 ^ 12\<bar> \<le> \<bar>ths * 10 ^ 12\<bar> * (7 / 2 ^ 53)"
    by (rule calibration_error [OF assms(2) pos _ cd_def]) (use assms(4) sh in \<open>simp_all add: calibrated_def Let_def\<close>)
  ultimately show ?thesis using assms(2) by simp
qed

theorem calibration_solves_rate_witness:
  "\<exists>m. measure_js (calibSet 0 ''2.5'' (measured_page\<lparr>da_mode := ''solo'', da_wallet := ''tar1q''\<rparr>)) ''solo'' ''tar1q'' = Some m \<and>
    ms_calibrated m \<and> \<bar>ms_rate m - 2500000000000\<bar> \<le> 2500000000000 * (7 / 2 ^ 53)"
proof -
  define s where "s = measured_page\<lparr>da_mode := ''solo'', da_wallet := ''tar1q''\<rparr>"
  obtain m where m: "measure_history None (Some measured_samples) = Some m" "ms_shares m = 6"
    by (rule measured_samples_value)
  then have "measure_js s (da_mode s) (da_wallet s) = Some m"
    by (simp add: s_def measure_js_def measured_page_history measured_page_calib)
  moreover have "parseFloat_js (JStr ''2.5'') = Some (5 / 2)" by code_simp
  ultimately show ?thesis
    using calibration_solves_rate [of "''2.5''" "5 / 2" s m 0] m(2) by (simp add: s_def)
qed

section \<open>Headers of the chain\<close>

definition window_heights :: "int \<Rightarrow> int list" where
  \<comment> \<open>the heights the charts cover, the newest first\<close>
  "window_heights tip = rev [max 1 (tip - CHAIN_SPAN + 1)..tip]"

definition answers_headers :: "(int \<Rightarrow> exn + jsv) \<Rightarrow> int \<Rightarrow> bool" where
  \<comment> \<open>the API answers every height of the window with a header\<close>
  "answers_headers ask tip \<longleftrightarrow>
     list_all (\<lambda>h. case ask h of Inl _ \<Rightarrow> False | Inr b \<Rightarrow> header_view b \<noteq> None) (window_heights tip)"

lemma missing_headers_alt: "missing_headers tip c = filter (\<lambda>h. map_get c h = None) (window_heights tip)"
  by (simp add: missing_headers_def window_heights_def)

lemma fill_loop_keys:
  "list_all (\<lambda>h. case ask h of Inl _ \<Rightarrow> False | Inr b \<Rightarrow> header_view b \<noteq> None) hs \<Longrightarrow>
   map_get (snd (fill_loop ask hs c)) h = None \<longleftrightarrow> map_get c h = None \<and> h \<notin> set hs"
proof (induction hs arbitrary: c)
  case (Cons x hs)
  then obtain b v where b: "ask x = Inr b" "header_view b = Some v" by (auto split: sum.splits)
  with Cons show ?case by (auto simp: case_prod_beta cache_header_def)
qed simp

lemma prune_keeps: "tip - CHAIN_SPAN * 3 \<le> h \<Longrightarrow> map_get (prune_headers tip c) h = map_get c h"
  unfolding prune_headers_def by (induction c) (auto simp: case_prod_beta)

lemma filter_not_in_take:
  "distinct xs \<Longrightarrow> filter (\<lambda>x. P x \<and> x \<notin> set (take n (filter P xs))) xs = drop n (filter P xs)"
proof (induction xs arbitrary: n)
  case (Cons x xs)
  show ?case
  proof (cases "P x")
    case True
    show ?thesis
    proof (cases n)
      case (Suc m)
      have "filter (\<lambda>y. P y \<and> y \<noteq> x \<and> y \<notin> set (take m (filter P xs))) xs =
          filter (\<lambda>y. P y \<and> y \<notin> set (take m (filter P xs))) xs"
        using Cons.prems by (intro filter_cong) auto
      with Cons True Suc show ?thesis by simp
    qed (simp add: True)
  next
    case False
    have "x \<notin> set (take n (filter P xs))" using False by (auto dest: in_set_takeD)
    with False Cons show ?thesis by simp
  qed
qed simp

lemma fill_cache_missing:
  assumes "answers_headers ask tip"
  shows "missing_headers tip (snd (fill_cache ask tip c)) = drop CHAIN_PER_POLL (missing_headers tip c)"
proof -
  define hs where "hs = take CHAIN_PER_POLL (missing_headers tip c)"
  have "set hs \<subseteq> set (window_heights tip)" by (auto simp: hs_def missing_headers_alt dest: in_set_takeD)
  with assms have ok: "list_all (\<lambda>h. case ask h of Inl _ \<Rightarrow> False | Inr b \<Rightarrow> header_view b \<noteq> None) hs"
    unfolding answers_headers_def list_all_iff by blast
  have "map_get (snd (fill_cache ask tip c)) h = None \<longleftrightarrow> map_get c h = None \<and> h \<notin> set hs"
    if "h \<in> set (window_heights tip)" for h
    using that fill_loop_keys [OF ok, of c h]
    by (simp add: fill_cache_def case_prod_beta hs_def [symmetric] prune_keeps window_heights_def CHAIN_SPAN_def)
  then have "missing_headers tip (snd (fill_cache ask tip c)) =
      filter (\<lambda>h. map_get c h = None \<and> h \<notin> set hs) (window_heights tip)"
    unfolding missing_headers_alt by (intro filter_cong) auto
  also have "\<dots> = drop CHAIN_PER_POLL (missing_headers tip c)"
    unfolding hs_def missing_headers_alt by (rule filter_not_in_take) (simp add: window_heights_def)
  finally show ?thesis .
qed

fun fill_polls :: "(int \<Rightarrow> exn + jsv) \<Rightarrow> int \<Rightarrow> nat \<Rightarrow> dash \<Rightarrow> dash" where
  \<comment> \<open>network polls, one a minute, with the chain at the same tip\<close>
  "fill_polls ask tip 0 s = s"
| "fill_polls ask tip (Suc n) s = fillBlockCache ask tip (fill_polls ask tip n s)"

lemma fill_polls_missing:
  "answers_headers ask tip \<Longrightarrow>
   missing_headers tip (da_blockCache (fill_polls ask tip n s)) =
     drop (CHAIN_PER_POLL * n) (missing_headers tip (da_blockCache s))"
proof (induction n)
  case (Suc n)
  have "da_blockCache (fillBlockCache ask tip x) = snd (fill_cache ask tip (da_blockCache x))" for x
    by (simp add: fillBlockCache_def saveJSON_def case_prod_beta Let_def)
  with Suc show ?case by (simp add: fill_cache_missing add.commute)
qed simp

lemma missing_at_most: "length (missing_headers tip c) \<le> 40"
  using length_filter_le [of "\<lambda>h. map_get c h = None" "window_heights tip"]
  by (simp add: missing_headers_alt window_heights_def CHAIN_SPAN_def)

text \<open>
  C31. While the API answers, every network poll brings the newest six missing headers, so that
  \<open>n\<close> polls leave all but the first \<open>6 n\<close> of the missing ones, seven polls fill the charts from any
  cache, and no header of the charts is ever thrown away.
\<close>

theorem block_cache_fills:
  assumes "answers_headers ask tip"
  shows "missing_headers tip (da_blockCache (fill_polls ask tip n s)) =
      drop (6 * n) (missing_headers tip (da_blockCache s)) \<and>
    (7 \<le> n \<longrightarrow> missing_headers tip (da_blockCache (fill_polls ask tip n s)) = [])"
proof -
  have "missing_headers tip (da_blockCache (fill_polls ask tip n s)) =
      drop (6 * n) (missing_headers tip (da_blockCache s))"
    using fill_polls_missing [OF assms] by (simp add: CHAIN_PER_POLL_def)
  then show ?thesis using missing_at_most [of tip "da_blockCache s"] by auto
qed

theorem block_cache_fills_witness:
  "length (missing_headers 100 (da_blockCache (fill_polls (\<lambda>h. Inr (JObj [(''time'', JInt h)])) 100 2 (load 0 no_storage [])))) = 28 \<and>
   missing_headers 100 (da_blockCache (fill_polls (\<lambda>h. Inr (JObj [(''time'', JInt h)])) 100 7 (load 0 no_storage []))) = []"
proof -
  have "answers_headers (\<lambda>h. Inr (JObj [(''time'', JInt h)])) 100" by code_simp
  note f = block_cache_fills [OF this, of _ "load 0 no_storage []"]
  have "length (missing_headers 100 (da_blockCache (load 0 no_storage []))) = 40" by code_simp
  with f [of 2] f [of 7] show ?thesis by simp
qed

section \<open>Rollups\<close>

definition roll_polls :: "(int \<times> dworker) list \<Rightarrow> rollup list \<Rightarrow> rollup list" where
  "roll_polls polls r = foldl (\<lambda>r (now, w). roll_row w now r) r polls"

lemma roll_polls_length:
  "r \<noteq> [] \<Longrightarrow> successively (\<lambda>a b. b - a < ROLL_MS) (ro_t (last r) # map fst polls) \<Longrightarrow>
   length (roll_polls polls r) = length r"
proof (induction polls arbitrary: r)
  case (Cons x polls)
  obtain now w where x: "x = (now, w)" by (cases x)
  have "now - ro_t (last r) < ROLL_MS" using Cons.prems(2) x by simp
  then have r: "length (roll_row w now r) = length r" "ro_t (last (roll_row w now r)) = now"
    using Cons.prems(1) by (simp_all add: roll_row_def)
  moreover have "roll_row w now r \<noteq> []" using r(1) Cons.prems(1) by auto
  moreover have "successively (\<lambda>a b. b - a < ROLL_MS) (now # map fst polls)" using Cons.prems(2) x by simp
  ultimately show ?case using Cons.IH [of "roll_row w now r"] by (simp add: roll_polls_def x)
qed (simp add: roll_polls_def)

text \<open>
  C39. While the polls of a watched address are less than a minute apart, which the five seconds of
  the timer give, no second rollup is ever begun, because every update moves the time of the current
  one: the longer charts of a page that was opened on an empty storage only ever show the raw samples,
  the last half hour.
\<close>

theorem rollups_never_advance:
  assumes "successively (\<lambda>a b. b - a < 60000) (map fst polls)"
  shows "length (roll_polls polls []) \<le> 1 \<and>
    series_rows h (roll_polls polls []) now rangeMs = (True, filter (\<lambda>x. now - rangeMs \<le> rw_t x) (map sample_row h))"
proof -
  have "length (roll_polls polls []) \<le> 1"
  proof (cases polls)
    case (Cons x ps)
    obtain t w where x: "x = (t, w)" by (cases x)
    have "length (roll_row w t []) = 1" "ro_t (last (roll_row w t [])) = t"
      by (simp_all add: roll_row_def last_of_def ROLL_KEEP_def)
    with roll_polls_length [of "roll_row w t []" ps] assms Cons x show ?thesis
      by (fastforce simp: roll_polls_def ROLL_MS_def)
  qed (simp add: roll_polls_def)
  moreover from this have "length (filter P (map rollup_row (roll_polls polls []))) < 2" for P
    by (intro le_less_trans [OF length_filter_le]) simp
  ultimately show ?thesis by (simp add: series_rows_def Let_def)
qed

theorem rollups_never_advance_witness:
  "length (roll_polls (map (\<lambda>n. (5000 * int n, sample_worker (int n))) [0..<50]) []) \<le> 1"
proof -
  have "successively (\<lambda>a b. b - a < 60000) (map fst (map (\<lambda>n. (5000 * int n, sample_worker (int n))) [0..<50]))"
    by (simp add: upt_conv_Cons numeral_eq_Suc)
  from rollups_never_advance [OF this] show ?thesis by blast
qed

section \<open>The pool's statistics\<close>

lemma workers_view_stats:
  "workers_view (js_entries (stats_json ws)) =
     Some (map (\<lambda>(a, s). (a, \<lparr>dw_shares = int (ws_shares s), dw_lastSeen = ws_lastSeen s,
                               dw_difficulty = ws_difficulty s\<rparr>)) ws)"
proof -
  have "worker_view (stat_json s) = Some \<lparr>dw_shares = int (ws_shares s), dw_lastSeen = ws_lastSeen s,
      dw_difficulty = ws_difficulty s\<rparr>" for s
    by (cases "ws_difficulty s") (simp_all add: worker_view_def stat_json_def opt_field_def)
  then show ?thesis by (induction ws) (auto simp: stats_json_def)
qed

definition readable :: "response \<Rightarrow> bool" where
  \<comment> \<open>the dashboard can read the body of a successful answer\<close>
  "readable r \<longleftrightarrow> (fst r = 200 \<longrightarrow> stats_view (snd r) \<noteq> None)"

definition cache_readable :: "'x world \<Rightarrow> bool" where
  "cache_readable w = (case w_poolStatsCache w of None \<Rightarrow> True | Some body \<Rightarrow> stats_view body \<noteq> None)"

interpretation cr: service_inv cache_readable
  by unfold_locales (simp_all add: cache_readable_def)

lemma ok_respond_readable: "(status = 200 \<Longrightarrow> stats_view body \<noteq> None) \<Longrightarrow> io_ok I (respond status body) readable"
  by (simp add: respond_def ok_return readable_def)

lemma stats_view_body:
  "js_prop_opt body ''workers'' = stats_json ws \<Longrightarrow> stats_view body \<noteq> None"
  by (simp add: stats_view_def workers_view_stats)

lemma ok_internal_error: "io_ok I internal_error readable"
  by (simp add: internal_error_def ok_respond_readable)

lemma ok_get_obj: "io_ok I (get_obj i) anything"
  by (simp add: io_ok_def get_obj_run)

lemma ok_pool_live_scan: "io_ok cache_readable (pool_live_scan sv ms acc ws) anything"
proof (induction sv ms acc ws rule: pool_live_scan.induct)
  case (2 sv name i ms acc ws)
  then show ?case
    by (simp only: pool_live_scan.simps Let_def)
      (intro cr.service_ok ok_get_obj anythingI; simp add: Let_def)
qed (simp add: ok_return)

lemma ok_live_scan: "io_ok cache_readable (live_scan sv ms acc) anything"
proof (induction sv ms acc rule: live_scan.induct)
  case (2 sv name i ms acc)
  then show ?case
    by (simp only: live_scan.simps Let_def)
      (intro cr.service_ok ok_get_obj anythingI; simp add: Let_def)
qed (simp add: ok_return)

lemma ok_pool_stats_fresh:
  assumes "others_keep (\<lambda>w w'. cache_readable w \<longrightarrow> cache_readable w') sv"
  shows "io_ok cache_readable (pool_stats_fresh sv) readable"
  unfolding pool_stats_fresh_def pool_blocks_def Let_def
  by (intro cr.service_ok ok_modify ok_pool_live_scan ok_respond_readable assms anythingI)
    (simp_all add: cache_readable_def stats_view_body)

lemma ok_api_pool_stats:
  assumes "others_keep (\<lambda>w w'. cache_readable w \<longrightarrow> cache_readable w') sv"
  shows "io_ok cache_readable (api_pool_stats sv) readable"
proof -
  have get: "io_ok cache_readable (io_get w_poolStatsCache) (\<lambda>c. case c of None \<Rightarrow> True | Some b \<Rightarrow> stats_view b \<noteq> None)"
    by (rule ok_get) (simp add: cache_readable_def)
  have use: "io_ok cache_readable
      (case c of
         None \<Rightarrow> pool_stats_fresh sv
       | Some body \<Rightarrow>
           io_bind (date_now sv) (\<lambda>now.
           io_bind (io_get w_poolStatsCacheTime) (\<lambda>cachedAt.
             if now - cachedAt < STATS_CACHE_TTL then respond 200 body else pool_stats_fresh sv))) readable"
    if "case c of None \<Rightarrow> True | Some b \<Rightarrow> stats_view b \<noteq> None" for c
    using that
    by (cases c) (auto intro!: ok_pool_stats_fresh assms ok_bind_any cr.ok_now ok_get ok_if ok_respond_readable)
  have "stats_view (JObj [(''status'', JStr ''offline''), (''workers'', JObj []), (''totalShares'', JNum 0),
      (''blocksFound'', JArr []), (''poolHashrate'', JNum 0)]) \<noteq> None"
    by (simp add: stats_view_def)
  then show ?thesis unfolding api_pool_stats_def
    by (intro ok_catch ok_bind_any [of _ "io_get w_redis"] ok_get [where Q = anything] ok_if ok_respond_readable
        ok_bind [OF get use] ok_internal_error anythingI)
qed

lemma ok_api_solo_stats:
  assumes "others_keep (\<lambda>w w'. cache_readable w \<longrightarrow> cache_readable w') sv"
  shows "io_ok cache_readable (api_solo_stats sv) readable"
  unfolding api_solo_stats_def
  by (intro cr.service_ok ok_live_scan ok_respond_readable ok_internal_error assms anythingI)
    (simp_all add: stats_view_body)

text \<open>
  C32. Every successful answer of the pool's two statistics endpoints has the shape the dashboard
  reads, whatever Redis and the node do, as long as the statistics cache holds such a body, which the
  endpoints themselves maintain; and the dashboard then takes it over.
\<close>

theorem dashboard_reads_pool:
  assumes "others_keep (\<lambda>w w'. cache_readable w \<longrightarrow> cache_readable w') sv" and "cache_readable w"
    and "endpoint = api_pool_stats sv \<or> endpoint = api_solo_stats sv"
  shows "cache_readable (snd (endpoint w)) \<and>
    (fst (endpoint w) = Inr (200, body) \<longrightarrow>
      (\<exists>d. stats_view body = Some d \<and>
        da_stats (fetchPool m now (Inr d) None s) m = Some d \<and> \<not> da_failed (fetchPool m now (Inr d) None s) m))"
proof -
  have "io_ok cache_readable endpoint readable"
    using assms(3) ok_api_pool_stats [OF assms(1)] ok_api_solo_stats [OF assms(1)] by blast
  moreover have "da_stats (fetchPool m now (Inr d) None s) m = Some d" "\<not> da_failed (fetchPool m now (Inr d) None s) m" for d
    by (simp_all add: fetchPool_def Let_def)
  ultimately show ?thesis using assms(2) by (auto simp: io_ok_def readable_def)
qed

theorem dashboard_reads_pool_witness:
  "\<exists>body d. fst (api_solo_stats (mem_services (\<lambda>_ _. JNull)) mem_world) = Inr (200, body) \<and> stats_view body = Some d"
proof -
  have "case fst (api_solo_stats (mem_services (\<lambda>_ _. JNull)) mem_world) of Inl _ \<Rightarrow> False | Inr r \<Rightarrow> fst r = 200"
    by code_simp
  then obtain body where "fst (api_solo_stats (mem_services (\<lambda>_ _. JNull)) mem_world) = Inr (200, body)"
    by (auto split: sum.splits)
  moreover have "others_keep (\<lambda>w w'. cache_readable w \<longrightarrow> cache_readable w') (mem_services (\<lambda>_ _. JNull))"
    by (simp add: others_keep_def mem_services_def)
  moreover have "cache_readable mem_world" by (simp add: cache_readable_def mem_world_def)
  ultimately show ?thesis
    using dashboard_reads_pool [of "mem_services (\<lambda>_ _. JNull)" mem_world "api_solo_stats (mem_services (\<lambda>_ _. JNull))" body]
    by blast
qed

section \<open>Names\<close>

lemma tar_match_agrees:
  assumes "CHR ''_'' \<notin> set (takeWhile (\<lambda>c. c \<noteq> CHR ''.'') s)"
  shows "split_tar_match s = tar_match s"
proof -
  have "list_all (\<lambda>c. alnum_char c \<or> c = CHR ''_'' \<or> c = CHR ''-'') (takeWhile (\<lambda>c. c \<noteq> CHR ''.'') s) =
      list_all (\<lambda>c. alnum_char c \<or> c = CHR ''-'') (takeWhile (\<lambda>c. c \<noteq> CHR ''.'') s)"
    using assms by (auto simp: list_all_iff)
  then show ?thesis by (simp add: split_tar_match_def tar_match_def)
qed

text \<open>
  The dashboard and the pool read a worker name as the same wallet, and as the same rig but for the
  word that stands for a missing one, if the name has no underscore before its first dot.
\<close>

lemma names_agree:
  assumes "CHR ''_'' \<notin> set (takeWhile (\<lambda>c. c \<noteq> CHR ''.'') (js_trim x))"
  shows "fst (splitMinerWorker (JStr x)) = pw_wallet (parseMinerWorker (JStr x)) \<and>
    (snd (splitMinerWorker (JStr x)) = pw_worker (parseMinerWorker (JStr x)) \<or>
     snd (splitMinerWorker (JStr x)) = ''(unnamed)'' \<and> pw_worker (parseMinerWorker (JStr x)) = ''default'')"
  using tar_match_agrees [OF assms]
  by (simp add: splitMinerWorker_def parseMinerWorker_def Let_def split: option.split prod.split)

text \<open>
  With an underscore they differ: the pool files the shares of \<open>my_rig.tar.w1\<close> under \<open>my_rig\<close>, and
  the dashboard its blocks under \<open>my_rig.tar\<close>.
\<close>

lemma names_differ_underscore:
  "pw_wallet (parseMinerWorker (JStr ''my_rig.tar.w1'')) = ''my_rig'' \<and>
   fst (splitMinerWorker (JStr ''my_rig.tar.w1'')) = ''my_rig.tar''"
  by code_simp

section \<open>Escaping\<close>

text \<open>No text that is put into the page through \<open>esc\<close> can open a tag or end an attribute.\<close>

lemma esc_char_plain: "list_all (\<lambda>c. c \<noteq> CHR ''<'' \<and> c \<noteq> CHR ''>'' \<and> c \<noteq> CHR 0x22) (esc_char c)"
  by (simp add: esc_char_def)

lemma esc_plain: "list_all (\<lambda>c. c \<noteq> CHR ''<'' \<and> c \<noteq> CHR ''>'' \<and> c \<noteq> CHR 0x22) (esc v)"
  unfolding esc_def by (induction "js_tostring v") (use esc_char_plain in \<open>auto simp: list_all_iff\<close>)

lemma esc_char_prefix: "esc_char c @ xs = esc_char d @ ys \<Longrightarrow> c = d \<and> xs = ys"
  by (auto simp: esc_char_def split: if_splits)

text \<open>And what is shown is the text itself: different texts are escaped differently.\<close>

lemma esc_injective: "esc (JStr s) = esc (JStr t) \<Longrightarrow> s = t"
proof (induction s arbitrary: t)
  case Nil
  then show ?case by (cases t) (auto simp: esc_def esc_char_def split: if_splits)
next
  case (Cons c s)
  obtain d t' where t: "t = d # t'"
    using Cons.prems by (cases t) (auto simp: esc_def esc_char_def split: if_splits)
  with Cons.prems have "esc_char c @ esc (JStr s) = esc_char d @ esc (JStr t')" by (simp add: esc_def)
  from esc_char_prefix [OF this] Cons.IH t show ?case by blast
qed

section \<open>A late answer\<close>

definition late_page :: dash where
  \<comment> \<open>alice's domain was tracked first and its check answers after bob's wallet was entered\<close>
  "late_page =
     poll_done 7000 7000 7000 7000
       (fetchPool ''solo'' 6500
          (Inr \<lparr>st_workers = [],
                st_blocksFound = [\<lparr>db_worker = JStr ''alice.tar.rig'', db_height = JNum 7, db_time = Some 6000\<rparr>],
                st_apiMiner = None\<rparr>) None
         (validate_done 6000
            (validate_result ''alice.tar'' (\<lambda>_. Inr (JObj [(''targetAddress'', JStr ''tar1qalice'')])) (\<lambda>_. Inl []) (\<lambda>_. Inl []))
           (validate_done 5000
              (validate_result ''tar1qbob'' (\<lambda>_. Inl []) (\<lambda>_. Inl []) (\<lambda>_. Inr (JObj [(''valid'', JBool True)])))
             (setWallet 2000 ''tar1qbob'' (setWallet 1000 ''alice.tar'' (load 0 no_storage []))))))"

text \<open>
  The check of an address writes its result without looking at the wallet now tracked, and the test
  for an own block does not compare the two: on a page that tracks bob's wallet, a late answer for
  alice's domain makes it announce alice's block as bob's.
\<close>

lemma late_validation_claims_block:
  "dash_reach (load 0 no_storage []) late_page \<and> da_wallet late_page = ''tar1qbob'' \<and>
   announced (da_toasts late_page) = [JNum 7] \<and> fst (splitMinerWorker (JStr ''alice.tar.rig'')) = ''alice.tar''"
proof -
  have "dash_reach (load 0 no_storage []) late_page"
    unfolding late_page_def
    by (intro dash_reach.step [OF _ dash_step.poll_done] dash_reach.step [OF _ fetched_pool]
        dash_reach.step [OF _ validated] dash_reach.step [OF _ set_wallet] start)
  moreover have "da_wallet late_page = ''tar1qbob'' \<and> announced (da_toasts late_page) = [JNum 7] \<and>
      fst (splitMinerWorker (JStr ''alice.tar.rig'')) = ''alice.tar''"
    by code_simp
  ultimately show ?thesis by blast
qed

end
