(* ===== verification/Website_Pages.thy ===== *)
theory Website_Pages
  imports Explorer_Frontend Website
begin

text \<open>
  The pages of the website (\<open>website/app\<close>) that keep state and call a service: message verification,
  the faucet form, the rich list, the network status, the transparency ledger, the statistics bar of
  the home page and the download buttons.  A page is a record of its state cells, and what a request
  ends with is an argument, as in \<open>Explorer_Frontend\<close>.  The lemmas join the pages with the services
  they call.
\<close>

section \<open>Message verification\<close>

record verify_page =
  vp_address :: string
  vp_message :: string
  vp_signature :: string
  vp_result :: "bool option"
  vp_loading :: bool

definition verify_request :: "verify_page \<Rightarrow> web_request option" where
  \<comment> \<open>the request of \<open>handleVerify\<close>, if all three fields are filled in\<close>
  "verify_request p =
     (if js_trim (vp_address p) = [] \<or> js_trim (vp_message p) = [] \<or> js_trim (vp_signature p) = [] then None
      else Some \<lparr>rq_method = ''POST'', rq_path = [''api'', ''wallet'', ''verify''], rq_query = (\<lambda>_. None),
        rq_body = JObj [(''address'', JStr (js_trim (vp_address p))), (''message'', JStr (js_trim (vp_message p))),
                        (''signature'', JStr (js_trim (vp_signature p)))]\<rparr>)"

definition verify_start :: "verify_page \<Rightarrow> verify_page" where
  "verify_start p = (if verify_request p = None then p else p\<lparr>vp_loading := True, vp_result := None\<rparr>)"

definition verify_valid :: "fetched \<Rightarrow> bool" where
  \<comment> \<open>whether the answer makes the page say \<open>valid\<close>\<close>
  "verify_valid r =
     (case r of
        Inl _ \<Rightarrow> False
      | Inr (status, body) \<Rightarrow>
          http_ok status \<and>
          (case res_bind body (\<lambda>data. js_prop data ''valid'') of Inl _ \<Rightarrow> False | Inr v \<Rightarrow> truthy v))"

definition verify_done :: "fetched \<Rightarrow> verify_page \<Rightarrow> verify_page" where
  "verify_done r p = p\<lparr>vp_result := Some (verify_valid r), vp_loading := False\<rparr>"

definition verify_clear :: "verify_page \<Rightarrow> verify_page" where
  "verify_clear p = p\<lparr>vp_address := [], vp_message := [], vp_signature := [], vp_result := None\<rparr>"

section \<open>The faucet form\<close>

record faucet_page =
  fp_address :: string
  fp_loading :: bool
  fp_error :: string
  fp_success :: "(jsv \<times> jsv) option"
  fp_token :: string

definition faucet_check :: "faucet_page \<Rightarrow> string" where
  \<comment> \<open>the message of the first check that fails, empty if none does\<close>
  "faucet_check p =
     (if fp_address p = [] then ''Please enter a Tarcoin address.''
      else if \<not> startsWith (fp_address p) ''tar1'' \<and> \<not> startsWith (fp_address p) ''T''
      then ''Invalid format. Addresses must start with 'tar1' or 'T'.''
      else if fp_token p = [] then ''Please complete the bot verification check.'' else [])"

definition faucet_submit :: "faucet_page \<Rightarrow> jsv option \<times> faucet_page" where
  \<comment> \<open>\<open>handleSubmit\<close> up to the request, with the body it posts\<close>
  "faucet_submit p =
     (let e = faucet_check p; p1 = p\<lparr>fp_error := e, fp_success := None\<rparr>
      in if e \<noteq> [] then (None, p1)
         else (Some (JObj [(''address'', JStr (fp_address p)), (''token'', JStr (fp_token p))]), p1\<lparr>fp_loading := True\<rparr>))"

definition message_or :: "string \<Rightarrow> string \<Rightarrow> string" where
  "message_or e d = (if e \<noteq> [] then e else d)"

definition faucet_done :: "fetched \<Rightarrow> faucet_page \<Rightarrow> faucet_page" where
  \<comment> \<open>the body is read before the status is looked at\<close>
  "faucet_done r p =
     (let failed = (\<lambda>e. p\<lparr>fp_error := message_or e ''Network error. Make sure the API is accessible.'', fp_loading := False\<rparr>)
      in case r of
           Inl e \<Rightarrow> failed e
         | Inr (status, Inl e) \<Rightarrow> failed e
         | Inr (status, Inr data) \<Rightarrow>
             if nullish data then failed type_error
             else if \<not> http_ok status then
               failed (js_tostring (js_or (js_prop_opt data ''error'') (JStr ''Failed to claim TAR. Please try again later.'')))
             else p\<lparr>fp_success := Some (js_prop_opt data ''amount'', js_prop_opt data ''txid''), fp_address := [], fp_loading := False\<rparr>)"

section \<open>The rich list\<close>

record holder =
  ho_rank :: int
  ho_address :: string
  ho_balance :: rat

record rich_page =
  rp_richList :: "holder list"
  rp_totalWallets :: "rat option"
  rp_loading :: bool
  rp_showAll :: bool

definition holder_of :: "jsv \<Rightarrow> holder" where
  \<comment> \<open>an entry as the indexer writes it\<close>
  "holder_of v =
     \<lparr>ho_rank = \<lfloor>num_or0 (js_prop_opt v ''rank'')\<rfloor>, ho_address = js_tostring (js_prop_opt v ''address''),
      ho_balance = num_or0 (js_prop_opt v ''balance'')\<rparr>"

definition rich_done :: "exn + jsv \<Rightarrow> rich_page \<Rightarrow> rich_page" where
  "rich_done r p =
     (case r of
        Inl _ \<Rightarrow> p\<lparr>rp_loading := False\<rparr>
      | Inr data \<Rightarrow>
          let p1 = (if truthy (js_prop_opt data ''top_addresses'')
                    then p\<lparr>rp_richList := map holder_of (js_array (js_prop_opt data ''top_addresses''))\<rparr> else p);
              p2 = (if truthy (js_prop_opt data ''total_wallets'')
                    then p1\<lparr>rp_totalWallets := js_num_opt (js_prop_opt data ''total_wallets'')\<rparr> else p1)
          in p2\<lparr>rp_loading := False\<rparr>)"

definition TREASURY_LIMIT :: rat where "TREASURY_LIMIT = 1000000000"

definition treasuryEntry :: "rich_page \<Rightarrow> holder option" where
  "treasuryEntry p = find (\<lambda>h. TREASURY_LIMIT < ho_balance h) (rp_richList p)"

definition treasuryBalance :: "rich_page \<Rightarrow> int option" where
  "treasuryBalance p = map_option (\<lambda>h. math_round (ho_balance h)) (treasuryEntry p)"

definition treasuryPercent :: "rich_page \<Rightarrow> string option" where
  "treasuryPercent p =
     (case treasuryBalance p of
        Some b \<Rightarrow> if b \<noteq> 0 then Some (fixed_string 2 (js_mul (js_div (of_int b) 50000000000) 100)) else None
      | None \<Rightarrow> None)"

definition minerList :: "rich_page \<Rightarrow> holder list" where
  "minerList p = filter (\<lambda>h. ho_balance h \<le> TREASURY_LIMIT) (rp_richList p)"

definition displayList :: "rich_page \<Rightarrow> (nat \<times> holder) list" where
  \<comment> \<open>the rows with the number printed before them\<close>
  "displayList p =
     (let l = (if rp_showAll p then minerList p else take 20 (minerList p)) in zip [1..<Suc (length l)] l)"

definition holder_percent :: "holder \<Rightarrow> string" where
  "holder_percent h = fixed_string 4 (js_mul (js_div (ho_balance h) 50000000000) 100) @ ''%''"

definition toggle_all :: "rich_page \<Rightarrow> rich_page" where
  "toggle_all p = p\<lparr>rp_showAll := \<not> rp_showAll p\<rparr>"

section \<open>Network status and the statistics bar\<close>

definition web_formatHashrate :: "string \<Rightarrow> rat \<Rightarrow> string" where
  \<comment> \<open>of the network page and of the statistics bar, which differ in the text for zero\<close>
  "web_formatHashrate zero hr =
     (if hr = 0 then zero
      else if hr < 1000 then fixed_string 2 hr @ '' H/s''
      else if hr < 1000000 then fixed_string 2 (js_div hr 1000) @ '' KH/s''
      else if hr < 1000000000 then fixed_string 2 (js_div hr 1000000) @ '' MH/s''
      else if hr < 1000000000000 then fixed_string 2 (js_div hr 1000000000) @ '' GH/s''
      else fixed_string 2 (js_div hr 1000000000000) @ '' TH/s'')"

record network_page =
  np_stats :: jsv
  np_loading :: bool
  np_updated :: bool

definition got_ok :: "fetched \<Rightarrow> bool" where
  \<comment> \<open>\<open>res && res.ok\<close>\<close>
  "got_ok r = (case r of Inl _ \<Rightarrow> False | Inr (status, _) \<Rightarrow> http_ok status)"

definition network_fetchStats :: "fetched \<Rightarrow> fetched \<Rightarrow> network_page \<Rightarrow> network_page" where
  \<comment> \<open>the explorer first, the website's own address when that fails\<close>
  "network_fetchStats first second p =
     (let r = (if got_ok first then first else second)
      in case r of
           Inr (status, Inr data) \<Rightarrow>
             if http_ok status then p\<lparr>np_stats := data, np_updated := True, np_loading := False\<rparr> else p\<lparr>np_loading := False\<rparr>
         | _ \<Rightarrow> p\<lparr>np_loading := False\<rparr>)"

definition np_blockHeight :: "network_page \<Rightarrow> jsv" where
  "np_blockHeight p = fields_or (np_stats p) [''blockHeight'', ''blocks''] (JNum 0)"

definition np_field :: "string \<Rightarrow> network_page \<Rightarrow> jsv" where
  \<comment> \<open>\<open>stats?.f ?? 0\<close> for the hash rate, the difficulty and the connections\<close>
  "np_field k p = fields_or (np_stats p) [k] (JNum 0)"

record stats_bar =
  sb_blockHeight :: jsv
  sb_hashrate :: jsv
  sb_loading :: bool

definition bar_fetchStats :: "fetched \<Rightarrow> stats_bar \<Rightarrow> stats_bar" where
  "bar_fetchStats r p =
     (case r of
        Inr (status, Inr data) \<Rightarrow>
          if http_ok status \<and> \<not> nullish data then
            p\<lparr>sb_blockHeight := fields_or data [''blockHeight'', ''blocks''] (JNum 0),
              sb_hashrate := fields_or data [''hashrate''] (JNum 0), sb_loading := False\<rparr>
          else p\<lparr>sb_loading := False\<rparr>
      | _ \<Rightarrow> p\<lparr>sb_loading := False\<rparr>)"

definition BAR_BLOCK_REWARD :: rat where "BAR_BLOCK_REWARD = 50000"

definition minedSupply :: "stats_bar \<Rightarrow> rat" where
  "minedSupply p = js_mul (num_or0 (sb_blockHeight p)) BAR_BLOCK_REWARD"

section \<open>The transparency ledger\<close>

record ledger_page =
  lp_payouts :: "jsv list"
  lp_balance :: "jsv option"
  lp_coldStorage :: rat
  lp_loading :: bool
  lp_visible :: nat

definition ledger_page0 :: ledger_page where
  "ledger_page0 = \<lparr>lp_payouts = [], lp_balance = None, lp_coldStorage = 9980000000, lp_loading = True, lp_visible = 50\<rparr>"

definition first_treasury :: "jsv \<Rightarrow> jsv option" where
  \<comment> \<open>\<open>richData?.top_addresses?.find(item => item.balance > 1000000000)\<close>\<close>
  "first_treasury rich =
     find (\<lambda>item. TREASURY_LIMIT < num_or0 (js_prop_opt item ''balance'')) (js_array (js_prop_opt rich ''top_addresses''))"

definition fetchLedger :: "exn + jsv \<Rightarrow> fetched \<Rightarrow> ledger_page \<Rightarrow> ledger_page" where
  \<comment> \<open>the ledger's body, whatever its status, and the rich list's answer\<close>
  "fetchLedger ledger rich p =
     (case ledger of
        Inl _ \<Rightarrow> p\<lparr>lp_loading := False\<rparr>
      | Inr data \<Rightarrow>
          if nullish data then p\<lparr>lp_loading := False\<rparr>
          else let p1 = (if truthy (js_prop_opt data ''payouts'') then p\<lparr>lp_payouts := js_array (js_prop_opt data ''payouts'')\<rparr> else p);
                   p2 = (if \<not> nullish (js_prop_opt data ''balance'') then p1\<lparr>lp_balance := Some (js_prop_opt data ''balance'')\<rparr> else p1);
                   p3 = (case rich of
                           Inr (status, Inr d) \<Rightarrow>
                             (case (if http_ok status then first_treasury d else None) of
                                Some e \<Rightarrow> p2\<lparr>lp_coldStorage := of_int (math_round (num_or0 (js_prop_opt e ''balance'')))\<rparr>
                              | None \<Rightarrow> p2)
                         | _ \<Rightarrow> p2)
            in p3\<lparr>lp_loading := False\<rparr>)"

definition shown_payouts :: "ledger_page \<Rightarrow> jsv list" where
  "shown_payouts p = (if lp_loading p then [] else take (lp_visible p) (lp_payouts p))"

definition more_button :: "ledger_page \<Rightarrow> bool" where
  "more_button p \<longleftrightarrow> \<not> lp_loading p \<and> lp_visible p < length (lp_payouts p)"

definition show_more :: "ledger_page \<Rightarrow> ledger_page" where
  "show_more p = p\<lparr>lp_visible := lp_visible p + 50\<rparr>"

section \<open>Downloads\<close>

datatype dl_source = Local | Github | External

record download =
  dl_id :: string
  dl_file :: string
  dl_source :: dl_source

definition PAGE_VERSION :: string where "PAGE_VERSION = ''v1.2.6''"

definition downloads :: "download list" where
  "downloads =
     [\<lparr>dl_id = ''tor-wallet'', dl_file = ''http://ipgjxmhpfgtjgenlx6xuwxd4mrvk6usvilqcs5l3ezg6lqexvnl5z7yd.onion'', dl_source = External\<rparr>,
      \<lparr>dl_id = ''web-wallet'', dl_file = ''https://my-wallet.tarcoin.org'', dl_source = External\<rparr>,
      \<lparr>dl_id = ''android'', dl_file = ''tarcoin-wallet.apk'', dl_source = Local\<rparr>,
      \<lparr>dl_id = ''windows'', dl_file = ''tarcoin-windows-wallet-'' @ PAGE_VERSION @ ''.zip'', dl_source = Github\<rparr>,
      \<lparr>dl_id = ''linux'', dl_file = ''tarcoin-linux-full-'' @ PAGE_VERSION @ ''.zip'', dl_source = Github\<rparr>,
      \<lparr>dl_id = ''cli'', dl_file = ''tarcoin-linux-server-'' @ PAGE_VERSION @ ''.zip'', dl_source = Github\<rparr>,
      \<lparr>dl_id = ''macos'', dl_file = ''tarcoin-macos-app.zip'', dl_source = Github\<rparr>,
      \<lparr>dl_id = ''extension'', dl_file = ''tarcoin-extension.zip'', dl_source = Local\<rparr>]"

definition GITHUB_RELEASE_DL :: string where
  "GITHUB_RELEASE_DL = ''https://github.com/Tarcoin/tarcoin/releases/download/'' @ PAGE_VERSION"

definition download_href :: "download \<Rightarrow> string" where
  \<comment> \<open>where the button leads; the names of the list need no escaping\<close>
  "download_href d =
     (case dl_source d of
        Local \<Rightarrow> if dl_id d = ''extension'' then ''/downloads/'' @ dl_file d else ''/api/download/'' @ dl_file d
      | External \<Rightarrow> dl_file d
      | Github \<Rightarrow> GITHUB_RELEASE_DL @ ''/'' @ dl_file d)"

datatype button = Idle | Downloading | Done

definition download_click :: "download \<Rightarrow> button \<Rightarrow> button \<times> string option" where
  \<comment> \<open>the next state and the address that is opened\<close>
  "download_click d b = (if b \<noteq> Idle then (b, None) else (Downloading, Some (download_href d)))"

definition download_timer :: "bool \<Rightarrow> button \<Rightarrow> button" where
  \<comment> \<open>the first timeout of a click, and the second\<close>
  "download_timer first b = (if first then Done else Idle)"

section \<open>Verification and the REST API\<close>

text \<open>
  C40. The verification page never calls a signature valid: it posts to \<open>/api/wallet/verify\<close>, a path the
  REST API does not serve, so that whatever is entered the answer is 404 and the page shows \<open>invalid\<close>.
\<close>

theorem verify_page_rejects_all:
  assumes "express_matcher matches" and "verify_request p = Some rq"
  shows "\<exists>body. fst (api_handle matches sv rq w) = Inr (404, body) \<and>
    vp_result (verify_done (Inr (404, Inr body)) (verify_start p)) = Some False"
proof -
  have "toLowerCase ''wallet'' = ''wallet''" "toLowerCase ''verify'' = ''verify''" by code_simp+
  then have m: "matches pat [''api'', ''wallet'', ''verify''] = seg_match pat [''api'', ''wallet'', ''verify'']" for pat
    using assms(1) by (simp add: express_matcher_def)
  have rq: "rq_method rq = ''POST''" "rq_path rq = [''api'', ''wallet'', ''verify'']"
    using assms(2) by (auto simp: verify_request_def split: if_splits)
  have "api_handle matches sv rq = api_not_found (CHR ''/'' # js_join ''/'' (rq_path rq))"
    by (simp add: api_handle_def api_routes_def mounted_def blockchain_router_def wallet_router_def mining_router_def
        transactions_router_def rq m)
  then show ?thesis
    by (simp add: api_not_found_def respond_def io_return_def verify_done_def verify_valid_def http_ok_def)
qed

definition sample_verify :: verify_page where
  "sample_verify = \<lparr>vp_address = ''tar1q'', vp_message = ''hello'', vp_signature = ''H+'', vp_result = None, vp_loading = False\<rparr>"

theorem verify_page_rejects_all_witness:
  "verify_request sample_verify \<noteq> None \<and>
   (\<forall>(sv :: unit api_services) w. \<exists>body.
      fst (api_handle seg_match sv (the (verify_request sample_verify)) w) = Inr (404, body) \<and>
      vp_result (verify_done (Inr (404, Inr body)) (verify_start sample_verify)) = Some False)"
proof -
  have "js_trim ''tar1q'' \<noteq> []" "js_trim ''hello'' \<noteq> []" "js_trim ''H+'' \<noteq> []" by code_simp+
  then obtain rq where rq: "verify_request sample_verify = Some rq"
    by (simp add: verify_request_def sample_verify_def)
  have "express_matcher seg_match" by (simp add: express_matcher_def)
  from verify_page_rejects_all [OF this rq] rq show ?thesis by auto
qed

section \<open>The supply on the home page\<close>

lemma reward_at_most: "getCurrentBlockReward (int h) \<le> 50000"
  unfolding reward_value by (simp add: divide_le_eq)

lemma reward_first_era: "h < 400000 \<Longrightarrow> getCurrentBlockReward (int h) = 50000"
  unfolding reward_value by simp

lemma minedSupply_exact:
  assumes "n \<le> 25600000" and "sb_blockHeight p = JInt (int n)"
  shows "minedSupply p = (\<Sum>h = 1..n. 50000)"
proof -
  have "\<bar>int n * 50000\<bar> \<le> 2 ^ 53" using assms(1) by simp
  from fl_of_int [OF this] assms(2) show ?thesis
    by (simp add: minedSupply_def js_mul_def num_or0_def BAR_BLOCK_REWARD_def)
qed

text \<open>
  The mined supply of the statistics bar is never below the sum of the block rewards of the
  schedule, and equal to it exactly below the first halving at height 400,000; from there on the bar
  shows more coins than were mined.
\<close>

lemma stats_bar_supply:
  assumes "n \<le> 25600000" and "sb_blockHeight p = JInt (int n)"
  shows "(\<Sum>h = 1..n. getCurrentBlockReward (int h)) \<le> minedSupply p \<and>
    (minedSupply p = (\<Sum>h = 1..n. getCurrentBlockReward (int h)) \<longleftrightarrow> n < 400000)"
proof (cases "n < 400000")
  case True
  then have "(\<Sum>h = 1..n. getCurrentBlockReward (int h)) = (\<Sum>h = 1..n. 50000)"
    by (intro sum.cong) (simp_all add: reward_first_era)
  with True show ?thesis by (simp add: minedSupply_exact [OF assms])
next
  case False
  have "getCurrentBlockReward (int 400000) < 50000" unfolding reward_value by simp
  with False have "(\<Sum>h = 1..n. getCurrentBlockReward (int h)) < (\<Sum>h = 1..n. 50000)"
    by (intro sum_strict_mono_ex1) (auto simp: reward_at_most intro!: bexI [of _ 400000])
  with False show ?thesis by (simp add: minedSupply_exact [OF assms])
qed

lemma stats_bar_supply_witness:
  "minedSupply \<lparr>sb_blockHeight = JInt (int 400000), sb_hashrate = JNum 0, sb_loading = False\<rparr> \<noteq>
     (\<Sum>h = 1..400000. getCurrentBlockReward (int h))"
  using stats_bar_supply [of 400000 "\<lparr>sb_blockHeight = JInt (int 400000), sb_hashrate = JNum 0, sb_loading = False\<rparr>"] by simp

section \<open>The rich list\<close>

text \<open>
  The two parts of the page are disjoint, and every holder up to the limit has a row once all are
  shown; of the holders above the limit only the first appears anywhere.
\<close>

lemma rich_list_shown:
  assumes "rp_showAll p" and "h \<in> set (rp_richList p)"
  shows "(\<exists>i. (i, h) \<in> set (displayList p)) \<longleftrightarrow> ho_balance h \<le> TREASURY_LIMIT"
proof -
  define l where "l = minerList p"
  have "displayList p = zip [1..<Suc (length l)] l" using assms(1) by (simp add: displayList_def l_def Let_def)
  then have "snd ` set (displayList p) = set l"
    by (metis diff_Suc_1 length_upt list.set_map map_snd_zip)
  moreover have "h \<in> set l \<longleftrightarrow> ho_balance h \<le> TREASURY_LIMIT" using assms(2) by (simp add: l_def minerList_def)
  ultimately show ?thesis by force
qed

lemma treasury_first:
  "treasuryEntry p = Some h \<Longrightarrow> TREASURY_LIMIT < ho_balance h \<and> h \<in> set (rp_richList p) \<and> h \<notin> set (minerList p)"
  by (auto simp: treasuryEntry_def minerList_def find_Some_iff)

lemma second_treasury_hidden:
  \<comment> \<open>two addresses above the limit: the second is in neither part\<close>
  "\<exists>p h. h \<in> set (rp_richList p) \<and> rp_showAll p \<and> treasuryEntry p \<noteq> Some h \<and> (\<forall>i. (i, h) \<notin> set (displayList p))"
proof -
  define a where "a = \<lparr>ho_rank = 1, ho_address = ''a'', ho_balance = 3000000000\<rparr>"
  define b where "b = \<lparr>ho_rank = 2, ho_address = ''b'', ho_balance = 2000000000\<rparr>"
  define p where "p = \<lparr>rp_richList = [a, b], rp_totalWallets = None, rp_loading = False, rp_showAll = True\<rparr>"
  have "treasuryEntry p = Some a" "a \<noteq> b" by (simp_all add: treasuryEntry_def p_def a_def b_def TREASURY_LIMIT_def)
  moreover have "\<not> ho_balance b \<le> TREASURY_LIMIT" by (simp add: b_def TREASURY_LIMIT_def)
  ultimately show ?thesis using rich_list_shown [of p b] by (intro exI [of _ p] exI [of _ b]) (simp add: p_def)
qed

section \<open>The network page and the explorer\<close>

text \<open>The page reads the fields the explorer sends.\<close>

lemma network_page_reads_explorer:
  assumes "\<not> nullish height" "\<not> nullish hashrate" "\<not> nullish difficulty" "\<not> nullish connections"
    and "body = JObj [(''blockHeight'', height), (''difficulty'', difficulty), (''hashrate'', hashrate),
                (''totalSupply'', supply'), (''circulating'', circulating), (''mempool'', mempool),
                (''connections'', connections), (''version'', version), (''lastUpdated'', updated)]"
    and "q = network_fetchStats (Inr (200, Inr body)) second p"
  shows "np_blockHeight q = height \<and> np_field ''hashrate'' q = hashrate \<and> np_field ''difficulty'' q = difficulty \<and>
    np_field ''connections'' q = connections \<and> np_updated q \<and> \<not> np_loading q"
  using assms
  by (simp add: network_fetchStats_def got_ok_def http_ok_def np_blockHeight_def np_field_def fields_or_def)

text \<open>While both addresses fail, the page keeps the figures it has.\<close>

lemma network_page_keeps:
  "\<not> got_ok r1 \<Longrightarrow> \<not> got_ok r2 \<Longrightarrow> np_stats (network_fetchStats r1 r2 p) = np_stats p"
  by (auto simp: network_fetchStats_def got_ok_def split: sum.splits prod.splits)

section \<open>The ledger\<close>

lemma show_more_visible: "lp_visible ((show_more ^^ k) p) = lp_visible p + 50 * k"
  and show_more_payouts: "lp_payouts ((show_more ^^ k) p) = lp_payouts p"
  and show_more_loading: "lp_loading ((show_more ^^ k) p) = lp_loading p"
  by (induction k) (simp_all add: show_more_def)

text \<open>Clicks on the button show the payouts in pieces of fifty until all are shown and it is gone.\<close>

lemma ledger_all_shown:
  assumes "\<not> lp_loading p" and "length (lp_payouts p) \<le> lp_visible p + 50 * k"
  shows "shown_payouts ((show_more ^^ k) p) = lp_payouts p \<and> \<not> more_button ((show_more ^^ k) p)"
  using assms by (simp add: shown_payouts_def more_button_def show_more_visible show_more_payouts show_more_loading)

section \<open>The download buttons and the download route\<close>

text \<open>
  The one file the page takes from the download route is in its table, and the release assets the
  page links are those the route would redirect to.
\<close>

lemma downloads_known:
  "list_all (\<lambda>d. dl_source d = Local \<and> dl_id d \<noteq> ''extension'' \<longrightarrow> map_get FILE_MAP (dl_file d) \<noteq> None) downloads \<and>
   list_all (\<lambda>d. dl_source d = Github \<longrightarrow> dl_file d \<in> set (List.map_filter (\<lambda>(_, e). fe_githubAsset e) FILE_MAP)) downloads \<and>
   GITHUB_RELEASE_DL = GITHUB_RELEASE_BASE"
  by code_simp

lemma download_one_at_a_time: "b \<noteq> Idle \<Longrightarrow> download_click d b = (b, None)"
  by (simp add: download_click_def)

end
