(* ===== verification/Explorer_Figures.thy ===== *)
theory Explorer_Figures
  imports Explorer_Frontend Explorer_Controllers
begin

text \<open>
  The figures the explorer's pages derive from the answers they hold and the way they print them:
  the derived values of the home, mempool, transaction and address pages, ages, sizes, hash rates and
  supplies.  A dash printed for a missing value is \<open>None\<close>.  The lemmas compare the figures with what
  the explorer's endpoints send.
\<close>

section \<open>Printing\<close>

definition seconds_now :: "int \<Rightarrow> int" where
  \<comment> \<open>\<open>Math.floor(Date.now() / 1000)\<close>\<close>
  "seconds_now now = math_floor (js_div (of_int now) 1000)"

definition home_timeAgo :: "int \<Rightarrow> int \<Rightarrow> string" where
  "home_timeAgo now ts =
     (let diff = seconds_now now - ts in
      if diff < 60 then int_to_string 10 diff @ ''s ago''
      else if diff < 3600 then int_to_string 10 (diff div 60) @ ''m ago''
      else if diff < 86400 then int_to_string 10 (diff div 3600) @ ''h ago''
      else int_to_string 10 (diff div 86400) @ ''d ago'')"

definition page_timeAgo :: "int \<Rightarrow> int \<Rightarrow> string" where
  \<comment> \<open>of the block and transaction pages, which do not count days\<close>
  "page_timeAgo now ts =
     (let diff = seconds_now now - ts in
      if diff < 60 then int_to_string 10 diff @ ''s ago''
      else if diff < 3600 then int_to_string 10 (diff div 60) @ ''m ago''
      else int_to_string 10 (diff div 3600) @ ''h ago'')"

definition blocks_timeAgo :: "int \<Rightarrow> int \<Rightarrow> string option" where
  "blocks_timeAgo now ts =
     (if ts = 0 then None
      else let diff = now - ts * 1000 in
        Some (if diff < 60000 then ''Just now''
              else if diff < 3600000 then int_to_string 10 (diff div 60000) @ ''m ago''
              else if diff < 86400000 then int_to_string 10 (diff div 3600000) @ ''h ago''
              else int_to_string 10 (diff div 86400000) @ ''d ago''))"

definition timeInPool :: "int \<Rightarrow> int \<Rightarrow> string option" where
  "timeInPool now ts =
     (if ts = 0 then None
      else let diff = seconds_now now - ts in
        Some (if diff < 60 then int_to_string 10 diff @ ''s''
              else if diff < 3600 then int_to_string 10 (diff div 60) @ ''m '' @ int_to_string 10 (diff mod 60) @ ''s''
              else if diff < 86400 then
                int_to_string 10 (diff div 3600) @ ''h '' @ int_to_string 10 (diff mod 3600 div 60) @ ''m''
              else int_to_string 10 (diff div 86400) @ ''d '' @ int_to_string 10 (diff mod 86400 div 3600) @ ''h''))"

definition formatBytes :: "nat \<Rightarrow> rat \<Rightarrow> string" where
  \<comment> \<open>with one decimal for kilobytes on the home page, two on the mempool page\<close>
  "formatBytes decimals bytes =
     (if bytes = 0 then ''0 B''
      else if bytes < 1024 then num_to_string bytes @ '' B''
      else if bytes < 1048576 then fixed_string decimals (js_div bytes 1024) @ '' KB''
      else fixed_string 2 (js_div bytes 1048576) @ '' MB'')"

definition fmtBytes :: "rat \<Rightarrow> string option" where
  \<comment> \<open>of the block page\<close>
  "fmtBytes b =
     (if b = 0 then None
      else Some (if b < 1024 then num_to_string b @ '' B'' else fixed_string 1 (js_div b 1024) @ '' KB''))"

definition formatHashrate :: "rat \<Rightarrow> string" where
  "formatHashrate hr =
     (if hr = 0 then ''0 H/s''
      else if hr < 1000 then fixed_string 2 hr @ '' H/s''
      else if hr < 1000000 then fixed_string 2 (js_div hr 1000) @ '' KH/s''
      else if hr < 1000000000 then fixed_string 2 (js_div hr 1000000) @ '' MH/s''
      else if hr < 1000000000000 then fixed_string 2 (js_div hr 1000000000) @ '' GH/s''
      else fixed_string 2 (js_div hr 1000000000000) @ '' TH/s'')"

definition formatSupply :: "(rat \<Rightarrow> string) \<Rightarrow> rat \<Rightarrow> string" where
  \<comment> \<open>\<open>formatNumber\<close> prints with the browser's locale\<close>
  "formatSupply formatNumber n =
     (if n = 0 then ''0 TAR''
      else if 1000000000 \<le> n then fixed_string 3 (js_div n 1000000000) @ ''B TAR''
      else if 1000000 \<le> n then fixed_string 2 (js_div n 1000000) @ ''M TAR''
      else formatNumber n @ '' TAR'')"

section \<open>The home page\<close>

definition first_block :: "string \<Rightarrow> home \<Rightarrow> jsv" where
  \<comment> \<open>\<open>blocks[0]?.f ?? 0\<close>\<close>
  "first_block k p = coalesce [(case hp_blocks p of [] \<Rightarrow> JUndef | b # _ \<Rightarrow> js_prop_opt b k), JNum 0]"

definition home_blockHeight :: "home \<Rightarrow> jsv" where
  "home_blockHeight p = fields_or (hp_stats p) [''blocks'', ''blockHeight''] (first_block ''height'' p)"

definition home_hashrate :: "home \<Rightarrow> jsv" where
  "home_hashrate p = fields_or (hp_stats p) [''hashrate''] (JNum 0)"

definition home_difficulty :: "home \<Rightarrow> jsv" where
  "home_difficulty p = fields_or (hp_stats p) [''difficulty''] (first_block ''difficulty'' p)"

definition home_mempoolCount :: "home \<Rightarrow> jsv" where
  "home_mempoolCount p =
     coalesce [js_prop_opt (js_prop_opt (hp_stats p) ''mempool'') ''count'', js_prop_opt (hp_stats p) ''mempoolCount'',
               JInt (int (length (js_array (hp_txs p))))]"

definition home_circulating :: "home \<Rightarrow> jsv" where
  "home_circulating p =
     (case fields_or (hp_stats p) [''circulating'', ''circulatingSupply''] (JNum 0) of
        JNum rawCirc \<Rightarrow> JNum (circulatingSupply rawCirc) | v \<Rightarrow> v)"

definition card_txCount :: "jsv \<Rightarrow> jsv" where
  "card_txCount block =
     coalesce [js_prop_opt block ''nTx'',
               (case js_prop_opt block ''tx'' of JArr xs \<Rightarrow> JInt (int (length xs)) | _ \<Rightarrow> JUndef), JNum 1]"

definition card_fillPct :: "rat \<Rightarrow> rat" where
  "card_fillPct txCount = min 100 (js_mul (js_div txCount 20) 100)"

section \<open>The mempool page\<close>

definition mv_txCount :: "mempool_view \<Rightarrow> jsv" where
  "mv_txCount p = fields_or (mv_stats p) [''count'', ''txCount''] (JInt (int (length (mv_txs p))))"

definition tx_bytes :: "jsv \<Rightarrow> rat" where
  "tx_bytes t = num_or0 (fields_or t [''size'', ''vsize''] (JNum 0))"

definition mv_totalSize :: "mempool_view \<Rightarrow> jsv" where
  "mv_totalSize p =
     fields_or (mv_stats p) [''totalSize'', ''total_size'', ''bytes'']
       (JNum (foldl (\<lambda>s t. js_add s (tx_bytes t)) 0 (mv_txs p)))"

definition mv_minFeeRate :: "mempool_view \<Rightarrow> rat" where
  "mv_minFeeRate p =
     (let rawMinFee = num_or0 (fields_or (mv_stats p) min_fee_keys (JNum 0))
      in if 0 < rawMinFee then js_mul rawMinFee 100000 else 0)"

section \<open>The pages of a transaction and an address\<close>

definition falsy_zero :: "jsv list \<Rightarrow> rat" where
  \<comment> \<open>\<open>a || b || 0\<close>\<close>
  "falsy_zero vs = (case dropWhile (\<lambda>v. \<not> truthy v) vs of [] \<Rightarrow> 0 | v # _ \<Rightarrow> num_or0 v)"

definition page_totalOut :: "jsv \<Rightarrow> rat" where
  "page_totalOut tx =
     foldl (\<lambda>s out. js_add s (falsy_zero [js_prop_opt out ''value''])) 0 (js_array (js_prop_opt tx ''vout''))"

definition page_totalIn :: "jsv \<Rightarrow> rat" where
  "page_totalIn tx =
     foldl (\<lambda>s inp. js_add s (falsy_zero [js_prop_opt inp ''value'', js_prop_opt (js_prop_opt inp ''prevout'') ''value'']))
       0 (js_array (js_prop_opt tx ''vin''))"

definition page_fee :: "jsv \<Rightarrow> rat" where
  "page_fee tx = (if 0 < page_totalIn tx then max 0 (js_sub (page_totalIn tx) (page_totalOut tx)) else 0)"

definition page_isCoinbase :: "jsv \<Rightarrow> bool" where
  "page_isCoinbase tx =
     (case js_array (js_prop_opt tx ''vin'') of [] \<Rightarrow> False | i # _ \<Rightarrow> js_prop_opt i ''coinbase'' \<noteq> JUndef)"

datatype fee_shown = NotApplicable | Fee string | Dash

definition fee_row :: "jsv \<Rightarrow> fee_shown" where
  "fee_row tx =
     (if page_isCoinbase tx then NotApplicable
      else if 0 < page_fee tx then Fee (fixed_string 8 (page_fee tx) @ '' TAR'') else Dash)"

definition totalUtxoValue :: "jsv list \<Rightarrow> rat" where
  "totalUtxoValue utxos = foldl (\<lambda>s u. js_add s (falsy_zero [js_prop_opt u ''amount''])) 0 utxos"

section \<open>Figures against the explorer's answers\<close>

text \<open>
  The explorer sends the size of the mempool as \<open>mempool.size\<close> and \<open>size\<close>; the pages look for other
  names and so count the transactions they list: the home page asks for ten, the mempool page for two
  hundred.
\<close>

lemma mempool_count_is_listed:
  assumes "mempool_stats info = Inr body" and "js_prop_opt (hp_stats p) ''mempool'' = JObj [(''size'', n), (''bytes'', b), (''usage'', u)]"
    and "js_prop_opt (hp_stats p) ''mempoolCount'' = JUndef"
  shows "mv_txCount (mempool_fetchStats (Inr (200, Inr body)) v) = JInt (int (length (mv_txs v))) \<and>
    home_mempoolCount p = JInt (int (length (js_array (hp_txs p))))"
proof -
  obtain size where "body = JObj [(''size'', size), (''bytes'', js_prop_opt info ''bytes''), (''usage'', js_prop_opt info ''usage''),
         (''maxMempool'', js_prop_opt info ''maxmempool''), (''mempoolMinFee'', js_prop_opt info ''mempoolminfee''),
         (''minRelayTxFee'', js_prop_opt info ''minrelaytxfee''),
         (''unbroadcastCount'', js_or (js_prop_opt info ''unbroadcastcount'') (JNum 0))]"
    using assms(1) by (cases info) (auto simp: mempool_stats_def type_error_def)
  then show ?thesis using assms(2,3)
    by (simp add: mv_txCount_def mempool_fetchStats_def json_or_throw_def http_ok_def fields_or_def home_mempoolCount_def nullish_def)
qed

text \<open>The lowest fee rate is read under the name the explorer sends, in both pages alike.\<close>

lemma min_fee_agrees:
  assumes "js_prop_opt body ''mempoolMinFee'' = JNum x" and "0 < x"
  shows "mv_minFeeRate (mempool_fetchStats (Inr (200, Inr body)) v) = js_mul x 100000 \<and>
    hp_minFeeRate (home_fetchMempoolStats (Inr (200, Inr body)) p) = js_mul x 100000"
proof -
  have "\<not> nullish body" using assms(1) by (auto simp: nullish_def)
  then show ?thesis using assms
    by (simp add: mv_minFeeRate_def mempool_fetchStats_def home_fetchMempoolStats_def json_or_throw_def http_ok_def
        fields_or_def min_fee_keys_def nullish_def num_or0_def)
qed

lemma falsy_zero_single: "falsy_zero [v] = num_or0 v"
  by (cases v) (simp_all add: falsy_zero_def num_or0_def)

lemma sum_field_fold:
  "sum_field k acc vs = Inr t \<Longrightarrow> foldl (\<lambda>s v. js_add s (num_or0 (js_prop_opt v k))) acc vs = t"
proof (induction vs arbitrary: acc)
  case (Cons v vs)
  then have "js_prop v k = Inr (js_prop_opt v k)" by (cases v) auto
  with Cons show ?case by simp
qed simp

text \<open>
  The total the transaction page adds up is the one the explorer has put into the same answer.
\<close>

lemma tx_total_agrees:
  assumes "enrich_tx tx = Inr data"
  shows "js_prop_opt data ''totalOut'' = JNum (page_totalOut data)"
proof -
  obtain vout t where 1: "js_prop tx ''vout'' = Inr vout" "sum_field ''value'' 0 (js_array vout) = Inr t"
    "data = JObj (map_set ''confirmations'' (js_or (js_prop_opt tx ''confirmations'') (JNum 0))
                   (map_set ''totalOut'' (JNum t) (js_entries tx)))"
    using assms unfolding enrich_tx_def
    by (cases "js_prop tx ''vout''"; cases "sum_field ''value'' 0 (js_array (projr (js_prop tx ''vout'')))") auto
  have "js_array (js_prop_opt data ''vout'') = js_array vout" using 1(1,3) by (cases tx) auto
  with sum_field_fold [OF 1(2)] have "page_totalOut data = t"
    by (simp add: page_totalOut_def falsy_zero_single)
  then show ?thesis using 1(3) by simp
qed

text \<open>
  The node's verbose transaction carries no value and no \<open>prevout\<close> on its inputs, and the explorer
  adds none: the page never shows a fee.
\<close>

definition inputs_without_values :: "jsv \<Rightarrow> bool" where
  "inputs_without_values tx \<longleftrightarrow>
     list_all (\<lambda>i. js_prop_opt i ''value'' = JUndef \<and> js_prop_opt i ''prevout'' = JUndef) (js_array (js_prop_opt tx ''vin''))"

lemma fold_zeros: "list_all (\<lambda>x. f x = 0) xs \<Longrightarrow> foldl (\<lambda>s x. js_add s (f x)) 0 xs = 0"
  by (induction xs) (simp_all add: js_add_def)

lemma tx_fee_never_shown:
  assumes "enrich_tx tx = Inr data" and "inputs_without_values tx"
  shows "page_totalIn data = 0 \<and> fee_row data \<in> {NotApplicable, Dash}"
proof -
  have "js_prop_opt data ''vin'' = js_prop_opt tx ''vin''"
    using assms(1) unfolding enrich_tx_def
    by (cases tx; cases "js_prop tx ''vout''"; cases "sum_field ''value'' 0 (js_array (projr (js_prop tx ''vout'')))") auto
  then have "list_all (\<lambda>i. falsy_zero [js_prop_opt i ''value'', js_prop_opt (js_prop_opt i ''prevout'') ''value''] = 0)
      (js_array (js_prop_opt data ''vin''))"
    using assms(2) by (auto simp: inputs_without_values_def falsy_zero_def list_all_iff)
  from fold_zeros [OF this] show ?thesis by (simp add: page_totalIn_def page_fee_def fee_row_def)
qed

text \<open>How full a block looks never exceeds the cube.\<close>

lemma card_fill_bounds: "0 \<le> n \<Longrightarrow> 0 \<le> card_fillPct n \<and> card_fillPct n \<le> 100"
  by (simp add: card_fillPct_def js_mul_def js_div_def fl_nonneg)

end
