(* ===== verification/Spec2Isabelle.thy ===== *)
theory Spec2Isabelle
  imports Stratum_Properties Share_Properties Template_Properties Faucet_Properties
    Explorer_Properties Rest_Api Website Loyalty_Drop Share_Ledger Explorer_Frontend
    Dashboard_Properties Website_Pages Explorer_Figures
begin

text \<open>
  \<^bold>\<open>Verification of the Tarcoin services.\<close>

  The development models the programs that surround the Tarcoin node, each a shallow
  embedding of its JavaScript or TypeScript source under \<open>src/\<close>:

  \<^item> the mining pool (\<open>mining_pool/src/pool.js\<close>): two Stratum servers (shared and solo), the work
    they hand out, the shares and blocks they accept, the hourly payout with the miner bounty, the
    HTTP statistics and the faucet; all of it shares one process state, Redis and the node;
  \<^item> the weekly loyalty payout (\<open>mining_pool/src/sunday-loyalty-drop.js\<close>), a script that reads the
    uptime records and pays through the node;
  \<^item> the block explorer (\<open>explorer/src\<close>): a cache over Redis, an RPC client of the node, WebSocket
    subscriptions, a polling loop and six controllers;
  \<^item> the REST API (\<open>api/src\<close>): an RPC client with retries and four groups of routes;
  \<^item> the server part of the website (\<open>website/app/api\<close>): downloads, proxies to the name service and
    the faucet, the faucet ledger; and the static export script (\<open>website/export-ipfs.js\<close>);
  \<^item> the browser programs that call these services: the pool's dashboard
    (\<open>mining_pool/public/dashboard.html\<close>), the pages of the explorer (\<open>explorer/frontend\<close>), the
    registration page of the name service (\<open>website/app/domains\<close>) and the other pages of the website
    that ask a service (\<open>website/app\<close>).

  \<^bold>\<open>How programs are modelled.\<close>  Values are \<open>jsv\<close> (JSON plus \<open>undefined\<close> and \<open>NaN\<close>); a Number is
  a rational, and every arithmetic operation rounds to a double (\<open>fl\<close>).  Strings are sequences of
  Latin-1 code units, JSON text is identified with its value, a Map or object is an association
  list in insertion order.  A handler is a state transformer that returns a value or an exception,
  \<open>('s, 'a) io\<close>; \<open>try\<close> is \<open>io_catch\<close>.  What lies outside the sources, the node, Redis, the name
  service, the bot check, the clock, is a record of functions (\<open>services\<close>, \<open>ex_services\<close>,
  \<open>api_services\<close>, \<open>web_services\<close>, \<open>drop_services\<close>) over a state of unknown type, which may fail at
  every call.  At every await the rest of the process may run: \<open>others\<close> is an arbitrary change of
  the process state, and theorems that need it restrained say so in a hypothesis.  What a theorem
  asks of a service is a named predicate (\<open>redis_store\<close>: a value set is the value read;
  \<open>rpc_observed\<close>: calls are recorded; \<open>ex_store\<close>, \<open>posts_observed\<close> for the explorer;
  \<open>pay_env\<close>, \<open>faucet_env\<close>, \<open>scan_env\<close> bundle them), and its witness instantiates the services with
  concrete functions.

  \<^bold>\<open>Library theories.\<close>
  \<open>JS_Number\<close>: doubles, \<open>toFixed\<close>, rounding errors.  \<open>Prelude\<close>: strings, \<open>parseInt\<close>, maps, the
  handler monad with its frame logic (\<open>io_keeps\<close>, locale \<open>frame_rel\<close>), totality and invariants.
  \<open>JS_Value\<close>: values and coercions.  \<open>Bytes\<close>: Buffers and little-endian fields (locale
  \<open>field_codec\<close>).  \<open>Sha256\<close>: the hash, executable.

  \<^bold>\<open>Mining pool.\<close>
  \<open>Block_Codec\<close> (\<open>nBitsToTarget\<close>, \<open>formatPrevHashForStratum\<close>, \<open>encodeVarInt\<close>, \<open>buildBlockHeader\<close>,
  \<open>hashMeetsTarget\<close>): what the bytes mean.  \<open>Coinbase\<close>: both coinbase transactions parse and pay the
  reward, the height push against the node's rule, the Merkle branch against the Merkle root, and
  the number of rounds after which its loop ends.
  \<open>Miner_Names\<close> (\<open>parseMinerWorker\<close>, \<open>getClientIp\<close>, \<open>sanitizeLog\<close>).  \<open>Pool_State\<close>: the process state
  \<open>world\<close>, the services, \<open>rpcCall\<close>, \<open>resolveTnsToAddress\<close>, and the locales \<open>service_frame\<close> and
  \<open>service_inv\<close>, which lift a fact about single service calls to whole handlers.  \<open>Vardiff\<close>
  (\<open>parseDiffOverride\<close>, the retarget step, hash rates).  \<open>Shares\<close> (\<open>handleSubmit\<close>,
  \<open>handleSoloSubmit\<close>, \<open>handleBlockFound\<close>, \<open>handleSoloBlockFound\<close>) with the locale \<open>share_handler\<close>
  for what both handlers have in common, and \<open>Share_Properties\<close>: the outcomes of a submission,
  replays, when a block is submitted, and what Redis failures and template changes do to it.
  \<open>Share_Ledger\<close>: an abstract ledger of share owners, the refinement of its one step by
  \<open>handleSubmit\<close>, and the payout of exact shares from that ledger, which joins the share handler
  with \<open>processPayouts\<close>.
  \<open>Template\<close> (\<open>refreshBlockTemplate\<close>, \<open>sendWork\<close>, \<open>buildSoloCoinbase\<close>) and \<open>Template_Properties\<close>:
  installed jobs, failures, well-formed blocks, the types of the work line.  \<open>Stratum\<close> (both servers: connections, framing,
  methods, timers, tasks, closing) and \<open>Stratum_Properties\<close>: framing, the invariant of the reachable
  states as rule induction over the events of both servers, the leaked timer.  \<open>Payouts\<close>
  (\<open>processPayouts\<close> and its bonus engine), \<open>Redis_Laws\<close> and \<open>Payout_Properties\<close>: a run sends at most
  once and never more than the balance, in doubles; the bounty is sent once.  \<open>Pool_Api\<close> (every HTTP
  endpoint, \<open>initRedis\<close>, \<open>start\<close>), \<open>Faucet\<close> (\<open>POST /api/faucet\<close>) and \<open>Faucet_Properties\<close>: one
  payment per client and address in sequence, the race of overlapping claims, every endpoint answers
  every request (with the rules of \<open>Answers\<close>), the statistics cache.  \<open>Loyalty_Drop\<close>: the weekly split.

  \<^bold>\<open>Explorer, REST API, website.\<close>
  \<open>Explorer\<close> (\<open>CacheManager\<close>, \<open>RpcClient\<close>, \<open>WebSocketManager\<close>, \<open>server.ts\<close>, \<open>BlockController\<close>,
  \<open>TransactionController\<close>), \<open>Explorer_Controllers\<close> (mempool, supply, search, address) and
  \<open>Explorer_Properties\<close>: the locale \<open>cached_endpoint\<close>, interpreted on six endpoints, shows that the
  cache repeats answers without calling the node; outage logging, the polling loop, UTXO scans.
  \<open>Rest_Api\<close> (\<open>lib/rpc.ts\<close>, \<open>routes/*.ts\<close>, \<open>server.ts\<close>): retries, the reward schedule.  \<open>Website\<close>:
  the download route reads only public files; the export script restores what it renamed.
  \<open>Routes\<close>: the route tables of both Express servers and their dispatch; every request is answered.

  \<^bold>\<open>Browser programs.\<close>  A page is a record of its state cells together with the timers and
  requests the browser holds for it; handlers and callbacks are functions on it, and a step relation
  interleaves them freely.  \<open>Domains\<close>: cleaning and reserving names, prices, the availability effect
  with its cancelled runs, the order form; invariants of the reachable pages by rule induction.
  \<open>Explorer_Frontend\<close>: polling, search, paging of the mempool, the price ticker, and how the requests
  of the pages meet the explorer's routes.  \<open>Explorer_Figures\<close>: the formatters of those pages and the
  figures they work out of the answers, compared with what the explorer's controllers send.
  \<open>Dashboard\<close>: the histories of share counts and their rollups, the hash rate measured from them,
  calibration, luck, alerts, the cache of block headers, validation of the wallet, the miner table and
  the buttons; \<open>Dashboard_Properties\<close>: the invariant of the stored data under every order of
  callbacks, timers, buttons and reloads, that a block is announced once, the range of a measured rate
  in doubles, calibration, how many polls fill the header cache, why rollups do not advance, and that
  the pool's statistics endpoints answer in the shape the dashboard reads.  \<open>Website_Pages\<close>: message
  verification, the faucet form, rich list, network status, statistics bar, transparency ledger and
  download buttons, with the REST API and the reward schedule they meet.

  \<^bold>\<open>Bounds.\<close>  Loops of the sources are structural recursion on the data they walk, so there is no
  fuel; the Merkle branch loop, which is not, has a termination proof; the retry loop of the REST API
  is bounded by \<open>maxRetries\<close>.  The exponent range of doubles is
  unbounded in the model.  The payout bound is stated for balances up to five million coins, where
  the reserve of 0.1 covers the rounding errors of any number of miners.

  \<^bold>\<open>Not modelled.\<close>  Express middleware from packages (helmet, CORS headers, rate limiters, static
  files, body parsing), the Swagger pages, logging back ends, Socket.IO transport and process
  signals: they are libraries or output; how Express compares a pattern with a path is the parameter
  \<open>matches\<close>.  \<open>pool-old.js\<close> is not started by anything.  Of the front ends, markup, styles, the drawing
  of charts, the CSV export of the dashboard, text that depends on the locale and the static pages are
  left out: they keep no state a theorem could speak of.  So are the older copies of the explorer pages
  and \<open>frontend_v2_customized\<close>, a redesign with mock figures that is not a package of its own.
  The node itself (\<open>blockchain_core\<close>) is a C++ fork of Bitcoin Core that the services see only
  through RPC; it is a parameter.  ElectrumX, Docker files, deployment scripts
  and translations are configuration or third-party code.
\<close>

end
